(* ===== verification/Prelude.thy ===== *)
theory Prelude
  imports Main "HOL-Library.Word" "HOL-Library.Sublist" "HOL-Library.Char_ord" "HOL-Library.AList" "HOL-Library.Multiset"
begin

text \<open>
  Vocabulary shared by every component: the C++ standard-library operations on
  \<^verbatim>\<open>std::string\<close> that the sources call (\<^verbatim>\<open>find\<close>, \<^verbatim>\<open>substr\<close>, \<^verbatim>\<open>std::to_string\<close>,
  \<^verbatim>\<open>std::stoi\<close>, \<^verbatim>\<open>std::isspace\<close>, \<^verbatim>\<open>std::tolower\<close>), exceptions as values, and the
  generic list lemmas the component proofs share.  A byte of a \<^verbatim>\<open>std::string\<close> is a
  \<open>char\<close>; \<^verbatim>\<open>npos\<close> is \<open>None\<close>.
\<close>

named_theorems cpp_simps "equations that evaluate the C++ string helpers"
named_theorems wf_intros "introduction rules for component invariants"

section \<open>Characters\<close>

abbreviation NL :: char where "NL \<equiv> CHR 0x0A"
abbreviation CR :: char where "CR \<equiv> CHR 0x0D"
abbreviation TAB :: char where "TAB \<equiv> CHR 0x09"
abbreviation DQ :: char where "DQ \<equiv> CHR 0x22"
abbreviation SQ :: char where "SQ \<equiv> CHR 0x27"
abbreviation BSL :: char where "BSL \<equiv> CHR 0x5C"

text \<open>\<^verbatim>\<open>static_cast<unsigned char>(c)\<close>, and the value of a signed \<^verbatim>\<open>char\<close>.\<close>

definition uchar :: "char \<Rightarrow> nat" where
  "uchar c = of_char c"

definition schar :: "char \<Rightarrow> int" where
  "schar c = (if uchar c < 128 then int (uchar c) else int (uchar c) - 256)"

text \<open>The C locale's \<^verbatim>\<open>std::isspace\<close>, \<^verbatim>\<open>std::isdigit\<close>, \<^verbatim>\<open>std::islower\<close> and \<^verbatim>\<open>std::tolower\<close>.\<close>

definition isspace :: "char \<Rightarrow> bool" where
  "isspace c \<longleftrightarrow> uchar c = 32 \<or> (9 \<le> uchar c \<and> uchar c \<le> 13)"

definition isdigit :: "char \<Rightarrow> bool" where
  "isdigit c \<longleftrightarrow> 48 \<le> uchar c \<and> uchar c \<le> 57"

definition islower :: "char \<Rightarrow> bool" where
  "islower c \<longleftrightarrow> 97 \<le> uchar c \<and> uchar c \<le> 122"

definition isupper :: "char \<Rightarrow> bool" where
  "isupper c \<longleftrightarrow> 65 \<le> uchar c \<and> uchar c \<le> 90"

definition tolower :: "char \<Rightarrow> char" where
  "tolower c = (if isupper c then char_of (uchar c + 32) else c)"

lemma uchar_lt: "uchar c < 256"
  by (simp add: uchar_def)

lemma uchar_inject [simp]: "uchar a = uchar b \<longleftrightarrow> a = b"
  by (simp add: uchar_def)

section \<open>Searching in strings\<close>

text \<open>\<^verbatim>\<open>s.find(pat)\<close> and \<^verbatim>\<open>s.find(pat, i)\<close>.\<close>

fun find_sub :: "string \<Rightarrow> string \<Rightarrow> nat option" where
  "find_sub pat [] = (if pat = [] then Some 0 else None)"
| "find_sub pat (c # cs) =
     (if prefix pat (c # cs) then Some 0 else map_option Suc (find_sub pat cs))"

definition find_from :: "string \<Rightarrow> string \<Rightarrow> nat \<Rightarrow> nat option" where
  "find_from pat s i =
     (if i \<le> length s then map_option (\<lambda>k. i + k) (find_sub pat (drop i s)) else None)"

definition contains_sub :: "string \<Rightarrow> string \<Rightarrow> bool" where
  "contains_sub pat s \<longleftrightarrow> find_sub pat s \<noteq> None"

text \<open>\<^verbatim>\<open>s.substr(i, n)\<close> for \<open>i \<le> size\<close>, and \<^verbatim>\<open>s.rfind(p, 0) == 0\<close>.\<close>

definition substr :: "string \<Rightarrow> nat \<Rightarrow> nat \<Rightarrow> string" where
  "substr s i n = take n (drop i s)"

lemma find_sub_Some:
  "find_sub pat s = Some i \<Longrightarrow> s = take i s @ pat @ drop (i + length pat) s"
proof (induction pat s arbitrary: i rule: find_sub.induct)
  case (2 pat c cs)
  show ?case
  proof (cases "prefix pat (c # cs)")
    case True
    with 2 show ?thesis by (auto simp: prefix_def)
  next
    case False
    with 2 show ?thesis by auto
  qed
qed (auto split: if_splits)

lemma find_sub_le: "find_sub pat s = Some i \<Longrightarrow> i + length pat \<le> length s"
proof -
  assume "find_sub pat s = Some i"
  then show ?thesis
    by (induction pat s arbitrary: i rule: find_sub.induct)
       (auto split: if_splits dest: prefix_length_le)
qed

lemma find_sub_None_iff: "find_sub pat s = None \<longleftrightarrow> \<not> sublist pat s"
proof (induction pat s rule: find_sub.induct)
  case (2 pat c cs)
  then show ?case by (auto simp: sublist_Cons_right)
qed auto

lemma contains_sub_iff [cpp_simps]: "contains_sub pat s \<longleftrightarrow> sublist pat s"
  using find_sub_None_iff [of pat s] by (auto simp: contains_sub_def)

lemma find_sub_minimal:
  "find_sub pat s = Some i \<Longrightarrow> j < i \<Longrightarrow> \<not> prefix pat (drop j s)"
proof (induction pat s arbitrary: i j rule: find_sub.induct)
  case (2 pat c cs)
  then show ?case by (cases j) (auto split: if_splits)
qed (auto split: if_splits)

section \<open>Trimming\<close>

text \<open>The erase/find-if idiom of the sources: drop leading, then trailing, matching bytes.\<close>

definition trim_by :: "(char \<Rightarrow> bool) \<Rightarrow> string \<Rightarrow> string" where
  "trim_by p s = rev (dropWhile p (rev (dropWhile p s)))"

lemma trim_by_all: "\<forall>c\<in>set s. p c \<Longrightarrow> trim_by p s = []"
proof -
  assume "\<forall>c\<in>set s. p c"
  then have "dropWhile p s = []" by (simp add: dropWhile_eq_Nil_conv)
  then show ?thesis by (simp only: trim_by_def rev.simps dropWhile.simps)
qed

lemma trim_by_ends:
  assumes "trim_by p s \<noteq> []"
  shows "\<not> p (hd (trim_by p s)) \<and> \<not> p (last (trim_by p s))"
proof -
  let ?d = "dropWhile p s"
  let ?r = "dropWhile p (rev ?d)"
  have r: "?r \<noteq> []" using assms by (simp add: trim_by_def)
  have l: "\<not> p (hd ?r)" using r by (simp add: hd_dropWhile)
  have suf: "rev ?d = takeWhile p (rev ?d) @ ?r" by simp
  have "?d = rev ?r @ rev (takeWhile p (rev ?d))"
    by (metis suf rev_append rev_rev_ident)
  then have "hd ?d = hd (rev ?r)" using r
    by (metis hd_append2 rev_is_Nil_conv)
  moreover have "?d \<noteq> []" using r by (cases ?d) simp_all
  then have "\<not> p (hd ?d)" by (simp add: hd_dropWhile)
  ultimately show ?thesis using l r by (simp add: trim_by_def last_rev)
qed

lemma length_trim_by: "length (trim_by p s) \<le> length s"
  using length_dropWhile_le [of p "rev (dropWhile p s)"] length_dropWhile_le [of p s]
  by (simp add: trim_by_def)

section \<open>Numbers as strings\<close>

definition digit_char :: "nat \<Rightarrow> char" where
  "digit_char d = char_of (48 + d)"

text \<open>\<^verbatim>\<open>std::to_string\<close>.\<close>

fun nat_str :: "nat \<Rightarrow> string" where
  "nat_str n = (if n < 10 then [digit_char n] else nat_str (n div 10) @ [digit_char (n mod 10)])"

declare nat_str.simps [simp del]

definition int_str :: "int \<Rightarrow> string" where
  "int_str i = (if i < 0 then ''-'' @ nat_str (nat (- i)) else nat_str (nat i))"

definition digit_val :: "char \<Rightarrow> nat" where
  "digit_val c = uchar c - 48"

fun digits_val :: "nat \<Rightarrow> string \<Rightarrow> nat" where
  "digits_val acc [] = acc"
| "digits_val acc (c # cs) = digits_val (10 * acc + digit_val c) cs"

lemma digits_val_append: "digits_val acc (xs @ [d]) = 10 * digits_val acc xs + digit_val d"
  by (induction xs arbitrary: acc) auto

lemma uchar_digit_char: "d < 10 \<Longrightarrow> uchar (digit_char d) = 48 + d"
  by (simp add: uchar_def digit_char_def)

lemma isdigit_digit_char: "d < 10 \<Longrightarrow> isdigit (digit_char d)"
  by (simp add: isdigit_def uchar_digit_char)

lemma nat_str_digits: "\<forall>c\<in>set (nat_str n). isdigit c"
proof (induction n rule: nat_str.induct)
  case (1 n)
  then show ?case by (subst nat_str.simps) (auto simp: isdigit_digit_char)
qed

lemma nat_str_nonempty: "nat_str n \<noteq> []"
  by (subst nat_str.simps) auto

lemma digits_val_nat_str: "digits_val 0 (nat_str n) = n"
proof (induction n rule: nat_str.induct)
  case (1 n)
  then show ?case
    by (subst nat_str.simps) (auto simp: digits_val_append digit_val_def uchar_digit_char)
qed

text \<open>
  \<^verbatim>\<open>std::stoi\<close>: leading white space, an optional sign, then the longest run of digits;
  \<open>None\<close> is the exception (no digits, or a value outside \<^verbatim>\<open>int\<close>).
\<close>

definition int_max :: int where "int_max = 2147483647"
definition int_min :: int where "int_min = - 2147483648"

definition stoi :: "string \<Rightarrow> int option" where
  "stoi s =
     (let t = dropWhile isspace s;
          neg = (t \<noteq> [] \<and> hd t = CHR ''-'');
          u = (if t \<noteq> [] \<and> (hd t = CHR ''-'' \<or> hd t = CHR ''+'') then tl t else t);
          ds = takeWhile isdigit u;
          v = (if neg then - int (digits_val 0 ds) else int (digits_val 0 ds))
      in if ds = [] \<or> v < int_min \<or> int_max < v then None else Some v)"

lemma not_isspace_digit: "isdigit c \<Longrightarrow> \<not> isspace c"
  by (auto simp: isdigit_def isspace_def)

lemma isdigit_not_sign: "isdigit c \<Longrightarrow> c \<noteq> CHR ''-'' \<and> c \<noteq> CHR ''+''"
  by (auto simp: isdigit_def uchar_def)

lemma stoi_nat_str:
  assumes "int n \<le> int_max"
  shows "stoi (nat_str n) = Some (int n)"
proof -
  have ds: "\<forall>c\<in>set (nat_str n). isdigit c" by (rule nat_str_digits)
  obtain c cs where c: "nat_str n = c # cs"
    using nat_str_nonempty [of n] by (cases "nat_str n") auto
  have "isdigit c" using ds c by simp
  then have "dropWhile isspace (nat_str n) = nat_str n" "c \<noteq> CHR ''-''" "c \<noteq> CHR ''+''"
    using not_isspace_digit isdigit_not_sign by (auto simp: c)
  moreover have "takeWhile isdigit (nat_str n) = nat_str n"
    using ds by (simp add: takeWhile_eq_all_conv)
  ultimately show ?thesis
    using assms digits_val_nat_str [of n] by (simp add: stoi_def c Let_def int_min_def)
qed

section \<open>Lines\<close>

text \<open>A line without the carriage return at its end, and lines joined by newlines.\<close>

definition strip_cr :: "string \<Rightarrow> string" where
  "strip_cr raw = (if raw \<noteq> [] \<and> last raw = CR then butlast raw else raw)"

fun join_nl :: "string list \<Rightarrow> string" where
  "join_nl [] = []"
| "join_nl [t] = t"
| "join_nl (t # ts) = t @ [NL] @ join_nl ts"

lemma strip_cr_no_cr: "CR \<notin> set t \<Longrightarrow> strip_cr t = t"
  by (metis last_in_set strip_cr_def)

lemma set_strip_cr: "set (strip_cr t) \<subseteq> set t"
  by (auto simp: strip_cr_def dest: in_set_butlastD)

text \<open>The lines \<^verbatim>\<open>std::getline\<close> delivers: a final newline opens no further line.\<close>

fun lines_loop :: "string \<Rightarrow> string \<Rightarrow> string list" where
  "lines_loop cur [] = (if cur = [] then [] else [cur])"
| "lines_loop cur (c # cs) = (if c = NL then cur # lines_loop [] cs else lines_loop (cur @ [c]) cs)"

definition getlines :: "string \<Rightarrow> string list" where
  "getlines s = lines_loop [] s"

lemma lines_loop_skip: "NL \<notin> set t \<Longrightarrow> lines_loop cur (t @ s) = lines_loop (cur @ t) s"
  by (induction t arbitrary: cur) auto

section \<open>Exceptions as values\<close>

text \<open>
  What the sources throw or let escape: the two \<^verbatim>\<open>std\<close> exceptions they construct
  themselves, the JSON library's type and parse errors, and other exceptions of code the
  program calls (a plugin, a subprocess).
\<close>

datatype exn =
    InvalidArgument string
  | RuntimeError string
  | JsonTypeError
  | JsonParseError
  | ForeignError string
  | UnknownException

type_synonym 'a res = "exn + 'a"

definition bindE :: "'a res \<Rightarrow> ('a \<Rightarrow> 'b res) \<Rightarrow> 'b res" where
  "bindE m f = (case m of Inl e \<Rightarrow> Inl e | Inr x \<Rightarrow> f x)"

lemma bindE_simps [simp]: "bindE (Inl e) f = Inl e" "bindE (Inr x) f = f x"
  by (simp_all add: bindE_def)

lemma bindE_eq_Inr: "bindE m f = Inr y \<longleftrightarrow> (\<exists>x. m = Inr x \<and> f x = Inr y)"
  by (cases m) auto

fun mapE :: "('a \<Rightarrow> 'b res) \<Rightarrow> 'a list \<Rightarrow> 'b list res" where
  "mapE f [] = Inr []"
| "mapE f (x # xs) = bindE (f x) (\<lambda>y. bindE (mapE f xs) (\<lambda>ys. Inr (y # ys)))"

text \<open>\<^verbatim>\<open>e.what()\<close> of the exceptions the program itself raises.\<close>

fun what :: "exn \<Rightarrow> string" where
  "what (InvalidArgument s) = s"
| "what (RuntimeError s) = s"
| "what (ForeignError s) = s"
| "what JsonTypeError = ''type_error''"
| "what JsonParseError = ''parse_error''"
| "what UnknownException = ''unknown''"

text \<open>\<^verbatim>\<open>catch (const std::exception&)\<close> lets everything else through.\<close>

fun is_std_exception :: "exn \<Rightarrow> bool" where
  "is_std_exception UnknownException = False"
| "is_std_exception e = True"

section \<open>Generic list lemmas\<close>

lemma sorted_key_distinct_rev:
  fixes f :: "'a \<Rightarrow> int"
  assumes "sorted_wrt (\<lambda>a b. f a < f b) (sort_key f xs)"
  shows "sort_key (\<lambda>x. - f x) xs = rev (sort_key f xs)"
proof (rule properties_for_sort_key)
  show "mset (rev (sort_key f xs)) = mset xs" by simp
  have desc: "sorted_wrt (\<lambda>a b. f b < f a) (rev (sort_key f xs))"
    using assms by (simp add: sorted_wrt_rev)
  show "sorted (map (\<lambda>x. - f x) (rev (sort_key f xs)))"
    unfolding sorted_map
    by (rule sorted_wrt_mono_rel [OF _ desc]) simp
  have inj: "inj_on f (set xs)"
  proof (rule inj_onI)
    fix a b assume ab: "a \<in> set xs" "b \<in> set xs" "f a = f b"
    show "a = b"
    proof (rule ccontr)
      assume ne: "a \<noteq> b"
      obtain i j where i: "i < length (sort_key f xs)" "sort_key f xs ! i = a"
        and j: "j < length (sort_key f xs)" "sort_key f xs ! j = b"
        using ab by (metis in_set_conv_nth set_sort)
      have "i \<noteq> j" using i j ne by auto
      then have "f a < f b \<or> f b < f a"
        using i j assms by (metis linorder_neqE_nat sorted_wrt_nth_less)
      then show False using ab by simp
    qed
  qed
  have dist: "distinct (sort_key f xs)"
    using assms by (auto simp: distinct_conv_nth sorted_wrt_iff_nth_less)
       (metis less_irrefl linorder_neqE_nat)
  show "filter (\<lambda>x. - f k = - f x) (rev (sort_key f xs)) = filter (\<lambda>x. - f k = - f x) xs"
    if "k \<in> set (rev (sort_key f xs))" for k
  proof -
    have k: "k \<in> set xs" using that by simp
    have eq: "filter (\<lambda>x. - f k = - f x) ys = filter (\<lambda>x. x = k) ys" if "set ys \<subseteq> set xs" for ys
      using that inj k by (intro filter_cong) (auto dest: inj_onD)
    have d: "distinct xs" using dist by simp
    have one: "filter (\<lambda>x. x = k) ys = [k]" if "distinct ys" "k \<in> set ys" for ys
      using that by (induction ys) (auto simp: filter_empty_conv)
    show ?thesis using eq [of xs] eq [of "rev (sort_key f xs)"] one [of xs]
        one [of "rev (sort_key f xs)"] d k dist by simp
  qed
qed

end
