(* ===== verification/Json.thy ===== *)
theory Json
  imports Prelude
begin

text \<open>
  JSON values, as the program handles them through \<^verbatim>\<open>nlohmann::json\<close>.  That library is
  not part of the repository: its values are given by the datatype, the accessors the
  sources use carry its documented behaviour on each kind of value, and the two operations
  whose text matters, parsing and \<^verbatim>\<open>dump\<close>, are a parameter (a record of type
  \<open>jlib\<close>) of every definition that calls them.  An object is an association list; the
  order of its keys is not observed by anything modelled here.  \<open>JFloat m k\<close> is the
  decimal \<open>m / 10^k\<close>.
\<close>

datatype json =
    JNull
  | JBool bool
  | JInt int
  | JFloat int nat
  | JStr string
  | JArr "json list"
  | JObj "(string \<times> json) list"

record jlib =
  jparse :: "string \<Rightarrow> json option"
  jdump :: "json \<Rightarrow> string res"

section \<open>Kinds and lookup\<close>

fun is_object :: "json \<Rightarrow> bool" where
  "is_object (JObj kvs) = True"
| "is_object j = False"

fun is_array :: "json \<Rightarrow> bool" where
  "is_array (JArr xs) = True"
| "is_array j = False"

fun is_string :: "json \<Rightarrow> bool" where
  "is_string (JStr s) = True"
| "is_string j = False"

fun is_boolean :: "json \<Rightarrow> bool" where
  "is_boolean (JBool b) = True"
| "is_boolean j = False"

fun is_number_integer :: "json \<Rightarrow> bool" where
  "is_number_integer (JInt i) = True"
| "is_number_integer j = False"

fun is_number :: "json \<Rightarrow> bool" where
  "is_number (JInt i) = True"
| "is_number (JFloat m k) = True"
| "is_number j = False"

text \<open>\<^verbatim>\<open>j.empty()\<close>: true of null and of empty arrays and objects.\<close>

fun j_empty :: "json \<Rightarrow> bool" where
  "j_empty JNull = True"
| "j_empty (JArr xs) = (xs = [])"
| "j_empty (JObj kvs) = (kvs = [])"
| "j_empty j = False"

fun j_lookup :: "json \<Rightarrow> string \<Rightarrow> json option" where
  "j_lookup (JObj kvs) k = map_of kvs k"
| "j_lookup j k = None"

definition j_contains :: "json \<Rightarrow> string \<Rightarrow> bool" where
  "j_contains j k \<longleftrightarrow> j_lookup j k \<noteq> None"

text \<open>\<^verbatim>\<open>j[k]\<close> on a key the code has checked to be present (null otherwise).\<close>

definition j_at :: "json \<Rightarrow> string \<Rightarrow> json" where
  "j_at j k = (case j_lookup j k of None \<Rightarrow> JNull | Some v \<Rightarrow> v)"

text \<open>\<^verbatim>\<open>j[k] = v\<close>: null becomes an object, any other kind throws a type error.\<close>

fun j_set :: "json \<Rightarrow> string \<Rightarrow> json \<Rightarrow> json res" where
  "j_set (JObj kvs) k v = Inr (JObj (AList.update k v kvs))"
| "j_set JNull k v = Inr (JObj [(k, v)])"
| "j_set j k v = Inl JsonTypeError"

text \<open>\<^verbatim>\<open>for (const auto& v : j)\<close>: the elements of an array, the values of an object.\<close>

fun j_elems :: "json \<Rightarrow> json list" where
  "j_elems (JArr xs) = xs"
| "j_elems (JObj kvs) = map snd kvs"
| "j_elems JNull = []"
| "j_elems j = [j]"

text \<open>\<^verbatim>\<open>j.items()\<close>: an array's keys are its indices, a scalar is one item with an empty key.\<close>

fun j_items :: "json \<Rightarrow> (string \<times> json) list" where
  "j_items (JObj kvs) = kvs"
| "j_items (JArr xs) = map (\<lambda>(i, x). (nat_str i, x)) (enumerate 0 xs)"
| "j_items JNull = []"
| "j_items j = [([], j)]"

section \<open>Conversions\<close>

fun get_string :: "json \<Rightarrow> string res" where
  "get_string (JStr s) = Inr s"
| "get_string j = Inl JsonTypeError"

fun get_bool :: "json \<Rightarrow> bool res" where
  "get_bool (JBool b) = Inr b"
| "get_bool j = Inl JsonTypeError"

text \<open>\<^verbatim>\<open>get<int>()\<close>: a \<^verbatim>\<open>static_cast\<close> to 32 bits; booleans convert too.\<close>

definition to_int32 :: "int \<Rightarrow> int" where
  "to_int32 i = (i + 2147483648) mod 4294967296 - 2147483648"

definition trunc_dec :: "int \<Rightarrow> nat \<Rightarrow> int" where
  "trunc_dec m k = (if m < 0 then - ((- m) div 10 ^ k) else m div 10 ^ k)"

fun get_int :: "json \<Rightarrow> int res" where
  "get_int (JInt i) = Inr (to_int32 i)"
| "get_int (JFloat m k) = Inr (to_int32 (trunc_dec m k))"
| "get_int (JBool b) = Inr (if b then 1 else 0)"
| "get_int j = Inl JsonTypeError"

fun get_size_t :: "json \<Rightarrow> nat res" where
  "get_size_t (JInt i) = Inr (nat (i mod 18446744073709551616))"
| "get_size_t (JFloat m k) = Inr (nat (trunc_dec m k mod 18446744073709551616))"
| "get_size_t (JBool b) = Inr (if b then 1 else 0)"
| "get_size_t j = Inl JsonTypeError"

text \<open>\<^verbatim>\<open>j.value(k, dflt)\<close> at the types the sources use; it throws on a non-object.\<close>

definition value_with :: "(json \<Rightarrow> 'a res) \<Rightarrow> json \<Rightarrow> string \<Rightarrow> 'a \<Rightarrow> 'a res" where
  "value_with get j k dflt =
     (if is_object j then (case j_lookup j k of None \<Rightarrow> Inr dflt | Some v \<Rightarrow> get v)
      else Inl JsonTypeError)"

definition value_str :: "json \<Rightarrow> string \<Rightarrow> string \<Rightarrow> string res" where
  "value_str = value_with get_string"

definition value_int :: "json \<Rightarrow> string \<Rightarrow> int \<Rightarrow> int res" where
  "value_int = value_with get_int"

definition value_bool :: "json \<Rightarrow> string \<Rightarrow> bool \<Rightarrow> bool res" where
  "value_bool = value_with get_bool"

definition value_json :: "json \<Rightarrow> string \<Rightarrow> json \<Rightarrow> json res" where
  "value_json = value_with Inr"

lemmas value_defs = value_str_def value_int_def value_bool_def value_json_def value_with_def

text \<open>\<^verbatim>\<open>target[k] = v\<close> for a list of pairs.\<close>

fun j_set_all :: "json \<Rightarrow> (string \<times> json) list \<Rightarrow> json res" where
  "j_set_all j [] = Inr j"
| "j_set_all j ((k, v) # kvs) = bindE (j_set j k v) (\<lambda>j'. j_set_all j' kvs)"

text \<open>The strings of an array, other elements skipped.\<close>

fun strings_of :: "json list \<Rightarrow> string list" where
  "strings_of [] = []"
| "strings_of (JStr s # js) = s # strings_of js"
| "strings_of (j # js) = strings_of js"

section \<open>Facts\<close>

lemma is_object_iff: "is_object j \<longleftrightarrow> (\<exists>kvs. j = JObj kvs)"
  by (cases j) auto

lemma is_string_iff: "is_string j \<longleftrightarrow> (\<exists>s. j = JStr s)"
  by (cases j) auto

lemma is_array_iff: "is_array j \<longleftrightarrow> (\<exists>xs. j = JArr xs)"
  by (cases j) auto

lemma j_contains_is_object: "j_contains j k \<Longrightarrow> is_object j"
  by (cases j) (auto simp: j_contains_def)

lemma j_lookup_set:
  "j_set j k v = Inr j' \<Longrightarrow> j_lookup j' k' = (if k' = k then Some v else j_lookup j k')"
  by (cases j) (auto simp: update_conv')

lemma j_set_ok: "is_object j \<Longrightarrow> \<exists>j'. j_set j k v = Inr j' \<and> is_object j'"
  by (cases j) auto

lemma j_at_set [simp]: "j_set j k v = Inr j' \<Longrightarrow> j_at j' k = v"
  by (simp add: j_at_def j_lookup_set)

section \<open>UTF-8\<close>

text \<open>
  \<^verbatim>\<open>dump()\<close> is documented to throw a type error on a string that is not valid UTF-8.
  \<open>utf8_ok\<close> decides validity (the table of well-formed byte sequences), and
  \<open>dump_rejects_bad_utf8\<close> is that documented behaviour as a hypothesis on the library.
\<close>

definition cont :: "char \<Rightarrow> bool" where
  "cont c \<longleftrightarrow> 128 \<le> uchar c \<and> uchar c \<le> 191"

fun utf8_ok :: "string \<Rightarrow> bool" where
  "utf8_ok [] = True"
| "utf8_ok (a # s) =
     (if uchar a < 128 then utf8_ok s
      else if 194 \<le> uchar a \<and> uchar a \<le> 223 then
        (case s of b # s' \<Rightarrow> cont b \<and> utf8_ok s' | _ \<Rightarrow> False)
      else if 224 \<le> uchar a \<and> uchar a \<le> 239 then
        (case s of b # c # s' \<Rightarrow> cont b \<and> cont c \<and> (uchar a = 224 \<longrightarrow> 160 \<le> uchar b)
             \<and> (uchar a = 237 \<longrightarrow> uchar b \<le> 159) \<and> utf8_ok s' | _ \<Rightarrow> False)
      else if 240 \<le> uchar a \<and> uchar a \<le> 244 then
        (case s of b # c # d # s' \<Rightarrow> cont b \<and> cont c \<and> cont d \<and> (uchar a = 240 \<longrightarrow> 144 \<le> uchar b)
             \<and> (uchar a = 244 \<longrightarrow> uchar b \<le> 143) \<and> utf8_ok s' | _ \<Rightarrow> False)
      else False)"

fun json_utf8_ok :: "json \<Rightarrow> bool" where
  "json_utf8_ok (JStr s) = utf8_ok s"
| "json_utf8_ok (JArr xs) = list_all json_utf8_ok xs"
| "json_utf8_ok (JObj kvs) = list_all (\<lambda>(k, v). utf8_ok k \<and> json_utf8_ok v) kvs"
| "json_utf8_ok j = True"

definition dump_rejects_bad_utf8 :: "jlib \<Rightarrow> bool" where
  "dump_rejects_bad_utf8 J \<longleftrightarrow> (\<forall>j. \<not> json_utf8_ok j \<longrightarrow> jdump J j = Inl JsonTypeError)"

end
