(* ===== verification/ResultBudget.thy ===== *)
theory ResultBudget
  imports Prelude
begin

text \<open>
  \<^verbatim>\<open>include/core/ResultBudget.h\<close>: the 32 KiB cap on any tool result, kept at the head or
  at the tail of the text, and the numeric limits of the core tools.
\<close>

definition kMaxResultBytes :: nat where "kMaxResultBytes = 32768"
definition kReadDefaultLines :: int where "kReadDefaultLines = 200"
definition kReadMaxLines :: int where "kReadMaxLines = 500"
definition kSearchDefaultHits :: int where "kSearchDefaultHits = 50"
definition kSearchMaxHits :: int where "kSearchMaxHits = 200"
definition kSearchSnippetChars :: nat where "kSearchSnippetChars = 120"
definition kGitLogDefault :: int where "kGitLogDefault = 10"
definition kGitLogMax :: int where "kGitLogMax = 30"
definition kShellTimeoutDefaultSec :: int where "kShellTimeoutDefaultSec = 30"
definition kShellTimeoutMaxSec :: int where "kShellTimeoutMaxSec = 120"
definition kDiagnoseMax :: int where "kDiagnoseMax = 100"
definition kDescriptionMaxChars :: nat where "kDescriptionMaxChars = 120"

definition CapHead :: "string \<Rightarrow> string \<times> bool" where
  "CapHead t = (if length t \<le> kMaxResultBytes then (t, False) else (take kMaxResultBytes t, True))"

definition CapTail :: "string \<Rightarrow> string \<times> bool" where
  "CapTail t = (if length t \<le> kMaxResultBytes then (t, False)
                else (drop (length t - kMaxResultBytes) t, True))"

section \<open>The contract of a cap\<close>

text \<open>
  What a caller relies on: the result fits the budget, a text that fits is returned as it
  is and not flagged, and a longer one is flagged and filled to the budget.
\<close>

locale result_cap =
  fixes cap :: "string \<Rightarrow> string \<times> bool" and budget :: nat
  assumes cap_fits: "length t \<le> budget \<Longrightarrow> cap t = (t, False)"
    and cap_long: "budget < length t \<Longrightarrow> snd (cap t) \<and> length (fst (cap t)) = budget"
    and cap_sub: "sublist (fst (cap t)) t"
begin

lemma cap_bound: "length (fst (cap t)) \<le> budget"
  using cap_fits cap_long by (cases "length t \<le> budget") auto

lemma cap_flag: "snd (cap t) \<longleftrightarrow> budget < length t"
  using cap_fits cap_long by (cases "length t \<le> budget") auto

lemma cap_idem: "cap (fst (cap t)) = (fst (cap t), False)"
  using cap_bound cap_fits by simp

lemma cap_bytes: "set (fst (cap t)) \<subseteq> set t"
  using cap_sub [of t] by (rule set_mono_sublist)

end

interpretation head_cap: result_cap CapHead kMaxResultBytes
  by unfold_locales (auto simp: CapHead_def sublist_take)

interpretation tail_cap: result_cap CapTail kMaxResultBytes
  by unfold_locales (auto simp: CapTail_def sublist_drop)

lemma CapHead_prefix: "prefix (fst (CapHead t)) t"
  by (auto simp: CapHead_def take_is_prefix)

lemma CapTail_suffix: "suffix (fst (CapTail t)) t"
  by (auto simp: CapTail_def suffix_drop)

end
