(* ===== verification/CommandRegistry.thy ===== *)
theory CommandRegistry
  imports Json ResultBudget
begin

text \<open>
  \<^verbatim>\<open>src/commands/CommandRegistry.cpp\<close>: the table of tools, the set of advertised names,
  and the execution of a tool with its chain.  A tool is an object behind the
  \<^verbatim>\<open>ICommandStrategy\<close> interface; here it is a handle of type \<open>'c\<close>, and the virtual functions
  of that interface are the record \<open>strategy\<close>.  A tool may change the registry it is
  registered in (the activate tool does), so an execution maps the pair of registry and rest
  of the world to a new pair.  \<^verbatim>\<open>ExecuteAsync(request).get()\<close> is one call: the futures of
  the sources are waited for at once.  The unordered map is an association list with
  distinct keys, in some order.
\<close>

datatype ToolSource = BuiltIn | JsonSkill | Plugin | NativePlugin | ScriptPlugin

record tool_metadata =
  m_Name :: string
  m_Description :: string
  m_InputSchema :: json
  m_DefaultModel :: string
  m_DefaultParameters :: json
  m_Source :: ToolSource
  m_Hidden :: bool

record 'c registry =
  m_Commands :: "(string \<times> 'c) list"
  m_Advertised :: "string set"
  m_FilterAdvertised :: bool
  m_ChainingEnabled :: bool

record ('c, 'w) strategy =
  ExecuteAsync :: "'c \<Rightarrow> json \<Rightarrow> 'c registry \<times> 'w \<Rightarrow> json res \<times> 'c registry \<times> 'w"
  GetMetadata :: "'c \<Rightarrow> tool_metadata"
  Shutdown :: "'c \<Rightarrow> 'w \<Rightarrow> 'w"

definition kMaxChainDepth :: int where "kMaxChainDepth = 5"

definition empty_registry :: "'c registry" where
  "empty_registry = \<lparr>m_Commands = [], m_Advertised = {}, m_FilterAdvertised = False,
                     m_ChainingEnabled = True\<rparr>"

section \<open>The table\<close>

definition Resolve :: "'c registry \<Rightarrow> string \<Rightarrow> 'c option" where
  "Resolve r name = map_of (m_Commands r) name"

definition HasCommand :: "'c registry \<Rightarrow> string \<Rightarrow> bool" where
  "HasCommand r name \<longleftrightarrow> Resolve r name \<noteq> None"

definition RegisterCommand :: "string \<Rightarrow> 'c \<Rightarrow> 'c registry \<Rightarrow> 'c registry res" where
  "RegisterCommand name command r =
     (if name = [] then Inl (InvalidArgument ''Command name cannot be empty'')
      else if HasCommand r name then
        Inl (RuntimeError (''Tool name collision: '' @ [SQ] @ name @ [SQ] @ '' is already registered''))
      else Inr (r\<lparr>m_Commands := AList.update name command (m_Commands r)\<rparr>))"

definition ReplaceCommand ::
    "('c, 'w) strategy \<Rightarrow> string \<Rightarrow> 'c \<Rightarrow> 'c registry \<times> 'w \<Rightarrow> ('c registry \<times> 'w) res" where
  "ReplaceCommand S name command = (\<lambda>(r, w).
     if name = [] then Inl (InvalidArgument ''Command name cannot be empty'')
     else let r' = r\<lparr>m_Commands := AList.update name command (m_Commands r)\<rparr>
          in (case Resolve r name of
                None \<Rightarrow> Inr (r', w)
              | Some old \<Rightarrow> Inr (r', Shutdown S old w)))"

definition ListCommands :: "'c registry \<Rightarrow> string list" where
  "ListCommands r = map fst (m_Commands r)"

section \<open>The advertised names\<close>

definition SetAdvertised :: "string set \<Rightarrow> 'c registry \<Rightarrow> 'c registry" where
  "SetAdvertised names r = r\<lparr>m_Advertised := names, m_FilterAdvertised := True\<rparr>"

definition ClearAdvertisedFilter :: "'c registry \<Rightarrow> 'c registry" where
  "ClearAdvertisedFilter r = r\<lparr>m_Advertised := {}, m_FilterAdvertised := False\<rparr>"

definition Advertise :: "string \<Rightarrow> 'c registry \<Rightarrow> 'c registry" where
  "Advertise name r =
     (if name = [] then r
      else r\<lparr>m_FilterAdvertised := True, m_Advertised := insert name (m_Advertised r)\<rparr>)"

definition Unadvertise :: "string \<Rightarrow> 'c registry \<Rightarrow> 'c registry" where
  "Unadvertise name r = r\<lparr>m_Advertised := m_Advertised r - {name}\<rparr>"

definition HasAdvertisedFilter :: "'c registry \<Rightarrow> bool" where
  "HasAdvertisedFilter r = m_FilterAdvertised r"

definition IsAdvertised :: "'c registry \<Rightarrow> string \<Rightarrow> bool" where
  "IsAdvertised r name \<longleftrightarrow> (if \<not> m_FilterAdvertised r then True else name \<in> m_Advertised r)"

definition AdvertisedNames :: "'c registry \<Rightarrow> string set" where
  "AdvertisedNames r = m_Advertised r"

definition SetChainingEnabled :: "bool \<Rightarrow> 'c registry \<Rightarrow> 'c registry" where
  "SetChainingEnabled enabled r = r\<lparr>m_ChainingEnabled := enabled\<rparr>"

definition IsChainingEnabled :: "'c registry \<Rightarrow> bool" where
  "IsChainingEnabled r = m_ChainingEnabled r"

section \<open>Listing\<close>

definition default_schema :: json where
  "default_schema = JObj [(''type'', JStr ''object''), (''properties'', JObj []),
                          (''additionalProperties'', JBool True)]"

definition finish_metadata :: "string \<Rightarrow> tool_metadata \<Rightarrow> tool_metadata" where
  "finish_metadata name meta0 =
     (let meta1 = (if m_Name meta0 = [] then meta0\<lparr>m_Name := name\<rparr> else meta0);
          meta2 = (if m_Description meta1 = []
                   then meta1\<lparr>m_Description := ''Execute the '' @ name @ '' command''\<rparr> else meta1);
          meta3 = (if kDescriptionMaxChars < length (m_Description meta2)
                   then meta2\<lparr>m_Description := take kDescriptionMaxChars (m_Description meta2)\<rparr>
                   else meta2)
      in if m_InputSchema meta3 = JNull \<or> j_empty (m_InputSchema meta3)
         then meta3\<lparr>m_InputSchema := default_schema\<rparr> else meta3)"

fun list_metadata :: "('c, 'w) strategy \<Rightarrow> 'c registry \<Rightarrow> (string \<times> 'c) list \<Rightarrow> tool_metadata list" where
  "list_metadata S r [] = []"
| "list_metadata S r ((name, cmd) # cs) =
     (if m_FilterAdvertised r \<and> name \<notin> m_Advertised r then list_metadata S r cs
      else if m_Hidden (GetMetadata S cmd) then list_metadata S r cs
      else finish_metadata name (GetMetadata S cmd) # list_metadata S r cs)"

definition ListToolMetadata :: "('c, 'w) strategy \<Rightarrow> 'c registry \<Rightarrow> tool_metadata list" where
  "ListToolMetadata S r = list_metadata S r (m_Commands r)"

section \<open>Execution with chaining\<close>

definition unknown_command :: "string \<Rightarrow> json" where
  "unknown_command toolName =
     JObj [(''status'', JStr ''error''), (''error'', JStr (''Unknown command: '' @ toolName))]"

text \<open>
  The chain a result asks for: \<open>Inr None\<close> when there is none to follow, and an exception
  when \<^verbatim>\<open>chain.tool\<close> is not a string.
\<close>

definition next_link :: "json \<Rightarrow> (string \<times> json) option res" where
  "next_link result =
     (if j_contains result ''chain'' \<and> is_object (j_at result ''chain'') then
        bindE (value_str (j_at result ''chain'') ''tool'' []) (\<lambda>nextTool.
        bindE (value_json (j_at result ''chain'') ''args'' (JObj [])) (\<lambda>nextArgs.
          Inr (if nextTool = [] then None
               else Some (nextTool, JObj [(''command'', JStr nextTool), (''payload'', nextArgs)]))))
      else Inr None)"

function ExecuteWithChaining ::
    "('c, 'w) strategy \<Rightarrow> string \<Rightarrow> json \<Rightarrow> int \<Rightarrow> 'c registry \<times> 'w \<Rightarrow> json res \<times> 'c registry \<times> 'w" where
  "ExecuteWithChaining S toolName request depth s =
     (case Resolve (fst s) toolName of
        None \<Rightarrow> (Inr (unknown_command toolName), s)
      | Some cmd \<Rightarrow>
          (case ExecuteAsync S cmd request s of
             (Inl e, s') \<Rightarrow> (Inl e, s')
           | (Inr result, s') \<Rightarrow>
               if \<not> m_ChainingEnabled (fst s') then (Inr result, s')
               else if depth < kMaxChainDepth then
                 (case next_link result of
                    Inl e \<Rightarrow> (Inl e, s')
                  | Inr None \<Rightarrow> (Inr result, s')
                  | Inr (Some (nextTool, nextReq)) \<Rightarrow>
                      ExecuteWithChaining S nextTool nextReq (depth + 1) s')
               else (Inr result, s')))"
  by pat_completeness auto
termination
  by (relation "measure (\<lambda>(S, t, q, d, s). nat (kMaxChainDepth - d))") (auto simp: kMaxChainDepth_def)

declare ExecuteWithChaining.simps [simp del]

section \<open>Facts about the table\<close>

definition wf_registry :: "'c registry \<Rightarrow> bool" where
  "wf_registry r \<longleftrightarrow> distinct (map fst (m_Commands r)) \<and> [] \<notin> set (map fst (m_Commands r))"

lemma wf_empty_registry [wf_intros]: "wf_registry empty_registry"
  by (simp add: wf_registry_def empty_registry_def)

lemma HasCommand_iff: "HasCommand r name \<longleftrightarrow> name \<in> set (ListCommands r)"
  by (force simp: HasCommand_def Resolve_def ListCommands_def map_of_eq_None_iff)

lemma RegisterCommand_ok:
  "RegisterCommand name c r = Inr r' \<longleftrightarrow>
     name \<noteq> [] \<and> \<not> HasCommand r name \<and> r' = r\<lparr>m_Commands := AList.update name c (m_Commands r)\<rparr>"
  by (auto simp: RegisterCommand_def)

lemma ReplaceCommand_ok:
  "ReplaceCommand S name c (r, w) = Inr (r', w') \<longleftrightarrow>
     name \<noteq> [] \<and> r' = r\<lparr>m_Commands := AList.update name c (m_Commands r)\<rparr>
     \<and> w' = (case Resolve r name of None \<Rightarrow> w | Some old \<Rightarrow> Shutdown S old w)"
  by (auto simp: ReplaceCommand_def Let_def split: option.splits)

lemma wf_update: "wf_registry r \<Longrightarrow> name \<noteq> [] \<Longrightarrow>
    wf_registry (r\<lparr>m_Commands := AList.update name c (m_Commands r)\<rparr>)"
  by (auto simp: wf_registry_def distinct_update update_keys dom_update image_iff)

lemma wf_RegisterCommand [wf_intros]:
  "wf_registry r \<Longrightarrow> RegisterCommand name c r = Inr r' \<Longrightarrow> wf_registry r'"
  by (auto simp: RegisterCommand_ok intro: wf_update)

lemma wf_ReplaceCommand [wf_intros]:
  "wf_registry r \<Longrightarrow> ReplaceCommand S name c (r, w) = Inr (r', w') \<Longrightarrow> wf_registry r'"
  by (auto simp: ReplaceCommand_ok intro: wf_update)

lemma Resolve_update [simp]:
  "Resolve (r\<lparr>m_Commands := AList.update name c (m_Commands r)\<rparr>) n
     = (if n = name then Some c else Resolve r n)"
  by (simp add: Resolve_def update_conv')

section \<open>The contract of a tool table\<close>

text \<open>
  What the callers that install tools rely on: a fresh non-empty name is installed and
  found afterwards, any other registration fails, and nothing else changes.
\<close>

locale tool_table =
  fixes inv :: "'r \<Rightarrow> bool" and lookup :: "'r \<Rightarrow> string \<Rightarrow> 'c option"
    and add :: "string \<Rightarrow> 'c \<Rightarrow> 'r \<Rightarrow> 'r res"
  assumes add_fresh: "inv r \<Longrightarrow> name \<noteq> [] \<Longrightarrow> lookup r name = None \<Longrightarrow>
      \<exists>r'. add name c r = Inr r' \<and> inv r' \<and> lookup r' = (lookup r)(name \<mapsto> c)"
    and add_taken: "name = [] \<or> lookup r name \<noteq> None \<Longrightarrow> \<exists>e. add name c r = Inl e"

fun add_all :: "(string \<Rightarrow> 'c \<Rightarrow> 'r \<Rightarrow> 'r res) \<Rightarrow> (string \<times> 'c) list \<Rightarrow> 'r \<Rightarrow> 'r res" where
  "add_all add [] r = Inr r"
| "add_all add ((name, c) # ncs) r = bindE (add name c r) (add_all add ncs)"

definition all_fresh :: "('r \<Rightarrow> string \<Rightarrow> 'c option) \<Rightarrow> string list \<Rightarrow> 'r \<Rightarrow> bool" where
  "all_fresh lookup names r \<longleftrightarrow>
     distinct names \<and> [] \<notin> set names \<and> list_all (\<lambda>n. lookup r n = None) names"

context tool_table begin

lemma add_all_fresh:
  assumes "inv r" "all_fresh lookup (map fst ncs) r"
  shows "\<exists>r'. add_all add ncs r = Inr r' \<and> inv r' \<and> lookup r' = lookup r ++ map_of ncs"
  using assms
proof (induction ncs arbitrary: r)
  case (Cons nc ncs)
  obtain n c where nc: "nc = (n, c)" by (cases nc)
  obtain r1 where r1: "add n c r = Inr r1" "inv r1" "lookup r1 = (lookup r)(n \<mapsto> c)"
    using add_fresh [of r n c] Cons.prems nc by (auto simp: all_fresh_def)
  have "all_fresh lookup (map fst ncs) r1"
    using Cons.prems r1(3) nc by (auto simp: all_fresh_def list_all_iff)
  then obtain r2 where r2: "add_all add ncs r1 = Inr r2" "inv r2" "lookup r2 = lookup r1 ++ map_of ncs"
    using Cons.IH r1(2) by blast
  have "n \<notin> dom (map_of ncs)"
    using Cons.prems nc by (auto simp: all_fresh_def dom_map_of_conv_image_fst)
  then have "lookup r1 ++ map_of ncs = (lookup r ++ map_of ncs)(n \<mapsto> c)"
    by (simp add: r1(3) map_add_upd_left)
  moreover have "map_of (nc # ncs) = (map_of ncs)(n \<mapsto> c)" by (rule ext) (simp add: nc)
  ultimately have "lookup r2 = lookup r ++ map_of (nc # ncs)"
    by (simp only: r2(3) map_add_upd)
  with r1(1) r2 show ?case by (simp only: nc add_all.simps bindE_simps) blast
qed simp

lemma add_all_fails:
  assumes "inv r" "\<not> all_fresh lookup (map fst ncs) r"
  shows "\<exists>e. add_all add ncs r = Inl e"
  using assms
proof (induction ncs arbitrary: r)
  case (Cons nc ncs)
  obtain n c where nc: "nc = (n, c)" by (cases nc)
  show ?case
  proof (cases "n = [] \<or> lookup r n \<noteq> None")
    case True
    then show ?thesis using add_taken [of n r c] by (auto simp: nc)
  next
    case False
    then obtain r1 where r1: "add n c r = Inr r1" "inv r1" "lookup r1 = (lookup r)(n \<mapsto> c)"
      using add_fresh [of r n c] Cons.prems by auto
    have "\<not> all_fresh lookup (map fst ncs) r1"
      using Cons.prems False r1(3) nc
      by (auto simp: all_fresh_def list_all_iff split: if_splits)
    then show ?thesis using Cons.IH [OF r1(2)] by (simp add: nc r1(1))
  qed
qed (simp add: all_fresh_def)

lemma add_all_iff:
  "inv r \<Longrightarrow> (\<exists>r'. add_all add ncs r = Inr r') \<longleftrightarrow> all_fresh lookup (map fst ncs) r"
  using add_all_fresh add_all_fails by fastforce

end

interpretation table: tool_table wf_registry Resolve RegisterCommand
proof
  fix r :: "'a registry" and name c
  assume "wf_registry r" "name \<noteq> []" "Resolve r name = None"
  then show "\<exists>r'. RegisterCommand name c r = Inr r' \<and> wf_registry r'
      \<and> Resolve r' = (Resolve r)(name \<mapsto> c)"
    by (auto simp: RegisterCommand_ok HasCommand_def wf_update fun_eq_iff)
next
  fix r :: "'a registry" and name c
  assume "name = [] \<or> Resolve r name \<noteq> None"
  then show "\<exists>e. RegisterCommand name c r = Inl e"
    by (auto simp: RegisterCommand_def HasCommand_def)
qed

section \<open>Listing, characterised\<close>

definition listed :: "('c, 'w) strategy \<Rightarrow> 'c registry \<Rightarrow> string \<times> 'c \<Rightarrow> bool" where
  "listed S r nc \<longleftrightarrow> IsAdvertised r (fst nc) \<and> \<not> m_Hidden (GetMetadata S (snd nc))"

lemma list_metadata_eq:
  "list_metadata S r cs =
     map (\<lambda>(name, cmd). finish_metadata name (GetMetadata S cmd)) (filter (listed S r) cs)"
  by (induction S r cs rule: list_metadata.induct) (auto simp: listed_def IsAdvertised_def)

lemma finish_metadata_wf:
  "name \<noteq> [] \<Longrightarrow> m_Name (finish_metadata name meta) \<noteq> []"
  "m_Description (finish_metadata name meta) \<noteq> []"
  "length (m_Description (finish_metadata name meta)) \<le> kDescriptionMaxChars"
  "\<not> j_empty (m_InputSchema (finish_metadata name meta))"
  "m_Hidden (finish_metadata name meta) = m_Hidden meta"
  by (auto simp: finish_metadata_def Let_def default_schema_def kDescriptionMaxChars_def)

section \<open>Chains\<close>

text \<open>
  A statistic of the state that one execution raises by at most \<open>k\<close>, and an invariant that
  every execution keeps.
\<close>

definition raises_at_most ::
    "('c, 'w) strategy \<Rightarrow> ('c registry \<times> 'w \<Rightarrow> nat) \<Rightarrow> nat \<Rightarrow> bool" where
  "raises_at_most S cnt k \<longleftrightarrow> (\<forall>c q s. cnt (snd (ExecuteAsync S c q s)) \<le> cnt s + k)"

definition keeps :: "('c, 'w) strategy \<Rightarrow> ('c registry \<times> 'w \<Rightarrow> bool) \<Rightarrow> bool" where
  "keeps S I \<longleftrightarrow> (\<forall>c q s. I s \<longrightarrow> I (snd (ExecuteAsync S c q s)))"

lemma chain_step:
  "ExecuteWithChaining S t q d s = (case Resolve (fst s) t of
     None \<Rightarrow> (Inr (unknown_command t), s)
   | Some cmd \<Rightarrow>
      let (r, s') = ExecuteAsync S cmd q s in
      (case r of Inl e \<Rightarrow> (Inl e, s')
       | Inr j \<Rightarrow> if m_ChainingEnabled (fst s') \<and> d < kMaxChainDepth then
           (case next_link j of Inl e \<Rightarrow> (Inl e, s') | Inr None \<Rightarrow> (Inr j, s')
            | Inr (Some (t', q')) \<Rightarrow> ExecuteWithChaining S t' q' (d + 1) s')
         else (Inr j, s')))"
  by (subst ExecuteWithChaining.simps) (auto split: option.splits sum.splits prod.splits)

lemma next_link_error: "next_link j = Inl e \<Longrightarrow> e = JsonTypeError"
proof -
  have str: "get_string v = Inl e' \<Longrightarrow> e' = JsonTypeError" for v e' by (cases v) auto
  assume "next_link j = Inl e"
  then show ?thesis
    by (auto simp: next_link_def value_defs bindE_def split: if_splits sum.splits option.splits dest: str)
qed

text \<open>One induction for every claim about the state after a chain.\<close>

lemma chain_induct [consumes 0, case_names unknown stop link]:
  assumes "\<And>t d s. Resolve (fst s) t = None \<Longrightarrow> P d s (Inr (unknown_command t), s)"
    and "\<And>c t q d s r s'. Resolve (fst s) t = Some c \<Longrightarrow> ExecuteAsync S c q s = (r, s') \<Longrightarrow> P d s (r, s')"
    and "\<And>c t q d s j s'. Resolve (fst s) t = Some c \<Longrightarrow> ExecuteAsync S c q s = (Inr j, s') \<Longrightarrow>
           P d s (Inl JsonTypeError, s')"
    and "\<And>c t q d s j s' x. Resolve (fst s) t = Some c \<Longrightarrow> ExecuteAsync S c q s = (Inr j, s') \<Longrightarrow>
           d < kMaxChainDepth \<Longrightarrow> P (d + 1) s' x \<Longrightarrow> P d s x"
  shows "P d s (ExecuteWithChaining S t q d s)"
  using assms
proof (induction S t q d s rule: ExecuteWithChaining.induct)
  case (1 S t q d s)
  show ?case
  proof (cases "Resolve (fst s) t")
    case None
    then show ?thesis using "1.prems"(1) by (subst chain_step) simp
  next
    case (Some c)
    obtain r s' where x: "ExecuteAsync S c q s = (r, s')" by (cases "ExecuteAsync S c q s")
    note stop = "1.prems"(2) [OF Some x, of d]
    show ?thesis
    proof (cases r)
      case (Inl e)
      then show ?thesis using stop Some x by (subst chain_step) simp
    next
      case (Inr j)
      show ?thesis
      proof (cases "m_ChainingEnabled (fst s') \<and> d < kMaxChainDepth")
        case False
        then show ?thesis using stop Some x Inr by (subst chain_step) auto
      next
        case en: True
        show ?thesis
        proof (cases "next_link j")
          case (Inl e)
          then have "e = JsonTypeError" by (rule next_link_error)
          then show ?thesis
            using "1.prems"(3) [OF Some x [unfolded Inr]] Inl Some x Inr en by (subst chain_step) simp
        next
          case (Inr l)
          show ?thesis
          proof (cases l)
            case None
            then show ?thesis using stop Some x \<open>r = Inr j\<close> Inr en by (subst chain_step) simp
          next
            case (Some tq)
            obtain t' q' where tq: "tq = (t', q')" by (cases tq)
            have "P (d + 1) s' (ExecuteWithChaining S t' q' (d + 1) s')"
              using "1.IH" [OF \<open>Resolve (fst s) t = Some c\<close> x [unfolded \<open>r = Inr j\<close>, symmetric] refl _ _ Inr]
                en Some tq "1.prems" by blast
            from "1.prems"(4) [OF \<open>Resolve (fst s) t = Some c\<close> x [unfolded \<open>r = Inr j\<close>] _ this]
            show ?thesis using \<open>Resolve (fst s) t = Some c\<close> x \<open>r = Inr j\<close> Inr en Some tq
              by (subst chain_step) simp
          qed
        qed
      qed
    qed
  qed
qed

lemma chain_count:
  assumes "raises_at_most S cnt k" "0 \<le> d" "d \<le> 5"
  shows "cnt (snd (ExecuteWithChaining S t q d s)) \<le> cnt s + k * nat (6 - d)"
proof -
  have raise: "cnt s' \<le> cnt s + k" if "ExecuteAsync S c q s = (r, s')" for c q s r s'
    using assms(1) that by (metis raises_at_most_def snd_conv)
  have one: "k \<le> k * nat (6 - d)" if "d \<le> 5" for d :: int
  proof -
    have "1 \<le> nat (6 - d)" using that by arith
    then show ?thesis using mult_le_mono2 [of 1 "nat (6 - d)" k] by simp
  qed
  have "0 \<le> d \<longrightarrow> d \<le> 5 \<longrightarrow> cnt (snd (ExecuteWithChaining S t q d s)) \<le> cnt s + k * nat (6 - d)"
  proof (rule chain_induct [where S = S and P = "\<lambda>d s x. 0 \<le> d \<longrightarrow> d \<le> 5 \<longrightarrow> cnt (snd x) \<le> cnt s + k * nat (6 - d)"],
      goal_cases)
    case (2 c t q d s r s')
    then show ?case using one [of d] raise [OF 2(2)] by (metis add_left_mono le_trans snd_conv)
  next
    case (3 c t q d s j s')
    then show ?case using one [of d] raise [OF 3(2)] by (metis add_left_mono le_trans snd_conv)
  next
    case (4 c t q d s j s' x)
    show ?case
    proof (intro impI)
      assume d: "0 \<le> d" "d \<le> 5"
      have n: "nat (6 - d) = Suc (nat (6 - (d + 1)))" using 4(3) by (simp add: kMaxChainDepth_def)
      have "cnt (snd x) \<le> cnt s' + k * nat (6 - (d + 1))"
        using 4(3,4) d by (simp add: kMaxChainDepth_def)
      then show "cnt (snd x) \<le> cnt s + k * nat (6 - d)"
        using raise [OF 4(2)] by (simp add: n)
    qed
  qed simp
  then show ?thesis using assms by simp
qed

lemma chain_keeps:
  assumes "keeps S I" "I s"
  shows "I (snd (ExecuteWithChaining S t q d s))"
proof -
  have keep: "I s \<longrightarrow> I s'" if "ExecuteAsync S c q s = (r, s')" for c q s r s'
    using assms(1) that by (metis keeps_def snd_conv)
  have "I s \<longrightarrow> I (snd (ExecuteWithChaining S t q d s))"
    by (rule chain_induct [where S = S and P = "\<lambda>d s x. I s \<longrightarrow> I (snd x)"])
       (auto dest: keep)
  then show ?thesis using assms by simp
qed

text \<open>Tools that throw only \<^verbatim>\<open>std::exception\<close>s; a chain of them does the same.\<close>

definition throws_std :: "('c, 'w) strategy \<Rightarrow> bool" where
  "throws_std S \<longleftrightarrow> (\<forall>c q s e. fst (ExecuteAsync S c q s) = Inl e \<longrightarrow> is_std_exception e)"

lemma chain_throws_std:
  assumes "throws_std S"
  shows "fst (ExecuteWithChaining S t q d s) = Inl e \<Longrightarrow> is_std_exception e"
proof -
  have one: "ExecuteAsync S c q s = (Inl e, s') \<Longrightarrow> is_std_exception e" for c q s e s'
    using assms by (metis throws_std_def fst_conv)
  have "\<forall>e. fst (ExecuteWithChaining S t q d s) = Inl e \<longrightarrow> is_std_exception e"
    by (rule chain_induct [where S = S and P = "\<lambda>d s x. \<forall>e. fst x = Inl e \<longrightarrow> is_std_exception e"])
       (auto dest: one)
  then show "fst (ExecuteWithChaining S t q d s) = Inl e \<Longrightarrow> is_std_exception e" by simp
qed

section \<open>Properties\<close>

text \<open>
  Every tool listed to a client is a registered, advertised, unhidden one, with a
  non-empty name, a non-empty description of at most 120 bytes and a non-empty input schema;
  and every registered, advertised, unhidden tool is listed, once.
\<close>

theorem listing_exact:
  assumes "wf_registry r"
  shows "ListToolMetadata S r =
      map (\<lambda>(name, cmd). finish_metadata name (GetMetadata S cmd)) (filter (listed S r) (m_Commands r))
    \<and> list_all (\<lambda>m. m_Name m \<noteq> [] \<and> m_Description m \<noteq> [] \<and> length (m_Description m) \<le> 120
         \<and> \<not> m_Hidden m \<and> \<not> j_empty (m_InputSchema m)) (ListToolMetadata S r)"
proof -
  have "m_Name (finish_metadata n (GetMetadata S c)) \<noteq> []" if "(n, c) \<in> set (m_Commands r)" for n c
    using assms that by (intro finish_metadata_wf) (force simp: wf_registry_def)
  then show ?thesis
    using finish_metadata_wf
    by (auto simp: ListToolMetadata_def list_metadata_eq list_all_iff listed_def kDescriptionMaxChars_def)
qed

text \<open>Handles that return the request, and one that asks for itself in a chain.\<close>

datatype ex_tool = Loop | Plain

definition ex_strategy :: "(ex_tool, nat) strategy" where
  "ex_strategy =
     \<lparr>ExecuteAsync = \<lambda>c q (r, n). (Inr (case c of
         Loop \<Rightarrow> JObj [(''chain'', JObj [(''tool'', JStr ''loop'')])] | Plain \<Rightarrow> q), r, Suc n),
      GetMetadata = \<lambda>c. \<lparr>m_Name = [], m_Description = [], m_InputSchema = JNull, m_DefaultModel = [],
         m_DefaultParameters = JNull, m_Source = BuiltIn, m_Hidden = (c = Loop)\<rparr>,
      Shutdown = \<lambda>c n. n\<rparr>"

definition ex_registry :: "ex_tool registry" where
  "ex_registry = empty_registry\<lparr>m_Commands := [(''loop'', Loop), (''plain'', Plain)]\<rparr>"

theorem listing_exact_witness:
  "map m_Name (ListToolMetadata ex_strategy ex_registry) = [''plain'']"
proof -
  have "wf_registry ex_registry"
    by (simp add: wf_registry_def ex_registry_def)
  then have "ListToolMetadata ex_strategy ex_registry =
      map (\<lambda>(name, cmd). finish_metadata name (GetMetadata ex_strategy cmd))
        (filter (listed ex_strategy ex_registry) (m_Commands ex_registry))"
    by (rule listing_exact [THEN conjunct1])
  then show ?thesis
    by (simp add: ex_registry_def empty_registry_def ex_strategy_def listed_def IsAdvertised_def
        finish_metadata_def Let_def)
qed

text \<open>
  C19: One call executes at most six tools, however the tools chain (also a tool that always
  asks for itself): any statistic that one execution raises by at most \<open>k\<close> is raised by at
  most \<open>6 k\<close>; and an invariant that every execution keeps is kept.
\<close>

theorem chain_bounded:
  assumes "raises_at_most S cnt k" "keeps S I" "I s"
  shows "cnt (snd (ExecuteWithChaining S t q 0 s)) \<le> cnt s + 6 * k
       \<and> I (snd (ExecuteWithChaining S t q 0 s))"
  using chain_count [OF assms(1), of 0] chain_keeps [OF assms(2,3)] by (simp add: mult.commute)

theorem chain_bounded_witness:
  "snd (snd (ExecuteWithChaining ex_strategy ''loop'' JNull 0 (ex_registry, 0))) \<le> snd (ex_registry, 0 :: nat) + 6 * 1"
proof -
  have "raises_at_most ex_strategy snd 1" "keeps ex_strategy (\<lambda>_. True)"
    by (auto simp: raises_at_most_def keeps_def ex_strategy_def)
  from chain_bounded [OF this, where s = "(ex_registry, 0)"] show ?thesis by simp
qed

text \<open>
  Installing a list of tools succeeds exactly when their names are distinct, non-empty
  and not yet taken, and throws otherwise; after a success every tool of the list is found and
  every other name resolves as before.
\<close>

theorem install_tools:
  assumes "wf_registry r"
  shows "case add_all RegisterCommand ncs r of
           Inl e \<Rightarrow> \<not> all_fresh Resolve (map fst ncs) r
         | Inr r' \<Rightarrow> all_fresh Resolve (map fst ncs) r \<and> wf_registry r'
             \<and> Resolve r' = Resolve r ++ map_of ncs"
  using table.add_all_fails [OF assms, of ncs] table.add_all_fresh [OF assms, of ncs]
  by (fastforce split: sum.splits)

theorem install_tools_witness:
  "case add_all RegisterCommand [(''a'', Loop), (''a'', Plain)] (empty_registry :: ex_tool registry) of
     Inl e \<Rightarrow> \<not> all_fresh Resolve (map fst [(''a'', Loop), (''a'', Plain)]) (empty_registry :: ex_tool registry)
   | Inr r' \<Rightarrow> all_fresh Resolve (map fst [(''a'', Loop), (''a'', Plain)]) (empty_registry :: ex_tool registry)
       \<and> wf_registry r' \<and> Resolve r' = Resolve (empty_registry :: ex_tool registry) ++ map_of [(''a'', Loop), (''a'', Plain)]"
  using install_tools [OF wf_empty_registry, of "[(''a'', Loop), (''a'', Plain)]"] .

end
