(* ===== verification/RateLimiter.thy ===== *)
theory RateLimiter
  imports Prelude
begin

text \<open>
  \<^verbatim>\<open>src/security/RateLimiter.cpp\<close>: one token bucket per client address.  Tokens are
  \<^verbatim>\<open>size_t\<close>, kept here at 64 bits, so that \<^verbatim>\<open>m_MaxTokens - 1\<close> and the refill product wrap
  as in the code.  Time is the steady clock in nanoseconds; the handler of one request is
  one step, as the mutex makes it.
\<close>

type_synonym size_t = "64 word"

record bucket =
  m_Tokens :: size_t
  m_LastRefill :: int

record limiter =
  m_MaxTokens :: size_t
  m_Buckets :: "string \<rightharpoonup> bucket"

definition RateLimiter :: "size_t \<Rightarrow> limiter" where
  "RateLimiter requestsPerMinute = \<lparr>m_MaxTokens = requestsPerMinute, m_Buckets = Map.empty\<rparr>"

text \<open>\<^verbatim>\<open>duration_cast<seconds>\<close> of a nanosecond difference: truncation toward zero.\<close>

definition to_seconds :: "int \<Rightarrow> int" where
  "to_seconds ns = (if ns < 0 then - ((- ns) div 1000000000) else ns div 1000000000)"

definition refill_bucket :: "size_t \<Rightarrow> int \<Rightarrow> bucket \<Rightarrow> bucket" where
  "refill_bucket mx now b =
     (let elapsed = to_seconds (now - m_LastRefill b)
      in if 0 < elapsed then
           \<lparr>m_Tokens = min mx (m_Tokens b + word_of_int elapsed * mx div 60), m_LastRefill = now\<rparr>
         else b)"

definition AllowRequest :: "int \<Rightarrow> string \<Rightarrow> limiter \<Rightarrow> bool \<times> limiter" where
  "AllowRequest now clientIp l =
     (case m_Buckets l clientIp of
        None \<Rightarrow>
          (True, l\<lparr>m_Buckets := (m_Buckets l)(clientIp \<mapsto>
                    \<lparr>m_Tokens = m_MaxTokens l - 1, m_LastRefill = now\<rparr>)\<rparr>)
      | Some b0 \<Rightarrow>
          let b = refill_bucket (m_MaxTokens l) now b0 in
          if 0 < m_Tokens b then
            (True, l\<lparr>m_Buckets := (m_Buckets l)(clientIp \<mapsto> b\<lparr>m_Tokens := m_Tokens b - 1\<rparr>)\<rparr>)
          else (False, l\<lparr>m_Buckets := (m_Buckets l)(clientIp \<mapsto> b)\<rparr>))"

definition Reset :: "limiter \<Rightarrow> limiter" where
  "Reset l = l\<lparr>m_Buckets := Map.empty\<rparr>"

text \<open>A run of requests: (time, client) in arrival order, with the answers.\<close>

fun allow_run :: "(int \<times> string) list \<Rightarrow> limiter \<Rightarrow> bool list \<times> limiter" where
  "allow_run [] l = ([], l)"
| "allow_run ((now, ip) # rs) l =
     (case AllowRequest now ip l of (ok, l') \<Rightarrow>
      case allow_run rs l' of (oks, l'') \<Rightarrow> (ok # oks, l''))"

section \<open>Invariant: no bucket holds more than the maximum\<close>

definition wf_limiter :: "limiter \<Rightarrow> bool" where
  "wf_limiter l \<longleftrightarrow> (\<forall>b\<in>ran (m_Buckets l). m_Tokens b \<le> m_MaxTokens l)"

lemma wf_RateLimiter [wf_intros]: "wf_limiter (RateLimiter n)"
  by (simp add: wf_limiter_def RateLimiter_def)

lemma wf_Reset [wf_intros]: "wf_limiter (Reset l)"
  by (simp add: wf_limiter_def Reset_def)

lemma refill_le: "m_Tokens b \<le> mx \<Longrightarrow> m_Tokens (refill_bucket mx now b) \<le> mx"
  by (simp add: refill_bucket_def Let_def)

lemma word_pred_le: "0 < (w :: size_t) \<Longrightarrow> w - 1 \<le> w"
  by (simp add: word_le_nat_alt unat_minus_one word_gt_0)

lemma max_AllowRequest [simp]: "m_MaxTokens (snd (AllowRequest now ip l)) = m_MaxTokens l"
  by (auto simp: AllowRequest_def Let_def split: option.splits)

lemma wf_AllowRequest:
  assumes wf: "wf_limiter l" and pos: "0 < m_MaxTokens l"
  shows "wf_limiter (snd (AllowRequest now ip l))"
proof -
  have upd: "wf_limiter (l\<lparr>m_Buckets := (m_Buckets l)(ip \<mapsto> b)\<rparr>)" if "m_Tokens b \<le> m_MaxTokens l" for b
    using wf that by (auto simp: wf_limiter_def ran_def)
  show ?thesis
  proof (cases "m_Buckets l ip")
    case None
    then show ?thesis using upd word_pred_le [OF pos] by (simp add: AllowRequest_def)
  next
    case (Some b0)
    let ?b = "refill_bucket (m_MaxTokens l) now b0"
    have b: "m_Tokens ?b \<le> m_MaxTokens l"
      using wf Some by (intro refill_le) (auto simp: wf_limiter_def ran_def)
    moreover have "m_Tokens ?b - 1 \<le> m_MaxTokens l" if "0 < m_Tokens ?b"
      using b word_pred_le [OF that] by simp
    ultimately show ?thesis
      using Some upd by (auto simp: AllowRequest_def Let_def)
  qed
qed

lemma wf_allow_run:
  "wf_limiter l \<Longrightarrow> 0 < m_MaxTokens l \<Longrightarrow> wf_limiter (snd (allow_run rs l))
     \<and> m_MaxTokens (snd (allow_run rs l)) = m_MaxTokens l"
proof (induction rs l rule: allow_run.induct)
  case (2 now ip rs l)
  obtain ok l' where s: "AllowRequest now ip l = (ok, l')" by (cases "AllowRequest now ip l")
  then have "wf_limiter l'" "m_MaxTokens l' = m_MaxTokens l"
    using wf_AllowRequest [OF "2.prems", of now ip] max_AllowRequest [of now ip l] by simp_all
  then show ?case using "2.IH" s "2.prems" by (auto split: prod.splits)
qed simp

section \<open>One client: the bucket machine\<close>

text \<open>The handler restricted to one known client.\<close>

definition bucket_step :: "size_t \<Rightarrow> int \<Rightarrow> bucket \<Rightarrow> bool \<times> bucket" where
  "bucket_step mx now b0 =
     (let b = refill_bucket mx now b0 in
      if 0 < m_Tokens b then (True, b\<lparr>m_Tokens := m_Tokens b - 1\<rparr>) else (False, b))"

lemma AllowRequest_known:
  "m_Buckets l ip = Some b \<Longrightarrow>
     AllowRequest now ip l = (fst (bucket_step (m_MaxTokens l) now b),
       l\<lparr>m_Buckets := (m_Buckets l)(ip \<mapsto> snd (bucket_step (m_MaxTokens l) now b))\<rparr>)"
  by (auto simp: AllowRequest_def bucket_step_def Let_def)

text \<open>A client's requests leave the other clients' buckets alone.\<close>

lemma AllowRequest_other:
  "ip' \<noteq> ip \<Longrightarrow> m_Buckets (snd (AllowRequest now ip l)) ip' = m_Buckets l ip'"
  by (auto simp: AllowRequest_def Let_def split: option.splits)

section \<open>How much one client gets\<close>

text \<open>
  Every refill floors, so the refills of a run are together at most the refill of the whole
  time; word arithmetic only ever loses tokens here, so no side condition on overflow is needed.
\<close>

lemma unat_plus_le: "unat (a + b :: size_t) \<le> unat a + unat b"
  by (simp add: unat_word_ariths)

lemma unat_mult_le: "unat (a * b :: size_t) \<le> unat a * unat b"
  by (simp add: unat_word_ariths)

lemma unat_of_secs: "0 \<le> e \<Longrightarrow> unat (word_of_int e :: size_t) \<le> nat e"
proof -
  assume "0 \<le> e"
  then have "(word_of_int e :: size_t) = word_of_int (int (nat e))" by simp
  also have "\<dots> = of_nat (nat e)" by (rule of_int_of_nat_eq)
  finally have "(word_of_int e :: size_t) = of_nat (nat e)" .
  then show ?thesis by (simp add: unat_of_nat)
qed

lemma int_div_60: "(x :: int) div 60 * 60 \<le> x"
  by simp

lemma refill_tokens:
  assumes "m_LastRefill b \<le> now"
  shows "60000000000 * int (unat (m_Tokens (refill_bucket mx now b)))
           \<le> 60000000000 * int (unat (m_Tokens b))
             + int (unat mx) * (m_LastRefill (refill_bucket mx now b) - m_LastRefill b)"
    and "m_LastRefill (refill_bucket mx now b) \<le> now"
    and "m_LastRefill b \<le> m_LastRefill (refill_bucket mx now b)"
proof -
  let ?e = "to_seconds (now - m_LastRefill b)"
  have e: "?e * 1000000000 \<le> now - m_LastRefill b"
    using assms by (simp add: to_seconds_def div_times_less_eq_dividend)
  show "60000000000 * int (unat (m_Tokens (refill_bucket mx now b)))
           \<le> 60000000000 * int (unat (m_Tokens b))
             + int (unat mx) * (m_LastRefill (refill_bucket mx now b) - m_LastRefill b)"
  proof (cases "0 < ?e")
    case True
    have "unat (min mx (m_Tokens b + word_of_int ?e * mx div 60))
            \<le> unat (m_Tokens b + word_of_int ?e * mx div 60)"
      by (simp add: word_le_nat_alt [symmetric])
    also have "\<dots> \<le> unat (m_Tokens b) + unat (word_of_int ?e * mx) div 60"
      using unat_plus_le [of "m_Tokens b" "word_of_int ?e * mx div 60"] by (simp add: unat_div)
    also have "\<dots> \<le> unat (m_Tokens b) + (nat ?e * unat mx) div 60"
    proof -
      have "unat (word_of_int ?e * mx) \<le> nat ?e * unat mx"
        using unat_mult_le [of "word_of_int ?e" mx] unat_of_secs [of ?e] True
        by (meson le_trans mult_le_mono1 less_imp_le)
      then show ?thesis by (simp add: div_le_mono)
    qed
    finally have le: "unat (min mx (m_Tokens b + word_of_int ?e * mx div 60))
        \<le> unat (m_Tokens b) + (nat ?e * unat mx) div 60" .
    have t: "int (unat (m_Tokens (refill_bucket mx now b)))
        \<le> int (unat (m_Tokens b)) + (?e * int (unat mx)) div 60"
    proof -
      have "int (unat (m_Tokens b) + (nat ?e * unat mx) div 60)
              = int (unat (m_Tokens b)) + (?e * int (unat mx)) div 60"
        using True by (simp add: zdiv_int)
      then show ?thesis
        using True le of_nat_mono [OF le, where ?'a = int] by (simp add: refill_bucket_def Let_def)
    qed
    have "(?e * int (unat mx)) div 60 * 60 \<le> ?e * int (unat mx)"
      by (rule int_div_60)
    then have "60000000000 * ((?e * int (unat mx)) div 60) \<le> 1000000000 * (?e * int (unat mx))"
      by linarith
    also have "\<dots> = int (unat mx) * (?e * 1000000000)" by (simp only: mult_ac)
    also have "\<dots> \<le> int (unat mx) * (now - m_LastRefill b)"
      using e by (rule mult_left_mono) simp
    finally have "60000000000 * ((?e * int (unat mx)) div 60) \<le> int (unat mx) * (now - m_LastRefill b)" .
    with t True show ?thesis by (simp add: refill_bucket_def Let_def)
  qed (simp add: refill_bucket_def Let_def)
  show "m_LastRefill (refill_bucket mx now b) \<le> now"
    using assms by (simp add: refill_bucket_def Let_def)
  show "m_LastRefill b \<le> m_LastRefill (refill_bucket mx now b)"
    using assms by (simp add: refill_bucket_def Let_def)
qed

text \<open>The number of requests of \<open>ip\<close> that a run lets through.\<close>

fun allowed_for :: "string \<Rightarrow> (int \<times> string) list \<Rightarrow> limiter \<Rightarrow> nat" where
  "allowed_for ip [] l = 0"
| "allowed_for ip ((now, c) # rs) l =
     (case AllowRequest now c l of (ok, l') \<Rightarrow>
        (if c = ip \<and> ok then Suc (allowed_for ip rs l') else allowed_for ip rs l'))"

lemma unat_take: "0 < (w :: size_t) \<Longrightarrow> int (unat (w - 1)) + 1 = int (unat w)"
proof -
  assume "0 < w"
  then have "0 < unat w" by (simp add: unat_gt_0 word_gt_0)
  moreover have "unat (w - 1) = unat w - 1"
    using \<open>0 < w\<close> by (intro unat_minus_one) (simp add: word_gt_0)
  ultimately show ?thesis by linarith
qed

lemma budget_arith:
  fixes a n o' w w' t t' r s :: int
  assumes "n = o' + a" "K * a \<le> K * w' + t" "w' + o' = w" "K * w \<le> K * v + r" "s = t + r"
  shows "K * n \<le> K * v + s"
proof -
  have "K * n = K * o' + K * a" using assms(1) by (simp add: distrib_left)
  also have "\<dots> \<le> K * o' + K * w' + t" using assms(2) by simp
  also have "\<dots> = K * w + t" using assms(3) by (simp add: distrib_left [symmetric] add.commute)
  finally show ?thesis using assms(4,5) by simp
qed

lemma allowed_for_known:
  assumes "m_Buckets l ip = Some b" "\<forall>r\<in>set rs. m_LastRefill b \<le> fst r \<and> fst r \<le> T"
    and "sorted (map fst rs)" "m_LastRefill b \<le> T"
  shows "60000000000 * int (allowed_for ip rs l)
           \<le> 60000000000 * int (unat (m_Tokens b)) + int (unat (m_MaxTokens l)) * (T - m_LastRefill b)"
  using assms
proof (induction ip rs l arbitrary: b rule: allowed_for.induct)
  case (1 ip l)
  then show ?case by simp
next
  case (2 ip now c rs l)
  obtain ok l' where s: "AllowRequest now c l = (ok, l')" by (cases "AllowRequest now c l")
  have mx: "m_MaxTokens l' = m_MaxTokens l" using max_AllowRequest [of now c l] s by simp
  show ?case
  proof (cases "c = ip")
    case False
    then have "m_Buckets l' ip = Some b" using AllowRequest_other [of ip c now l] s "2.prems" by simp
    then show ?thesis using "2.IH"(2) [OF s [symmetric], of b] "2.prems" False s mx by simp
  next
    case True
    let ?r = "refill_bucket (m_MaxTokens l) now b"
    let ?b' = "snd (bucket_step (m_MaxTokens l) now b)"
    have b': "m_Buckets l' ip = Some ?b'" and ok: "ok = (0 < m_Tokens ?r)"
      using s AllowRequest_known [OF "2.prems"(1), of now] True
      by (auto simp: bucket_step_def Let_def split: if_splits)
    have last': "m_LastRefill ?b' = m_LastRefill ?r" by (simp add: bucket_step_def Let_def)
    have tok': "int (unat (m_Tokens ?b')) + (if ok then 1 else 0) = int (unat (m_Tokens ?r))"
    proof (cases "0 < m_Tokens ?r")
      case True
      then show ?thesis using ok unat_take [OF True] by (simp add: bucket_step_def Let_def)
    next
      case False
      then show ?thesis using ok by (simp add: bucket_step_def Let_def)
    qed
    have now: "m_LastRefill b \<le> now" using "2.prems"(2) by simp
    note r = refill_tokens [OF now, of "m_MaxTokens l"]
    have ih: "60000000000 * int (allowed_for ip rs l')
        \<le> 60000000000 * int (unat (m_Tokens ?b')) + int (unat (m_MaxTokens l)) * (T - m_LastRefill ?b')"
    proof -
      have p: "\<forall>r\<in>set rs. m_LastRefill ?b' \<le> fst r \<and> fst r \<le> T" "sorted (map fst rs)"
        "m_LastRefill ?b' \<le> T"
        using "2.prems" r(2) last' by auto
      show ?thesis
        using "2.IH"(1) [OF s [symmetric] _ b' p] "2.IH"(2) [OF s [symmetric] _ b' p] True mx
        by (cases ok) simp_all
    qed
    have sp: "int (unat (m_MaxTokens l)) * (T - m_LastRefill b)
        = int (unat (m_MaxTokens l)) * (T - m_LastRefill ?r)
          + int (unat (m_MaxTokens l)) * (m_LastRefill ?r - m_LastRefill b)"
      by (simp only: distrib_left [symmetric]) simp
    have n: "int (allowed_for ip ((now, c) # rs) l)
        = (if ok then 1 else 0) + int (allowed_for ip rs l')"
      using s True by simp
    show ?thesis
      by (rule budget_arith [OF n ih [unfolded last'] tok' r(1) sp])
  qed
qed

section \<open>Starvation of a steady client\<close>

text \<open>
  \<^verbatim>\<open>m_LastRefill\<close> moves to \<^verbatim>\<open>now\<close> whenever a whole second has passed, also when the refill
  rounds down to no token: the elapsed time is then lost.
\<close>

fun steady :: "size_t \<Rightarrow> int \<Rightarrow> int list \<Rightarrow> bool" where
  "steady mx prev [] = True"
| "steady mx prev (t # ts) =
     (1 \<le> to_seconds (t - prev) \<and> nat (to_seconds (t - prev)) * unat mx < 60 \<and> steady mx t ts)"

lemma refill_nothing:
  assumes "1 \<le> e" "nat e * unat mx < 60" "0 < mx"
  shows "(word_of_int e * mx div 60 :: size_t) = 0"
proof -
  have "unat (word_of_int e * mx) \<le> nat e * unat mx"
    using unat_mult_le [of "word_of_int e" mx] unat_of_secs [of e] assms
    by (meson le_trans mult_le_mono1 order_trans zero_le_one)
  then have "unat (word_of_int e * mx div 60 :: size_t) = 0" using assms by (simp add: unat_div)
  then show ?thesis by (simp only: unat_eq_0)
qed

lemma steady_starved:
  assumes "m_Buckets l ip = Some b" "m_Tokens b = 0" "0 < m_MaxTokens l"
    and "steady (m_MaxTokens l) (m_LastRefill b) ts"
  shows "fst (allow_run (map (\<lambda>t. (t, ip)) ts) l) = replicate (length ts) False"
  using assms
proof (induction ts arbitrary: l b)
  case (Cons t ts)
  let ?b' = "\<lparr>m_Tokens = 0, m_LastRefill = t\<rparr>"
  have "refill_bucket (m_MaxTokens l) t b = ?b'"
    using Cons.prems refill_nothing by (simp add: refill_bucket_def Let_def)
  then have s: "AllowRequest t ip l = (False, l\<lparr>m_Buckets := (m_Buckets l)(ip \<mapsto> ?b')\<rparr>)"
    using Cons.prems by (simp add: AllowRequest_def)
  show ?case
    using Cons.IH [of "l\<lparr>m_Buckets := (m_Buckets l)(ip \<mapsto> ?b')\<rparr>" ?b'] Cons.prems s
    by (auto split: prod.splits)
qed simp

text \<open>A client not yet known to the limiter: its first request opens a bucket.\<close>

lemma allowed_for_unknown:
  assumes "m_Buckets l ip = None" "0 < m_MaxTokens l" "\<forall>r\<in>set rs. t0 \<le> fst r \<and> fst r \<le> T"
    and "sorted (map fst rs)" "t0 \<le> T"
  shows "60000000000 * int (allowed_for ip rs l)
           \<le> 60000000000 * int (unat (m_MaxTokens l)) + int (unat (m_MaxTokens l)) * (T - t0)"
  using assms
proof (induction ip rs l rule: allowed_for.induct)
  case (2 ip now c rs l)
  obtain ok l' where s: "AllowRequest now c l = (ok, l')" by (cases "AllowRequest now c l")
  have mx: "m_MaxTokens l' = m_MaxTokens l" using max_AllowRequest [of now c l] s by simp
  show ?case
  proof (cases "c = ip")
    case False
    then have "m_Buckets l' ip = None" using AllowRequest_other [of ip c now l] s "2.prems" by simp
    then show ?thesis using "2.IH"(2) [OF s [symmetric]] "2.prems" False s mx by simp
  next
    case True
    let ?b = "\<lparr>m_Tokens = m_MaxTokens l - 1, m_LastRefill = now\<rparr>"
    have l': "ok" "m_Buckets l' ip = Some ?b"
      using s "2.prems"(1) True by (auto simp: AllowRequest_def)
    have "60000000000 * int (allowed_for ip rs l')
        \<le> 60000000000 * int (unat (m_Tokens ?b)) + int (unat (m_MaxTokens l')) * (T - m_LastRefill ?b)"
      using "2.prems" l' by (intro allowed_for_known) auto
    moreover have "int (unat (m_MaxTokens l)) * (T - now) \<le> int (unat (m_MaxTokens l)) * (T - t0)"
      using "2.prems"(3) by (intro mult_left_mono) auto
    ultimately show ?thesis
      using unat_take [OF "2.prems"(2)] s True l' mx by simp
  qed
qed simp

section \<open>Properties\<close>



text \<open>
  A client whose bucket is empty and which keeps asking, at gaps of at least a second
  whose refill rounds down to nothing (\<open>gap * limit < 60\<close>), is refused every time, however
  long it waits in total: every attempt moves \<^verbatim>\<open>m_LastRefill\<close> without granting a token.
\<close>

theorem steady_client_starves:
  assumes "m_Buckets l ip = Some b" "m_Tokens b = 0" "0 < m_MaxTokens l"
    and "steady (m_MaxTokens l) (m_LastRefill b) ts"
  shows "fst (allow_run (map (\<lambda>t. (t, ip)) ts) l) = replicate (length ts) False"
  using assms by (rule steady_starved)

text \<open>A client of a 30-per-minute limiter that asks once a second.\<close>

theorem steady_client_starves_witness:
  "fst (allow_run (map (\<lambda>t. (t, ''a'')) [1000000000, 2000000000, 3000000000, 4000000000])
     \<lparr>m_MaxTokens = 30, m_Buckets = [''a'' \<mapsto> \<lparr>m_Tokens = 0, m_LastRefill = 0\<rparr>]\<rparr>)
   = replicate (length [1000000000, 2000000000, 3000000000, 4000000000 :: int]) False"
  by (rule steady_client_starves [where b = "\<lparr>m_Tokens = 0, m_LastRefill = 0\<rparr>"])
     (simp_all add: to_seconds_def)

end
