(* ===== verification/ApiKeyValidator.thy ===== *)
theory ApiKeyValidator
  imports Prelude
begin

text \<open>
  \<^verbatim>\<open>src/security/ApiKeyValidator.cpp\<close> and \<^verbatim>\<open>SecurityHeaders.cpp\<close>: the bearer-token check
  with its constant-time comparison (an OR over the XORs of all byte pairs), and the
  headers every response carries.
\<close>

unbundle bit_operations_syntax

record key_validator =
  m_ExpectedKey :: string
  m_Enabled :: bool

definition bearer_prefix :: string where
  "bearer_prefix = ''Bearer ''"

text \<open>\<^verbatim>\<open>result |= provided[i] ^ expected[i]\<close>, from \<open>i = 0\<close>; \<^verbatim>\<open>char\<close> promotes to a signed \<^verbatim>\<open>int\<close>.\<close>

fun xor_fold :: "32 word \<Rightarrow> string \<Rightarrow> string \<Rightarrow> 32 word" where
  "xor_fold r (a # as) (b # bs) =
     xor_fold (r OR (word_of_int (schar a) XOR word_of_int (schar b))) as bs"
| "xor_fold r as bs = r"

definition Validate :: "key_validator \<Rightarrow> string \<Rightarrow> bool" where
  "Validate v authorizationHeader =
     (if \<not> m_Enabled v then True
      else if length authorizationHeader \<le> length bearer_prefix then False
      else if substr authorizationHeader 0 (length bearer_prefix) \<noteq> bearer_prefix then False
      else let providedKey = drop (length bearer_prefix) authorizationHeader in
        if length providedKey \<noteq> length (m_ExpectedKey v) then False
        else xor_fold 0 providedKey (m_ExpectedKey v) = 0)"

definition SecurityHeaders_GetDefaults :: "(string \<times> string) list" where
  "SecurityHeaders_GetDefaults =
     [(''X-Content-Type-Options'', ''nosniff''),
      (''X-Frame-Options'', ''DENY''),
      (''X-XSS-Protection'', ''1; mode=block''),
      (''Content-Security-Policy'', ''default-src '' @ [SQ] @ ''none'' @ [SQ]),
      (''Cache-Control'', ''no-store''),
      (''Strict-Transport-Security'', ''max-age=31536000; includeSubDomains'')]"

section \<open>The comparison is equality\<close>

lemma schar_inject: "schar a = schar b \<longleftrightarrow> a = b"
  using uchar_lt [of a] uchar_lt [of b] by (auto simp: schar_def split: if_splits)

lemma schar_range: "- 128 \<le> schar a \<and> schar a < 128"
  using uchar_lt [of a] by (auto simp: schar_def)

lemma word_schar_inject: "(word_of_int (schar a) :: 32 word) = word_of_int (schar b) \<longleftrightarrow> a = b"
proof
  assume "(word_of_int (schar a) :: 32 word) = word_of_int (schar b)"
  then have "sint (word_of_int (schar a) :: 32 word) = sint (word_of_int (schar b) :: 32 word)" by simp
  then have "schar a = schar b"
    using schar_range [of a] schar_range [of b]
    by (simp add: sint_sbintrunc' signed_take_bit_int_eq_self)
  then show "a = b" by (simp add: schar_inject)
qed simp

lemma word_or_zero: "(a OR b :: 'a::len word) = 0 \<longleftrightarrow> a = 0 \<and> b = 0"
  by (auto simp: bit_eq_iff bit_simps)

lemma word_xor_zero: "(a XOR b :: 'a::len word) = 0 \<longleftrightarrow> a = b"
  by (auto simp: bit_eq_iff bit_simps)

lemma xor_fold_zero:
  "length as = length bs \<Longrightarrow> xor_fold r as bs = 0 \<longleftrightarrow> r = 0 \<and> as = bs"
  by (induction r as bs rule: xor_fold.induct)
     (auto simp: word_or_zero word_xor_zero word_schar_inject)

lemma take_drop_eq: "take (length p) h = p \<and> drop (length p) h = k \<longleftrightarrow> h = p @ k"
  by (metis append_eq_conv_conj)

lemma Validate_iff:
  "Validate v h \<longleftrightarrow> \<not> m_Enabled v \<or> (m_ExpectedKey v \<noteq> [] \<and> h = bearer_prefix @ m_ExpectedKey v)"
proof -
  have "Validate v h \<longleftrightarrow> \<not> m_Enabled v \<or> (length bearer_prefix < length h \<and>
          take (length bearer_prefix) h = bearer_prefix \<and> drop (length bearer_prefix) h = m_ExpectedKey v)"
    using xor_fold_zero [of "drop (length bearer_prefix) h" "m_ExpectedKey v" 0]
    by (auto simp: Validate_def Let_def substr_def) (metis length_drop)+
  also have "\<dots> \<longleftrightarrow> \<not> m_Enabled v \<or> (m_ExpectedKey v \<noteq> [] \<and> h = bearer_prefix @ m_ExpectedKey v)"
    using take_drop_eq [of bearer_prefix h "m_ExpectedKey v"] by auto
  finally show ?thesis .
qed

section \<open>Properties\<close>

text \<open>
  With authentication on, exactly the header \<^verbatim>\<open>Bearer \<close> followed by the expected,
  non-empty key is accepted; the constant-time fold over 32-bit words decides equality.  An
  empty expected key admits nobody.
\<close>

theorem Validate_exact:
  "Validate v h \<longleftrightarrow>
     (m_Enabled v \<longrightarrow> m_ExpectedKey v \<noteq> [] \<and> h = bearer_prefix @ m_ExpectedKey v)"
  using Validate_iff [of v h] by blast

theorem Validate_exact_witness:
  "\<not> Validate \<lparr>m_ExpectedKey = [], m_Enabled = True\<rparr> bearer_prefix
     \<and> Validate \<lparr>m_ExpectedKey = ''k1'', m_Enabled = True\<rparr> ''Bearer k1''"
  unfolding Validate_exact by (simp add: bearer_prefix_def)

end
