(* ===== verification/InputSanitizer.thy ===== *)
theory InputSanitizer
  imports Json
begin

text \<open>
  \<^verbatim>\<open>src/validation/InputSanitizer.cpp\<close>: the byte filter for strings, the JSON nesting
  check and the payload size check.
\<close>

definition sanitize_keep :: "char \<Rightarrow> bool" where
  "sanitize_keep c \<longleftrightarrow> 32 \<le> schar c \<or> c = NL \<or> c = CR \<or> c = TAB"

text \<open>The loop over the input; it stops as soon as the result holds \<open>maxLength\<close> bytes.\<close>

fun sanitize_loop :: "nat \<Rightarrow> string \<Rightarrow> string \<Rightarrow> string" where
  "sanitize_loop maxLength result [] = result"
| "sanitize_loop maxLength result (c # cs) =
     (if length result < maxLength then
        sanitize_loop maxLength (if sanitize_keep c then result @ [c] else result) cs
      else result)"

definition SanitizeString :: "string \<Rightarrow> nat \<Rightarrow> string" where
  "SanitizeString input maxLength = sanitize_loop maxLength [] input"

definition ValidatePayloadSize :: "string \<Rightarrow> nat \<Rightarrow> bool" where
  "ValidatePayloadSize body maxBytes \<longleftrightarrow> length body \<le> maxBytes"

fun CheckDepth :: "json \<Rightarrow> int \<Rightarrow> int \<Rightarrow> bool" where
  "CheckDepth (JObj kvs) currentDepth maxDepth =
     (currentDepth \<le> maxDepth \<and> list_all (\<lambda>(key, val). CheckDepth val (currentDepth + 1) maxDepth) kvs)"
| "CheckDepth (JArr xs) currentDepth maxDepth =
     (currentDepth \<le> maxDepth \<and> list_all (\<lambda>elem. CheckDepth elem (currentDepth + 1) maxDepth) xs)"
| "CheckDepth j currentDepth maxDepth = (currentDepth \<le> maxDepth)"

definition ValidateJsonDepth :: "json \<Rightarrow> int \<Rightarrow> bool" where
  "ValidateJsonDepth j maxDepth = CheckDepth j 0 maxDepth"

section \<open>Specification\<close>

text \<open>The nesting depth of a value: scalars 0, a container one more than its deepest member.\<close>

fun depth :: "json \<Rightarrow> nat" where
  "depth (JObj kvs) = (if kvs = [] then 0 else Suc (Max (set (map (\<lambda>(k, v). depth v) kvs))))"
| "depth (JArr xs) = (if xs = [] then 0 else Suc (Max (set (map depth xs))))"
| "depth j = 0"

lemma Max_shift:
  assumes "finite S" "S \<noteq> {}"
  shows "(\<forall>x\<in>S. d + 1 + int x \<le> m) \<longleftrightarrow> d + int (Suc (Max S)) \<le> m"
proof
  assume "\<forall>x\<in>S. d + 1 + int x \<le> m"
  then show "d + int (Suc (Max S)) \<le> m" using Max_in [OF assms] by auto
next
  assume m: "d + int (Suc (Max S)) \<le> m"
  show "\<forall>x\<in>S. d + 1 + int x \<le> m"
  proof
    fix x assume "x \<in> S"
    then have "x \<le> Max S" using assms by simp
    with m show "d + 1 + int x \<le> m" by linarith
  qed
qed

lemma CheckDepth_iff: "CheckDepth j d m \<longleftrightarrow> d + int (depth j) \<le> m"
proof (induction j d m rule: CheckDepth.induct)
  case (1 kvs d m)
  have e: "list_all (\<lambda>(key, val). CheckDepth val (d + 1) m) kvs
          \<longleftrightarrow> (\<forall>x\<in>set (map (\<lambda>(k, v). depth v) kvs). d + 1 + int x \<le> m)"
  proof -
    have "CheckDepth (snd x) (d + 1) m \<longleftrightarrow> d + 1 + int (depth (snd x)) \<le> m" if "x \<in> set kvs" for x
      using "1.IH" [OF that, of "fst x" "snd x"] by simp
    then show ?thesis by (simp add: list_all_iff split_beta)
  qed
  show ?case
  proof (cases "kvs = []")
    case False
    then show ?thesis
      using e Max_shift [of "set (map (\<lambda>(k, v). depth v) kvs)" d m] by (auto simp del: set_map)
  qed simp
next
  case (2 xs d m)
  have e: "list_all (\<lambda>elem. CheckDepth elem (d + 1) m) xs
          \<longleftrightarrow> (\<forall>x\<in>set (map depth xs). d + 1 + int x \<le> m)"
    using "2.IH" by (simp add: list_all_iff)
  show ?case
  proof (cases "xs = []")
    case False
    then show ?thesis
      using e Max_shift [of "set (map depth xs)" d m] by (auto simp del: set_map)
  qed simp
qed auto

lemma sanitize_loop_eq:
  "length r \<le> n \<Longrightarrow> sanitize_loop n r s = take n (r @ filter sanitize_keep s)"
proof (induction n r s rule: sanitize_loop.induct)
  case (2 n r c cs)
  then show ?case by (cases "length r < n") (auto simp: take_Cons')
qed auto

lemma SanitizeString_eq: "SanitizeString s n = take n (filter sanitize_keep s)"
  by (simp add: SanitizeString_def sanitize_loop_eq)

section \<open>Properties\<close>

text \<open>
  A JSON value passes the depth check exactly when its nesting depth is at most the
  limit, an empty container counting as a scalar.
\<close>

theorem depth_check_exact: "ValidateJsonDepth j m \<longleftrightarrow> int (depth j) \<le> m"
  by (simp add: ValidateJsonDepth_def CheckDepth_iff)

text \<open>
  Sanitising keeps, in order, the first \<open>n\<close> of the admissible bytes: no control byte
  below 32 other than newline, carriage return and tab, and no byte from 128 up (\<^verbatim>\<open>char\<close> is
  signed); sanitising again changes nothing.
\<close>

theorem sanitize_spec:
  "SanitizeString s n = take n (filter sanitize_keep s)
   \<and> SanitizeString (SanitizeString s n) n = SanitizeString s n
   \<and> list_all (\<lambda>c. uchar c < 128 \<and> (32 \<le> uchar c \<or> c = NL \<or> c = CR \<or> c = TAB)) (SanitizeString s n)"
proof -
  have k: "uchar c < 128 \<and> (32 \<le> uchar c \<or> c = NL \<or> c = CR \<or> c = TAB)" if "sanitize_keep c" for c
  proof -
    have "uchar NL < 128" "uchar CR < 128" "uchar TAB < 128" by (simp_all add: uchar_def)
    then show ?thesis
      using that uchar_lt [of c] by (auto simp: sanitize_keep_def schar_def split: if_splits)
  qed
  have f: "filter sanitize_keep (take n (filter sanitize_keep s)) = take n (filter sanitize_keep s)"
    by (rule filter_True) (auto dest: in_set_takeD)
  show ?thesis
    by (simp add: SanitizeString_eq f list_all_iff) (auto dest!: in_set_takeD dest: k)
qed

end
