(* ===== verification/ProtocolHandler.thy ===== *)
theory ProtocolHandler
  imports CommandRegistry RateLimiter ApiKeyValidator InputSanitizer
begin

text \<open>
  \<^verbatim>\<open>src/core/ProtocolHandler.cpp\<close> and the HTTP status mapping of the \<^verbatim>\<open>/mcp\<close> route in
  \<^verbatim>\<open>src/server_entry.cpp\<close>: the gates a request passes before a tool runs.  The JSON library
  and the schema validator are not part of the repository; they are the parameters \<open>J\<close> and
  \<open>V\<close> (\<open>V schema data\<close>), and \<open>draft7\<close> states what the validator is documented to decide for
  the two schemas of this file.  The state of the server is the limiter, if there is one,
  and the pair of tool registry and rest of the world.
\<close>

type_synonym ('c, 'w) server_state = "limiter option \<times> 'c registry \<times> 'w"

record handler =
  m_ApiKeyValidator :: "key_validator option"
  m_MaxBodySize :: nat

definition kMaxJsonDepth :: int where "kMaxJsonDepth = 32"

definition requestSchema :: json where
  "requestSchema = JObj
     [(''$schema'', JStr ''http://json-schema.org/draft-07/schema#''),
      (''type'', JStr ''object''),
      (''properties'', JObj [(''command'', JObj [(''type'', JStr ''string'')]),
                             (''payload'', JObj [(''type'', JStr ''object'')])]),
      (''required'', JArr [JStr ''command''])]"

definition responseSchema :: json where
  "responseSchema = JObj
     [(''$schema'', JStr ''http://json-schema.org/draft-07/schema#''),
      (''type'', JStr ''object''),
      (''properties'', JObj [(''status'', JObj [(''type'', JStr ''string'')])]),
      (''required'', JArr [JStr ''status''])]"

definition ValidateRequest :: "(json \<Rightarrow> json \<Rightarrow> bool) \<Rightarrow> json \<Rightarrow> bool" where
  "ValidateRequest V req = V requestSchema req"

definition error_reply :: "string \<Rightarrow> json" where
  "error_reply e = JObj [(''status'', JStr ''error''), (''error'', JStr e)]"

definition Handle ::
    "(json \<Rightarrow> json \<Rightarrow> bool) \<Rightarrow> ('c, 'w) strategy \<Rightarrow> json \<Rightarrow> 'c registry \<times> 'w
     \<Rightarrow> json res \<times> 'c registry \<times> 'w" where
  "Handle V S request s =
     (if \<not> ValidateRequest V request then (Inr (error_reply ''Invalid request schema''), s)
      else (case get_string (j_at request ''command'') of
        Inl e \<Rightarrow> (Inl e, s)
      | Inr command \<Rightarrow>
          (case Resolve (fst s) command of
             None \<Rightarrow> (Inr (JObj [(''status'', JStr ''error''),
                               (''error'', JStr (''Unknown command: '' @ command)),
                               (''available_commands'', JArr (map JStr (ListCommands (fst s))))]), s)
           | Some cmd \<Rightarrow>
               (case ExecuteWithChaining S command request 0 s of
                  (Inl e, s') \<Rightarrow> if is_std_exception e then (Inr (error_reply ''Command execution failed''), s')
                               else (Inl e, s')
                | (Inr result, s') \<Rightarrow> (Inr result, s')))))"

definition quote_error :: "string \<Rightarrow> string" where
  "quote_error e = ''{'' @ [DQ] @ ''status'' @ [DQ] @ '':'' @ [DQ] @ ''error'' @ [DQ] @ '','' @ [DQ]
     @ ''error'' @ [DQ] @ '':'' @ [DQ] @ e @ [DQ] @ ''}''"

definition CreateResponse :: "jlib \<Rightarrow> (json \<Rightarrow> json \<Rightarrow> bool) \<Rightarrow> json \<Rightarrow> string res" where
  "CreateResponse J V data =
     (if \<not> V responseSchema data then Inr (quote_error ''Invalid response'') else jdump J data)"

text \<open>The rate check of one request; without a limiter every request passes.\<close>

definition rate_gate :: "int \<Rightarrow> string \<Rightarrow> limiter option \<Rightarrow> bool \<times> limiter option" where
  "rate_gate now clientIp lo =
     (case lo of None \<Rightarrow> (True, None)
      | Some l \<Rightarrow> (case AllowRequest now clientIp l of (ok, l') \<Rightarrow> (ok, Some l')))"

definition auth_gate :: "handler \<Rightarrow> string \<Rightarrow> bool" where
  "auth_gate h authHeader =
     (case m_ApiKeyValidator h of None \<Rightarrow> True
      | Some v \<Rightarrow> if m_Enabled v then Validate v authHeader else True)"

definition HandleRequest ::
    "jlib \<Rightarrow> (json \<Rightarrow> json \<Rightarrow> bool) \<Rightarrow> ('c, 'w) strategy \<Rightarrow> handler \<Rightarrow> int \<Rightarrow> string \<Rightarrow> string \<Rightarrow> string
     \<Rightarrow> ('c, 'w) server_state \<Rightarrow> string res \<times> ('c, 'w) server_state" where
  "HandleRequest J V S h now body clientIp authHeader = (\<lambda>(lo, s).
     if \<not> ValidatePayloadSize body (m_MaxBodySize h) then (Inr (quote_error ''Payload too large''), lo, s)
     else (case rate_gate now clientIp lo of (ok, lo') \<Rightarrow>
       if \<not> ok then (Inr (quote_error ''Rate limit exceeded''), lo', s)
       else if \<not> auth_gate h authHeader then (Inr (quote_error ''Unauthorized''), lo', s)
       else (case jparse J body of
           None \<Rightarrow> (Inr (quote_error ''Invalid JSON''), lo', s)
         | Some req \<Rightarrow>
             if \<not> ValidateJsonDepth req kMaxJsonDepth
             then (Inr (quote_error ''JSON nesting too deep''), lo', s)
             else (case Handle V S req s of
                 (Inl e, s') \<Rightarrow> (Inl e, lo', s')
               | (Inr result, s') \<Rightarrow> (CreateResponse J V result, lo', s')))))"

section \<open>The status code of the route\<close>

definition mcp_status :: "jlib \<Rightarrow> string \<Rightarrow> nat" where
  "mcp_status J result =
     (case jparse J result of None \<Rightarrow> 200
      | Some parsed \<Rightarrow>
          (case value_str parsed ''error'' [] of Inl e \<Rightarrow> 200
           | Inr err \<Rightarrow>
               if err = ''Payload too large'' then 413
               else if err = ''Rate limit exceeded'' then 429
               else if err = ''Unauthorized'' then 401
               else if err = ''Invalid JSON'' then 400
               else if err = ''JSON nesting too deep'' then 400
               else if j_contains parsed ''error'' then 400 else 200))"

section \<open>What the two libraries are documented to do\<close>

definition request_ok :: "json \<Rightarrow> bool" where
  "request_ok j \<longleftrightarrow> (case j_lookup j ''command'' of Some c \<Rightarrow> is_string c | None \<Rightarrow> False)
     \<and> (case j_lookup j ''payload'' of Some p \<Rightarrow> is_object p | None \<Rightarrow> True)"

definition response_ok :: "json \<Rightarrow> bool" where
  "response_ok j \<longleftrightarrow> (case j_lookup j ''status'' of Some c \<Rightarrow> is_string c | None \<Rightarrow> False)"

definition draft7 :: "(json \<Rightarrow> json \<Rightarrow> bool) \<Rightarrow> bool" where
  "draft7 V \<longleftrightarrow> (\<forall>j. V requestSchema j = request_ok j) \<and> (\<forall>j. V responseSchema j = response_ok j)"

text \<open>Parsing of a literal the handler writes itself.\<close>

definition parses_replies :: "jlib \<Rightarrow> bool" where
  "parses_replies J \<longleftrightarrow> list_all (\<lambda>e. jparse J (quote_error e) = Some (error_reply e))
     [''Payload too large'', ''Rate limit exceeded'', ''Unauthorized'', ''Invalid JSON'',
      ''JSON nesting too deep'', ''Invalid response'']"

text \<open>A request that passes every gate, and the command it names.\<close>

definition cleared ::
    "jlib \<Rightarrow> (json \<Rightarrow> json \<Rightarrow> bool) \<Rightarrow> handler \<Rightarrow> int \<Rightarrow> string \<Rightarrow> string \<Rightarrow> string
     \<Rightarrow> ('c, 'w) server_state \<Rightarrow> bool" where
  "cleared J V h now body clientIp authHeader st \<longleftrightarrow>
     length body \<le> m_MaxBodySize h \<and> fst (rate_gate now clientIp (fst st))
     \<and> (case m_ApiKeyValidator h of None \<Rightarrow> True | Some v \<Rightarrow> m_Enabled v \<longrightarrow>
          m_ExpectedKey v \<noteq> [] \<and> authHeader = bearer_prefix @ m_ExpectedKey v)
     \<and> (case jparse J body of None \<Rightarrow> False
         | Some req \<Rightarrow> depth req \<le> 32 \<and> V requestSchema req
             \<and> (case j_at req ''command'' of JStr c \<Rightarrow> Resolve (fst (snd st)) c \<noteq> None | _ \<Rightarrow> False))"

lemma auth_gate_iff:
  "auth_gate h a \<longleftrightarrow> (case m_ApiKeyValidator h of None \<Rightarrow> True | Some v \<Rightarrow> m_Enabled v \<longrightarrow>
     m_ExpectedKey v \<noteq> [] \<and> a = bearer_prefix @ m_ExpectedKey v)"
  by (auto simp: auth_gate_def Validate_iff split: option.splits)

lemma Handle_untouched:
  "snd (Handle V S req s) \<noteq> s \<Longrightarrow> V requestSchema req
     \<and> (case j_at req ''command'' of JStr c \<Rightarrow> Resolve (fst s) c \<noteq> None | _ \<Rightarrow> False)"
  by (cases "j_at req ''command''")
     (auto simp: Handle_def ValidateRequest_def split: if_splits option.splits)

lemma depth_gate: "ValidateJsonDepth req kMaxJsonDepth \<longleftrightarrow> depth req \<le> 32"
  by (simp add: ValidateJsonDepth_def CheckDepth_iff kMaxJsonDepth_def)

lemma Handle_returns:
  assumes "draft7 V" "throws_std S"
  shows "\<exists>j. fst (Handle V S req s) = Inr j"
proof (cases "V requestSchema req")
  case True
  then obtain c where "j_at req ''command'' = JStr c"
    using assms(1) by (auto simp: draft7_def request_ok_def j_at_def is_string_iff split: option.splits)
  then show ?thesis
    using chain_throws_std [OF assms(2), of c req 0 s]
    by (cases "ExecuteWithChaining S c req 0 s")
       (auto simp: Handle_def ValidateRequest_def split: option.splits sum.splits)
qed (simp add: Handle_def ValidateRequest_def)

section \<open>Properties\<close>

text \<open>
  C2: No tool runs, and nothing but the limiter changes, unless the request passed every
  gate: the body fits, the limiter lets the client through, the bearer key is right when
  authentication is on, the body parses to a value of depth at most 32 that satisfies the
  request schema, and the command it names is registered.
\<close>

theorem no_execution_without_clearance:
  assumes "snd (snd (HandleRequest J V S h now body ip a st)) \<noteq> snd st"
  shows "cleared J V h now body ip a st"
proof -
  obtain lo s where st: "st = (lo, s)" by (cases st)
  obtain ok lo' where g: "rate_gate now ip lo = (ok, lo')" by (cases "rate_gate now ip lo")
  obtain req where "length body \<le> m_MaxBodySize h" "ok" "auth_gate h a" "jparse J body = Some req"
    "depth req \<le> 32" "snd (Handle V S req s) \<noteq> s"
    using assms
    by (auto simp: st g HandleRequest_def ValidatePayloadSize_def depth_gate
        split: if_splits option.splits sum.splits prod.splits)
  with Handle_untouched [of V S req s] show ?thesis
    by (auto simp: cleared_def st g auth_gate_iff split: json.splits)
qed

text \<open>A parser that knows one body, and a validator that behaves as documented.\<close>

definition ex_lib :: jlib where
  "ex_lib = \<lparr>jparse = \<lambda>s. if s = ''run'' then Some (JObj [(''command'', JStr ''plain'')]) else None,
             jdump = \<lambda>j. Inr ''reply''\<rparr>"

definition ex_validator :: "json \<Rightarrow> json \<Rightarrow> bool" where
  "ex_validator schema j = (if schema = requestSchema then request_ok j else response_ok j)"

definition ex_handler :: handler where
  "ex_handler = \<lparr>m_ApiKeyValidator = Some \<lparr>m_ExpectedKey = ''k'', m_Enabled = True\<rparr>, m_MaxBodySize = 10\<rparr>"

lemma draft7_ex: "draft7 ex_validator"
  by (simp add: draft7_def ex_validator_def requestSchema_def responseSchema_def)

theorem no_execution_without_clearance_witness:
  "cleared ex_lib ex_validator ex_handler 0 ''run'' ''ip'' ''Bearer k'' (None, ex_registry, 0 :: nat)"
  by (rule no_execution_without_clearance [where S = ex_strategy])
     (simp add: HandleRequest_def ex_handler_def ex_lib_def ex_validator_def rate_gate_def
       ValidatePayloadSize_def auth_gate_def Validate_iff bearer_prefix_def depth_gate Handle_def
       ValidateRequest_def request_ok_def j_at_def ExecuteWithChaining.simps ex_registry_def
       empty_registry_def Resolve_def ex_strategy_def next_link_def j_contains_def kMaxChainDepth_def)

text \<open>
  If the validator decides the two schemas as documented, no tool throws anything but a
  \<^verbatim>\<open>std::exception\<close>, and dumping never fails, then every request is answered: no exception
  leaves the handler, whatever the body, the chain of tools or the result.
\<close>

theorem always_answers:
  assumes "draft7 V" "throws_std S" "\<forall>j. \<exists>out. jdump J j = Inr out"
  shows "\<exists>out. fst (HandleRequest J V S h now body ip a st) = Inr out"
proof -
  obtain lo s where st: "st = (lo, s)" by (cases st)
  obtain ok lo' where g: "rate_gate now ip lo = (ok, lo')" by (cases "rate_gate now ip lo")
  have "\<exists>out. CreateResponse J V j = Inr out" for j
    using assms(3) by (simp add: CreateResponse_def)
  then show ?thesis
    using Handle_returns [OF assms(1,2), of _ s]
    by (simp add: st g HandleRequest_def split: option.splits sum.splits prod.splits)
       (metis Inl_Inr_False fst_conv)
qed

theorem always_answers_witness:
  "\<exists>out. fst (HandleRequest ex_lib ex_validator ex_strategy ex_handler 0 ''run'' ''ip'' ''Bearer k''
     (None, ex_registry, 0 :: nat)) = Inr out"
  by (rule always_answers [OF draft7_ex])
     (auto simp: throws_std_def ex_strategy_def ex_lib_def)

text \<open>
  The HTTP status of a refused request tells the gate that refused it, in the order of the
  gates: 413 for the size, 429 for the rate, 401 for the key, 400 for text that is not JSON
  or nests too deep; and a refusal leaves tools and world alone.  An oversized body costs no
  token, every later refusal does.
\<close>

theorem refusal_status:
  assumes "parses_replies J"
    and "HandleRequest J V S h now body ip a (lo, s) = (Inr out, lo', s')"
    and "\<not> (length body \<le> m_MaxBodySize h \<and> fst (rate_gate now ip lo) \<and> auth_gate h a
            \<and> (\<exists>req. jparse J body = Some req \<and> depth req \<le> 32))"
  shows "mcp_status J out =
      (if m_MaxBodySize h < length body then 413
       else if \<not> fst (rate_gate now ip lo) then 429
       else if \<not> auth_gate h a then 401 else 400)
    \<and> s' = s \<and> lo' = (if m_MaxBodySize h < length body then lo else snd (rate_gate now ip lo))"
proof -
  obtain ok lo1 where g: "rate_gate now ip lo = (ok, lo1)" by (cases "rate_gate now ip lo")
  have p: "jparse J (quote_error e) = Some (error_reply e)"
    if "e \<in> {''Payload too large'', ''Rate limit exceeded'', ''Unauthorized'', ''Invalid JSON'',
             ''JSON nesting too deep''}" for e
    using assms(1) that by (auto simp: parses_replies_def)
  have m: "mcp_status J (quote_error ''Payload too large'') = 413"
    "mcp_status J (quote_error ''Rate limit exceeded'') = 429"
    "mcp_status J (quote_error ''Unauthorized'') = 401"
    "mcp_status J (quote_error ''Invalid JSON'') = 400"
    "mcp_status J (quote_error ''JSON nesting too deep'') = 400"
    by (simp_all add: mcp_status_def p error_reply_def value_defs)
  show ?thesis
    using assms(2,3)
    by (auto simp: g m HandleRequest_def ValidatePayloadSize_def depth_gate
        split: if_splits option.splits)
qed

theorem refusal_status_witness:
  "mcp_status \<lparr>jparse = \<lambda>t. map_of (map (\<lambda>e. (quote_error e, error_reply e))
       [''Payload too large'', ''Rate limit exceeded'', ''Unauthorized'', ''Invalid JSON'',
        ''JSON nesting too deep'', ''Invalid response'']) t, jdump = \<lambda>j. Inr []\<rparr>
     (quote_error ''Unauthorized'') = 401"
proof -
  let ?J = "\<lparr>jparse = \<lambda>t. map_of (map (\<lambda>e. (quote_error e, error_reply e))
       [''Payload too large'', ''Rate limit exceeded'', ''Unauthorized'', ''Invalid JSON'',
        ''JSON nesting too deep'', ''Invalid response'']) t, jdump = \<lambda>j. Inr []\<rparr>"
  have 1: "parses_replies ?J" by (simp add: parses_replies_def quote_error_def)
  have na: "\<not> auth_gate ex_handler ''Bearer x''"
    by (simp add: auth_gate_def ex_handler_def Validate_iff bearer_prefix_def)
  have 2: "HandleRequest ?J ex_validator ex_strategy ex_handler 0 ''run'' ''ip'' ''Bearer x'' (None, ex_registry, 0)
      = (Inr (quote_error ''Unauthorized''), None, ex_registry, 0)"
    using na by (simp add: HandleRequest_def rate_gate_def ValidatePayloadSize_def ex_handler_def)
  show ?thesis
    using refusal_status [OF 1 2] na by (simp add: rate_gate_def) (simp add: ex_handler_def)
qed

end
