(* ===== verification/Hashline.thy ===== *)
theory Hashline
  imports Prelude
begin

text \<open>
  \<^verbatim>\<open>src/core/Hashline.cpp\<close>: files as numbered, hashed lines; the paged rendering of a
  file; and the application of edit hunks whose anchors name a line and its hash.
  Line numbers are \<^verbatim>\<open>int\<close> in the source and \<open>int\<close> here (a file would need more than
  \<open>2^31\<close> lines to overflow them).  \<open>Undefined\<close> marks the one place where the C++ code has
  undefined behaviour: \<^verbatim>\<open>vector::erase\<close> with an end past the vector.
\<close>

unbundle bit_operations_syntax

section \<open>Lines and their hashes\<close>

definition NormalizeLine :: "string \<Rightarrow> string" where
  "NormalizeLine line = trim_by isspace (map (\<lambda>c. if c = TAB then CHR '' '' else c) line)"

text \<open>FNV-1a over 32-bit words: \<^verbatim>\<open>h ^= c; h *= 16777619u\<close>.\<close>

fun fnv1a :: "32 word \<Rightarrow> string \<Rightarrow> 32 word" where
  "fnv1a h [] = h"
| "fnv1a h (c # cs) = fnv1a ((h XOR word_of_nat (uchar c)) * 16777619) cs"

definition hex_digit :: "nat \<Rightarrow> char" where
  "hex_digit d = (if d < 10 then char_of (48 + d) else char_of (87 + d))"

text \<open>\<^verbatim>\<open>snprintf(buf, 5, "%04x", v)\<close> for a value below \<open>2^16\<close>.\<close>

definition hex4 :: "nat \<Rightarrow> string" where
  "hex4 v = [hex_digit (v div 4096 mod 16), hex_digit (v div 256 mod 16),
             hex_digit (v div 16 mod 16), hex_digit (v mod 16)]"

definition LineHash :: "string \<Rightarrow> string" where
  "LineHash line = hex4 (unat (fnv1a 2166136261 (NormalizeLine line) AND 0xFFFF))"

record hline =
  lineNumber :: int
  lineHash :: string
  lineText :: string

record hunk =
  startLine :: int
  startHash :: string
  endLine :: int
  endHash :: string
  hunkContent :: string

definition mk_line :: "int \<Rightarrow> string \<Rightarrow> hline" where
  "mk_line n t = \<lparr>lineNumber = n, lineHash = LineHash t, lineText = t\<rparr>"

section \<open>ParseFile\<close>

text \<open>
  The loop of \<^verbatim>\<open>ParseFile\<close>: \<open>cur\<close> is \<^verbatim>\<open>content[start..i)\<close>.  At the end of the content an
  empty \<open>cur\<close> is the trailing newline, which opens no further line.
\<close>

fun parse_lines :: "int \<Rightarrow> string \<Rightarrow> string \<Rightarrow> hline list" where
  "parse_lines num cur [] = (if cur = [] then [] else [mk_line num (strip_cr cur)])"
| "parse_lines num cur (c # cs) =
     (if c = NL then mk_line num (strip_cr cur) # parse_lines (num + 1) [] cs
      else parse_lines num (cur @ [c]) cs)"

definition ParseFile :: "string \<Rightarrow> hline list" where
  "ParseFile s = (if s = [] then [] else parse_lines 1 [] s)"

section \<open>FormatRead\<close>

definition fmt_line :: "bool \<Rightarrow> hline \<Rightarrow> string" where
  "fmt_line hashes l =
     (if hashes then int_str (lineNumber l) @ ''|'' @ lineHash l @ ''|'' @ lineText l @ [NL]
      else int_str (lineNumber l) @ ''|'' @ lineText l @ [NL])"

text \<open>The loop over \<open>lines[offset..]\<close>, returning the text, \<^verbatim>\<open>truncated\<close> and \<^verbatim>\<open>nextLine\<close>.\<close>

fun fmt_loop :: "bool \<Rightarrow> int \<Rightarrow> int \<Rightarrow> hline list \<Rightarrow> string \<times> bool \<times> int" where
  "fmt_loop hashes limit emitted [] = ([], False, 0)"
| "fmt_loop hashes limit emitted (l # ls) =
     (if limit \<le> emitted then ([], True, lineNumber l)
      else (case fmt_loop hashes limit (emitted + 1) ls of
              (out, truncated, nextLine) \<Rightarrow> (fmt_line hashes l @ out, truncated, nextLine)))"

definition FormatRead :: "hline list \<Rightarrow> int \<Rightarrow> int \<Rightarrow> bool \<Rightarrow> string \<times> bool \<times> int" where
  "FormatRead lines offset limit hashes =
     (let off = (if offset < 0 then 0 else offset);
          lim = (if limit < 0 then 0 else limit)
      in fmt_loop hashes lim 0 (drop (nat off) lines))"

section \<open>ApplyHunks\<close>

definition FindLine :: "hline list \<Rightarrow> int \<Rightarrow> hline option" where
  "FindLine lines n =
     (if n \<le> 0 \<or> int (length lines) < n then None
      else if lineNumber (lines ! nat (n - 1)) \<noteq> n then None
      else Some (lines ! nat (n - 1)))"

definition hunk_end :: "hunk \<Rightarrow> int" where
  "hunk_end h = (if 0 < endLine h then endLine h else startLine h)"

text \<open>The overlap check over the hunks sorted by start line.\<close>

fun overlapping :: "hunk list \<Rightarrow> bool" where
  "overlapping (a # b # hs) = (startLine b \<le> hunk_end a \<or> overlapping (b # hs))"
| "overlapping hs = False"

text \<open>The replacement lines of a hunk: the loop over \<^verbatim>\<open>h.content\<close> with its \<^verbatim>\<open>flush\<close> lambda.\<close>

fun content_loop :: "string \<Rightarrow> string \<Rightarrow> string list" where
  "content_loop cur [] = (if cur = [] then [] else [strip_cr cur])"
| "content_loop cur (c # cs) =
     (if c = NL then strip_cr cur # content_loop [] cs else content_loop (cur @ [c]) cs)"

definition inserted_texts :: "hunk \<Rightarrow> string list" where
  "inserted_texts h = content_loop [] (hunkContent h)"

fun number_from :: "int \<Rightarrow> string list \<Rightarrow> hline list" where
  "number_from n [] = []"
| "number_from n (t # ts) = mk_line n t # number_from (n + 1) ts"

fun renumber :: "int \<Rightarrow> hline list \<Rightarrow> hline list" where
  "renumber n [] = []"
| "renumber n (l # ls) = l\<lparr>lineNumber := n\<rparr> # renumber (n + 1) ls"

datatype apply_result = Applied string | Rejected string | Undefined

datatype hunk_result = Spliced "hline list" | Stale string | PastEnd

text \<open>One iteration of the loop over the hunks in descending order of their start lines.\<close>

definition apply_hunk :: "hline list \<Rightarrow> hunk \<Rightarrow> hunk_result" where
  "apply_hunk working h =
     (if startLine h \<le> 0 then Stale ''Invalid hunk start line''
      else let e = hunk_end h in
      if e < startLine h then Stale ''Hunk end line is before start line''
      else (case FindLine working (startLine h) of
        None \<Rightarrow> Stale (''Stale hunk: start line '' @ int_str (startLine h) @ '' does not exist'')
      | Some start \<Rightarrow>
          if lineHash start \<noteq> startHash h then
            Stale (''Stale hunk: expected '' @ int_str (startLine h) @ '':'' @ startHash h
                   @ '' but file has '' @ int_str (lineNumber start) @ '':'' @ lineHash start)
          else if endHash h \<noteq> [] \<and> e \<noteq> startLine h \<and>
                  (case FindLine working e of None \<Rightarrow> True | Some el \<Rightarrow> lineHash el \<noteq> endHash h) then
            Stale (''Stale hunk: end anchor mismatch at line '' @ int_str e)
          else if int (length working) < e then PastEnd
          else Spliced (renumber 1 (take (nat (startLine h - 1)) working
                                    @ number_from (startLine h) (inserted_texts h)
                                    @ drop (nat e) working))))"

fun apply_all :: "hline list \<Rightarrow> hunk list \<Rightarrow> hunk_result" where
  "apply_all working [] = Spliced working"
| "apply_all working (h # hs) =
     (case apply_hunk working h of Spliced w \<Rightarrow> apply_all w hs | r \<Rightarrow> r)"

definition ApplyHunks :: "hline list \<Rightarrow> hunk list \<Rightarrow> apply_result" where
  "ApplyHunks lines hunks =
     (if hunks = [] then Rejected ''hunks must not be empty''
      else if overlapping (sort_key startLine hunks)
           then Rejected ''Overlapping hunks are not allowed''
      else (case apply_all lines (sort_key (\<lambda>h. - startLine h) hunks) of
              Stale e \<Rightarrow> Rejected e
            | PastEnd \<Rightarrow> Undefined
            | Spliced w \<Rightarrow> Applied (join_nl (map lineText w) @ (if lines \<noteq> [] then [NL] else []))))"


section \<open>Well-numbered line lists\<close>

text \<open>
  The invariant of every line list the component builds: line \<open>i\<close> carries number
  \<open>i + 1\<close> and the hash of its own text.
\<close>

definition wf_lines :: "hline list \<Rightarrow> bool" where
  "wf_lines ls \<longleftrightarrow> ls = number_from 1 (map lineText ls)"

lemma lineText_mk_line [simp]: "lineText (mk_line n t) = t"
  and lineNumber_mk_line [simp]: "lineNumber (mk_line n t) = n"
  and lineHash_mk_line [simp]: "lineHash (mk_line n t) = LineHash t"
  by (simp_all add: mk_line_def)

lemma map_lineText_number_from [simp]: "map lineText (number_from n ts) = ts"
  by (induction n ts rule: number_from.induct) auto

lemma wf_lines_number_from [wf_intros]: "wf_lines (number_from 1 ts)"
  by (simp add: wf_lines_def)

lemma length_number_from [simp]: "length (number_from n ts) = length ts"
  by (induction n ts rule: number_from.induct) auto

lemma number_from_eq_Nil [simp]: "number_from n ts = [] \<longleftrightarrow> ts = []"
  by (cases ts) auto

lemma nth_number_from:
  "i < length ts \<Longrightarrow> number_from n ts ! i = mk_line (n + int i) (ts ! i)"
  by (induction n ts arbitrary: i rule: number_from.induct) (auto simp: nth_Cons split: nat.splits)

lemma take_number_from: "take k (number_from n ts) = number_from n (take k ts)"
  by (induction n ts arbitrary: k rule: number_from.induct) (auto simp: take_Cons split: nat.splits)

lemma drop_number_from: "drop k (number_from n ts) = number_from (n + int k) (drop k ts)"
  by (induction n ts arbitrary: k rule: number_from.induct)
     (auto simp: drop_Cons add.assoc split: nat.splits)

lemma renumber_append: "renumber n (a @ b) = renumber n a @ renumber (n + int (length a)) b"
  by (induction a arbitrary: n) (auto simp: add.assoc)

lemma number_from_append: "number_from n (a @ b) = number_from n a @ number_from (n + int (length a)) b"
  by (induction a arbitrary: n) (auto simp: add.assoc)

lemma renumber_number_from [simp]: "renumber n (number_from m ts) = number_from n ts"
  by (induction m ts arbitrary: n rule: number_from.induct) (auto simp: mk_line_def)

lemma parse_lines_eq: "parse_lines n cur s = number_from n (content_loop cur s)"
  by (induction n cur s rule: parse_lines.induct) auto

lemma ParseFile_eq: "ParseFile s = number_from 1 (content_loop [] s)"
  by (simp add: ParseFile_def parse_lines_eq)

lemma wf_lines_ParseFile [wf_intros]: "wf_lines (ParseFile s)"
  by (simp add: ParseFile_eq wf_lines_number_from)

lemma content_loop_eq_Nil: "content_loop cur s = [] \<longleftrightarrow> cur = [] \<and> s = []"
  by (induction cur s rule: content_loop.induct) auto

lemma ParseFile_eq_Nil [simp]: "ParseFile s = [] \<longleftrightarrow> s = []"
  by (simp add: ParseFile_eq content_loop_eq_Nil)

lemma FindLine_number_from:
  "FindLine (number_from 1 ts) n =
     (if 1 \<le> n \<and> n \<le> int (length ts) then Some (mk_line n (ts ! nat (n - 1))) else None)"
proof (cases "1 \<le> n \<and> n \<le> int (length ts)")
  case True
  then have "nat (n - 1) < length ts" by arith
  then have "number_from 1 ts ! nat (n - 1) = mk_line n (ts ! nat (n - 1))"
    using True nth_number_from [of "nat (n - 1)" ts 1] by simp
  with True show ?thesis by (simp add: FindLine_def)
qed (auto simp: FindLine_def)

section \<open>Hashes\<close>

lemma length_LineHash [simp]: "length (LineHash l) = 4"
  by (simp add: LineHash_def hex4_def)

definition is_hex :: "char \<Rightarrow> bool" where
  "is_hex c \<longleftrightarrow> isdigit c \<or> (97 \<le> uchar c \<and> uchar c \<le> 102)"

lemma is_hex_hex_digit: "d < 16 \<Longrightarrow> is_hex (hex_digit d)"
  by (auto simp: is_hex_def hex_digit_def isdigit_def uchar_def)

lemma LineHash_hex: "\<forall>c\<in>set (LineHash l). is_hex c"
  by (simp add: LineHash_def hex4_def is_hex_hex_digit)

section \<open>Rendering and parsing are inverse\<close>

text \<open>A line list rendered as a file: every line followed by a newline.\<close>

fun unlines :: "string list \<Rightarrow> string" where
  "unlines [] = []"
| "unlines (t # ts) = t @ [NL] @ unlines ts"

lemma unlines_join_nl: "ts \<noteq> [] \<Longrightarrow> join_nl ts @ [NL] = unlines ts"
  by (induction ts rule: join_nl.induct) auto

lemma content_loop_no_nl:
  "NL \<notin> set cur \<Longrightarrow> t \<in> set (content_loop cur s) \<Longrightarrow> NL \<notin> set t"
  by (induction cur s rule: content_loop.induct)
     (auto split: if_splits dest: subsetD [OF set_strip_cr])

lemma content_loop_line:
  "NL \<notin> set t \<Longrightarrow> content_loop cur (t @ NL # s) = strip_cr (cur @ t) # content_loop [] s"
  by (induction t arbitrary: cur) auto

lemma content_loop_unlines:
  "\<forall>t\<in>set ts. NL \<notin> set t \<and> CR \<notin> set t \<Longrightarrow> content_loop [] (unlines ts) = ts"
  by (induction ts) (auto simp: content_loop_line strip_cr_no_cr)

lemma unlines_content_loop:
  "CR \<notin> set cur \<Longrightarrow> CR \<notin> set s \<Longrightarrow> unlines (content_loop cur s)
     = (if cur @ s = [] then [] else if s \<noteq> [] \<and> last s = NL then cur @ s else cur @ s @ [NL])"
proof (induction cur s rule: content_loop.induct)
  case (2 cur c cs)
  then show ?case by (auto simp: strip_cr_no_cr)
qed (auto simp: strip_cr_no_cr)

lemma ParseFile_unlines:
  "\<forall>t\<in>set ts. NL \<notin> set t \<and> CR \<notin> set t \<Longrightarrow> map lineText (ParseFile (unlines ts)) = ts"
  by (simp add: ParseFile_eq content_loop_unlines)

section \<open>Paged reading\<close>

lemma fmt_loop_eq:
  "0 \<le> e \<Longrightarrow> e \<le> lim \<Longrightarrow> fmt_loop hs lim e ls =
     (concat (map (fmt_line hs) (take (nat (lim - e)) ls)),
      lim - e < int (length ls),
      if lim - e < int (length ls) then lineNumber (ls ! nat (lim - e)) else 0)"
proof (induction hs lim e ls rule: fmt_loop.induct)
  case (2 hs lim e l ls)
  show ?case
  proof (cases "lim \<le> e")
    case True
    with 2 have "lim = e" by simp
    then show ?thesis by simp
  next
    case False
    then have n: "nat (lim - e) = Suc (nat (lim - (e + 1)))" by simp
    from False 2 show ?thesis by (auto simp: n)
  qed
qed auto

lemma FormatRead_eq:
  assumes "0 \<le> off" "0 \<le> lim"
  shows "FormatRead ls off lim hs =
     (concat (map (fmt_line hs) (take (nat lim) (drop (nat off) ls))),
      off + lim < int (length ls),
      if off + lim < int (length ls) then lineNumber (ls ! nat (off + lim)) else 0)"
  using assms by (auto simp: FormatRead_def fmt_loop_eq nat_add_distrib)

text \<open>
  A client that follows \<^verbatim>\<open>next_line\<close>: it asks for the next page at the 0-based offset
  \<^verbatim>\<open>next_line - 1\<close> until a page is not truncated.
\<close>

fun read_pages :: "nat \<Rightarrow> hline list \<Rightarrow> int \<Rightarrow> int \<Rightarrow> bool \<Rightarrow> string option" where
  "read_pages 0 ls off lim hs = None"
| "read_pages (Suc fuel) ls off lim hs =
     (case FormatRead ls off lim hs of (out, truncated, nextLine) \<Rightarrow>
        if truncated then map_option (\<lambda>r. out @ r) (read_pages fuel ls (nextLine - 1) lim hs)
        else Some out)"

lemma read_pages_suffix:
  assumes "wf_lines ls" "0 < lim" "0 \<le> off" "int (length ls) \<le> off + int fuel * lim" "0 < fuel"
  shows "read_pages fuel ls off lim hs = Some (concat (map (fmt_line hs) (drop (nat off) ls)))"
  using assms
proof (induction fuel arbitrary: off)
  case (Suc fuel)
  have num: "lineNumber (ls ! i) = int i + 1" if "i < length ls" for i
    using Suc.prems(1) that nth_number_from [of i "map lineText ls" 1]
    by (simp add: wf_lines_def) (metis add.commute lineNumber_mk_line)
  show ?case
  proof (cases "off + lim < int (length ls)")
    case True
    then have f: "0 < fuel" using Suc.prems by (cases fuel) auto
    have n: "lineNumber (ls ! nat (off + lim)) - 1 = off + lim"
      using num [of "nat (off + lim)"] True Suc.prems by simp
    have "read_pages fuel ls (off + lim) lim hs
            = Some (concat (map (fmt_line hs) (drop (nat (off + lim)) ls)))"
      using Suc.prems f by (intro Suc.IH) (auto simp: algebra_simps)
    moreover have "drop (nat off) ls = take (nat lim) (drop (nat off) ls) @ drop (nat (off + lim)) ls"
      using Suc.prems by (simp add: nat_add_distrib add.commute flip: drop_drop)
    ultimately show ?thesis
      using True Suc.prems by (simp add: FormatRead_eq n) (metis concat_append map_append)
  next
    case False
    then have "take (nat lim) (drop (nat off) ls) = drop (nat off) ls"
      using Suc.prems by simp
    with False Suc.prems show ?thesis by (simp add: FormatRead_eq)
  qed
qed simp


section \<open>ApplyHunks against its specification\<close>

text \<open>
  The specification of a batch of hunks on the original lines \<open>ts\<close>: walk the hunks in
  ascending order; \<open>p\<close> original lines are already consumed.
\<close>

fun splice_hunks :: "int \<Rightarrow> hunk list \<Rightarrow> string list \<Rightarrow> string list" where
  "splice_hunks p [] ts = ts"
| "splice_hunks p (h # hs) ts =
     take (nat (startLine h - 1 - p)) ts @ inserted_texts h
     @ splice_hunks (hunk_end h) hs (drop (nat (hunk_end h - p)) ts)"

definition splice_one :: "int \<Rightarrow> hunk \<Rightarrow> string list \<Rightarrow> string list" where
  "splice_one p h ts = take (nat (startLine h - 1 - p)) ts @ inserted_texts h
                    @ drop (nat (hunk_end h - p)) ts"

text \<open>A hunk is fresh for \<open>ts\<close> when both its anchors name existing lines with those hashes.\<close>

definition anchor_ok :: "string list \<Rightarrow> int \<Rightarrow> string \<Rightarrow> bool" where
  "anchor_ok ts n hsh \<longleftrightarrow> 1 \<le> n \<and> n \<le> int (length ts) \<and> LineHash (ts ! nat (n - 1)) = hsh"

definition fresh :: "string list \<Rightarrow> hunk \<Rightarrow> bool" where
  "fresh ts h \<longleftrightarrow> startLine h \<le> hunk_end h \<and> anchor_ok ts (startLine h) (startHash h)
     \<and> (endHash h = [] \<or> hunk_end h = startLine h \<or> anchor_ok ts (hunk_end h) (endHash h))"

definition in_range :: "string list \<Rightarrow> hunk \<Rightarrow> bool" where
  "in_range ts h \<longleftrightarrow> hunk_end h \<le> int (length ts)"

lemma apply_hunk_Spliced:
  "apply_hunk (number_from 1 ts) h = Spliced w \<longleftrightarrow>
     fresh ts h \<and> in_range ts h \<and> w = number_from 1 (splice_one 0 h ts)"
proof (cases "fresh ts h")
  case True
  then have f: "FindLine (number_from 1 ts) (startLine h)
      = Some (mk_line (startLine h) (ts ! nat (startLine h - 1)))"
    "0 < startLine h" "startLine h \<le> hunk_end h" "LineHash (ts ! nat (startLine h - 1)) = startHash h"
    by (auto simp: fresh_def anchor_ok_def FindLine_number_from)
  have e: "\<not> (endHash h \<noteq> [] \<and> hunk_end h \<noteq> startLine h \<and>
       (case FindLine (number_from 1 ts) (hunk_end h) of None \<Rightarrow> True
        | Some el \<Rightarrow> lineHash el \<noteq> endHash h))"
    using True by (auto simp: fresh_def anchor_ok_def FindLine_number_from)
  have le: "nat (startLine h - 1) \<le> length ts"
    using True by (auto simp: fresh_def anchor_ok_def)
  have "take (nat (startLine h - 1)) (number_from 1 ts)
          @ number_from (startLine h) (inserted_texts h)
          @ drop (nat (hunk_end h)) (number_from 1 ts)
        = number_from 1 (take (nat (startLine h - 1)) ts)
          @ number_from (startLine h) (inserted_texts h)
          @ number_from (1 + hunk_end h) (drop (nat (hunk_end h)) ts)"
    using f by (simp add: take_number_from drop_number_from)
  then have r: "renumber 1 (take (nat (startLine h - 1)) (number_from 1 ts)
          @ number_from (startLine h) (inserted_texts h)
          @ drop (nat (hunk_end h)) (number_from 1 ts)) = number_from 1 (splice_one 0 h ts)"
    by (simp add: renumber_append number_from_append splice_one_def add.assoc)
  show ?thesis
    unfolding apply_hunk_def Let_def using f e r True by (auto simp: in_range_def)
next
  case False
  then show ?thesis
    by (auto simp: apply_hunk_def Let_def fresh_def anchor_ok_def FindLine_number_from
             split: option.splits if_splits)
qed

lemma apply_hunk_ordered: "apply_hunk w h = Spliced w' \<Longrightarrow> 1 \<le> startLine h \<and> startLine h \<le> hunk_end h"
  by (auto simp: apply_hunk_def Let_def split: option.splits if_splits)

lemma apply_all_ordered:
  "apply_all w hs = Spliced w' \<Longrightarrow> \<forall>h\<in>set hs. 1 \<le> startLine h \<and> startLine h \<le> hunk_end h"
  by (induction w hs rule: apply_all.induct)
     (auto split: hunk_result.splits dest: apply_hunk_ordered)

text \<open>Non-overlapping, well-oriented hunks in ascending order end before the later ones start.\<close>

lemma not_overlapping_chain:
  assumes "\<not> overlapping hs" "\<forall>h\<in>set hs. startLine h \<le> hunk_end h"
  shows "sorted_wrt (\<lambda>a b. hunk_end a < startLine b) hs"
  using assms
proof (induction hs rule: overlapping.induct)
  case (1 a b hs)
  then have s: "sorted_wrt (\<lambda>a b. hunk_end a < startLine b) (b # hs)" by auto
  moreover have "hunk_end a < startLine x" if "x \<in> set (b # hs)" for x
    using 1 s that by fastforce
  ultimately show ?case by auto
qed auto

lemma anchor_ok_splice_one:
  assumes "n < startLine h" "startLine h - 1 \<le> int (length ts)"
  shows "anchor_ok (splice_one 0 h ts) n k \<longleftrightarrow> anchor_ok ts n k"
proof (cases "1 \<le> n")
  case True
  then have "nat (n - 1) < length (take (nat (startLine h - 1)) ts)" using assms by simp
  then show ?thesis using True assms
    by (auto simp: anchor_ok_def splice_one_def nth_append)
qed (simp add: anchor_ok_def)

lemma fresh_splice_one:
  assumes "hunk_end g < startLine h" "startLine h - 1 \<le> int (length ts)"
  shows "fresh (splice_one 0 h ts) g \<longleftrightarrow> fresh ts g"
  using assms anchor_ok_splice_one [of _ h ts] by (auto simp: fresh_def)

lemma in_range_before:
  assumes "hunk_end g < startLine h" "startLine h - 1 \<le> int (length ts)"
  shows "in_range ts g" "in_range (splice_one 0 h ts) g"
  using assms by (auto simp: in_range_def splice_one_def)

lemma splice_hunks_snoc:
  assumes "sorted_wrt (\<lambda>a b. hunk_end a < startLine b) (hs @ [h])"
    and "\<forall>g\<in>set (hs @ [h]). startLine g \<le> hunk_end g \<and> p < startLine g"
    and "startLine h - 1 \<le> p + int (length ts)"
  shows "splice_hunks p (hs @ [h]) ts = splice_hunks p hs (splice_one p h ts)"
  using assms
proof (induction hs arbitrary: p ts)
  case Nil
  then show ?case by (simp add: splice_one_def)
next
  case (Cons g hs)
  let ?k = "nat (hunk_end g - p)"
  have g: "startLine g \<le> hunk_end g" "hunk_end g < startLine h" "p < startLine g"
    "startLine h \<le> hunk_end h"
    using Cons.prems by auto
  have t: "take (nat (startLine g - 1 - p)) (splice_one p h ts) = take (nat (startLine g - 1 - p)) ts"
  proof -
    have "nat (startLine g - 1 - p) \<le> nat (startLine h - 1 - p)" using g by simp
    moreover have "nat (startLine h - 1 - p) \<le> length ts" using Cons.prems(3) by simp
    ultimately show ?thesis by (simp add: splice_one_def min_absorb1)
  qed
  have d: "drop ?k (splice_one p h ts) = splice_one (hunk_end g) h (drop ?k ts)"
  proof -
    have "nat (startLine h - 1 - p) \<le> length ts" using Cons.prems(3) by simp
    moreover have "?k \<le> nat (startLine h - 1 - p)" using g by simp
    moreover have "nat (startLine h - 1 - p) - ?k = nat (startLine h - 1 - hunk_end g)"
      "?k + nat (hunk_end h - hunk_end g) = nat (hunk_end h - p)" using g by auto
    ultimately show ?thesis by (simp add: splice_one_def drop_take add.commute)
  qed
  have "splice_hunks (hunk_end g) (hs @ [h]) (drop ?k ts)
          = splice_hunks (hunk_end g) hs (splice_one (hunk_end g) h (drop ?k ts))"
    using Cons.prems g by (intro Cons.IH) (auto simp: of_nat_diff)
  then show ?case by (simp add: t d)
qed

text \<open>The descending loop computes the ascending specification.\<close>

lemma apply_all_rev:
  assumes "sorted_wrt (\<lambda>a b. hunk_end a < startLine b) hs"
    and "\<forall>h\<in>set hs. 1 \<le> startLine h \<and> startLine h \<le> hunk_end h"
  shows "apply_all (number_from 1 ts) (rev hs) = Spliced w \<longleftrightarrow>
     (\<forall>h\<in>set hs. fresh ts h \<and> in_range ts h) \<and> w = number_from 1 (splice_hunks 0 hs ts)"
  using assms
proof (induction hs arbitrary: ts rule: rev_induct)
  case (snoc h hs)
  have chain: "sorted_wrt (\<lambda>a b. hunk_end a < startLine b) hs" "\<forall>g\<in>set hs. hunk_end g < startLine h"
    using snoc.prems by (auto simp: sorted_wrt_append)
  show ?case
  proof (cases "fresh ts h \<and> in_range ts h")
    case True
    then have le: "startLine h - 1 \<le> int (length ts)" by (auto simp: fresh_def anchor_ok_def)
    have "apply_all (number_from 1 ts) (rev (hs @ [h]))
            = apply_all (number_from 1 (splice_one 0 h ts)) (rev hs)"
      using True apply_hunk_Spliced [of ts h "number_from 1 (splice_one 0 h ts)"] by simp
    moreover have "splice_hunks 0 (hs @ [h]) ts = splice_hunks 0 hs (splice_one 0 h ts)"
      using snoc.prems le by (intro splice_hunks_snoc) auto
    moreover have "\<forall>g\<in>set hs. (fresh (splice_one 0 h ts) g \<and> in_range (splice_one 0 h ts) g)
                     = (fresh ts g \<and> in_range ts g)"
      using chain(2) le fresh_splice_one in_range_before by blast
    ultimately show ?thesis
      using snoc.IH [of "splice_one 0 h ts"] chain(1) snoc.prems True by auto
  next
    case False
    then have "\<nexists>w. apply_hunk (number_from 1 ts) h = Spliced w"
      using apply_hunk_Spliced by blast
    then show ?thesis using False by (auto split: hunk_result.splits)
  qed
qed auto

lemma startLine_sorted:
  assumes "sorted_wrt (\<lambda>a b. hunk_end a < startLine b) hs" "\<forall>h\<in>set hs. startLine h \<le> hunk_end h"
  shows "sorted_wrt (\<lambda>a b. startLine a < startLine b) hs"
  using assms by (induction hs) fastforce+

lemma ApplyHunks_Applied:
  "ApplyHunks (number_from 1 ts) hunks = Applied out \<longleftrightarrow>
     hunks \<noteq> [] \<and> \<not> overlapping (sort_key startLine hunks)
     \<and> (\<forall>h\<in>set hunks. fresh ts h \<and> in_range ts h)
     \<and> out = join_nl (splice_hunks 0 (sort_key startLine hunks) ts) @ (if ts \<noteq> [] then [NL] else [])"
    (is "?lhs \<longleftrightarrow> ?rhs")
proof -
  let ?asc = "sort_key startLine hunks"
  let ?desc = "sort_key (\<lambda>h. - startLine h) hunks"
  have rev: "?desc = rev ?asc" and chain: "sorted_wrt (\<lambda>a b. hunk_end a < startLine b) ?asc"
    if "\<not> overlapping ?asc" "\<forall>h\<in>set hunks. startLine h \<le> hunk_end h"
    using that not_overlapping_chain [of ?asc] startLine_sorted [of ?asc]
    by (simp_all add: sorted_key_distinct_rev)
  show ?thesis
  proof
    assume ?lhs
    then obtain w where w: "apply_all (number_from 1 ts) ?desc = Spliced w"
      "out = join_nl (map lineText w) @ (if ts \<noteq> [] then [NL] else [])"
      and n: "hunks \<noteq> []" "\<not> overlapping ?asc"
      by (auto simp: ApplyHunks_def split: if_splits hunk_result.splits)
    have o: "\<forall>h\<in>set hunks. 1 \<le> startLine h \<and> startLine h \<le> hunk_end h"
      using apply_all_ordered [OF w(1)] by simp
    then show ?rhs
      using w n rev chain apply_all_rev [of ?asc ts w] by auto
  next
    assume r: ?rhs
    then have o: "\<forall>h\<in>set hunks. 1 \<le> startLine h \<and> startLine h \<le> hunk_end h"
      by (auto simp: fresh_def anchor_ok_def)
    then have "apply_all (number_from 1 ts) ?desc = Spliced (number_from 1 (splice_hunks 0 ?asc ts))"
      using r rev chain apply_all_rev [of ?asc ts] by simp
    then show ?lhs using r by (simp add: ApplyHunks_def)
  qed
qed

text \<open>A hunk with a hash on every end anchor never reaches the undefined \<^verbatim>\<open>erase\<close>.\<close>

definition anchored :: "hunk \<Rightarrow> bool" where
  "anchored h \<longleftrightarrow> endHash h \<noteq> [] \<or> endLine h \<le> 0"

lemma apply_hunk_anchored:
  assumes "anchored h" "apply_hunk w h = PastEnd"
  shows False
  using assms by (auto simp: apply_hunk_def Let_def anchored_def FindLine_def hunk_end_def
      split: option.splits if_splits)

lemma apply_all_anchored:
  "\<forall>h\<in>set hs. anchored h \<Longrightarrow> apply_all w hs \<noteq> PastEnd"
  by (induction w hs rule: apply_all.induct)
     (auto split: hunk_result.splits dest: apply_hunk_anchored)

lemma ApplyHunks_defined:
  "\<forall>h\<in>set hunks. anchored h \<Longrightarrow> ApplyHunks ls hunks \<noteq> Undefined"
  using apply_all_anchored [of "sort_key (\<lambda>h. - startLine h) hunks" ls]
  by (auto simp: ApplyHunks_def split: hunk_result.splits)

section \<open>Reading back an edited file\<close>

definition batch_ok :: "string list \<Rightarrow> hunk list \<Rightarrow> bool" where
  "batch_ok ts hunks \<longleftrightarrow> hunks \<noteq> [] \<and> \<not> overlapping (sort_key startLine hunks)
     \<and> list_all (\<lambda>h. fresh ts h \<and> in_range ts h) hunks"

definition plain :: "string \<Rightarrow> bool" where
  "plain t \<longleftrightarrow> NL \<notin> set t \<and> CR \<notin> set t"

lemma content_loop_no_cr:
  "CR \<notin> set cur \<Longrightarrow> CR \<notin> set s \<Longrightarrow> t \<in> set (content_loop cur s) \<Longrightarrow> CR \<notin> set t"
  by (induction cur s rule: content_loop.induct)
     (auto split: if_splits dest: subsetD [OF set_strip_cr])

lemma plain_content_loop: "CR \<notin> set s \<Longrightarrow> list_all plain (content_loop [] s)"
  using content_loop_no_nl [of "[]" _ s] content_loop_no_cr [of "[]" s]
  by (auto simp: list_all_iff plain_def)

lemma plain_splice_hunks:
  "list_all plain ts \<Longrightarrow> list_all (\<lambda>h. CR \<notin> set (hunkContent h)) hs
     \<Longrightarrow> list_all plain (splice_hunks p hs ts)"
proof (induction p hs ts rule: splice_hunks.induct)
  case (2 p h hs ts)
  then show ?case
    using plain_content_loop [of "hunkContent h"]
    by (auto simp: inserted_texts_def list_all_iff dest: in_set_takeD in_set_dropD)
qed simp

lemma ParseFile_join:
  "list_all plain ts \<Longrightarrow> ts \<noteq> [] \<Longrightarrow> ParseFile (join_nl ts @ [NL]) = number_from 1 ts"
  by (simp add: ParseFile_eq unlines_join_nl content_loop_unlines list_all_iff plain_def)

section \<open>Properties\<close>

text \<open>
  C5: A batch of hunks is applied exactly when it is non-empty, its hunks do not overlap and
  every hunk is fresh (both anchors name existing lines that still have the given hashes) and
  ends inside the file; the outcome is then the original lines with every hunk's range
  replaced by its content, all ranges taken in the original numbering, joined by newlines
  with one newline at the end.  The code instead edits one working copy from the last hunk
  to the first and renumbers after each.
\<close>

theorem hunks_applied_iff:
  "ApplyHunks (ParseFile s) hunks = Applied out \<longleftrightarrow>
     batch_ok (map lineText (ParseFile s)) hunks
     \<and> out = join_nl (splice_hunks 0 (sort_key startLine hunks) (map lineText (ParseFile s)))
             @ (if s \<noteq> [] then [NL] else [])"
  using ApplyHunks_Applied [of "content_loop [] s" hunks out]
  by (simp add: ParseFile_eq batch_ok_def list_all_iff content_loop_eq_Nil conj_ac)

text \<open>
  C25: Reading back an applied edit gives exactly the spliced lines, renumbered from 1 with
  fresh hashes, provided neither the file nor the inserted texts hold carriage returns and
  the edit leaves at least one line.
\<close>

theorem edit_then_read:
  assumes "ApplyHunks (ParseFile s) hunks = Applied out"
    and "CR \<notin> set s" "list_all (\<lambda>h. CR \<notin> set (hunkContent h)) hunks"
    and "splice_hunks 0 (sort_key startLine hunks) (map lineText (ParseFile s)) \<noteq> []"
  shows "ParseFile out
     = number_from 1 (splice_hunks 0 (sort_key startLine hunks) (map lineText (ParseFile s)))"
proof -
  let ?ts = "content_loop [] s" and ?hs = "sort_key startLine hunks"
  have a: "out = join_nl (splice_hunks 0 ?hs ?ts) @ (if ?ts \<noteq> [] then [NL] else [])"
    "\<forall>h\<in>set hunks. fresh ?ts h" "hunks \<noteq> []"
    using assms(1) ApplyHunks_Applied [of ?ts hunks out] by (auto simp: ParseFile_eq)
  then have "?ts \<noteq> []"
    by (cases hunks) (auto simp: fresh_def anchor_ok_def)
  moreover have "list_all plain (splice_hunks 0 ?hs ?ts)"
    using assms(2,3) by (intro plain_splice_hunks plain_content_loop) (auto simp: list_all_iff)
  ultimately show ?thesis
    using a(1) assms(4) ParseFile_join [of "splice_hunks 0 ?hs ?ts"] by (simp add: ParseFile_eq)
qed

text \<open>A three-line file whose second line is replaced by two lines, for the witnesses.\<close>

definition ex_file :: string where
  "ex_file = ''a'' @ [NL] @ ''b'' @ [NL] @ ''c'' @ [NL]"

definition ex_hunks :: "hunk list" where
  "ex_hunks = [\<lparr>startLine = 2, startHash = LineHash ''b'', endLine = 0, endHash = [],
                hunkContent = ''X'' @ [NL] @ ''Y''\<rparr>]"

lemma ex_apply:
  "ApplyHunks (ParseFile ex_file) ex_hunks
     = Applied (''a'' @ [NL] @ ''X'' @ [NL] @ ''Y'' @ [NL] @ ''c'' @ [NL])"
  by (simp add: ex_file_def ex_hunks_def ParseFile_def strip_cr_def ApplyHunks_def apply_hunk_def
      Let_def hunk_end_def FindLine_def inserted_texts_def mk_line_def numeral_2_eq_2)

lemma ex_spliced:
  "splice_hunks 0 (sort_key startLine ex_hunks) (map lineText (ParseFile ex_file)) = [''a'', ''X'', ''Y'', ''c'']"
  by (simp add: ex_file_def ex_hunks_def ParseFile_def strip_cr_def hunk_end_def inserted_texts_def
      numeral_2_eq_2)

theorem edit_then_read_witness:
  "ParseFile (''a'' @ [NL] @ ''X'' @ [NL] @ ''Y'' @ [NL] @ ''c'' @ [NL])
     = number_from 1 [''a'', ''X'', ''Y'', ''c'']"
proof -
  have "CR \<notin> set ex_file" "list_all (\<lambda>h. CR \<notin> set (hunkContent h)) ex_hunks"
    by (simp_all add: ex_file_def ex_hunks_def)
  then show ?thesis using edit_then_read [OF ex_apply] by (simp only: ex_spliced) simp
qed

text \<open>
  C26: Following \<^verbatim>\<open>next_line\<close> from page to page, with any positive page size, a client reads
  every line of the file from its start offset on exactly once and in order, and the number
  of pages is bounded by the number of lines over the page size.
\<close>

theorem paging_reads_everything:
  assumes "0 < lim" "0 \<le> off" "int (length (ParseFile s)) \<le> off + int fuel * lim" "0 < fuel"
  shows "read_pages fuel (ParseFile s) off lim hs
     = Some (concat (map (fmt_line hs) (drop (nat off) (ParseFile s))))"
  using assms by (intro read_pages_suffix wf_lines_ParseFile)

theorem paging_reads_everything_witness:
  "read_pages 2 (ParseFile ex_file) 0 2 False
     = Some (concat (map (fmt_line False) (drop (nat 0) (ParseFile ex_file))))"
  by (rule paging_reads_everything) (simp_all add: ex_file_def ParseFile_def)

text \<open>A batch whose end anchors all carry a hash never reaches \<^verbatim>\<open>erase\<close> past the end.\<close>

theorem anchored_hunks_defined:
  "list_all anchored hunks \<Longrightarrow> ApplyHunks ls hunks \<noteq> Undefined"
  by (simp add: ApplyHunks_defined list_all_iff)

theorem anchored_hunks_defined_witness:
  "ApplyHunks (ParseFile ''a'') [\<lparr>startLine = 1, startHash = LineHash ''a'', endLine = 9,
       endHash = ''ffff'', hunkContent = ''b''\<rparr>] \<noteq> Undefined"
  by (rule anchored_hunks_defined) (simp add: anchored_def)

end
