(* ===== verification/Files.thy ===== *)
theory Files
  imports Prelude
begin

text \<open>
  Paths and the file system, as far as the sources use \<^verbatim>\<open>std::filesystem\<close> (POSIX rules).
  An absolute path is the list of its components below the root directory.  A file system is
  the association list of its nodes, whose order is the order in which directories are
  iterated.  Symbolic links are not nodes: what they do is in \<^verbatim>\<open>weakly_canonical\<close> and
  \<^verbatim>\<open>canonical\<close>, which stay parameters of the definitions that call them.
\<close>

type_synonym path = "string list"

datatype node = RegFile string | Directory

type_synonym filesys = "(path \<times> node) list"

section \<open>Path syntax\<close>

text \<open>The components of a path string between slashes, empty ones dropped.\<close>

fun split_on :: "char \<Rightarrow> string \<Rightarrow> string \<Rightarrow> string list" where
  "split_on d cur [] = [cur]"
| "split_on d cur (c # cs) = (if c = d then cur # split_on d [] cs else split_on d (cur @ [c]) cs)"

definition path_parts :: "string \<Rightarrow> path" where
  "path_parts s = filter (\<lambda>x. x \<noteq> []) (split_on CHR ''/'' [] s)"

definition is_absolute :: "string \<Rightarrow> bool" where
  "is_absolute s \<longleftrightarrow> s \<noteq> [] \<and> hd s = CHR ''/''"

text \<open>\<^verbatim>\<open>p.string()\<close> of an absolute path.\<close>

fun path_tail :: "path \<Rightarrow> string" where
  "path_tail [] = []"
| "path_tail (x # xs) = CHR ''/'' # x @ path_tail xs"

definition path_str :: "path \<Rightarrow> string" where
  "path_str p = (if p = [] then ''/'' else path_tail p)"

definition parent_path :: "path \<Rightarrow> path" where
  "parent_path p = (if p = [] then [] else butlast p)"

definition filename :: "path \<Rightarrow> string" where
  "filename p = (if p = [] then [] else last p)"

text \<open>\<^verbatim>\<open>extension()\<close> and \<^verbatim>\<open>stem()\<close> of a file name: from its last dot, unless that is its first character.\<close>

definition last_dot :: "string \<Rightarrow> nat option" where
  "last_dot s = (let k = length (takeWhile (\<lambda>c. c \<noteq> CHR ''.'') (rev s))
                 in if k < length s then Some (length s - 1 - k) else None)"

definition extension :: "string \<Rightarrow> string" where
  "extension s = (if s = ''..'' then [] else case last_dot s of None \<Rightarrow> []
                  | Some i \<Rightarrow> if i = 0 then [] else drop i s)"

definition stem :: "string \<Rightarrow> string" where
  "stem s = take (length s - length (extension s)) s"

section \<open>Relative paths\<close>

text \<open>\<^verbatim>\<open>lexically_relative\<close> of two absolute paths with the same root, as the standard defines it; \<open>[]\<close> is the empty path.\<close>

fun mismatch :: "path \<Rightarrow> path \<Rightarrow> path \<times> path" where
  "mismatch (a # as) (b # bs) = (if a = b then mismatch as bs else (a # as, b # bs))"
| "mismatch as bs = (as, bs)"

definition up_count :: "path \<Rightarrow> int" where
  "up_count b = sum_list (map (\<lambda>x. if x = ''..'' then - 1 else if x = [] \<or> x = ''.'' then 0 else 1) b)"

definition lexically_relative :: "path \<Rightarrow> path \<Rightarrow> path" where
  "lexically_relative p base =
     (case mismatch p base of (a, b) \<Rightarrow>
        if a = [] \<and> b = [] then [''.'']
        else let n = up_count b in
          if n < 0 then []
          else if n = 0 \<and> (a = [] \<or> hd a = []) then [''.'']
          else replicate (nat n) ''..'' @ a)"

text \<open>A path in normal form: no empty, dot or dot-dot component.\<close>

definition normal :: "path \<Rightarrow> bool" where
  "normal p \<longleftrightarrow> list_all (\<lambda>x. x \<noteq> [] \<and> x \<noteq> ''.'' \<and> x \<noteq> ''..'') p"

lemma mismatch_split: "mismatch p b = (p', b') \<Longrightarrow> \<exists>k. p = take k p @ p' \<and> b = take k p @ b'"
proof (induction p b rule: mismatch.induct)
  case (1 a as b bs)
  show ?case
  proof (cases "a = b")
    case True
    then obtain k where "as = take k as @ p'" "bs = take k as @ b'" using 1 by auto
    then show ?thesis using True by (intro exI [of _ "Suc k"]) simp
  next
    case False
    then show ?thesis using 1 by (intro exI [of _ 0]) simp
  qed
qed (auto intro: exI [of _ 0])

lemma mismatch_prefix: "prefix b p \<Longrightarrow> mismatch p b = (drop (length b) p, [])"
proof (induction b arbitrary: p)
  case Nil
  then show ?case by (cases p) auto
next
  case (Cons x b)
  then show ?case by (cases p) auto
qed

lemma up_count_normal: "normal b \<Longrightarrow> up_count b = int (length b)"
  by (induction b) (auto simp: up_count_def normal_def)

text \<open>
  The component-wise containment test: for a normal base, a path is inside exactly when the
  base is a prefix of its components and no dot-dot follows.
\<close>

definition inside :: "path \<Rightarrow> path \<Rightarrow> bool" where
  "inside root p = (let rel = lexically_relative p root in rel \<noteq> [] \<and> ''..'' \<notin> set rel)"

lemma inside_iff:
  assumes "normal root" "[] \<notin> set p"
  shows "inside root p \<longleftrightarrow> prefix root p \<and> ''..'' \<notin> set (drop (length root) p)"
proof (cases "prefix root p")
  case True
  then have "mismatch p root = (drop (length root) p, [])" by (rule mismatch_prefix)
  moreover have "drop (length root) p = [] \<or> hd (drop (length root) p) \<noteq> []"
    using assms(2) by (metis hd_in_set in_set_dropD)
  ultimately show ?thesis
    using True by (auto simp: inside_def lexically_relative_def up_count_def Let_def)
next
  case False
  obtain a b where m: "mismatch p root = (a, b)" by (cases "mismatch p root")
  then obtain k where k: "p = take k p @ a" "root = take k p @ b" using mismatch_split by blast
  have bne: "b \<noteq> []"
  proof
    assume "b = []"
    then have "prefix root p" using k by (metis append_Nil2 prefixI)
    with False show False by simp
  qed
  have "set b \<subseteq> set root" by (subst k(2)) simp
  then have "normal b" using assms(1) by (auto simp: normal_def list_all_iff)
  then have "0 < up_count b" using bne by (simp add: up_count_normal)
  then have "nat (up_count b) \<noteq> 0" by simp
  then have "''..'' \<in> set (lexically_relative p root)"
    using m bne \<open>0 < up_count b\<close> by (simp add: lexically_relative_def Let_def)
  with False show ?thesis by (simp add: inside_def Let_def)
qed

section \<open>The file system\<close>

definition fs_node :: "filesys \<Rightarrow> path \<Rightarrow> node option" where
  "fs_node fs p = (if p = [] then Some Directory else map_of fs p)"

definition fs_exists :: "filesys \<Rightarrow> path \<Rightarrow> bool" where
  "fs_exists fs p \<longleftrightarrow> fs_node fs p \<noteq> None"

definition fs_is_dir :: "filesys \<Rightarrow> path \<Rightarrow> bool" where
  "fs_is_dir fs p \<longleftrightarrow> fs_node fs p = Some Directory"

definition fs_is_file :: "filesys \<Rightarrow> path \<Rightarrow> bool" where
  "fs_is_file fs p \<longleftrightarrow> (case fs_node fs p of Some (RegFile s) \<Rightarrow> True | _ \<Rightarrow> False)"

definition fs_read :: "filesys \<Rightarrow> path \<Rightarrow> string option" where
  "fs_read fs p = (case fs_node fs p of Some (RegFile s) \<Rightarrow> Some s | _ \<Rightarrow> None)"

definition fs_write :: "filesys \<Rightarrow> path \<Rightarrow> string \<Rightarrow> filesys" where
  "fs_write fs p s = AList.update p (RegFile s) fs"

text \<open>The entries of a directory, in iteration order.\<close>

definition fs_children :: "filesys \<Rightarrow> path \<Rightarrow> (path \<times> node) list" where
  "fs_children fs d = filter (\<lambda>(p, n). p \<noteq> [] \<and> butlast p = d) fs"

lemma fs_read_write: "p \<noteq> [] \<Longrightarrow> fs_read (fs_write fs p s) q = (if q = p then Some s else fs_read fs q)"
  by (simp add: fs_read_def fs_write_def fs_node_def update_conv')

end
