(* ===== verification/WorkspaceJail.thy ===== *)
theory WorkspaceJail
  imports Files
begin

text \<open>
  \<^verbatim>\<open>src/core/WorkspaceJail.cpp\<close>: the workspace root, its allow list, and the resolution of a
  user's path.  \<^verbatim>\<open>std::filesystem\<close>'s canonicalisation is the parameter \<open>wc\<close>
  (\<^verbatim>\<open>weakly_canonical\<close>, \<open>None\<close> its error code) and \<open>cn\<close> (\<^verbatim>\<open>canonical\<close>); the file system
  and the current directory are arguments.
\<close>

record jail =
  m_Root :: path
  m_Allow :: "path list"

record resolve_result =
  rpath :: path
  outsideWorkspace :: bool
  rerror :: string

definition abs_path :: "path \<Rightarrow> string \<Rightarrow> path" where
  "abs_path base raw = (if is_absolute raw then path_parts raw else base @ path_parts raw)"

section \<open>DetectRoot\<close>

text \<open>
  \<^verbatim>\<open>Canonical(p, mustExist)\<close> on an absolute path; \<open>None\<close> is the empty path it returns for an
  error.
\<close>

definition Canonical :: "(path \<Rightarrow> path option) \<Rightarrow> (path \<Rightarrow> path option) \<Rightarrow> path \<Rightarrow> bool \<Rightarrow> path option" where
  "Canonical cn wc p mustExist =
     (if mustExist then cn p
      else case wc p of None \<Rightarrow> Some p | Some c \<Rightarrow> Some c)"

text \<open>The walk to the root; the recursion is on the reversed path.\<close>

fun walk_up :: "filesys \<Rightarrow> string list \<Rightarrow> path option" where
  "walk_up fs [] = (if fs_exists fs [''.git''] then Some [] else None)"
| "walk_up fs (x # rwalk) =
     (if fs_exists fs (rev (x # rwalk) @ [''.git'']) then Some (rev (x # rwalk)) else walk_up fs rwalk)"

definition DetectRoot ::
    "(path \<Rightarrow> path option) \<Rightarrow> (path \<Rightarrow> path option) \<Rightarrow> filesys \<Rightarrow> path \<Rightarrow> string \<Rightarrow> path option" where
  "DetectRoot cn wc fs cwd start =
     (let cur = (if start = [] then cwd else abs_path cwd start)
      in case walk_up fs (rev cur) of
           Some walk \<Rightarrow> Canonical cn wc walk True
         | None \<Rightarrow> Canonical cn wc cur False)"

section \<open>Opening a jail\<close>

fun open_allow ::
    "(path \<Rightarrow> path option) \<Rightarrow> (path \<Rightarrow> path option) \<Rightarrow> filesys \<Rightarrow> path \<Rightarrow> string list \<Rightarrow> path list" where
  "open_allow cn wc fs cwd [] = []"
| "open_allow cn wc fs cwd (a # as) =
     (case Canonical cn wc (abs_path cwd a) False of
        None \<Rightarrow> open_allow cn wc fs cwd as
      | Some c \<Rightarrow> if fs_exists fs c then c # open_allow cn wc fs cwd as else open_allow cn wc fs cwd as)"

definition Open ::
    "(path \<Rightarrow> path option) \<Rightarrow> (path \<Rightarrow> path option) \<Rightarrow> filesys \<Rightarrow> path \<Rightarrow> string \<Rightarrow> string list \<Rightarrow> jail res" where
  "Open cn wc fs cwd root allow =
     (let bad = Inl (RuntimeError (''Workspace root does not exist or is not a directory: '' @ root))
      in case Canonical cn wc (if root = [] then cwd else abs_path cwd root) False of
           None \<Rightarrow> bad
         | Some resolved \<Rightarrow>
             if \<not> fs_exists fs resolved \<or> \<not> fs_is_dir fs resolved then bad
             else Inr \<lparr>m_Root = resolved, m_Allow = open_allow cn wc fs cwd allow\<rparr>)"

section \<open>Containment and resolution\<close>

definition Contains :: "jail \<Rightarrow> path \<Rightarrow> bool" where
  "Contains j canonical \<longleftrightarrow>
     inside (m_Root j) canonical \<or> list_ex (\<lambda>a. inside a canonical) (m_Allow j)"

definition resolve_error :: "string \<Rightarrow> resolve_result" where
  "resolve_error e = \<lparr>rpath = [], outsideWorkspace = False, rerror = e\<rparr>"

definition Resolve :: "(path \<Rightarrow> path option) \<Rightarrow> jail \<Rightarrow> string \<Rightarrow> bool \<Rightarrow> resolve_result" where
  "Resolve wc j userPath forWrite =
     (if userPath = [] then resolve_error ''Missing required argument: path''
      else let ab = abs_path (m_Root j) userPath;
               canon = (case wc ab of None \<Rightarrow> ab | Some c \<Rightarrow> c) in
        if ''..'' \<in> set canon then resolve_error (''Path traversal is not allowed: '' @ userPath)
        else if forWrite \<and> \<not> Contains j canon
          then resolve_error (''Write path is outside the workspace jail: '' @ path_str canon)
        else \<lparr>rpath = canon, outsideWorkspace = \<not> Contains j canon, rerror = []\<rparr>)"

definition resolve_ok :: "resolve_result \<Rightarrow> bool" where
  "resolve_ok r \<longleftrightarrow> rerror r = []"

section \<open>Facts\<close>

text \<open>What is relied on of canonicalisation: its results are in normal form.\<close>

definition canonical_ok :: "(path \<Rightarrow> path option) \<Rightarrow> bool" where
  "canonical_ok wc \<longleftrightarrow> (\<forall>p q. wc p = Some q \<longrightarrow> normal q)"

definition wf_jail :: "jail \<Rightarrow> bool" where
  "wf_jail j \<longleftrightarrow> normal (m_Root j) \<and> list_all normal (m_Allow j)"

text \<open>The roots a write may lie under.\<close>

definition jail_roots :: "jail \<Rightarrow> path list" where
  "jail_roots j = m_Root j # m_Allow j"

lemma path_parts_nonempty: "[] \<notin> set (path_parts s)"
  by (simp add: path_parts_def)

lemma normal_no_empty: "normal p \<Longrightarrow> [] \<notin> set p"
  by (auto simp: normal_def list_all_iff)

lemma abs_path_nonempty: "normal base \<Longrightarrow> [] \<notin> set (abs_path base s)"
  using normal_no_empty path_parts_nonempty by (auto simp: abs_path_def)

lemma Contains_iff:
  assumes "wf_jail j" "[] \<notin> set p" "''..'' \<notin> set p"
  shows "Contains j p \<longleftrightarrow> list_ex (\<lambda>root. prefix root p) (jail_roots j)"
proof -
  have "inside r p \<longleftrightarrow> prefix r p" if "r \<in> set (jail_roots j)" for r
    using that assms inside_iff [of r p]
    by (auto simp: wf_jail_def jail_roots_def list_all_iff dest: in_set_dropD)
  then show ?thesis by (auto simp: Contains_def jail_roots_def list_ex_iff)
qed

lemma Resolve_path_clean:
  assumes "wf_jail j" "canonical_ok wc" "resolve_ok (Resolve wc j u w)"
  shows "[] \<notin> set (rpath (Resolve wc j u w)) \<and> ''..'' \<notin> set (rpath (Resolve wc j u w))"
proof -
  let ?c = "case wc (abs_path (m_Root j) u) of None \<Rightarrow> abs_path (m_Root j) u | Some c \<Rightarrow> c"
  have "[] \<notin> set ?c"
    using assms abs_path_nonempty [of "m_Root j" u] normal_no_empty
    by (auto simp: wf_jail_def canonical_ok_def split: option.splits)
  then show ?thesis
    using assms(3) by (auto simp: Resolve_def Let_def resolve_ok_def resolve_error_def split: if_splits)
qed

definition total_canonical :: "(path \<Rightarrow> path option) \<Rightarrow> bool" where
  "total_canonical wc \<longleftrightarrow> (\<forall>p. \<exists>q. wc p = Some q \<and> normal q)"

lemma total_canonical_fun: "total_canonical wc \<Longrightarrow> \<exists>f. wc = (\<lambda>p. Some (f p)) \<and> (\<forall>p. normal (f p))"
proof -
  assume "total_canonical wc"
  then obtain f where "\<forall>p. wc p = Some (f p) \<and> normal (f p)"
    unfolding total_canonical_def by metis
  then show ?thesis by (auto intro!: exI [of _ f])
qed

lemma wf_open_allow:
  "\<forall>p. normal (f p) \<Longrightarrow> list_all normal (open_allow cn (\<lambda>p. Some (f p)) fs cwd as)"
  by (induction as) (auto simp: Canonical_def)

lemma wf_Open [wf_intros]:
  assumes "total_canonical wc" "Open cn wc fs cwd root allow = Inr j"
  shows "wf_jail j"
proof -
  obtain f where "wc = (\<lambda>p. Some (f p))" "\<forall>p. normal (f p)"
    using total_canonical_fun [OF assms(1)] by blast
  then show ?thesis
    using assms(2) wf_open_allow [of f cn fs cwd allow]
    by (auto simp: Open_def Let_def wf_jail_def Canonical_def split: if_splits)
qed

section \<open>Writes stay in the jail\<close>

lemma Resolve_write_inside:
  assumes "wf_jail j" "canonical_ok wc" "resolve_ok (Resolve wc j u True)"
  shows "list_ex (\<lambda>root. prefix root (rpath (Resolve wc j u True))) (jail_roots j)"
proof -
  let ?p = "rpath (Resolve wc j u True)"
  have "Contains j ?p"
    using assms(3) by (auto simp: Resolve_def Let_def resolve_ok_def resolve_error_def split: if_splits)
  then show ?thesis using Contains_iff assms Resolve_path_clean by blast
qed

section \<open>The contract of a write jail\<close>

text \<open>
  What the tools that write rely on: a path the jail hands out for writing lies within it.
  A sequence of writes through the jail then changes nothing outside.
\<close>

locale write_jail =
  fixes grant :: "string \<Rightarrow> path option" and within :: "path \<Rightarrow> bool"
  assumes grant_within: "grant u = Some p \<Longrightarrow> within p"
    and grant_named: "grant [] = None"

fun granted_writes :: "(string \<Rightarrow> path option) \<Rightarrow> (string \<times> string) list \<Rightarrow> filesys \<Rightarrow> filesys" where
  "granted_writes grant [] fs = fs"
| "granted_writes grant ((u, s) # ws) fs =
     granted_writes grant ws (case grant u of None \<Rightarrow> fs | Some p \<Rightarrow> fs_write fs p s)"

context write_jail begin

lemma write_frame: "grant u = Some p \<Longrightarrow> \<not> within q \<Longrightarrow> fs_node (fs_write fs p s) q = fs_node fs q"
  using grant_within [of u p] by (auto simp: fs_node_def fs_write_def update_conv')

lemma writes_frame: "\<not> within q \<Longrightarrow> fs_node (granted_writes grant ws fs) q = fs_node fs q"
proof (induction ws arbitrary: fs)
  case (Cons uw ws)
  obtain u s where "uw = (u, s)" by (cases uw)
  then show ?case using Cons write_frame [of u] by (auto split: option.splits)
qed simp

end

definition grant_write :: "(path \<Rightarrow> path option) \<Rightarrow> jail \<Rightarrow> string \<Rightarrow> path option" where
  "grant_write wc j u = (let r = Resolve wc j u True in if resolve_ok r then Some (rpath r) else None)"

lemma grant_write_Contains: "grant_write wc j u = Some p \<Longrightarrow> Contains j p"
  by (auto simp: grant_write_def Resolve_def Let_def resolve_ok_def resolve_error_def split: if_splits)

interpretation jailed: write_jail "grant_write wc j" "Contains j" for wc j
  by unfold_locales
     (auto simp: grant_write_Contains, simp add: grant_write_def Resolve_def resolve_ok_def resolve_error_def)

section \<open>Properties\<close>

text \<open>
  Whatever sequence of writes goes through the jail, relative, absolute, with dot-dots or
  refused, every file whose path does not have the root or an allowed directory as a prefix
  of its components keeps its content.  In particular a sibling directory whose name merely
  starts with the root's name is outside.
\<close>

theorem jailed_writes_stay_inside:
  assumes "wf_jail j" "[] \<notin> set q" "''..'' \<notin> set q" "\<not> list_ex (\<lambda>root. prefix root q) (jail_roots j)"
  shows "fs_node (granted_writes (grant_write wc j) ws fs) q = fs_node fs q"
  using assms Contains_iff [of j q] by (intro jailed.writes_frame) simp

definition ex_jail :: jail where
  "ex_jail = \<lparr>m_Root = [''home'', ''work''], m_Allow = []\<rparr>"

theorem jailed_writes_stay_inside_witness:
  "fs_node (granted_writes (grant_write Some ex_jail)
       [(''a.txt'', ''1''), (''../work-evil/b'', ''2''), (''/home/work-evil/b'', ''3'')] []) [''home'', ''work-evil'', ''b'']
   = fs_node [] [''home'', ''work-evil'', ''b'']"
  by (rule jailed_writes_stay_inside) (simp_all add: wf_jail_def ex_jail_def normal_def jail_roots_def)

text \<open>
  C16: A resolved path never holds an empty or dot-dot component; a path granted for writing
  has the root or an allowed directory as a prefix; a path outside is granted for reading
  only and flagged as outside.
\<close>

theorem resolve_confines:
  assumes "wf_jail j" "canonical_ok wc" "resolve_ok (Resolve wc j u forWrite)"
  shows "''..'' \<notin> set (rpath (Resolve wc j u forWrite)) \<and> [] \<notin> set (rpath (Resolve wc j u forWrite))
    \<and> (outsideWorkspace (Resolve wc j u forWrite) \<longleftrightarrow>
         \<not> list_ex (\<lambda>root. prefix root (rpath (Resolve wc j u forWrite))) (jail_roots j))
    \<and> (outsideWorkspace (Resolve wc j u forWrite) \<longrightarrow> \<not> forWrite)"
proof -
  let ?r = "Resolve wc j u forWrite"
  have c: "''..'' \<notin> set (rpath ?r)" "[] \<notin> set (rpath ?r)"
    using Resolve_path_clean [OF assms] by auto
  have "outsideWorkspace ?r \<longleftrightarrow> \<not> Contains j (rpath ?r)" "outsideWorkspace ?r \<longrightarrow> \<not> forWrite"
    using assms(3) by (auto simp: Resolve_def Let_def resolve_ok_def resolve_error_def split: if_splits)
  then show ?thesis using c Contains_iff [OF assms(1) c(2,1)] by simp
qed

theorem resolve_confines_witness:
  "outsideWorkspace (Resolve (\<lambda>p. Some (if normal p then p else [])) ex_jail ''/etc/passwd'' False)"
proof -
  have w: "wf_jail ex_jail" by (simp add: wf_jail_def ex_jail_def normal_def)
  have c: "canonical_ok (\<lambda>p. Some (if normal p then p else []))"
    by (auto simp: canonical_ok_def normal_def)
  have p: "Resolve (\<lambda>p. Some (if normal p then p else [])) ex_jail ''/etc/passwd'' False
      = \<lparr>rpath = [''etc'', ''passwd''],
         outsideWorkspace = \<not> Contains ex_jail [''etc'', ''passwd''], rerror = []\<rparr>"
    by (simp add: Resolve_def abs_path_def is_absolute_def path_parts_def normal_def Let_def)
  have ok: "resolve_ok (Resolve (\<lambda>p. Some (if normal p then p else [])) ex_jail ''/etc/passwd'' False)"
    by (simp add: p resolve_ok_def)
  show ?thesis
    using resolve_confines [OF w c ok] unfolding p by (simp add: jail_roots_def ex_jail_def)
qed

end
