(* ===== verification/ToolProfile.thy ===== *)
theory ToolProfile
  imports Files
begin

text \<open>
  \<^verbatim>\<open>src/core/ToolProfile.cpp\<close>: which tools are advertised, from a profile (given or detected
  in the workspace root), the packs to enable and disable, and a pinned list.
\<close>

definition kCoreTools :: "string list" where
  "kCoreTools = [''read'', ''edit'', ''search'', ''shell'', ''catalog'', ''activate'', ''deactivate'', ''project'']"

definition kLanguageExtra :: "string list" where
  "kLanguageExtra = [''git'', ''build'', ''test'', ''diagnose'']"

definition Lower :: "string \<Rightarrow> string" where
  "Lower s = map tolower s"

section \<open>Detection\<close>

text \<open>The scan of the root's regular files: (cpp, csharp).\<close>

fun scan_root :: "(path \<times> node) list \<Rightarrow> bool \<times> bool \<Rightarrow> bool \<times> bool" where
  "scan_root [] found = found"
| "scan_root ((p, n) # es) found =
     (case n of
        Directory \<Rightarrow> scan_root es found
      | RegFile s \<Rightarrow>
          (let ext = Lower (extension (filename p)) in
           case found of (cpp, csharp) \<Rightarrow>
             scan_root es (cpp \<or> ext = ''.vcxproj'', csharp \<or> ext = ''.csproj'' \<or> ext = ''.sln'')))"

definition Detect :: "filesys \<Rightarrow> path \<Rightarrow> path option \<Rightarrow> string" where
  "Detect fs cwd workspaceRoot =
     (let root = (case workspaceRoot of None \<Rightarrow> cwd | Some r \<Rightarrow> r) in
      if \<not> fs_exists fs root \<or> \<not> fs_is_dir fs root then ''core''
      else case scan_root (fs_children fs root)
             (fs_exists fs (root @ [''CMakeLists.txt'']) \<or> fs_exists fs (root @ [''compile_commands.json'']), False)
           of (cpp, csharp) \<Rightarrow>
             if cpp \<and> csharp then ''fullstack'' else if cpp then ''cpp''
             else if csharp then ''csharp'' else ''core'')"

text \<open>\<open>None\<close> is the empty string it returns for an unknown profile.\<close>

definition profile_names :: "string list" where
  "profile_names = [''auto'', ''core'', ''cpp'', ''csharp'', ''fullstack'', ''all'']"

definition Normalize :: "string \<Rightarrow> string option" where
  "Normalize raw0 =
     (let raw = Lower raw0 in
      if raw = [] then Some ''auto'' else if raw \<in> set profile_names then Some raw else None)"

definition ToolsForProfile :: "string \<Rightarrow> string set" where
  "ToolsForProfile profile =
     (if profile = ''all'' then {}
      else set kCoreTools \<union>
        (if profile = ''cpp'' \<or> profile = ''csharp'' \<or> profile = ''fullstack'' then set kLanguageExtra else {}))"

section \<open>Packs and pins\<close>

definition optional_packs :: "string list" where
  "optional_packs = [''github'', ''github-actions'', ''jira'', ''unity'', ''unreal'', ''skills'',
     ''llm'', ''remote'', ''memory'', ''desktop-notify'', ''entrian'', ''everything'',
     ''git_write'', ''filesystem'', ''shell-bg'']"

definition IsOptionalPack :: "string \<Rightarrow> bool" where
  "IsOptionalPack packId \<longleftrightarrow> packId \<in> set optional_packs"

definition kPackTools :: "(string \<times> string list) list" where
  "kPackTools = [(''git_write'', [''git_write'']), (''github'', []), (''skills'', [''skills'', ''skill'']),
                 (''llm'', [''llm'']), (''remote'', [''remote''])]"

record resolve_input =
  in_profile :: string
  in_enable :: "string list"
  in_disable :: "string list"
  in_pinTools :: "string list"
  in_workspaceRoot :: "path option"

text \<open>The error is \<open>Inl\<close>; a caller does not look at the other fields then.\<close>

record resolve_output =
  out_profile :: string
  out_advertised :: "string set"
  out_loadAllPlugins :: bool

fun enable_packs :: "string list \<Rightarrow> string set \<Rightarrow> string + string set" where
  "enable_packs [] adv = Inr adv"
| "enable_packs (pack # ps) adv =
     (if pack = [] then Inl ''Empty pack id in tools.enable''
      else (case map_of kPackTools pack of
              Some ts \<Rightarrow> enable_packs ps (adv \<union> set ts)
            | None \<Rightarrow> if IsOptionalPack pack then enable_packs ps adv
                      else Inl (''Unknown pack id: '' @ pack)))"

fun disable_packs :: "string list \<Rightarrow> string set \<Rightarrow> string set" where
  "disable_packs [] adv = adv"
| "disable_packs (pack # ps) adv =
     disable_packs ps (case map_of kPackTools pack of Some ts \<Rightarrow> adv - set ts | None \<Rightarrow> adv)"

definition pin_known :: "string \<Rightarrow> bool" where
  "pin_known t \<longleftrightarrow> t \<in> set kCoreTools \<or> t \<in> set kLanguageExtra
     \<or> t \<in> {''skills'', ''skill'', ''llm'', ''remote'', ''echo''}"

fun pin_tools :: "string set \<Rightarrow> string list \<Rightarrow> string set \<Rightarrow> string + string set" where
  "pin_tools adv [] pin = Inr pin"
| "pin_tools adv (t # ts) pin =
     (if t = [] then Inl ''Empty tool name in --tools''
      else if t \<notin> adv \<and> t \<noteq> ''echo'' \<and> \<not> pin_known t then Inl (''Unknown tool in --tools: '' @ t)
      else pin_tools adv ts (insert t pin))"

fun pin_all :: "string list \<Rightarrow> string set \<Rightarrow> string + string set" where
  "pin_all [] adv = Inr adv"
| "pin_all (t # ts) adv =
     (if t = [] then Inl ''Empty tool name in --tools'' else pin_all ts (insert t adv))"

definition Resolve :: "filesys \<Rightarrow> path \<Rightarrow> resolve_input \<Rightarrow> string + resolve_output" where
  "Resolve fs cwd i =
     (case Normalize (if in_profile i = [] then ''auto'' else in_profile i) of
        None \<Rightarrow> Inl (''Unknown profile: '' @ in_profile i @ '' (want auto|core|cpp|csharp|fullstack|all)'')
      | Some p \<Rightarrow>
          let profile = (if p = ''auto'' then Detect fs cwd (in_workspaceRoot i) else p);
              done = (\<lambda>adv. Inr \<lparr>out_profile = profile, out_advertised = adv,
                                 out_loadAllPlugins = (profile = ''all'')\<rparr>)
          in if profile = ''all'' then
               (case pin_all (in_pinTools i) {} of Inl e \<Rightarrow> Inl e | Inr adv \<Rightarrow> done adv)
             else (case enable_packs (in_enable i) (ToolsForProfile profile) of
               Inl e \<Rightarrow> Inl e
             | Inr adv1 \<Rightarrow>
                 let adv = disable_packs (in_disable i) adv1 in
                 if in_pinTools i = [] then done adv
                 else (case pin_tools adv (in_pinTools i) {} of Inl e \<Rightarrow> Inl e | Inr pin \<Rightarrow> done pin)))"

section \<open>What is advertised\<close>

definition pack_tools :: "string list \<Rightarrow> string set" where
  "pack_tools ps = (\<Union>p\<in>set ps. case map_of kPackTools p of Some ts \<Rightarrow> set ts | None \<Rightarrow> {})"

lemma enable_packs_eq:
  "enable_packs ps adv = Inr adv' \<longleftrightarrow>
     list_all (\<lambda>p. p \<noteq> [] \<and> (p \<in> set (map fst kPackTools) \<or> IsOptionalPack p)) ps \<and> adv' = adv \<union> pack_tools ps"
proof (induction ps adv rule: enable_packs.induct)
  case (2 p ps adv)
  have k: "p \<in> set (map fst kPackTools) \<longleftrightarrow> map_of kPackTools p \<noteq> None"
    by (simp add: map_of_eq_None_iff)
  then show ?case
    using 2 by (cases "map_of kPackTools p") (auto simp: pack_tools_def simp del: set_map list.map)
qed (auto simp: pack_tools_def)

lemma disable_packs_eq: "disable_packs ps adv = adv - pack_tools ps"
proof (induction ps adv rule: disable_packs.induct)
  case (2 p ps adv)
  then show ?case by (cases "map_of kPackTools p") (auto simp: pack_tools_def)
qed (simp add: pack_tools_def)

lemma pin_tools_eq:
  "pin_tools adv ts pin = Inr r \<longleftrightarrow>
     list_all (\<lambda>t. t \<noteq> [] \<and> (t \<in> adv \<or> pin_known t)) ts \<and> r = pin \<union> set ts"
proof (induction adv ts pin rule: pin_tools.induct)
  case (2 adv t ts pin)
  have "pin_known ''echo''" by (simp add: pin_known_def)
  then show ?case using 2 by auto
qed auto

lemma pin_all_eq: "pin_all ts adv = Inr r \<longleftrightarrow> [] \<notin> set ts \<and> r = adv \<union> set ts"
  by (induction ts adv rule: pin_all.induct) auto

lemma Detect_name: "Detect fs cwd root \<in> {''core'', ''cpp'', ''csharp'', ''fullstack''}"
  by (simp add: Detect_def Let_def split: prod.splits)

section \<open>Properties\<close>


definition ex_input :: resolve_input where
  "ex_input = \<lparr>in_profile = ''CPP'', in_enable = [''skills'', ''jira''], in_disable = [''llm''],
               in_pinTools = [], in_workspaceRoot = None\<rparr>"

lemma ex_Lower: "Lower ''CPP'' = ''cpp''"
  by code_simp

lemma ex_Resolve: "\<exists>out. Resolve [] [] ex_input = Inr out \<and> out_profile out = ''cpp''"
  by (simp add: Resolve_def ex_input_def Normalize_def ex_Lower
      profile_names_def kPackTools_def IsOptionalPack_def optional_packs_def Let_def)


end
