(* ===== verification/YamlFrontmatter.thy ===== *)
theory YamlFrontmatter
  imports Json
begin

text \<open>
  \<^verbatim>\<open>src/skills/YamlFrontmatter.cpp\<close>: the small YAML reader for the header of a \<^verbatim>\<open>SKILL.md\<close>
  file, line by line, and the split of header and body.
\<close>

record frontmatter =
  fm_fields :: "(string \<times> json) list"
  fm_body :: string
  fm_error :: string

definition Trim :: "string \<Rightarrow> string" where
  "Trim s = trim_by isspace s"

definition Unquote :: "string \<Rightarrow> string" where
  "Unquote s0 =
     (let s = Trim s0 in
      if 2 \<le> length s \<and> ((hd s = DQ \<and> last s = DQ) \<or> (hd s = SQ \<and> last s = SQ))
      then substr s 1 (length s - 2) else s)"

fun IndentOf :: "string \<Rightarrow> nat" where
  "IndentOf [] = 0"
| "IndentOf (c # cs) = (if c = CHR '' '' then Suc (IndentOf cs)
                        else if c = TAB then IndentOf cs + 2 else 0)"

section \<open>Field access\<close>

definition scalar_str :: "jlib \<Rightarrow> json \<Rightarrow> string" where
  "scalar_str J v =
     (if is_string v then (case v of JStr s \<Rightarrow> s | _ \<Rightarrow> [])
      else if is_number v \<or> is_boolean v then (case jdump J v of Inr s \<Rightarrow> s | Inl e \<Rightarrow> [])
      else [])"

definition GetString :: "jlib \<Rightarrow> frontmatter \<Rightarrow> string \<Rightarrow> string" where
  "GetString J fm key = (case map_of (fm_fields fm) key of None \<Rightarrow> [] | Some v \<Rightarrow> scalar_str J v)"

definition GetStringList :: "frontmatter \<Rightarrow> string \<Rightarrow> string list" where
  "GetStringList fm key = (case map_of (fm_fields fm) key of Some (JArr xs) \<Rightarrow> strings_of xs | _ \<Rightarrow> [])"

definition is_scalar :: "json \<Rightarrow> bool" where
  "is_scalar v \<longleftrightarrow> is_string v \<or> is_number v \<or> is_boolean v"

definition GetStringMap :: "jlib \<Rightarrow> frontmatter \<Rightarrow> string \<Rightarrow> (string \<times> string) list" where
  "GetStringMap J fm key =
     (case map_of (fm_fields fm) key of
        Some (JObj kvs) \<Rightarrow> map (\<lambda>(k, v). (k, scalar_str J v)) (filter (\<lambda>(k, v). is_scalar v) kvs)
      | _ \<Rightarrow> [])"

section \<open>The line reader\<close>

datatype ymode = Top | MapMode | ListMode

record ystate =
  yfields :: "(string \<times> json) list"
  currentKey :: string
  ymode :: ymode

fun array_items :: "json option \<Rightarrow> json list" where
  "array_items (Some (JArr xs)) = xs"
| "array_items v = []"

fun object_items :: "json option \<Rightarrow> (string \<times> json) list" where
  "object_items (Some (JObj kvs)) = kvs"
| "object_items v = []"

definition yaml_item :: "string \<Rightarrow> ystate \<Rightarrow> ystate" where
  "yaml_item item st =
     (if currentKey st = [] then st
      else st\<lparr>yfields := AList.update (currentKey st)
                 (JArr (array_items (map_of (yfields st) (currentKey st)) @ [JStr item])) (yfields st),
              ymode := ListMode\<rparr>)"

definition yaml_pair :: "nat \<Rightarrow> string \<Rightarrow> string \<Rightarrow> ystate \<Rightarrow> ystate" where
  "yaml_pair indent key val st =
     (if 0 < indent \<and> currentKey st \<noteq> [] \<and> ymode st = MapMode then
        st\<lparr>yfields := AList.update (currentKey st)
             (JObj (AList.update key (JStr (Unquote val))
                (object_items (map_of (yfields st) (currentKey st))))) (yfields st)\<rparr>
      else if val = [] then st\<lparr>currentKey := key, ymode := MapMode\<rparr>
      else st\<lparr>currentKey := key, ymode := Top,
              yfields := AList.update key (JStr (Unquote val)) (yfields st)\<rparr>)"

definition yaml_line :: "string \<Rightarrow> ystate \<Rightarrow> ystate" where
  "yaml_line raw st =
     (let line = strip_cr raw; trimmed = Trim line in
      if trimmed = [] then st
      else if hd trimmed = CHR ''#'' then st
      else if 2 \<le> length trimmed \<and> trimmed ! 0 = CHR ''-'' \<and> trimmed ! 1 = CHR '' ''
      then yaml_item (Unquote (drop 2 trimmed)) st
      else (case find_sub '':'' trimmed of
              None \<Rightarrow> st
            | Some colon \<Rightarrow> yaml_pair (IndentOf line) (Trim (substr trimmed 0 colon))
                              (Trim (drop (colon + 1) trimmed)) st))"

definition strip_bom :: "string \<Rightarrow> string" where
  "strip_bom s =
     (if 3 \<le> length s \<and> uchar (s ! 0) = 239 \<and> uchar (s ! 1) = 187 \<and> uchar (s ! 2) = 191
      then drop 3 s else s)"

definition front_error :: "string \<Rightarrow> frontmatter" where
  "front_error e = \<lparr>fm_fields = [], fm_body = [], fm_error = e\<rparr>"

definition ParseYamlFrontmatter :: "string \<Rightarrow> frontmatter" where
  "ParseYamlFrontmatter content =
     (let t = strip_bom content in
      if length t < 3 \<or> substr t 0 3 \<noteq> ''---''
      then front_error ''SKILL.md has no valid YAML frontmatter''
      else (case find_from (NL # ''---'') t 3 of
        None \<Rightarrow> front_error ''SKILL.md frontmatter is unclosed''
      | Some closing \<Rightarrow>
          let yaml = substr t 3 (closing - 3);
              rest = (case find_from [NL] t (closing + 4) of None \<Rightarrow> []
                      | Some bodyStart \<Rightarrow> drop (bodyStart + 1) t);
              st = fold yaml_line (getlines yaml) \<lparr>yfields = [], currentKey = [], ymode = Top\<rparr>
          in \<lparr>fm_fields = yfields st, fm_body = dropWhile (\<lambda>c. c = NL \<or> c = CR) rest, fm_error = []\<rparr>))"

section \<open>Reading back a rendered header\<close>

text \<open>
  Keys and values that need no quoting, and the header a writer produces from them.
\<close>

definition tight :: "string \<Rightarrow> bool" where
  "tight s \<longleftrightarrow> s \<noteq> [] \<and> NL \<notin> set s \<and> \<not> isspace (hd s) \<and> \<not> isspace (last s)"

definition good_key :: "string \<Rightarrow> bool" where
  "good_key k \<longleftrightarrow> tight k \<and> CHR '':'' \<notin> set k \<and> hd k \<noteq> CHR ''-'' \<and> hd k \<noteq> CHR ''#''"

definition good_value :: "string \<Rightarrow> bool" where
  "good_value v \<longleftrightarrow> tight v \<and> Unquote v = v"

definition field_line :: "string \<times> string \<Rightarrow> string" where
  "field_line kv = fst kv @ '': '' @ snd kv"

definition render_front :: "(string \<times> string) list \<Rightarrow> string \<Rightarrow> string" where
  "render_front kvs b =
     ''---'' @ [NL] @ concat (map (\<lambda>kv. field_line kv @ [NL]) kvs) @ ''---'' @ [NL] @ b"

lemma trim_by_tight: "tight s \<Longrightarrow> trim_by isspace s = s"
proof -
  assume t: "tight s"
  then have "dropWhile isspace s = s" by (cases s) (auto simp: tight_def)
  moreover have "dropWhile isspace (rev s) = rev s"
    using t by (cases s rule: rev_cases) (auto simp: tight_def)
  ultimately show ?thesis by (simp add: trim_by_def)
qed

lemma find_sub_skip:
  "c \<notin> set t \<Longrightarrow> find_sub (c # p) (t @ s) = map_option (\<lambda>i. length t + i) (find_sub (c # p) s)"
  by (induction t) (cases "find_sub (c # p) s"; auto)+

lemma strip_cr_tight: "tight s \<Longrightarrow> strip_cr s = s"
  by (auto simp: strip_cr_def tight_def isspace_def uchar_def)

lemma tight_field_line: "good_key k \<Longrightarrow> good_value v \<Longrightarrow> tight (field_line (k, v))"
  by (auto simp: good_key_def good_value_def tight_def field_line_def)

lemma Trim_value: "tight v \<Longrightarrow> Trim (CHR '' '' # v) = v"
proof -
  assume "tight v"
  then have "trim_by isspace v = v" by (rule trim_by_tight)
  moreover have "isspace CHR '' ''" by (simp add: isspace_def uchar_def)
  ultimately show ?thesis by (simp add: Trim_def trim_by_def)
qed

lemma yaml_line_field:
  assumes "good_key k" "good_value v" "ymode st = Top"
  shows "yaml_line (field_line (k, v)) st
     = st\<lparr>currentKey := k, yfields := AList.update k (JStr v) (yfields st)\<rparr>"
proof -
  let ?l = "field_line (k, v)"
  have t: "tight ?l" using tight_field_line assms by blast
  then have trim: "Trim ?l = ?l" "strip_cr ?l = ?l"
    by (simp_all add: Trim_def trim_by_tight strip_cr_tight)
  have k: "k \<noteq> []" "hd k \<noteq> CHR ''-''" "hd k \<noteq> CHR ''#''" "CHR '':'' \<notin> set k" "tight k" "tight v"
    "Unquote v = v" "v \<noteq> []"
    using assms by (auto simp: good_key_def good_value_def tight_def)
  then have hd: "hd ?l = hd k" "?l ! 0 = hd k" "?l \<noteq> []"
    by (cases k; simp add: field_line_def)+
  have colon: "find_sub '':'' ?l = Some (length k)"
    using k(4) find_sub_skip [of "CHR '':''" k "[]" "CHR '':'' # '' '' @ v"]
    by (simp add: field_line_def)
  have key: "Trim (substr ?l 0 (length k)) = k"
    using k(5) by (simp add: substr_def field_line_def Trim_def trim_by_tight)
  have val: "Trim (drop (Suc (length k)) ?l) = v"
    using Trim_value [OF k(6)] by (simp add: field_line_def)
  show ?thesis
    using hd k assms(3)
    by (simp add: yaml_line_def trim colon key val Let_def yaml_pair_def)
qed

lemma yaml_fold_fields:
  assumes "list_all (\<lambda>(k, v). good_key k \<and> good_value v) kvs" "ymode st = Top"
  shows "yfields (fold yaml_line (map field_line kvs) st)
     = fold (\<lambda>(k, v). AList.update k (JStr v)) kvs (yfields st)"
  using assms by (induction kvs arbitrary: st) (auto simp: yaml_line_field)

lemma getlines_lead:
  "list_all (\<lambda>l. NL \<notin> set l \<and> l \<noteq> []) ls \<Longrightarrow> ls \<noteq> [] \<Longrightarrow>
     lines_loop cur (concat (map (\<lambda>l. NL # l) ls)) = cur # ls"
proof (induction ls arbitrary: cur)
  case (Cons l ls)
  show ?case
  proof (cases "ls = []")
    case True
    then show ?thesis using Cons.prems lines_loop_skip [of l "[]" "[]"] by simp
  next
    case False
    then show ?thesis using Cons lines_loop_skip [of l "[]"] by simp
  qed
qed simp

lemma lead_trail: "NL # concat (map (\<lambda>l. l @ [NL]) ls) = concat (map (\<lambda>l. NL # l) ls) @ [NL]"
  by (induction ls) auto

lemma find_closing:
  assumes "list_all (\<lambda>l. NL \<notin> set l \<and> l \<noteq> [] \<and> hd l \<noteq> CHR ''-'') ls"
  shows "find_sub (NL # ''---'') (concat (map (\<lambda>l. NL # l) ls) @ NL # ''---'' @ s)
     = Some (length (concat (map (\<lambda>l. NL # l) ls)))"
  using assms
proof (induction ls)
  case (Cons l ls)
  let ?r = "concat (map (\<lambda>l. NL # l) ls) @ NL # ''---'' @ s"
  have "\<not> prefix (NL # ''---'') (NL # l @ ?r)" using Cons.prems by (cases l) auto
  then show ?case
    using Cons find_sub_skip [of NL l "''---''" ?r] by simp
qed simp

lemma map_of_fold_update:
  "map_of (fold (\<lambda>(k, v). AList.update k (f v)) xs al) = map_of al ++ (map_option f \<circ> map_of (rev xs))"
proof (induction xs arbitrary: al)
  case Nil
  then show ?case by (rule ext) (simp add: map_add_def)
next
  case (Cons kv xs)
  obtain k v where kv: "kv = (k, v)" by (cases kv)
  show ?case
    by (rule ext)
       (auto simp: kv Cons.IH update_conv' map_add_def split: option.splits)
qed

section \<open>Properties\<close>

text \<open>
  A header rendered from plain keys and values reads back: no error, the body from its
  first byte on, and for every key the value of its last line.
\<close>

theorem frontmatter_roundtrip:
  assumes "list_all (\<lambda>(k, v). good_key k \<and> good_value v) kvs"
    and "b = [] \<or> (hd b \<noteq> NL \<and> hd b \<noteq> CR)"
  shows "fm_error (ParseYamlFrontmatter (render_front kvs b)) = []
    \<and> fm_body (ParseYamlFrontmatter (render_front kvs b)) = b
    \<and> map_of (fm_fields (ParseYamlFrontmatter (render_front kvs b))) = map_option JStr \<circ> map_of (rev kvs)"
proof -
  let ?ls = "map field_line kvs"
  let ?t = "render_front kvs b"
  let ?y = "concat (map (\<lambda>l. NL # l) ?ls)"
  have t: "?t = ''---'' @ ?y @ NL # ''---'' @ NL # b"
    using lead_trail [of ?ls] by (simp add: render_front_def comp_def)
  have ls: "list_all (\<lambda>l. NL \<notin> set l \<and> l \<noteq> [] \<and> hd l \<noteq> CHR ''-'') ?ls"
  proof -
    have "hd (field_line (k, v)) \<noteq> CHR ''-''" if "good_key k" for k v
      using that by (cases k) (auto simp: good_key_def tight_def field_line_def)
    then show ?thesis
      using assms(1) tight_field_line by (fastforce simp: list_all_iff tight_def)
  qed
  have closing: "find_from (NL # ''---'') ?t 3 = Some (3 + length ?y)"
    using find_closing [OF ls, of "NL # b"] by (simp add: find_from_def t)
  have pre: "drop (3 + length ?y + 4) ?t = NL # b" "3 + length ?y + 4 \<le> length ?t"
  proof -
    let ?pre = "''---'' @ ?y @ NL # ''---''"
    have "?t = ?pre @ NL # b" "length ?pre = 3 + length ?y + 4" by (simp_all add: t)
    then show "drop (3 + length ?y + 4) ?t = NL # b" "3 + length ?y + 4 \<le> length ?t"
      by (metis append_eq_conv_conj, metis le_add1 length_append)
  qed
  then have bodyStart: "find_from [NL] ?t (3 + length ?y + 4) = Some (3 + length ?y + 4)"
    by (simp only: find_from_def) simp
  have after: "drop (3 + length ?y + 4 + 1) ?t = b"
    using pre(1) drop_drop [of 1 "3 + length ?y + 4" ?t] by (simp add: add.commute)
  have yaml: "substr ?t 3 (3 + length ?y - 3) = ?y"
    by (simp add: t substr_def)
  have lines: "getlines ?y = (if kvs = [] then [] else [] # ?ls)"
    using ls getlines_lead [of ?ls "[]"] by (auto simp: getlines_def list_all_iff)
  have nobom: "strip_bom ?t = ?t" by (simp add: strip_bom_def t uchar_def)
  let ?st = "fold yaml_line (getlines ?y) \<lparr>yfields = [], currentKey = [], ymode = Top\<rparr>"
  have p: "ParseYamlFrontmatter ?t = \<lparr>fm_fields = yfields ?st, fm_body = dropWhile (\<lambda>c. c = NL \<or> c = CR) b, fm_error = []\<rparr>"
    unfolding ParseYamlFrontmatter_def nobom Let_def closing option.case bodyStart yaml after
    by (simp add: t substr_def)
  have blank: "yaml_line [] st = st" for st
    by (simp add: yaml_line_def Trim_def trim_by_def strip_cr_def)
  have "yfields ?st = fold (\<lambda>(k, v). AList.update k (JStr v)) kvs []"
    unfolding lines using yaml_fold_fields [OF assms(1)] by (simp add: blank)
  moreover have "dropWhile (\<lambda>c. c = NL \<or> c = CR) b = b" using assms(2) by (cases b) auto
  ultimately show ?thesis by (simp add: p map_of_fold_update)
qed

theorem frontmatter_roundtrip_witness:
  "fm_body (ParseYamlFrontmatter (render_front [(''name'', ''a-b''), (''description'', ''x: y'')] ''# Hi'')) = ''# Hi''"
proof -
  have "list_all (\<lambda>(k, v). good_key k \<and> good_value v) [(''name'', ''a-b''), (''description'', ''x: y'')]"
    by (simp add: good_key_def good_value_def tight_def isspace_def uchar_def Unquote_def Trim_def trim_by_def)
  from frontmatter_roundtrip [OF this, of "''# Hi''"] show ?thesis by simp
qed

end
