(* ===== verification/AgentSkills.thy ===== *)
theory AgentSkills
  imports YamlFrontmatter Files
begin

text \<open>
  \<^verbatim>\<open>src/skills/AgentSkillLoader.cpp\<close>: discovery of \<^verbatim>\<open>SKILL.md\<close> directories in the project,
  user and bundled scopes, and the loading of one skill's body.  \<open>wc\<close> is
  \<^verbatim>\<open>weakly_canonical\<close>, \<open>J\<close> the JSON library (it prints the scalars of a header).
\<close>

record agent_skill =
  as_Name :: string
  as_Description :: string
  as_Location :: string
  as_Root :: string
  as_License :: string
  as_Compatibility :: string
  as_AllowedTools :: string
  as_Metadata :: "(string \<times> string) list"
  as_Warnings :: "string list"

record discovery =
  skills :: "agent_skill list"
  skipped :: "string list"

definition IsSpecSkillName :: "string \<Rightarrow> bool" where
  "IsSpecSkillName name =
     (if name = [] \<or> 64 < length name then False
      else if hd name = CHR ''-'' \<or> last name = CHR ''-'' then False
      else if contains_sub ''--'' name then False
      else list_all (\<lambda>c. islower c \<or> isdigit c \<or> c = CHR ''-'') name)"

definition ReadFile :: "filesys \<Rightarrow> path \<Rightarrow> string" where
  "ReadFile fs p = (case fs_read fs p of None \<Rightarrow> [] | Some s \<Rightarrow> s)"

definition SkipDirName :: "string \<Rightarrow> bool" where
  "SkipDirName name \<longleftrightarrow> name = ''.git'' \<or> name = ''node_modules'' \<or> name = ''.cursor'' \<or> name = ''__pycache__''"

fun join_sp :: "string list \<Rightarrow> string" where
  "join_sp [] = []"
| "join_sp [x] = x"
| "join_sp (x # xs) = x @ '' '' @ join_sp xs"

definition make_skill :: "jlib \<Rightarrow> (path \<Rightarrow> path option) \<Rightarrow> path \<Rightarrow> frontmatter \<Rightarrow> string \<Rightarrow> string \<Rightarrow> agent_skill" where
  "make_skill J wc skillDir fm name desc =
     (let skillMd = skillDir @ [''SKILL.md''];
          tools = GetString J fm ''allowed-tools''
      in \<lparr>as_Name = name,
          as_Description = (if 1024 < length desc then substr desc 0 1024 else desc),
          as_Location = (case wc skillMd of Some c \<Rightarrow> path_str c | None \<Rightarrow> path_str skillMd),
          as_Root = path_str skillDir,
          as_License = GetString J fm ''license'',
          as_Compatibility = GetString J fm ''compatibility'',
          as_AllowedTools = (if tools = [] then join_sp (GetStringList fm ''allowed-tools'') else tools),
          as_Metadata = GetStringMap J fm ''metadata'',
          as_Warnings =
            (if \<not> IsSpecSkillName name then [''name does not match agentskills.io charset/length rules''] else [])
            @ (if name \<noteq> filename skillDir
               then [''name '' @ [SQ] @ name @ [SQ] @ '' does not match directory '' @ [SQ] @ filename skillDir @ [SQ]]
               else [])
            @ (if 1024 < length desc then [''description truncated to 1024 characters''] else [])\<rparr>)"

definition LoadOneSkill ::
    "jlib \<Rightarrow> (path \<Rightarrow> path option) \<Rightarrow> filesys \<Rightarrow> path \<Rightarrow> discovery \<times> string set \<Rightarrow> discovery \<times> string set" where
  "LoadOneSkill J wc fs skillDir = (\<lambda>(out, seen).
     let skillMd = skillDir @ [''SKILL.md''];
         skip = (\<lambda>why. (out\<lparr>skipped := skipped out @ [path_str skillMd @ '': '' @ why]\<rparr>, seen))
     in if \<not> fs_exists fs skillMd \<or> \<not> fs_is_file fs skillMd then (out, seen)
     else let fm = ParseYamlFrontmatter (ReadFile fs skillMd) in
       if fm_error fm \<noteq> [] then skip (fm_error fm)
       else let desc = GetString J fm ''description'' in
         if desc = [] then skip ''description is required''
         else let name = GetString J fm ''name'' in
           if name = [] then skip ''name is required''
           else if name \<in> seen then (out, seen)
           else (out\<lparr>skills := skills out @ [make_skill J wc skillDir fm name desc]\<rparr>, insert name seen))"

text \<open>
  \<^verbatim>\<open>ScanSkillsDir\<close>: \<open>levels\<close> is \<open>5 - depth\<close>, so that \<^verbatim>\<open>depth > 4\<close> is \<open>0\<close>.
\<close>

definition subdirs :: "filesys \<Rightarrow> path \<Rightarrow> path list" where
  "subdirs fs dir = map fst (filter (\<lambda>(p, n). n = Directory \<and> \<not> SkipDirName (filename p)) (fs_children fs dir))"

fun ScanSkillsDir ::
    "jlib \<Rightarrow> (path \<Rightarrow> path option) \<Rightarrow> filesys \<Rightarrow> nat \<Rightarrow> path \<Rightarrow> discovery \<times> string set \<Rightarrow> discovery \<times> string set" where
  "ScanSkillsDir J wc fs 0 dir acc = acc"
| "ScanSkillsDir J wc fs (Suc levels) dir acc =
     (if \<not> fs_exists fs dir \<or> \<not> fs_is_dir fs dir then acc
      else fold (\<lambda>d a. ScanSkillsDir J wc fs levels d (LoadOneSkill J wc fs d a)) (subdirs fs dir) acc)"

definition skill_scopes :: "path option \<Rightarrow> path option \<Rightarrow> path option \<Rightarrow> path list" where
  "skill_scopes workspaceRoot homeDir bundledDir =
     (let three = (\<lambda>d. [d @ [''.toolsmith'', ''skills''], d @ [''.agents'', ''skills''], d @ [''.claude'', ''skills'']])
      in (case workspaceRoot of None \<Rightarrow> [] | Some ws \<Rightarrow> three ws)
         @ (case homeDir of None \<Rightarrow> [] | Some home \<Rightarrow> three home)
         @ (case bundledDir of None \<Rightarrow> [] | Some b \<Rightarrow> [b]))"

definition scan_scopes ::
    "jlib \<Rightarrow> (path \<Rightarrow> path option) \<Rightarrow> filesys \<Rightarrow> path list \<Rightarrow> discovery \<times> string set \<Rightarrow> discovery \<times> string set" where
  "scan_scopes J wc fs dirs = fold (ScanSkillsDir J wc fs 5) dirs"

definition DiscoverAgentSkills ::
    "jlib \<Rightarrow> (path \<Rightarrow> path option) \<Rightarrow> filesys \<Rightarrow> path option \<Rightarrow> path option \<Rightarrow> path option \<Rightarrow> discovery" where
  "DiscoverAgentSkills J wc fs workspaceRoot homeDir bundledDir =
     fst (scan_scopes J wc fs (skill_scopes workspaceRoot homeDir bundledDir) (\<lparr>skills = [], skipped = []\<rparr>, {}))"

section \<open>Loading a body\<close>

record skill_body =
  sb_body :: string
  sb_root :: string
  sb_allowedTools :: string

definition LoadAgentSkillBody :: "filesys \<Rightarrow> discovery \<Rightarrow> string \<Rightarrow> string + skill_body" where
  "LoadAgentSkillBody fs catalog name =
     (if name = [] then Inl ''Missing required argument: name''
      else (case find (\<lambda>s. as_Name s = name) (skills catalog) of
        None \<Rightarrow> Inl (''Unknown skill: '' @ name)
      | Some s \<Rightarrow>
          (case fs_read fs (path_parts (as_Location s)) of
             None \<Rightarrow> Inl (''Cannot read '' @ as_Location s)
           | Some content \<Rightarrow>
               let fm = ParseYamlFrontmatter content in
               if fm_error fm \<noteq> [] then Inl (fm_error fm)
               else Inr \<lparr>sb_body = fm_body fm, sb_root = as_Root s, sb_allowedTools = as_AllowedTools s\<rparr>)))"

section \<open>The catalogue invariant\<close>

definition wf_skill :: "agent_skill \<Rightarrow> bool" where
  "wf_skill s \<longleftrightarrow> as_Name s \<noteq> [] \<and> as_Description s \<noteq> [] \<and> length (as_Description s) \<le> 1024
     \<and> (as_Warnings s = [] \<longrightarrow> IsSpecSkillName (as_Name s))"

definition wf_discovery :: "discovery \<times> string set \<Rightarrow> bool" where
  "wf_discovery ds \<longleftrightarrow> snd ds = as_Name ` set (skills (fst ds)) \<and> distinct (map as_Name (skills (fst ds)))
     \<and> list_all wf_skill (skills (fst ds))"

text \<open>One step of discovery: the invariant is kept and the catalogue only grows at its end.\<close>

definition extends :: "discovery \<times> string set \<Rightarrow> discovery \<times> string set \<Rightarrow> bool" where
  "extends a b \<longleftrightarrow> wf_discovery b \<and> prefix (skills (fst a)) (skills (fst b))"

lemma extends_refl: "wf_discovery a \<Longrightarrow> extends a a"
  by (simp add: extends_def)

lemma extends_trans: "extends a b \<Longrightarrow> extends b c \<Longrightarrow> extends a c"
  by (auto simp: extends_def)

lemma wf_make_skill: "name \<noteq> [] \<Longrightarrow> desc \<noteq> [] \<Longrightarrow> wf_skill (make_skill J wc d fm name desc)"
  by (auto simp: wf_skill_def make_skill_def substr_def Let_def)

lemma as_Name_make_skill [simp]: "as_Name (make_skill J wc d fm name desc) = name"
  by (simp add: make_skill_def Let_def)

lemma extends_LoadOneSkill: "wf_discovery a \<Longrightarrow> extends a (LoadOneSkill J wc fs d a)"
  by (cases a)
     (auto simp: LoadOneSkill_def Let_def extends_def wf_discovery_def wf_make_skill)

lemma extends_fold:
  assumes "\<And>x a. wf_discovery a \<Longrightarrow> extends a (f x a)"
  shows "wf_discovery a \<Longrightarrow> extends a (fold f xs a)"
proof (induction xs arbitrary: a)
  case (Cons x xs)
  have "extends a (f x a)" using assms Cons.prems by blast
  moreover have "extends (f x a) (fold f xs (f x a))"
    using Cons.IH calculation by (simp add: extends_def)
  ultimately show ?case by (auto intro: extends_trans)
qed (simp add: extends_refl)

lemma extends_ScanSkillsDir: "wf_discovery a \<Longrightarrow> extends a (ScanSkillsDir J wc fs n d a)"
proof (induction n arbitrary: d a)
  case (Suc n)
  have "extends a (ScanSkillsDir J wc fs n x (LoadOneSkill J wc fs x a))" if "wf_discovery a" for x a
    using extends_LoadOneSkill [OF that] Suc.IH by (meson extends_def extends_trans)
  then show ?case
    using Suc.prems by (simp add: extends_refl extends_fold)
qed (simp add: extends_refl)

lemma extends_scan_scopes: "wf_discovery a \<Longrightarrow> extends a (scan_scopes J wc fs dirs a)"
  unfolding scan_scopes_def by (rule extends_fold) (rule extends_ScanSkillsDir)

lemma wf_discovery_init: "wf_discovery (\<lparr>skills = [], skipped = []\<rparr>, {})"
  by (simp add: wf_discovery_def)

section \<open>Properties\<close>

text \<open>
  A discovered catalogue names every skill once, each with a non-empty name and a
  description of 1 to 1024 bytes, and a skill without warnings has a name of the
  specification's form.  Scopes are searched in order: what the first \<open>k\<close> scopes find is the
  beginning of what the whole search finds, so an earlier scope's skill shadows a later one.
\<close>

theorem discovery_wf:
  "distinct (map as_Name (skills (DiscoverAgentSkills J wc fs w h b)))
   \<and> list_all wf_skill (skills (DiscoverAgentSkills J wc fs w h b))
   \<and> prefix (skills (fst (scan_scopes J wc fs (take k (skill_scopes w h b)) (\<lparr>skills = [], skipped = []\<rparr>, {}))))
            (skills (DiscoverAgentSkills J wc fs w h b))"
proof -
  let ?i = "(\<lparr>skills = [], skipped = []\<rparr>, {})" and ?sc = "skill_scopes w h b"
  let ?e = "scan_scopes J wc fs (take k ?sc) ?i"
  have "wf_discovery ?e" using extends_scan_scopes [OF wf_discovery_init] by (simp add: extends_def)
  from extends_scan_scopes [OF this, of J wc fs "drop k ?sc"]
  have "extends ?e (scan_scopes J wc fs (take k ?sc @ drop k ?sc) ?i)"
    by (simp only: scan_scopes_def fold_append comp_def)
  then show ?thesis by (simp add: extends_def wf_discovery_def DiscoverAgentSkills_def)
qed

end
