(* ===== verification/CoreTools.thy ===== *)
theory CoreTools
  imports CommandRegistry Hashline WorkspaceJail ToolProfile AgentSkills
begin

text \<open>
  \<^verbatim>\<open>src/commands/CoreTools.cpp\<close>: the fourteen in-process tools.  Their shared state is the
  record \<open>core_world\<close> (\<^verbatim>\<open>CoreRuntime\<close>, the file system, and the shell's set of cancelled
  requests).  What lies outside the program is the record \<open>env\<close>: canonicalisation, the files
  that cannot be opened, the JSON library, and \<open>env_spawn\<close>, which says for a command line
  and working directory why it cannot start or how it behaves, poll by poll.
\<close>

section \<open>Helpers\<close>

definition Payload :: "json \<Rightarrow> json" where
  "Payload request =
     (if j_contains request ''payload'' \<and> is_object (j_at request ''payload'')
      then j_at request ''payload'' else JObj [])"

definition Ok :: "string \<Rightarrow> bool \<Rightarrow> json" where
  "Ok content0 truncated =
     (case CapHead content0 of (content, capTrunc) \<Rightarrow>
        JObj [(''status'', JStr ''ok''), (''content'', JStr content),
              (''truncated'', JBool (truncated \<or> capTrunc))])"

definition Err :: "string \<Rightarrow> json" where
  "Err message = JObj [(''status'', JStr ''error''), (''error'', JStr message)]"

text \<open>\<^verbatim>\<open>r[key] = v\<close> on an object the tool has just built.\<close>

fun put :: "json \<Rightarrow> string \<Rightarrow> json \<Rightarrow> json" where
  "put (JObj kvs) k v = JObj (AList.update k v kvs)"
| "put j k v = j"

definition ClampInt :: "int \<Rightarrow> int \<Rightarrow> int \<Rightarrow> int \<Rightarrow> int" where
  "ClampInt v lo hi fallback = (if v = 0 then fallback else if v < lo then lo else if hi < v then hi else v)"

definition LooksBinary :: "string \<Rightarrow> bool" where
  "LooksBinary bytes \<longleftrightarrow> CHR 0x00 \<in> set (take 8192 bytes)"

definition csi_final :: "char \<Rightarrow> bool" where
  "csi_final c \<longleftrightarrow> 64 \<le> schar c \<and> schar c \<le> 126"

function StripAnsi :: "string \<Rightarrow> string" where
  "StripAnsi [] = []"
| "StripAnsi [c] = [c]"
| "StripAnsi (a # b # cs) =
     (if a = CHR 0x1B \<and> b = CHR ''['' then StripAnsi (drop 1 (dropWhile (\<lambda>c. \<not> csi_final c) cs))
      else a # StripAnsi (b # cs))"
  by pat_completeness auto
termination
proof (relation "measure length", goal_cases)
  case (2 a b cs)
  have "length (dropWhile (\<lambda>c. \<not> csi_final c) cs) \<le> length cs" by (rule length_dropWhile_le)
  then show ?case by simp
qed simp_all

definition kSkippedDirs :: "string list" where
  "kSkippedDirs = [''.git'', ''node_modules'', ''build'', ''dist'', ''.cursor'', ''__pycache__'', ''.vs'', ''out'']"

section \<open>Processes\<close>

text \<open>
  One round of the loop in \<^verbatim>\<open>RunProc\<close>: whether the deadline has passed, the lines read, the
  cancelled requests at that moment, and whether the child runs.  A trace that ends counts as
  an expired deadline.
\<close>

record poll =
  p_expired :: bool
  p_lines :: "string list"
  p_cancelled :: "string set"
  p_running :: bool

record proc_trace =
  t_polls :: "poll list"
  t_running :: bool
  t_lines :: "string list"

record proc_result =
  r_output :: string
  r_timedOut :: bool
  r_started :: bool

text \<open>\<^verbatim>\<open>AppendLines\<close>: the new output and the lines left in the pipe.\<close>

fun AppendLines :: "string list \<Rightarrow> string \<Rightarrow> string \<times> string list" where
  "AppendLines [] output = (output, [])"
| "AppendLines (l # ls) output =
     (let o2 = output @ l @ [NL] in
      if kMaxResultBytes * 4 < length o2 then (o2, ls) else AppendLines ls o2)"

text \<open>The polling loop: output, \<^verbatim>\<open>timedOut\<close>, and the lines left in the pipe.\<close>

fun proc_loop :: "(string set \<Rightarrow> bool) \<Rightarrow> poll list \<Rightarrow> string list \<Rightarrow> string \<Rightarrow> string \<times> bool \<times> string list" where
  "proc_loop cancelled [] left output = (output, False, left)"
| "proc_loop cancelled (p # ps) left output =
     (if p_expired p then (output, False, left)
      else (case AppendLines (left @ p_lines p) output of (o2, left2) \<Rightarrow>
        if kMaxResultBytes * 4 < length o2 then (o2, False, left2)
        else if cancelled (p_cancelled p) then (o2 @ [NL] @ ''cancelled'' @ [NL], True, left2)
        else if \<not> p_running p then (o2, False, left2)
        else proc_loop cancelled ps left2 o2))"

definition RunProc :: "string + proc_trace \<Rightarrow> (string set \<Rightarrow> bool) \<Rightarrow> proc_result" where
  "RunProc spawned cancelled =
     (case spawned of
        Inl e \<Rightarrow> \<lparr>r_output = e, r_timedOut = False, r_started = False\<rparr>
      | Inr t \<Rightarrow>
          (case proc_loop cancelled (t_polls t) [] [] of (output, timedOut, left) \<Rightarrow>
             \<lparr>r_output = StripAnsi (fst (AppendLines (left @ t_lines t) output)),
              r_timedOut = (timedOut \<or> t_running t), r_started = True\<rparr>))"

section \<open>The tools' world\<close>

record core_world =
  w_jail :: jail
  w_profile :: string
  w_advertised :: "string set"
  w_locked :: "string set"
  w_skills :: discovery
  w_files :: filesys

record env =
  env_wc :: "path \<Rightarrow> path option"
  env_unreadable :: "path \<Rightarrow> bool"
  env_unwritable :: "path \<Rightarrow> bool"
  env_spawn :: "string \<Rightarrow> string list \<Rightarrow> int \<Rightarrow> string \<Rightarrow> string + proc_trace"
  env_pretty :: "json \<Rightarrow> string res"

datatype core_tool = Read | Edit | Search | Shell | Project | Git | Build | Test | Diagnose
  | Catalog | Activate | Deactivate | Skills | Skill

definition ReadAll :: "env \<Rightarrow> core_world \<Rightarrow> path \<Rightarrow> string + string" where
  "ReadAll E w p =
     (if env_unreadable E p then Inl (''Cannot read file: '' @ path_str p)
      else case fs_read (w_files w) p of
        None \<Rightarrow> Inl (''Cannot read file: '' @ path_str p) | Some s \<Rightarrow> Inr s)"

definition jail_resolve :: "env \<Rightarrow> core_world \<Rightarrow> string \<Rightarrow> bool \<Rightarrow> resolve_result" where
  "jail_resolve E w = WorkspaceJail.Resolve (env_wc E) (w_jail w)"

definition no_cancel :: "string set \<Rightarrow> bool" where
  "no_cancel s = False"

section \<open>read\<close>

definition ReadCommand :: "env \<Rightarrow> json \<Rightarrow> core_world \<Rightarrow> json res" where
  "ReadCommand E request w =
     (let p = Payload request in
      bindE (value_str p ''path'' []) (\<lambda>path.
      let resolved = jail_resolve E w path False in
      if \<not> resolve_ok resolved then Inr (Err (rerror resolved))
      else if \<not> fs_is_file (w_files w) (rpath resolved)
        then Inr (Err (''Not a regular file: '' @ path_str (rpath resolved)))
      else (case ReadAll E w (rpath resolved) of
        Inl e \<Rightarrow> Inr (Err e)
      | Inr bytes \<Rightarrow>
          if LooksBinary bytes
          then Inr (Err (''Refusing to read binary file: '' @ path_str (rpath resolved)))
          else
            bindE (value_int p ''offset'' 0) (\<lambda>offset.
            bindE (value_int p ''limit'' kReadDefaultLines) (\<lambda>limit0.
            let limit = ClampInt limit0 1 kReadMaxLines kReadDefaultLines in
            if j_contains p ''limit'' \<and> is_number_integer (j_at p ''limit'') \<and> limit0 \<le> 0
            then Inr (Err ''limit must be > 0'')
            else if offset < 0 then Inr (Err ''offset must be >= 0'')
            else bindE (value_bool p ''hashes'' True) (\<lambda>hashes.
              let lines = ParseFile bytes in
              if int (length lines) < offset then Inr (Err ''offset is past end of file'')
              else (case FormatRead lines offset limit hashes of (text, truncated, nextLine) \<Rightarrow>
                let r = put (Ok text truncated) ''outside_workspace'' (JBool (outsideWorkspace resolved))
                in Inr (if truncated then put r ''next_line'' (JInt nextLine) else r))))))))"

section \<open>edit\<close>

definition parseAnchor :: "string \<Rightarrow> (int \<times> string) option" where
  "parseAnchor a =
     (case find_sub '':'' a of None \<Rightarrow> None
      | Some pos \<Rightarrow> (case stoi (substr a 0 pos) of None \<Rightarrow> None
          | Some line \<Rightarrow> let hsh = drop (pos + 1) a in
              if 0 < line \<and> length hsh = 4 then Some (line, hsh) else None))"

datatype hunk_parse = Throws exn | BadHunk string | ParsedHunks "hunk list"

definition parse_hunk :: "json \<Rightarrow> hunk_parse" where
  "parse_hunk h =
     (case value_str h ''start'' [] of Inl e \<Rightarrow> Throws e
      | Inr start \<Rightarrow>
     (case value_str h ''end'' [] of Inl e \<Rightarrow> Throws e
      | Inr end_ \<Rightarrow>
     (case parseAnchor start of None \<Rightarrow> BadHunk ''Invalid hunk start anchor (want LINE:HASH)''
      | Some (sl, sh) \<Rightarrow>
     (case (if end_ = [] then Some (0, []) else parseAnchor end_) of
        None \<Rightarrow> BadHunk ''Invalid hunk end anchor (want LINE:HASH)''
      | Some (el, eh) \<Rightarrow>
          (case j_lookup h ''content'' of
             Some (JStr c) \<Rightarrow> ParsedHunks [\<lparr>startLine = sl, startHash = sh, endLine = el,
                                          endHash = eh, hunkContent = c\<rparr>]
           | _ \<Rightarrow> BadHunk ''Hunk missing content string'')))))"

fun parse_hunks :: "json list \<Rightarrow> hunk_parse" where
  "parse_hunks [] = ParsedHunks []"
| "parse_hunks (h # hs) =
     (case parse_hunk h of
        ParsedHunks x \<Rightarrow> (case parse_hunks hs of ParsedHunks xs \<Rightarrow> ParsedHunks (x @ xs) | r \<Rightarrow> r)
      | r \<Rightarrow> r)"

text \<open>From the file's bytes on: parse the hunks, apply them, write the file.\<close>

definition edit_file :: "env \<Rightarrow> path \<Rightarrow> json list \<Rightarrow> string \<Rightarrow> core_world \<Rightarrow> json res \<times> core_world" where
  "edit_file E p hs bytes w =
     (if LooksBinary bytes then (Inr (Err ''Refusing to edit binary file''), w)
      else (case parse_hunks hs of
        Throws e \<Rightarrow> (Inl e, w)
      | BadHunk e \<Rightarrow> (Inr (Err e), w)
      | ParsedHunks hunks \<Rightarrow>
          (case ApplyHunks (ParseFile bytes) hunks of
             Rejected e \<Rightarrow> (Inr (Err e), w)
           | Undefined \<Rightarrow> (Inl UnknownException, w)
           | Applied next_text \<Rightarrow>
               if env_unwritable E p then (Inr (Err (''Cannot write file: '' @ path_str p)), w)
               else (Inr (Ok (''Updated '' @ path_str p @ '' ('' @ nat_str (length hunks) @ '' hunks)'') False),
                     w\<lparr>w_files := fs_write (w_files w) p next_text\<rparr>))))"

definition EditCommand :: "env \<Rightarrow> json \<Rightarrow> core_world \<Rightarrow> json res \<times> core_world" where
  "EditCommand E request w =
     (let p = Payload request in
      case value_str p ''path'' [] of Inl e \<Rightarrow> (Inl e, w)
      | Inr upath \<Rightarrow>
      let resolved = jail_resolve E w upath True in
      if \<not> resolve_ok resolved then (Inr (Err (rerror resolved)), w)
      else (case j_lookup p ''hunks'' of
        Some (JArr hs) \<Rightarrow>
          if hs = [] then (Inr (Err ''hunks must not be empty''), w)
          else if \<not> fs_is_file (w_files w) (rpath resolved)
            then (Inr (Err (''File not found: '' @ path_str (rpath resolved))), w)
          else (case ReadAll E w (rpath resolved) of
            Inl e \<Rightarrow> (Inr (Err e), w)
          | Inr bytes \<Rightarrow> edit_file E (rpath resolved) hs bytes w)
      | _ \<Rightarrow> (Inr (Err ''Missing required argument: hunks''), w)))"

section \<open>search\<close>

definition kSearchSkipExt :: "string list" where
  "kSearchSkipExt = [''.png'', ''.jpg'', ''.exe'', ''.dll'', ''.so'', ''.o'', ''.a'']"

text \<open>The regular files below a directory; skipped directories are not entered.\<close>

definition search_files :: "filesys \<Rightarrow> path \<Rightarrow> path list" where
  "search_files fs dir =
     (if fs_is_dir fs dir then
        map fst (filter (\<lambda>(p, n). strict_prefix dir p \<and> n \<noteq> Directory
          \<and> list_all (\<lambda>d. d \<notin> set kSkippedDirs) (butlast (drop (length dir) p))) fs)
      else [])"

fun rel_str :: "path \<Rightarrow> string" where
  "rel_str [] = []"
| "rel_str [x] = x"
| "rel_str (x # xs) = x @ ''/'' @ rel_str xs"

text \<open>The loop over the lines of one file: output, number of hits, \<^verbatim>\<open>truncated\<close>.\<close>

fun search_lines :: "string \<Rightarrow> string \<Rightarrow> int \<Rightarrow> hline list \<Rightarrow> string \<times> int \<Rightarrow> (string \<times> int) \<times> bool" where
  "search_lines pat relPath maxHits [] oh = (oh, False)"
| "search_lines pat relPath maxHits (l # ls) oh =
     (case oh of (out, hits) \<Rightarrow>
        if \<not> contains_sub pat (lineText l) \<and> \<not> contains_sub pat relPath
        then search_lines pat relPath maxHits ls (out, hits)
        else if maxHits \<le> hits then ((out, hits), True)
        else search_lines pat relPath maxHits ls
               (out @ relPath @ '':'' @ int_str (lineNumber l) @ '': ''
                @ take kSearchSnippetChars (lineText l) @ [NL], hits + 1))"

fun search_loop :: "env \<Rightarrow> core_world \<Rightarrow> string \<Rightarrow> int \<Rightarrow> path list \<Rightarrow> string \<times> int \<Rightarrow> (string \<times> int) \<times> bool" where
  "search_loop E w pat maxHits [] oh = (oh, False)"
| "search_loop E w pat maxHits (f # fs) oh =
     (if extension (filename f) \<in> set kSearchSkipExt then search_loop E w pat maxHits fs oh
      else (case ReadAll E w f of
        Inl e \<Rightarrow> search_loop E w pat maxHits fs oh
      | Inr bytes \<Rightarrow>
          if LooksBinary bytes then search_loop E w pat maxHits fs oh
          else (case search_lines pat (rel_str (lexically_relative f (m_Root (w_jail w)))) maxHits
                       (ParseFile bytes) oh of
                  (oh2, True) \<Rightarrow> (oh2, True)
                | (oh2, False) \<Rightarrow> search_loop E w pat maxHits fs oh2)))"

definition SearchCommand :: "env \<Rightarrow> json \<Rightarrow> core_world \<Rightarrow> json res" where
  "SearchCommand E request w =
     (let p = Payload request in
      bindE (value_str p ''pattern'' []) (\<lambda>pat.
      if pat = [] then Inr (Err ''Missing required argument: pattern'')
      else bindE (value_str p ''path'' []) (\<lambda>rel.
        let resolved = jail_resolve E w (if rel = [] then ''.'' else rel) True in
        if \<not> resolve_ok resolved then Inr (Err (rerror resolved))
        else if outsideWorkspace resolved then Inr (Err ''search is jailed to the workspace'')
        else bindE (value_int p ''max_hits'' kSearchDefaultHits) (\<lambda>mh.
          let maxHits = ClampInt mh 1 kSearchMaxHits kSearchDefaultHits in
          (case search_loop E w pat maxHits (search_files (w_files w) (rpath resolved)) ([], 0) of
             ((out, hits), truncated) \<Rightarrow>
               Inr (put (Ok (if hits = 0 then ''No matches.'' @ [NL] else out) truncated)
                        ''hits'' (JInt hits)))))))"

section \<open>shell\<close>

definition shell_cancelled :: "string \<Rightarrow> string set \<Rightarrow> bool" where
  "shell_cancelled requestId m_Cancelled \<longleftrightarrow> (if requestId = [] then False else requestId \<in> m_Cancelled)"

text \<open>The reply for a finished process.\<close>

definition shell_reply :: "int \<Rightarrow> proc_result \<Rightarrow> json" where
  "shell_reply timeout proc =
     (if \<not> r_started proc then Err (''Failed to start shell: '' @ r_output proc)
      else (case CapTail (r_output proc) of (text, trunc) \<Rightarrow>
        if contains_sub ''cancelled'' (r_output proc)
        then put (Err ''Command cancelled'') ''content'' (JStr text)
        else if r_timedOut proc then
          put (put (put (Err (''Command timed out after '' @ int_str timeout @ ''s''))
             ''content'' (JStr text)) ''truncated'' (JBool trunc)) ''exit_code'' (JInt (- 1))
        else put (Ok text trunc) ''exit_code'' (JInt 0)))"

definition ShellCommand :: "env \<Rightarrow> json \<Rightarrow> core_world \<Rightarrow> json res" where
  "ShellCommand E request w =
     (let p = Payload request in
      bindE (value_str p ''command'' []) (\<lambda>command.
      if command = [] then Inr (Err ''Missing required argument: command'')
      else bindE (value_str p ''cwd'' []) (\<lambda>cwdArg.
        let resolved = jail_resolve E w (if cwdArg = [] then ''.'' else cwdArg) True in
        if \<not> resolve_ok resolved then Inr (Err (rerror resolved))
        else bindE (value_int p ''timeout'' kShellTimeoutDefaultSec) (\<lambda>to.
          let timeout = ClampInt to 1 kShellTimeoutMaxSec kShellTimeoutDefaultSec in
          bindE (value_str p ''_requestId'' []) (\<lambda>requestId.
            Inr (shell_reply timeout
              (RunProc (env_spawn E ''/bin/sh'' [''-c'', command] timeout (path_str (rpath resolved)))
                 (shell_cancelled requestId))))))))"

section \<open>project\<close>

definition yes_no :: "bool \<Rightarrow> string" where
  "yes_no b = (if b then ''yes'' else ''no'')"

definition root_exts :: "core_world \<Rightarrow> (path \<times> string) list" where
  "root_exts w = map (\<lambda>(p, n). (p, extension (filename p))) (fs_children (w_files w) (m_Root (w_jail w)))"

definition root_has :: "core_world \<Rightarrow> string \<Rightarrow> bool" where
  "root_has w name = fs_exists (w_files w) (m_Root (w_jail w) @ [name])"

definition ProjectCommand :: "json \<Rightarrow> core_world \<Rightarrow> json res" where
  "ProjectCommand request w =
     (let exts = map snd (root_exts w) in
      Inr (Ok (''root: '' @ path_str (m_Root (w_jail w)) @ [NL]
        @ ''profile: '' @ w_profile w @ [NL]
        @ ''cmake: '' @ yes_no (root_has w ''CMakeLists.txt'') @ [NL]
        @ ''compile_commands: '' @ yes_no (root_has w ''compile_commands.json'') @ [NL]
        @ ''dotnet_sln: '' @ yes_no (''.sln'' \<in> set exts) @ [NL]
        @ ''csproj: '' @ yes_no (''.csproj'' \<in> set exts) @ [NL]) False))"

section \<open>git\<close>

definition run_git :: "env \<Rightarrow> string list \<Rightarrow> int \<Rightarrow> proc_result" where
  "run_git E args timeout = RunProc (env_spawn E ''git'' args timeout []) no_cancel"

definition git_ok :: "proc_result \<Rightarrow> (string \<Rightarrow> string \<times> bool) \<Rightarrow> json" where
  "git_ok proc post =
     (if \<not> r_started proc then Err ''git not available''
      else (case post (r_output proc) of (text, trunc) \<Rightarrow> Ok text trunc))"

definition GitCommand :: "env \<Rightarrow> json \<Rightarrow> core_world \<Rightarrow> json res" where
  "GitCommand E request w =
     (let p = Payload request; root = path_str (m_Root (w_jail w)); plain_text = (\<lambda>s. (s, False)) in
      bindE (value_str p ''action'' []) (\<lambda>action.
      if action = ''status'' then
        Inr (git_ok (run_git E [''-C'', root, ''status'', ''-sb'', ''--untracked-files=normal''] 15) plain_text)
      else if action = ''diff'' then
        bindE (value_bool p ''full'' False) (\<lambda>full.
        bindE (value_str p ''path'' []) (\<lambda>path.
        if full \<and> path = [] then Inr (Err ''full diff requires path'')
        else Inr (git_ok (run_git E (if full then [''-C'', root, ''diff'', ''--'', path]
                                     else [''-C'', root, ''diff'', ''--stat'']) 20) CapHead)))
      else if action = ''log'' then
        bindE (value_int p ''limit'' kGitLogDefault) (\<lambda>l.
        let limit = ClampInt l 1 kGitLogMax kGitLogDefault in
        Inr (git_ok (run_git E [''-C'', root, ''log'', ''-n'', int_str limit, ''--oneline''] 15) plain_text))
      else if action = ''blame'' then
        bindE (value_str p ''path'' []) (\<lambda>path.
        if path = [] then Inr (Err ''blame requires path'')
        else let resolved = jail_resolve E w path False in
          if \<not> resolve_ok resolved then Inr (Err (rerror resolved))
          else Inr (git_ok (run_git E [''-C'', root, ''blame'', ''-L'', ''1,40'', ''--'',
                                       path_str (rpath resolved)] 15) plain_text))
      else if action = ''conflicts'' then
        Inr (git_ok (run_git E [''-C'', root, ''diff'', ''--name-only'', ''--diff-filter=U''] 15)
               (\<lambda>s. (if s = [] then ''No conflicted files.'' @ [NL] else s, False)))
      else Inr (Err (''Unknown git action: '' @ action @ '' (want status|diff|log|blame|conflicts)''))))"

section \<open>build, test, diagnose\<close>

definition run_tool :: "env \<Rightarrow> string \<Rightarrow> string list \<Rightarrow> int \<Rightarrow> proc_result" where
  "run_tool E exe args timeout = RunProc (env_spawn E exe args timeout []) no_cancel"

definition ok_tail :: "proc_result \<Rightarrow> json" where
  "ok_tail proc = (case CapTail (r_output proc) of (text, trunc) \<Rightarrow> Ok text trunc)"

fun build_loop :: "env \<Rightarrow> (path \<times> string) list \<Rightarrow> json" where
  "build_loop E [] = Err ''No CMakeLists.txt, compile_commands.json, .sln, or .csproj in workspace''"
| "build_loop E ((p, ext) # es) =
     (if ext = ''.sln'' \<or> ext = ''.vcxproj'' then
        (let proc0 = run_tool E ''msbuild'' [path_str p, ''/nologo'', ''/v:m''] 60;
             proc = (if \<not> r_started proc0
                     then run_tool E ''dotnet'' [''build'', path_str p, ''--nologo'', ''-v:q''] 60 else proc0)
         in if \<not> r_started proc then Err ''msbuild/dotnet not available on PATH'' else ok_tail proc)
      else if ext = ''.csproj'' then
        (let proc = run_tool E ''dotnet'' [''build'', path_str p, ''--nologo'', ''-v:q''] 60
         in if \<not> r_started proc then Err ''dotnet not available on PATH'' else ok_tail proc)
      else build_loop E es)"

definition BuildCommand :: "env \<Rightarrow> json \<Rightarrow> core_world \<Rightarrow> json res" where
  "BuildCommand E request w =
     bindE (value_bool (Payload request) ''verbose'' False) (\<lambda>verbose.
     if root_has w ''CMakeLists.txt'' then
       (let proc = run_tool E ''cmake'' [''--build'', path_str (m_Root (w_jail w) @ [''build'']), ''--parallel''] 60
        in if \<not> r_started proc then Inr (Err ''cmake not available on PATH'')
           else (case (if verbose then (r_output proc, False) else CapTail (r_output proc)) of (text, trunc) \<Rightarrow>
             let r = Ok text (trunc \<or> r_timedOut proc)
             in Inr (if r_timedOut proc then put r ''error_note'' (JStr ''build timed out'') else r)))
     else Inr (build_loop E (root_exts w)))"

fun test_loop :: "env \<Rightarrow> (path \<times> string) list \<Rightarrow> json" where
  "test_loop E [] = Err ''No test runner found (expected build/ + ctest or a .csproj/.sln)''"
| "test_loop E ((p, ext) # es) =
     (if ext = ''.csproj'' \<or> ext = ''.sln'' then
        (let proc = run_tool E ''dotnet'' [''test'', path_str p, ''--nologo''] 60
         in if \<not> r_started proc then Err ''dotnet not available on PATH'' else ok_tail proc)
      else test_loop E es)"

definition TestCommand :: "env \<Rightarrow> json \<Rightarrow> core_world \<Rightarrow> json res" where
  "TestCommand E request w =
     (let proc = run_tool E ''ctest'' [''--test-dir'', path_str (m_Root (w_jail w) @ [''build'']), ''--output-on-failure''] 60
      in if root_has w ''build'' \<and> r_started proc then Inr (ok_tail proc)
         else Inr (test_loop E (root_exts w)))"

text \<open>The diagnostics loop: at most \<^verbatim>\<open>kDiagnoseMax\<close> matching lines.\<close>

fun diag_loop :: "string list \<Rightarrow> int \<Rightarrow> string \<Rightarrow> string \<times> int" where
  "diag_loop [] n out = (out, n)"
| "diag_loop (l # ls) n out =
     (if kDiagnoseMax \<le> n then (out, n)
      else if \<not> contains_sub ''error'' l \<and> \<not> contains_sub ''warning'' l then diag_loop ls n out
      else diag_loop ls (n + 1) (out @ l @ [NL]))"

definition DiagnoseCommand :: "env \<Rightarrow> json \<Rightarrow> core_world \<Rightarrow> json res" where
  "DiagnoseCommand E request w =
     bindE (value_str (Payload request) ''path'' []) (\<lambda>path.
     if path \<noteq> [] then
       (let resolved = jail_resolve E w path False in
        if \<not> resolve_ok resolved then Inr (Err (rerror resolved))
        else if \<not> fs_is_file (w_files w) (rpath resolved)
          then Inr (Err (''Not a file: '' @ path_str (rpath resolved)))
        else let proc = run_tool E ''c++'' [''-fsyntax-only'', ''-Wall'', path_str (rpath resolved)] 30 in
          if \<not> r_started proc then Inr (Err ''No compiler on PATH for diagnose'')
          else (case CapHead (r_output proc) of (text, trunc) \<Rightarrow>
            (case diag_loop (getlines text) 0 [] of (out, n) \<Rightarrow>
               Inr (put (Ok (if n = 0 then ''No diagnostics.'' @ [NL] else out) trunc) ''count'' (JInt n)))))
     else Inr (Err ''diagnose requires path to a source file''))"

section \<open>catalog, activate, deactivate\<close>

definition catalog_rows :: "(string \<times> string \<times> string option) list" where
  "catalog_rows =
     [(''core'', ''Native read/edit/search/shell/project'', Some ''read''),
      (''git'', ''Read-only git'', Some ''git''),
      (''git_write'', ''Destructive git (commit/sync/reset/push)'', None),
      (''skills'', ''Agent Skills via .agents/skills'', Some ''skills''),
      (''llm'', ''LiteLLM completion tool'', Some ''llm''),
      (''remote'', ''Composite remote MCP'', Some ''remote''),
      (''github'', ''GitHub CLI pack'', None),
      (''jira'', ''Jira pack'', None),
      (''unity'', ''Unity pack'', None),
      (''unreal'', ''Unreal pack'', None)]"

definition catalog_packs :: "core_world \<Rightarrow> json" where
  "catalog_packs w = JArr (map (\<lambda>(pid, desc, tool).
     JObj [(''id'', JStr pid), (''description'', JStr desc),
           (''active'', JBool (case tool of None \<Rightarrow> False | Some t \<Rightarrow> t \<in> w_advertised w))]) catalog_rows)"

definition CatalogCommand :: "env \<Rightarrow> json \<Rightarrow> core_world \<Rightarrow> json res" where
  "CatalogCommand E request w = bindE (env_pretty E (catalog_packs w)) (\<lambda>s. Inr (Ok s False))"

text \<open>\<^verbatim>\<open>SyncAdvertised\<close>: the registry's filter becomes the runtime's set.\<close>

definition SyncAdvertised :: "'c registry \<times> core_world \<Rightarrow> 'c registry \<times> core_world" where
  "SyncAdvertised = (\<lambda>(r, w). (SetAdvertised (w_advertised w) r, w))"

definition advertise_sync :: "string set \<Rightarrow> string \<Rightarrow> 'c registry \<times> core_world \<Rightarrow> json res \<times> 'c registry \<times> core_world" where
  "advertise_sync names msg = (\<lambda>(r, w).
     (Inr (Ok msg False), SyncAdvertised (r, w\<lparr>w_advertised := w_advertised w \<union> names\<rparr>)))"

definition withdraw_sync :: "string set \<Rightarrow> string \<Rightarrow> 'c registry \<times> core_world \<Rightarrow> json res \<times> 'c registry \<times> core_world" where
  "withdraw_sync names msg = (\<lambda>(r, w).
     (Inr (Ok msg False), SyncAdvertised (r, w\<lparr>w_advertised := w_advertised w - names\<rparr>)))"

definition ActivateCommand :: "json \<Rightarrow> 'c registry \<times> core_world \<Rightarrow> json res \<times> 'c registry \<times> core_world" where
  "ActivateCommand request s =
     (case value_str (Payload request) ''pack'' [] of Inl e \<Rightarrow> (Inl e, s)
      | Inr pack \<Rightarrow>
        if pack = [] then (Inr (Err ''Missing required argument: pack''), s)
        else if pack = ''skills'' then advertise_sync {''skills'', ''skill''} ''Activated pack skills'' s
        else if pack = ''llm'' then advertise_sync {''llm''} ''Activated pack llm'' s
        else if pack = ''remote'' then advertise_sync {''remote''} ''Activated pack remote'' s
        else if pack = ''git'' then advertise_sync {''git''} ''Activated pack git'' s
        else if IsOptionalPack pack \<or> pack = ''core'' then
          (if pack = ''core'' then (Inr (Err ''core pack is always on''), s)
           else (Inr (Err (''Pack '' @ [SQ] @ pack @ [SQ] @ '' is not loaded in this process. ''
                   @ ''Pin it with --profile all or tools.enable in config.'')), s))
        else (Inr (Err (''Unknown pack: '' @ pack)), s))"

definition DeactivateCommand :: "json \<Rightarrow> 'c registry \<times> core_world \<Rightarrow> json res \<times> 'c registry \<times> core_world" where
  "DeactivateCommand request s =
     (case value_str (Payload request) ''pack'' [] of Inl e \<Rightarrow> (Inl e, s)
      | Inr pack \<Rightarrow>
     (case value_str (Payload request) ''tool'' [] of Inl e \<Rightarrow> (Inl e, s)
      | Inr tool \<Rightarrow>
        if tool \<noteq> [] then
          (if tool \<in> w_locked (snd s) then (Inr (Err (''Cannot deactivate core tool: '' @ tool)), s)
           else if tool \<notin> w_advertised (snd s) then (Inr (Err (''Tool is not advertised: '' @ tool)), s)
           else withdraw_sync {tool} (''Deactivated tool '' @ tool) s)
        else if pack = [] then (Inr (Err ''Missing required argument: pack or tool''), s)
        else if pack = ''core'' then (Inr (Err ''Cannot deactivate core pack''), s)
        else if pack = ''skills'' then withdraw_sync {''skills'', ''skill''} ''Deactivated pack skills'' s
        else if pack = ''git'' then
          (if ''git'' \<in> w_locked (snd s) then (Inr (Err ''Cannot deactivate git in this profile''), s)
           else withdraw_sync {''git''} ''Deactivated pack git'' s)
        else withdraw_sync {pack} (''Deactivated pack '' @ pack) s))"

section \<open>skills\<close>

definition skills_refused :: json where
  "skills_refused = Err ''skills pack is not advertised; call activate pack=skills''"

definition SkillsCatalogCommand :: "env \<Rightarrow> json \<Rightarrow> core_world \<Rightarrow> json res" where
  "SkillsCatalogCommand E request w =
     (if ''skills'' \<notin> w_advertised w then Inr skills_refused
      else bindE (env_pretty E (JArr (map (\<lambda>s. JObj [(''name'', JStr (as_Name s)),
             (''description'', JStr (as_Description s)), (''location'', JStr (as_Location s))])
             (skills (w_skills w))))) (\<lambda>t. Inr (Ok t False)))"

definition SkillLoadCommand :: "json \<Rightarrow> core_world \<Rightarrow> json res" where
  "SkillLoadCommand request w =
     (if ''skill'' \<notin> w_advertised w \<and> ''skills'' \<notin> w_advertised w then Inr skills_refused
      else bindE (value_str (Payload request) ''name'' []) (\<lambda>name.
        case LoadAgentSkillBody (w_files w) (w_skills w) name of
          Inl e \<Rightarrow> Inr (Err e)
        | Inr b \<Rightarrow> (case CapHead (sb_body b) of (text, trunc) \<Rightarrow>
            Inr (put (put (Ok text trunc) ''root'' (JStr (sb_root b)))
                   ''allowed_tools'' (JStr (sb_allowedTools b))))))"

section \<open>The tools behind the registry\<close>

definition pure_tool :: "(json \<Rightarrow> core_world \<Rightarrow> json res) \<Rightarrow> json \<Rightarrow> 'c registry \<times> core_world
    \<Rightarrow> json res \<times> 'c registry \<times> core_world" where
  "pure_tool f request s = (f request (snd s), s)"

fun core_exec :: "env \<Rightarrow> core_tool \<Rightarrow> json \<Rightarrow> 'c registry \<times> core_world \<Rightarrow> json res \<times> 'c registry \<times> core_world" where
  "core_exec E Read q s = pure_tool (ReadCommand E) q s"
| "core_exec E Edit q s = (case EditCommand E q (snd s) of (r, w) \<Rightarrow> (r, fst s, w))"
| "core_exec E Search q s = pure_tool (SearchCommand E) q s"
| "core_exec E Shell q s = pure_tool (ShellCommand E) q s"
| "core_exec E Project q s = pure_tool ProjectCommand q s"
| "core_exec E Git q s = pure_tool (GitCommand E) q s"
| "core_exec E Build q s = pure_tool (BuildCommand E) q s"
| "core_exec E Test q s = pure_tool (TestCommand E) q s"
| "core_exec E Diagnose q s = pure_tool (DiagnoseCommand E) q s"
| "core_exec E Catalog q s = pure_tool (CatalogCommand E) q s"
| "core_exec E Activate q s = ActivateCommand q s"
| "core_exec E Deactivate q s = DeactivateCommand q s"
| "core_exec E Skills q s = pure_tool (SkillsCatalogCommand E) q s"
| "core_exec E Skill q s = pure_tool SkillLoadCommand q s"

text \<open>The names they are registered under, in the order of \<^verbatim>\<open>RegisterCoreTools\<close>.\<close>

definition core_table :: "(string \<times> core_tool) list" where
  "core_table = [(''read'', Read), (''edit'', Edit), (''search'', Search), (''shell'', Shell),
     (''project'', Project), (''git'', Git), (''build'', Build), (''test'', Test),
     (''diagnose'', Diagnose), (''catalog'', Catalog), (''activate'', Activate),
     (''deactivate'', Deactivate), (''skills'', Skills), (''skill'', Skill)]"

definition lock_core :: "core_world \<Rightarrow> core_world" where
  "lock_core w = w\<lparr>w_locked := w_locked w \<union> set kCoreTools
                     \<union> {t \<in> set kLanguageExtra. t \<in> w_advertised w}\<rparr>"

definition RegisterCoreTools ::
    "(core_tool \<Rightarrow> 'c) \<Rightarrow> 'c registry \<times> core_world \<Rightarrow> ('c registry \<times> core_world) res" where
  "RegisterCoreTools mk = (\<lambda>(r, w).
     bindE (add_all RegisterCommand (map (\<lambda>(n, t). (n, mk t)) core_table) r) (\<lambda>r'. Inr (r', lock_core w)))"

section \<open>Their metadata\<close>

definition typed :: "string \<Rightarrow> string \<Rightarrow> string \<times> json" where
  "typed name ty = (name, JObj [(''type'', JStr ty)])"

definition tool_schema :: "(string \<times> json) list \<Rightarrow> (string \<times> json) list \<Rightarrow> json" where
  "tool_schema props extra = JObj ([(''type'', JStr ''object''), (''properties'', JObj props)] @ extra)"

definition required_keys :: "string list \<Rightarrow> (string \<times> json) list" where
  "required_keys ks = [(''required'', JArr (map JStr ks))]"

text \<open>What each class passes to the constructor of \<^verbatim>\<open>CoreCommand\<close>: name, description and schema.\<close>

definition ReadCommand_args :: "string \<times> string \<times> json" where
  "ReadCommand_args =
     (''read'',
      ''Read a file as LINE|HASH|text. Use offset/limit; hashes default on.'',
      tool_schema [typed ''path'' ''string'', typed ''offset'' ''integer'',
      typed ''limit'' ''integer'', typed ''hashes'' ''boolean''] (required_keys [''path'']))"

definition EditCommand_args :: "string \<times> string \<times> json" where
  "EditCommand_args =
     (''edit'',
      ''Hashline edit. Hunks use LINE:HASH anchors; stale hashes write nothing.'',
      tool_schema [typed ''path'' ''string'',
      typed ''hunks'' ''array''] (required_keys [''path'', ''hunks'']))"

definition SearchCommand_args :: "string \<times> string \<times> json" where
  "SearchCommand_args =
     (''search'',
      ''Search workspace files. Returns path:line: snippet, never file bodies.'',
      tool_schema [typed ''pattern'' ''string'', typed ''path'' ''string'',
      typed ''max_hits'' ''integer''] (required_keys [''pattern'']))"

definition ShellCommand_args :: "string \<times> string \<times> json" where
  "ShellCommand_args =
     (''shell'',
      ''Run a command in the workspace. Timeout 30s default, 120s max. No background.'',
      tool_schema [typed ''command'' ''string'', typed ''cwd'' ''string'',
      typed ''timeout'' ''integer''] (required_keys [''command'']))"

definition ProjectCommand_args :: "string \<times> string \<times> json" where
  "ProjectCommand_args =
     (''project'',
      ''Compact language and toolchain snapshot of the workspace root.'',
      tool_schema [] [])"

definition GitCommand_args :: "string \<times> string \<times> json" where
  "GitCommand_args =
     (''git'',
      ''Read-only git: status, diff, log, blame, conflicts. Writes are pack git_write.'',
      tool_schema [(''action'', JObj [(''type'', JStr ''string''), (''enum'',
      JArr (map JStr [''status'', ''diff'', ''log'', ''blame'', ''conflicts'']))]),
      typed ''path'' ''string'', typed ''full'' ''boolean'',
      typed ''limit'' ''integer''] (required_keys [''action'']))"

definition BuildCommand_args :: "string \<times> string \<times> json" where
  "BuildCommand_args =
     (''build'',
      ''Build the workspace (CMake/MSBuild/dotnet). Returns compact errors, not full logs.'',
      tool_schema [typed ''verbose'' ''boolean''] [])"

definition TestCommand_args :: "string \<times> string \<times> json" where
  "TestCommand_args =
     (''test'',
      ''Run tests (ctest or dotnet test). Compact failures only.'',
      tool_schema [] [])"

definition DiagnoseCommand_args :: "string \<times> string \<times> json" where
  "DiagnoseCommand_args =
     (''diagnose'',
      ''Compiler diagnostics as file:line:col:severity:message. Max 100.'',
      tool_schema [typed ''path'' ''string''] [])"

definition CatalogCommand_args :: "string \<times> string \<times> json" where
  "CatalogCommand_args =
     (''catalog'',
      ''List installed packs and whether they are advertised.'',
      tool_schema [] [])"

definition ActivateCommand_args :: "string \<times> string \<times> json" where
  "ActivateCommand_args =
     (''activate'',
      ''Advertise a pack for this session. Does not rewrite config.'',
      tool_schema [typed ''pack'' ''string''] (required_keys [''pack'']))"

definition DeactivateCommand_args :: "string \<times> string \<times> json" where
  "DeactivateCommand_args =
     (''deactivate'',
      ''Remove a pack from the advertised set. Core tools cannot be removed.'',
      tool_schema [typed ''pack'' ''string'', typed ''tool'' ''string''] (required_keys []))"

definition SkillsCatalogCommand_args :: "string \<times> string \<times> json" where
  "SkillsCatalogCommand_args =
     (''skills'',
      ''Agent Skills catalog: name and description only.'',
      tool_schema [] [])"

definition SkillLoadCommand_args :: "string \<times> string \<times> json" where
  "SkillLoadCommand_args =
     (''skill'',
      ''Load one Agent Skill body (progressive disclosure tier 2).'',
      tool_schema [typed ''name'' ''string''] (required_keys [''name'']))"

fun core_args :: "core_tool \<Rightarrow> string \<times> string \<times> json" where
  "core_args Read = ReadCommand_args"
| "core_args Edit = EditCommand_args"
| "core_args Search = SearchCommand_args"
| "core_args Shell = ShellCommand_args"
| "core_args Project = ProjectCommand_args"
| "core_args Git = GitCommand_args"
| "core_args Build = BuildCommand_args"
| "core_args Test = TestCommand_args"
| "core_args Diagnose = DiagnoseCommand_args"
| "core_args Catalog = CatalogCommand_args"
| "core_args Activate = ActivateCommand_args"
| "core_args Deactivate = DeactivateCommand_args"
| "core_args Skills = SkillsCatalogCommand_args"
| "core_args Skill = SkillLoadCommand_args"

definition core_name :: "core_tool \<Rightarrow> string" where
  "core_name t = fst (core_args t)"

lemmas core_args_defs = ReadCommand_args_def EditCommand_args_def SearchCommand_args_def ShellCommand_args_def
  ProjectCommand_args_def GitCommand_args_def BuildCommand_args_def TestCommand_args_def
  DiagnoseCommand_args_def CatalogCommand_args_def ActivateCommand_args_def DeactivateCommand_args_def
  SkillsCatalogCommand_args_def SkillLoadCommand_args_def

lemma core_name_simps [simp]:
  "core_name Read = ''read''" "core_name Edit = ''edit''" "core_name Search = ''search''" "core_name Shell = ''shell''"
  "core_name Project = ''project''" "core_name Git = ''git''" "core_name Build = ''build''" "core_name Test = ''test''"
  "core_name Diagnose = ''diagnose''" "core_name Catalog = ''catalog''" "core_name Activate = ''activate''" "core_name Deactivate = ''deactivate''"
  "core_name Skills = ''skills''" "core_name Skill = ''skill''"
  by (simp_all add: core_name_def core_args_defs)

definition core_metadata :: "core_tool \<Rightarrow> tool_metadata" where
  "core_metadata t = \<lparr>m_Name = core_name t,
     m_Description = (let m_Desc = fst (snd (core_args t)) in
                      if kDescriptionMaxChars < length m_Desc then substr m_Desc 0 kDescriptionMaxChars else m_Desc),
     m_InputSchema = snd (snd (core_args t)), m_DefaultModel = [], m_DefaultParameters = JNull,
     m_Source = BuiltIn, m_Hidden = False\<rparr>"

definition core_strategy :: "env \<Rightarrow> (core_tool, core_world) strategy" where
  "core_strategy E = \<lparr>ExecuteAsync = core_exec E, GetMetadata = core_metadata, Shutdown = (\<lambda>c w. w)\<rparr>"

end
