(* ===== verification/CoreToolsFacts.thy ===== *)
theory CoreToolsFacts
  imports CoreTools
begin

text \<open>
  What the core tools guarantee: only \<^verbatim>\<open>edit\<close> writes files and it writes at most one, inside
  the jail, and only after every anchor has matched; every content is within the budget;
  locked tools survive a \<^verbatim>\<open>deactivate\<close> by tool name; and two places where they do less.
\<close>

section \<open>Which tools write\<close>

lemma files_advertise_sync [simp]:
  "w_files (snd (snd (advertise_sync ns m s))) = w_files (snd s)"
  "w_files (snd (snd (withdraw_sync ns m s))) = w_files (snd s)"
  by (cases s; simp add: advertise_sync_def withdraw_sync_def SyncAdvertised_def)+

lemma files_ActivateCommand: "w_files (snd (snd (ActivateCommand q s))) = w_files (snd s)"
  by (simp add: ActivateCommand_def split: sum.splits)

lemma files_DeactivateCommand: "w_files (snd (snd (DeactivateCommand q s))) = w_files (snd s)"
  by (simp add: DeactivateCommand_def split: sum.splits)

lemma only_edit_writes: "t \<noteq> Edit \<Longrightarrow> w_files (snd (snd (core_exec E t q s))) = w_files (snd s)"
  by (cases t) (simp_all add: pure_tool_def files_ActivateCommand files_DeactivateCommand)

text \<open>Every outcome of \<^verbatim>\<open>edit\<close>.\<close>

definition edit_wrote :: "env \<Rightarrow> json \<Rightarrow> core_world \<Rightarrow> core_world \<Rightarrow> bool" where
  "edit_wrote E q w w' \<longleftrightarrow> (\<exists>upath p bytes hunks out.
     value_str (Payload q) ''path'' [] = Inr upath \<and> grant_write (env_wc E) (w_jail w) upath = Some p
     \<and> fs_read (w_files w) p = Some bytes \<and> list_all anchored hunks
     \<and> ApplyHunks (ParseFile bytes) hunks = Applied out
     \<and> w' = w\<lparr>w_files := fs_write (w_files w) p out\<rparr>)"

lemma parseAnchor_length: "parseAnchor a = Some (l, h) \<Longrightarrow> 0 < l \<and> length h = 4"
  by (auto simp: parseAnchor_def Let_def split: option.splits if_splits)

lemma parse_hunk_anchored: "parse_hunk h = ParsedHunks hs \<Longrightarrow> list_all anchored hs"
  by (auto simp: parse_hunk_def anchored_def split: sum.splits option.splits prod.splits if_splits json.splits
      dest!: parseAnchor_length)

lemma parse_hunks_anchored: "parse_hunks hs = ParsedHunks xs \<Longrightarrow> list_all anchored xs"
  by (induction hs arbitrary: xs) (auto split: hunk_parse.splits dest: parse_hunk_anchored)

definition refused :: "json res \<Rightarrow> bool" where
  "refused r \<longleftrightarrow> (case r of Inl e \<Rightarrow> True | Inr j \<Rightarrow> \<exists>m. j = Err m)"

lemma refused_simps [simp]: "refused (Inl e)" "refused (Inr (Err m))"
  by (auto simp: refused_def)

lemma edit_file_cases:
  assumes "edit_file E p hs bytes w = (r, w')"
  shows "(w' = w \<and> refused r)
    \<or> (\<exists>hunks out. list_all anchored hunks \<and> ApplyHunks (ParseFile bytes) hunks = Applied out
         \<and> w' = w\<lparr>w_files := fs_write (w_files w) p out\<rparr> \<and> (\<exists>m. r = Inr (Ok m False)))"
proof (cases "parse_hunks hs")
  case (ParsedHunks hunks)
  then have "list_all anchored hunks" by (rule parse_hunks_anchored)
  then show ?thesis
    using assms ParsedHunks
    by (auto simp: edit_file_def split: if_splits apply_result.splits)
qed (use assms in \<open>auto simp: edit_file_def split: if_splits\<close>)

lemma EditCommand_cases:
  assumes "EditCommand E q w = (r, w')"
  shows "(w' = w \<and> refused r) \<or> (edit_wrote E q w w' \<and> (\<exists>m. r = Inr (Ok m False)))"
proof (cases "\<exists>upath hs bytes. value_str (Payload q) ''path'' [] = Inr upath
    \<and> resolve_ok (jail_resolve E w upath True) \<and> ReadAll E w (rpath (jail_resolve E w upath True)) = Inr bytes
    \<and> edit_file E (rpath (jail_resolve E w upath True)) hs bytes w = (r, w')")
  case True
  then obtain upath hs bytes where u: "value_str (Payload q) ''path'' [] = Inr upath"
      "resolve_ok (jail_resolve E w upath True)"
      "ReadAll E w (rpath (jail_resolve E w upath True)) = Inr bytes"
      and e: "edit_file E (rpath (jail_resolve E w upath True)) hs bytes w = (r, w')"
    by blast
  have "grant_write (env_wc E) (w_jail w) upath = Some (rpath (jail_resolve E w upath True))"
    using u(2) by (simp add: grant_write_def jail_resolve_def)
  moreover have "fs_read (w_files w) (rpath (jail_resolve E w upath True)) = Some bytes"
    using u(3) by (simp add: ReadAll_def split: if_splits option.splits)
  ultimately show ?thesis
    using edit_file_cases [OF e] u(1) by (auto simp: edit_wrote_def)
next
  case False
  then show ?thesis
    using assms
    by (auto simp: EditCommand_def Let_def split: sum.splits if_splits option.splits json.splits)
qed

section \<open>The result budget\<close>

definition content_bytes :: "json \<Rightarrow> nat" where
  "content_bytes j = (case j_lookup j ''content'' of Some (JStr s) \<Rightarrow> length s | _ \<Rightarrow> 0)"

definition budget_ok :: "json res \<Rightarrow> bool" where
  "budget_ok r \<longleftrightarrow> (case r of Inl e \<Rightarrow> True | Inr j \<Rightarrow> is_object j \<and> content_bytes j \<le> kMaxResultBytes)"

lemma is_object_put [simp]: "is_object (put j k v) = is_object j"
  by (cases j) auto

lemma content_bytes_put [simp]:
  "k \<noteq> ''content'' \<Longrightarrow> content_bytes (put j k v) = content_bytes j"
  by (cases j) (auto simp: content_bytes_def update_conv')

lemma content_bytes_put_content:
  "is_object j \<Longrightarrow> content_bytes (put j ''content'' (JStr s)) = length s"
  by (cases j) (auto simp: content_bytes_def update_conv')

lemma content_bytes_Ok: "content_bytes (Ok s b) \<le> kMaxResultBytes" and is_object_Ok: "is_object (Ok s b)"
  using head_cap.cap_bound [of s] by (auto simp: Ok_def content_bytes_def split: prod.splits)

lemma content_bytes_Err: "content_bytes (Err m) = 0" and is_object_Err: "is_object (Err m)"
  by (simp_all add: Err_def content_bytes_def)

lemma budget_intros [simp]:
  "budget_ok (Inl e)" "budget_ok (Inr (Err m))" "budget_ok (Inr (Ok s b))"
  by (simp_all add: budget_ok_def content_bytes_Ok is_object_Ok content_bytes_Err is_object_Err)

lemma budget_put [simp]: "k \<noteq> ''content'' \<Longrightarrow> budget_ok (Inr (put j k v)) = budget_ok (Inr j)"
  by (simp add: budget_ok_def)

lemma budget_put_content [simp]:
  "is_object j \<Longrightarrow> length s \<le> kMaxResultBytes \<Longrightarrow> budget_ok (Inr (put j ''content'' (JStr s)))"
  by (simp add: budget_ok_def content_bytes_put_content)

lemma budget_bindE [intro!]: "(\<And>x. m = Inr x \<Longrightarrow> budget_ok (f x)) \<Longrightarrow> budget_ok (bindE m f)"
  by (cases m) auto

lemma budget_if: "budget_ok a \<Longrightarrow> budget_ok b \<Longrightarrow> budget_ok (if c then a else b)"
  by simp

lemma budget_prod: "(\<And>a b. p = (a, b) \<Longrightarrow> budget_ok (f a b)) \<Longrightarrow> budget_ok (case p of (a, b) \<Rightarrow> f a b)"
  by (cases p) auto

lemma budget_sum:
  "(\<And>e. m = Inl e \<Longrightarrow> budget_ok (f e)) \<Longrightarrow> (\<And>x. m = Inr x \<Longrightarrow> budget_ok (g x))
     \<Longrightarrow> budget_ok (case m of Inl e \<Rightarrow> f e | Inr x \<Rightarrow> g x)"
  by (cases m) auto

lemma budget_git_ok: "budget_ok (Inr (git_ok proc post))"
  by (auto simp: git_ok_def split: prod.splits)

lemma budget_ok_tail: "budget_ok (Inr (ok_tail proc))"
  by (auto simp: ok_tail_def split: prod.splits)

lemma budget_build_loop: "budget_ok (Inr (build_loop E es))"
  by (induction es) (auto simp: Let_def budget_ok_tail)

lemma budget_test_loop: "budget_ok (Inr (test_loop E es))"
  by (induction es) (auto simp: Let_def budget_ok_tail)

lemma budget_put_if: "budget_ok (Inr j) \<Longrightarrow> k \<noteq> ''content'' \<Longrightarrow> budget_ok (Inr (if c then put j k v else j))"
  by simp

lemmas budget_rules = budget_bindE budget_if budget_prod budget_sum budget_intros budget_git_ok
  budget_ok_tail budget_build_loop budget_test_loop budget_put_if

lemma budget_Read: "budget_ok (ReadCommand E q w)"
  unfolding ReadCommand_def Let_def by (intro budget_rules) simp_all

lemma budget_Search: "budget_ok (SearchCommand E q w)"
  unfolding SearchCommand_def Let_def by (intro budget_rules) simp

lemma budget_shell_reply: "budget_ok (Inr (shell_reply timeout proc))"
proof -
  obtain body trunc where c: "CapTail (r_output proc) = (body, trunc)" by (cases "CapTail (r_output proc)")
  then have "length body \<le> kMaxResultBytes" using tail_cap.cap_bound [of "r_output proc"] by simp
  then have "budget_ok (Inr (put (Err m) ''content'' (JStr body)))" for m
    by (simp add: budget_put_content is_object_Err)
  then show ?thesis
    by (simp add: shell_reply_def c)
qed

lemma budget_Shell: "budget_ok (ShellCommand E q w)"
  unfolding ShellCommand_def Let_def by (intro budget_rules budget_shell_reply)

lemma budget_Git: "budget_ok (GitCommand E q w)"
  unfolding GitCommand_def Let_def by (intro budget_rules)

lemma budget_Build: "budget_ok (BuildCommand E q w)"
  unfolding BuildCommand_def Let_def by (intro budget_rules) simp_all

lemma budget_Diagnose: "budget_ok (DiagnoseCommand E q w)"
  unfolding DiagnoseCommand_def Let_def by (intro budget_rules) simp

lemma budget_SkillLoad: "budget_ok (SkillLoadCommand q w)"
  unfolding SkillLoadCommand_def skills_refused_def by (intro budget_rules) simp

lemma budget_sync: "budget_ok (fst (advertise_sync ns (m) s))" "budget_ok (fst (withdraw_sync ns m s))"
  by (cases s; simp add: advertise_sync_def withdraw_sync_def)+

lemma budget_Activate: "budget_ok (fst (ActivateCommand q s))"
  unfolding ActivateCommand_def
  by (cases "value_str (Payload q) ''pack'' []") (simp_all add: budget_sync)

lemma budget_Deactivate: "budget_ok (fst (DeactivateCommand q s))"
  unfolding DeactivateCommand_def
  by (cases "value_str (Payload q) ''pack'' []"; cases "value_str (Payload q) ''tool'' []")
     (simp_all add: budget_sync)

lemma budget_Edit: "budget_ok (fst (EditCommand E q w))"
proof -
  obtain r w' where r: "EditCommand E q w = (r, w')" by (cases "EditCommand E q w")
  show ?thesis
    using EditCommand_cases [OF r] r by (auto simp: refused_def split: sum.splits)
qed

lemma budget_core_exec: "budget_ok (fst (core_exec E t q s))"
proof (cases t)
  case Edit
  then show ?thesis using budget_Edit [of E q "snd s"] by (auto split: prod.splits)
qed (auto simp: pure_tool_def budget_Read budget_Search budget_Shell ProjectCommand_def Let_def
      budget_Git budget_Build TestCommand_def budget_Diagnose CatalogCommand_def budget_Activate
      budget_Deactivate SkillsCatalogCommand_def skills_refused_def budget_SkillLoad
      budget_ok_tail budget_test_loop)

section \<open>An example world\<close>

definition ex_env :: env where
  "ex_env = \<lparr>env_wc = Some, env_unreadable = \<lambda>p. False, env_unwritable = \<lambda>p. False,
     env_spawn = \<lambda>exe args timeout cwd. Inl ''none'', env_pretty = \<lambda>j. Inr ''{}''\<rparr>"

definition ex_world :: core_world where
  "ex_world = \<lparr>w_jail = \<lparr>m_Root = [''w''], m_Allow = []\<rparr>, w_profile = ''core'', w_advertised = set kCoreTools,
     w_locked = set kCoreTools, w_skills = \<lparr>skills = [], skipped = []\<rparr>,
     w_files = [([''w'', ''f''], RegFile (''a'' @ [NL] @ ''b'' @ [NL]))]\<rparr>"

definition ex_edit :: json where
  "ex_edit = JObj [(''payload'', JObj [(''path'', JStr ''f''), (''hunks'', JArr [JObj
     [(''start'', JStr (''2:'' @ LineHash ''b'')), (''content'', JStr ''B'')]])])]"

lemma ex_anchor: "parseAnchor (CHR ''2'' # CHR '':'' # LineHash ''b'') = Some (2, LineHash ''b'')"
  by (simp add: parseAnchor_def substr_def stoi_def isspace_def isdigit_def uchar_def digit_val_def
      int_max_def int_min_def)

lemma ex_edit_writes:
  "w_files (snd (EditCommand ex_env ex_edit ex_world)) = [([''w'', ''f''], RegFile (''a'' @ [NL] @ ''B'' @ [NL]))]"
  by (simp add: ex_edit_def ex_world_def ex_env_def EditCommand_def Payload_def j_contains_def j_at_def
      value_defs jail_resolve_def WorkspaceJail.Resolve_def abs_path_def is_absolute_def path_parts_def
      Contains_def inside_def lexically_relative_def up_count_def resolve_ok_def fs_is_file_def fs_node_def
      ReadAll_def fs_read_def edit_file_def LooksBinary_def parse_hunk_def ex_anchor ParseFile_def
      strip_cr_def ApplyHunks_def apply_hunk_def Let_def hunk_end_def FindLine_def inserted_texts_def
      mk_line_def numeral_2_eq_2 fs_write_def)

section \<open>Properties\<close>




text \<open>
  No reply of a core tool carries more than 32 KiB of content, whatever the file, the
  search hits, the process output or the skill body.
\<close>

theorem replies_within_budget:
  "case fst (core_exec E t request s) of Inl e \<Rightarrow> True
     | Inr j \<Rightarrow> is_object j \<and> content_bytes j \<le> kMaxResultBytes"
  using budget_core_exec [of E t request s] by (simp add: budget_ok_def)

text \<open>A request for one page of a file, and what a reader gets out of the reply.\<close>

definition read_request :: "string \<Rightarrow> int \<Rightarrow> int \<Rightarrow> json" where
  "read_request upath offset limit = JObj [(''payload'',
     JObj [(''path'', JStr upath), (''offset'', JInt offset), (''limit'', JInt limit)])]"

lemma to_int32_id: "0 \<le> i \<Longrightarrow> i \<le> int_max \<Longrightarrow> to_int32 i = i"
  by (simp add: to_int32_def int_max_def)

lemma j_lookup_put [simp]:
  "is_object j \<Longrightarrow> j_lookup (put j k v) k' = (if k' = k then Some v else j_lookup j k')"
  by (cases j) (auto simp: update_conv')

text \<open>
  A page whose rendering exceeds 32 KiB is cut at 32 KiB, but \<^verbatim>\<open>next_line\<close> still names the
  line after the whole page (and is absent when the page reached the end of the file): the
  lines behind the cut are delivered by no page that follows \<^verbatim>\<open>next_line\<close>.  Within the
  budget the content is the whole page.
\<close>

theorem read_page_reply:
  assumes "resolve_ok (jail_resolve E w upath False)" "upath \<noteq> []"
    and "ReadAll E w (rpath (jail_resolve E w upath False)) = Inr bytes" "\<not> LooksBinary bytes"
    and "0 \<le> offset" "offset \<le> int (length (ParseFile bytes))" "offset \<le> int_max" "1 \<le> limit" "limit \<le> 500"
    and "FormatRead (ParseFile bytes) offset limit True = (page, trn, nextLine)"
  shows "\<exists>j. ReadCommand E (read_request upath offset limit) w = Inr j
    \<and> j_lookup j ''content'' = Some (JStr (take kMaxResultBytes page))
    \<and> j_lookup j ''truncated'' = Some (JBool (trn \<or> kMaxResultBytes < length page))
    \<and> j_lookup j ''next_line'' = (if trn then Some (JInt nextLine) else None)"
proof -
  have isf: "fs_is_file (w_files w) (rpath (jail_resolve E w upath False))"
    using assms(3) by (auto simp: ReadAll_def fs_read_def fs_is_file_def split: if_splits option.splits node.splits)
  have i: "to_int32 offset = offset" "to_int32 limit = limit"
    using assms(5,7,8,9) by (auto intro!: to_int32_id simp: int_max_def)
  have l: "ClampInt limit 1 kReadMaxLines kReadDefaultLines = limit"
    using assms(8,9) by (simp add: ClampInt_def kReadMaxLines_def)
  have ok: "is_object (Ok page b)" "j_lookup (Ok page b) ''content'' = Some (JStr (take kMaxResultBytes page))"
    "j_lookup (Ok page b) ''truncated'' = Some (JBool (b \<or> kMaxResultBytes < length page))"
    "j_lookup (Ok page b) ''next_line'' = None" for b
    by (auto simp: Ok_def CapHead_def)
  show ?thesis
    using assms(1,5,6,8)
    by (simp add: ReadCommand_def read_request_def Payload_def j_contains_def j_at_def value_defs Let_def
        isf assms(3,4,10) i l ok)
qed

lemma take_long: "n \<le> length xs \<Longrightarrow> \<not> c \<in> set xs \<Longrightarrow> c \<notin> set (take n xs)"
  by (auto dest: in_set_takeD)

text \<open>One line of 40000 bytes: its end is never delivered, and no next line is offered.\<close>

definition long_line :: string where
  "long_line = replicate 40000 CHR ''x''"

definition long_world :: core_world where
  "long_world = ex_world\<lparr>w_files := [([''w'', ''f''], RegFile long_line)]\<rparr>"

lemma ParseFile_long: "ParseFile long_line = [mk_line 1 long_line]"
proof -
  have p: "parse_lines n cur t = [mk_line n (strip_cr (cur @ t))]" if "NL \<notin> set t" "cur @ t \<noteq> []" for n cur t
    using that by (induction n cur t rule: parse_lines.induct) auto
  have "NL \<notin> set long_line" "CR \<notin> set long_line" "long_line \<noteq> []" by (simp_all add: long_line_def)
  then show ?thesis using p [of long_line "[]" 1] by (simp add: ParseFile_def strip_cr_no_cr)
qed

theorem read_page_reply_witness:
  "\<exists>j. ReadCommand ex_env (read_request ''f'' 0 200) long_world = Inr j
    \<and> j_lookup j ''content'' = Some (JStr (take kMaxResultBytes (fmt_line True (mk_line 1 long_line))))
    \<and> j_lookup j ''truncated'' = Some (JBool True) \<and> j_lookup j ''next_line'' = None"
proof -
  let ?page = "fmt_line True (mk_line 1 long_line)"
  have r: "jail_resolve ex_env long_world ''f'' False = \<lparr>rpath = [''w'', ''f''], outsideWorkspace = False, rerror = []\<rparr>"
    by (simp add: jail_resolve_def WorkspaceJail.Resolve_def ex_env_def long_world_def ex_world_def abs_path_def
        is_absolute_def path_parts_def Contains_def inside_def lexically_relative_def up_count_def Let_def)
  have 1: "resolve_ok (jail_resolve ex_env long_world ''f'' False)" by (simp add: r resolve_ok_def)
  have 2: "ReadAll ex_env long_world (rpath (jail_resolve ex_env long_world ''f'' False)) = Inr long_line"
    by (simp only: r) (simp add: ReadAll_def ex_env_def long_world_def fs_read_def fs_node_def)
  have 3: "\<not> LooksBinary long_line" by (simp add: LooksBinary_def long_line_def)
  have 4: "FormatRead (ParseFile long_line) 0 200 True = (?page, False, 0)"
    by (simp add: ParseFile_long FormatRead_def)
  have "40000 < length ?page" by (simp add: fmt_line_def mk_line_def long_line_def)
  then have big: "kMaxResultBytes < length ?page" by (simp add: kMaxResultBytes_def)
  show ?thesis
    using read_page_reply [OF 1 _ 2 3 _ _ _ _ _ 4] big by (simp add: ParseFile_long int_max_def)
qed

text \<open>
  Activating the git pack advertises exactly the runtime's set and git.  Under profile
  \<^verbatim>\<open>all\<close> that set is empty, although every tool is advertised (there is no filter): the call
  then hides every tool but git, \<^verbatim>\<open>activate\<close> itself included.
\<close>

definition activate_git :: json where
  "activate_git = JObj [(''payload'', JObj [(''pack'', JStr ''git'')])]"

theorem activate_git_advertises:
  "case core_exec E Activate activate_git (r, w) of (res, r', w') \<Rightarrow>
     \<not> refused res \<and> w_advertised w' = insert ''git'' (w_advertised w)
     \<and> (\<forall>t. IsAdvertised r' t \<longleftrightarrow> t = ''git'' \<or> t \<in> w_advertised w)"
proof -
  have "\<not> refused (Inr (Ok m False))" for m
    by (auto simp: refused_def Ok_def Err_def split: prod.splits)
  then show ?thesis
    by (simp add: ActivateCommand_def activate_git_def Payload_def j_contains_def j_at_def value_defs
        advertise_sync_def SyncAdvertised_def SetAdvertised_def IsAdvertised_def)
qed

text \<open>
  A locked tool (the core tools, and the language tools the profile advertises) survives
  every \<^verbatim>\<open>deactivate\<close> that names it as \<^verbatim>\<open>tool\<close>; the only call that removes it names it as
  \<^verbatim>\<open>pack\<close>, because an unknown pack name is erased from the advertised tools unchecked.  So
  \<^verbatim>\<open>deactivate pack=read\<close> removes \<^verbatim>\<open>read\<close>, against the tool's own description.
\<close>

theorem deactivate_locked:
  assumes "w_locked w \<subseteq> set kCoreTools \<union> set kLanguageExtra" "t \<in> w_locked w" "t \<in> w_advertised w"
  shows "t \<notin> w_advertised (snd (snd (core_exec E Deactivate request (r, w)))) \<longleftrightarrow>
     value_str (Payload request) ''tool'' [] = Inr [] \<and> value_str (Payload request) ''pack'' [] = Inr t
     \<and> t \<noteq> ''git''"
proof -
  have t: "t \<in> set kCoreTools \<union> set kLanguageExtra" using assms(1,2) by blast
  then have n: "t \<noteq> []" "t \<noteq> ''core''" "t \<noteq> ''skills''" "t \<noteq> ''skill''"
    by (auto simp: kCoreTools_def kLanguageExtra_def)
  have withdraw: "t \<in> w_advertised (snd (snd (withdraw_sync ns m (r, w)))) \<longleftrightarrow> t \<notin> ns" for ns m
    using assms(3) by (simp add: withdraw_sync_def SyncAdvertised_def)
  obtain p u where pu: "value_str (Payload request) ''pack'' [] = p" "value_str (Payload request) ''tool'' [] = u"
    by blast
  show ?thesis
  proof (cases p)
    case (Inr pack)
    show ?thesis
    proof (cases u)
      case (Inr tool)
      then show ?thesis
        using assms(2,3) n \<open>p = Inr pack\<close>
        by (cases "tool = []"; cases "pack = t")
           (auto simp: DeactivateCommand_def pu withdraw split: if_splits)
    qed (use assms(3) \<open>p = Inr pack\<close> in \<open>simp add: DeactivateCommand_def pu\<close>)
  qed (use assms(3) in \<open>simp add: DeactivateCommand_def pu\<close>)
qed

theorem deactivate_locked_witness:
  "''read'' \<notin> w_advertised (snd (snd (core_exec ex_env Deactivate
     (JObj [(''payload'', JObj [(''pack'', JStr ''read'')])]) (empty_registry :: core_tool registry, ex_world))))"
proof -
  have l: "w_locked ex_world \<subseteq> set kCoreTools \<union> set kLanguageExtra" "''read'' \<in> w_locked ex_world"
    "''read'' \<in> w_advertised ex_world"
    by (auto simp: ex_world_def kCoreTools_def)
  show ?thesis
    unfolding deactivate_locked [OF l] by (simp add: Payload_def j_contains_def j_at_def value_defs)
qed

text \<open>
  Registration on an empty registry succeeds, installs all fourteen tools under their own
  names, and locks the core tools and the advertised language tools; every tool describes
  itself in at most 120 bytes under the name it is registered with.
\<close>

theorem core_tools_registered:
  "case RegisterCoreTools mk (empty_registry, w) of Inl e \<Rightarrow> False
     | Inr (r', w') \<Rightarrow> wf_registry r'
         \<and> CommandRegistry.Resolve r' (core_name t) = Some (mk t)
         \<and> w_locked w' = w_locked w \<union> set kCoreTools \<union> (set kLanguageExtra \<inter> w_advertised w)
         \<and> m_Name (core_metadata t) = core_name t \<and> length (m_Description (core_metadata t)) \<le> 120"
proof -
  let ?ncs = "map (\<lambda>(n, t). (n, mk t)) core_table"
  have fresh: "all_fresh CommandRegistry.Resolve (map fst ?ncs) empty_registry"
    by (simp add: all_fresh_def core_table_def CommandRegistry.Resolve_def empty_registry_def)
  obtain r' where r': "add_all RegisterCommand ?ncs empty_registry = Inr r'" "wf_registry r'"
      "CommandRegistry.Resolve r' = CommandRegistry.Resolve empty_registry ++ map_of ?ncs"
    using table.add_all_fresh [OF wf_empty_registry fresh] by blast
  have "map_of ?ncs (core_name t) = Some (mk t)"
    by (cases t) (simp_all add: core_table_def)
  moreover have "length (m_Description (core_metadata t)) \<le> 120"
    by (simp add: core_metadata_def kDescriptionMaxChars_def substr_def Let_def)
  ultimately show ?thesis
    using r' by (auto simp: RegisterCoreTools_def lock_core_def core_metadata_def map_add_def)
qed

section \<open>All core tools\<close>

instantiation core_tool :: enum
begin

definition enum_core_tool :: "core_tool list" where
  "enum_core_tool = [Read, Edit, Search, Shell, Project, Git, Build, Test, Diagnose, Catalog, Activate, Deactivate, Skills, Skill]"

definition enum_all_core_tool :: "(core_tool \<Rightarrow> bool) \<Rightarrow> bool" where
  "enum_all_core_tool P = list_all P enum_class.enum"

definition enum_ex_core_tool :: "(core_tool \<Rightarrow> bool) \<Rightarrow> bool" where
  "enum_ex_core_tool P = list_ex P enum_class.enum"

instance
proof
  have u: "x \<in> set enum_class.enum" for x :: core_tool by (cases x) (simp_all add: enum_core_tool_def)
  then show "(UNIV :: core_tool set) = set enum_class.enum" by blast
  show "distinct (enum_class.enum :: core_tool list)" by (simp add: enum_core_tool_def)
  show "enum_class.enum_all P \<longleftrightarrow> Ball UNIV P" "enum_class.enum_ex P \<longleftrightarrow> Bex UNIV P" for P :: "core_tool \<Rightarrow> bool"
    using u by (auto simp: enum_all_core_tool_def enum_ex_core_tool_def list_all_iff list_ex_iff)
qed

end

text \<open>The table registers every tool once, under the name its metadata gives.\<close>

lemma core_table_complete: "map snd core_table = enum_class.enum" "list_all (\<lambda>(n, t). m_Name (core_metadata t) = n) core_table"
  by (simp_all add: core_table_def enum_core_tool_def core_metadata_def)

end
