(* ===== verification/SkillEngine.thy ===== *)
theory SkillEngine
  imports Json Files
begin

text \<open>
  \<^verbatim>\<open>src/skills/SkillEngine.cpp\<close>: the prompt skills loaded from JSON files, and the
  interpolation of their templates.  The regular expression \<^verbatim>\<open>\{\{(\w+)\}\}\<close> is matched left
  to right by \<open>placeholder\<close>; a word is never followed by a word character, so the greedy
  match is the only one.
\<close>

datatype SkillType = LLM | Command

record skill_def =
  sd_Name :: string
  sd_Description :: string
  sd_PromptTemplate :: string
  sd_DefaultModel :: string
  sd_DefaultParameters :: json
  sd_RequiredVariables :: "string list"
  sd_SystemPrompt :: string
  sd_Rules :: "string list"
  sd_Type :: SkillType
  sd_CommandTemplate :: string

type_synonym engine = "(string \<times> skill_def) list"

section \<open>Loading\<close>

fun join_lines :: "json list \<Rightarrow> string \<Rightarrow> string res" where
  "join_lines [] acc = Inr acc"
| "join_lines (l # ls) acc =
     bindE (get_string l) (\<lambda>s. join_lines ls ((if acc \<noteq> [] then acc @ [NL] else acc) @ s))"

text \<open>A field that is either an array of lines or a string.\<close>

definition text_field :: "json \<Rightarrow> string \<Rightarrow> string res" where
  "text_field data key =
     (case j_lookup data key of
        Some (JArr ls) \<Rightarrow> join_lines ls []
      | _ \<Rightarrow> value_str data key [])"

definition string_array :: "json \<Rightarrow> string \<Rightarrow> string list res" where
  "string_array data key =
     (case j_lookup data key of Some (JArr vs) \<Rightarrow> mapE get_string vs | _ \<Rightarrow> Inr [])"

definition parse_skill :: "json \<Rightarrow> skill_def res" where
  "parse_skill data =
     bindE (value_str data ''name'' []) (\<lambda>name.
     bindE (value_str data ''description'' []) (\<lambda>desc.
     bindE (text_field data ''prompt_template'') (\<lambda>templ.
     bindE (value_str data ''default_model'' []) (\<lambda>model.
     bindE (value_json data ''default_parameters'' (JObj [])) (\<lambda>params.
     bindE (string_array data ''required_variables'') (\<lambda>vars.
     bindE (text_field data ''system_prompt'') (\<lambda>sys.
     bindE (string_array data ''rules'') (\<lambda>rules.
       Inr \<lparr>sd_Name = name, sd_Description = desc, sd_PromptTemplate = templ, sd_DefaultModel = model,
            sd_DefaultParameters = params, sd_RequiredVariables = vars, sd_SystemPrompt = sys,
            sd_Rules = rules, sd_Type = LLM, sd_CommandTemplate = []\<rparr>))))))))"

text \<open>One file; a file that does not parse or has the wrong types is skipped.\<close>

definition load_skill_file :: "jlib \<Rightarrow> string option \<Rightarrow> engine \<Rightarrow> engine" where
  "load_skill_file J content m_Skills =
     (case content of None \<Rightarrow> m_Skills
      | Some s \<Rightarrow> (case jparse J s of None \<Rightarrow> m_Skills
        | Some data \<Rightarrow> (case parse_skill data of Inl e \<Rightarrow> m_Skills
          | Inr skill \<Rightarrow>
              if sd_Name skill \<noteq> [] \<and> sd_PromptTemplate skill \<noteq> []
              then AList.update (sd_Name skill) skill m_Skills else m_Skills)))"

definition LoadFromDirectory :: "jlib \<Rightarrow> filesys \<Rightarrow> path \<Rightarrow> engine \<Rightarrow> engine" where
  "LoadFromDirectory J fs skillsDir m_Skills =
     (if \<not> fs_exists fs skillsDir \<or> \<not> fs_is_dir fs skillsDir then m_Skills
      else fold (\<lambda>(p, n). load_skill_file J (fs_read fs p))
             (filter (\<lambda>(p, n). extension (filename p) = ''.json'') (fs_children fs skillsDir)) m_Skills)"

definition LoadSkill :: "skill_def \<Rightarrow> engine \<Rightarrow> engine res" where
  "LoadSkill skill m_Skills =
     (if sd_Name skill = [] then Inl (InvalidArgument ''Skill name cannot be empty'')
      else Inr (AList.update (sd_Name skill) skill m_Skills))"

definition Resolve :: "engine \<Rightarrow> string \<Rightarrow> skill_def option" where
  "Resolve m_Skills name = map_of m_Skills name"

definition ListSkills :: "engine \<Rightarrow> string list" where
  "ListSkills m_Skills = map fst m_Skills"

definition ListSkillsJson :: "engine \<Rightarrow> json" where
  "ListSkillsJson m_Skills = JArr (map (\<lambda>(name, skill).
     JObj [(''name'', JStr (sd_Name skill)), (''description'', JStr (sd_Description skill)),
           (''default_model'', JStr (sd_DefaultModel skill)),
           (''required_variables'', JArr (map JStr (sd_RequiredVariables skill)))]) m_Skills)"

section \<open>Interpolation\<close>

definition LB :: string where "LB = ''{{''"
definition RB :: string where "RB = ''}}''"

text \<open>\<^verbatim>\<open>while (find(pat) != npos) erase(pos, 2)\<close>.\<close>

function erase_all :: "string \<Rightarrow> string \<Rightarrow> string" where
  "erase_all pat s =
     (if pat = [] then s
      else case find_sub pat s of None \<Rightarrow> s
           | Some pos \<Rightarrow> erase_all pat (take pos s @ drop (pos + length pat) s))"
  by pat_completeness auto
termination
proof (relation "measure (\<lambda>(pat, s). length s)", goal_cases)
  case (2 pat s pos)
  then have "pos + length pat \<le> length s" by (intro find_sub_le)
  then show ?case using 2 by (cases pat) auto
qed simp

declare erase_all.simps [simp del]

definition SanitizeVariable :: "string \<Rightarrow> string" where
  "SanitizeVariable v = erase_all RB (erase_all LB v)"

definition is_word :: "char \<Rightarrow> bool" where
  "is_word c \<longleftrightarrow> islower c \<or> isupper c \<or> isdigit c \<or> c = CHR ''_''"

text \<open>The placeholder a string starts with, if it does.\<close>

definition placeholder :: "string \<Rightarrow> string option" where
  "placeholder s =
     (if prefix LB s then
        (let w = takeWhile is_word (drop 2 s) in
         if w \<noteq> [] \<and> prefix RB (drop (2 + length w) s) then Some w else None)
      else None)"

definition variable_text :: "jlib \<Rightarrow> json \<Rightarrow> string \<Rightarrow> string res" where
  "variable_text J vars w =
     (case j_lookup vars w of
        None \<Rightarrow> Inr (LB @ w @ RB)
      | Some v \<Rightarrow> bindE (case v of JStr s \<Rightarrow> Inr s | _ \<Rightarrow> jdump J v) (\<lambda>val. Inr (SanitizeVariable val)))"

function Interpolate :: "jlib \<Rightarrow> json \<Rightarrow> string \<Rightarrow> string res" where
  "Interpolate J vars [] = Inr []"
| "Interpolate J vars (c # cs) =
     (case placeholder (c # cs) of
        Some w \<Rightarrow> bindE (variable_text J vars w) (\<lambda>t.
                    bindE (Interpolate J vars (drop (length w + 3) cs)) (\<lambda>r. Inr (t @ r)))
      | None \<Rightarrow> bindE (Interpolate J vars cs) (\<lambda>r. Inr (c # r)))"
  by pat_completeness auto
termination
  by (relation "measure (\<lambda>(J, vars, s). length s)") auto

definition StaticRenderPrompt :: "jlib \<Rightarrow> skill_def \<Rightarrow> json \<Rightarrow> string res" where
  "StaticRenderPrompt J skill vars =
     (case find (\<lambda>r. \<not> j_contains vars r) (sd_RequiredVariables skill) of
        Some missing \<Rightarrow> Inl (InvalidArgument (''Missing required variable: '' @ missing))
      | None \<Rightarrow> Interpolate J vars (sd_PromptTemplate skill))"

definition RenderPrompt :: "jlib \<Rightarrow> skill_def \<Rightarrow> json \<Rightarrow> string res" where
  "RenderPrompt = StaticRenderPrompt"

section \<open>Erasing\<close>

lemma erase_all_None: "\<not> sublist pat s \<Longrightarrow> erase_all pat s = s"
proof -
  assume n: "\<not> sublist pat s"
  then have "pat \<noteq> []" by auto
  moreover have "find_sub pat s = None" using n by (simp add: find_sub_None_iff)
  ultimately show ?thesis by (subst erase_all.simps) simp
qed

lemma erase_all_clean: "pat \<noteq> [] \<Longrightarrow> \<not> sublist pat (erase_all pat s)"
proof (induction pat s rule: erase_all.induct)
  case (1 pat s)
  show ?case
  proof (cases "find_sub pat s")
    case None
    then show ?thesis using find_sub_None_iff [of pat s] "1.prems" by (subst erase_all.simps) simp
  next
    case (Some pos)
    then show ?thesis using 1 by (subst erase_all.simps) simp
  qed
qed

text \<open>A property of strings that survives the removal of one occurrence survives them all.\<close>

lemma erase_all_induct:
  assumes "P s" "\<And>a b. P (a @ pat @ b) \<Longrightarrow> P (a @ b)"
  shows "P (erase_all pat s)"
  using assms(1)
proof (induction "length s" arbitrary: s rule: less_induct)
  case less
  show ?case
  proof (cases "pat = [] \<or> find_sub pat s = None")
    case True
    then show ?thesis using less.prems by (subst erase_all.simps) auto
  next
    case False
    then obtain pos where pos: "find_sub pat s = Some pos" "pat \<noteq> []" by auto
    let ?s' = "take pos s @ drop (pos + length pat) s"
    have "s = take pos s @ pat @ drop (pos + length pat) s" using find_sub_Some [OF pos(1)] .
    then have "P ?s'" using less.prems assms(2) by metis
    moreover have "length ?s' < length s"
      using find_sub_le [OF pos(1)] pos(2) by (cases pat) auto
    ultimately have "P (erase_all pat ?s')" using less.hyps by blast
    then show ?thesis using pos by (subst erase_all.simps) simp
  qed
qed

text \<open>Erasing never brings in a new byte.\<close>

lemma set_erase_all: "set (erase_all pat s) \<subseteq> set s"
  by (rule erase_all_induct [where P = "\<lambda>t. set t \<subseteq> set s"]) auto

section \<open>Templates as pieces\<close>

datatype piece = Lit string | Var string

fun piece_src :: "piece \<Rightarrow> string" where
  "piece_src (Lit s) = s"
| "piece_src (Var w) = LB @ w @ RB"

fun wf_piece :: "piece \<Rightarrow> bool" where
  "wf_piece (Lit s) = (CHR ''{'' \<notin> set s)"
| "wf_piece (Var w) = (w \<noteq> [] \<and> list_all is_word w)"

fun piece_text :: "jlib \<Rightarrow> json \<Rightarrow> piece \<Rightarrow> string res" where
  "piece_text J vars (Lit s) = Inr s"
| "piece_text J vars (Var w) = variable_text J vars w"

lemma placeholder_not_brace: "c \<noteq> CHR ''{'' \<Longrightarrow> placeholder (c # cs) = None"
  by (simp add: placeholder_def LB_def)

lemma Interpolate_lit:
  "CHR ''{'' \<notin> set s \<Longrightarrow> Interpolate J vars (s @ r) = bindE (Interpolate J vars r) (\<lambda>t. Inr (s @ t))"
proof (induction s)
  case Nil
  then show ?case by (cases "Interpolate J vars r") auto
next
  case (Cons c s)
  then show ?case by (cases "Interpolate J vars r") (auto simp: placeholder_not_brace)
qed

lemma placeholder_var: "w \<noteq> [] \<Longrightarrow> list_all is_word w \<Longrightarrow> placeholder (LB @ w @ RB @ r) = Some w"
proof -
  assume w: "w \<noteq> []" "list_all is_word w"
  have "\<not> is_word CHR ''}''" by (simp add: is_word_def islower_def isupper_def isdigit_def uchar_def)
  then have "takeWhile is_word (w @ RB @ r) = w"
    using w(2) by (auto simp: takeWhile_append list_all_iff RB_def)
  then show ?thesis using w(1) by (simp add: placeholder_def LB_def RB_def)
qed

lemma Interpolate_var:
  assumes "w \<noteq> []" "list_all is_word w"
  shows "Interpolate J vars (LB @ w @ RB @ r)
     = bindE (variable_text J vars w) (\<lambda>t. bindE (Interpolate J vars r) (\<lambda>u. Inr (t @ u)))"
proof -
  have e: "LB @ w @ RB @ r = CHR ''{'' # CHR ''{'' # w @ RB @ r" by (simp add: LB_def)
  have d: "drop (length w + 3) (CHR ''{'' # w @ RB @ r) = r"
    by (simp add: RB_def numeral_3_eq_3)
  have "placeholder (CHR ''{'' # CHR ''{'' # w @ RB @ r) = Some w"
    using placeholder_var [OF assms, of r] by (simp only: e)
  then show ?thesis unfolding e by (simp add: d)
qed

section \<open>Properties\<close>

text \<open>
  A template made of literal text and placeholders is rendered piece by piece: every
  placeholder becomes its sanitised value (or stays as it is when no value is given), the
  literal text is unchanged, and no value is ever scanned for placeholders again.
\<close>

theorem interpolation_by_pieces:
  assumes "list_all wf_piece ps"
  shows "Interpolate J vars (concat (map piece_src ps))
     = bindE (mapE (piece_text J vars) ps) (\<lambda>ts. Inr (concat ts))"
  using assms
proof (induction ps)
  case (Cons p ps)
  then have ih: "Interpolate J vars (concat (map piece_src ps))
      = bindE (mapE (piece_text J vars) ps) (\<lambda>ts. Inr (concat ts))" by simp
  show ?case
  proof (cases p)
    case (Lit s)
    then show ?thesis
      using Cons.prems Interpolate_lit [of s J vars "concat (map piece_src ps)"] ih
      by (cases "mapE (piece_text J vars) ps") simp_all
  next
    case (Var w)
    then show ?thesis
      using Cons.prems Interpolate_var [of w J vars "concat (map piece_src ps)"] ih
      by (cases "variable_text J vars w"; cases "mapE (piece_text J vars) ps") simp_all
  qed
qed simp

text \<open>A value that itself looks like a placeholder is not expanded.\<close>

definition ex_vars :: json where
  "ex_vars = JObj [(''a'', JStr ''x {{b}} y''), (''b'', JStr ''secret'')]"

theorem interpolation_by_pieces_witness:
  "Interpolate \<lparr>jparse = \<lambda>s. None, jdump = \<lambda>j. Inr []\<rparr> ex_vars (concat (map piece_src [Lit ''<'', Var ''a'', Lit ''>'']))
     = bindE (mapE (piece_text \<lparr>jparse = \<lambda>s. None, jdump = \<lambda>j. Inr []\<rparr> ex_vars) [Lit ''<'', Var ''a'', Lit ''>''])
         (\<lambda>ts. Inr (concat ts))"
  by (rule interpolation_by_pieces) (simp add: is_word_def islower_def uchar_def)

text \<open>
  A sanitised value never contains \<^verbatim>\<open>}}\<close>, brings in no byte the value did not have, and
  is unchanged when the value holds neither brace pair; but because opening pairs are removed
  before closing ones, the value \<^verbatim>\<open>{}}{\<close> is sanitised to an opening pair.
\<close>

theorem sanitize_variable_spec:
  "\<not> sublist RB (SanitizeVariable v) \<and> set (SanitizeVariable v) \<subseteq> set v
   \<and> (sublist LB v \<or> sublist RB v \<or> SanitizeVariable v = v)
   \<and> SanitizeVariable ''{}}{'' = LB"
proof -
  have "RB \<noteq> []" by (simp add: RB_def)
  moreover have "set (SanitizeVariable v) \<subseteq> set v"
    unfolding SanitizeVariable_def using set_erase_all by (meson order_trans)
  moreover have "SanitizeVariable v = v" if "\<not> sublist LB v" "\<not> sublist RB v"
    using that by (simp add: SanitizeVariable_def erase_all_None)
  moreover have "SanitizeVariable ''{}}{'' = LB"
    by (simp add: SanitizeVariable_def LB_def RB_def erase_all.simps)
  ultimately show ?thesis using erase_all_clean by (auto simp: SanitizeVariable_def)
qed

end
