(* ===== verification/SkillTools.thy ===== *)
theory SkillTools
  imports SkillEngine CommandRegistry
begin

text \<open>
  The tools that call a language model or a shell command:
  \<^verbatim>\<open>src/llm/LiteLLMProvider.cpp\<close>, \<^verbatim>\<open>src/llm/LLMCommand.cpp\<close>,
  \<^verbatim>\<open>src/skills/SkillToolAdapter.cpp\<close> and \<^verbatim>\<open>src/skills/SkillCommand.cpp\<close>.  The HTTP client,
  the shell (\<^verbatim>\<open>popen\<close>) and the JSON library are parameters.
\<close>

section \<open>The LLM provider\<close>

record llm_request =
  lr_Model :: string
  lr_Messages :: json
  lr_Parameters :: json

record llm_response =
  lp_Content :: string
  lp_InputTokens :: int
  lp_OutputTokens :: int
  lp_FinishReason :: string
  lp_Raw :: json

record http_response =
  h_StatusCode :: int
  h_Body :: string

definition empty_response :: llm_response where
  "empty_response = \<lparr>lp_Content = [], lp_InputTokens = 0, lp_OutputTokens = 0,
                     lp_FinishReason = [], lp_Raw = JNull\<rparr>"

text \<open>
  The parsing of a completion assigns field by field inside one \<^verbatim>\<open>try\<close>: a state is the
  response so far and whether nothing was thrown.
\<close>

definition try_set :: "'a res \<Rightarrow> ('a \<Rightarrow> llm_response \<Rightarrow> llm_response) \<Rightarrow> llm_response \<times> bool \<Rightarrow> llm_response \<times> bool" where
  "try_set m f = (\<lambda>(r, ok). if \<not> ok then (r, ok) else case m of Inl e \<Rightarrow> (r, False) | Inr v \<Rightarrow> (f v r, True))"

definition parse_choice :: "json \<Rightarrow> llm_response \<times> bool \<Rightarrow> llm_response \<times> bool" where
  "parse_choice choice s =
     (let s1 = (if j_contains choice ''message'' \<and> j_contains (j_at choice ''message'') ''content''
                then try_set (get_string (j_at (j_at choice ''message'') ''content'')) (\<lambda>c r. r\<lparr>lp_Content := c\<rparr>) s
                else s)
      in if j_contains choice ''finish_reason''
         then try_set (get_string (j_at choice ''finish_reason'')) (\<lambda>c r. r\<lparr>lp_FinishReason := c\<rparr>) s1 else s1)"

definition parse_usage :: "json \<Rightarrow> llm_response \<times> bool \<Rightarrow> llm_response \<times> bool" where
  "parse_usage usage s =
     (let s1 = (if j_contains usage ''prompt_tokens''
                then try_set (get_int (j_at usage ''prompt_tokens'')) (\<lambda>n r. r\<lparr>lp_InputTokens := n\<rparr>) s else s)
      in if j_contains usage ''completion_tokens''
         then try_set (get_int (j_at usage ''completion_tokens'')) (\<lambda>n r. r\<lparr>lp_OutputTokens := n\<rparr>) s1 else s1)"

definition parse_completion :: "json \<Rightarrow> llm_response \<times> bool" where
  "parse_completion parsed =
     (let s0 = (empty_response\<lparr>lp_Raw := parsed\<rparr>, True);
          s1 = (if j_contains parsed ''choices'' \<and> \<not> j_empty (j_at parsed ''choices'')
                then (case j_at parsed ''choices'' of JArr (c # cs) \<Rightarrow> parse_choice c s0 | _ \<Rightarrow> (fst s0, False))
                else s0)
      in if snd s1 \<and> j_contains parsed ''usage'' then parse_usage (j_at parsed ''usage'') s1 else s1)"

definition completion_response :: "jlib \<Rightarrow> http_response \<Rightarrow> llm_response" where
  "completion_response J resp =
     (if h_StatusCode resp \<noteq> 200 then
        empty_response\<lparr>lp_Content := ''Error: LiteLLM returned status '' @ int_str (h_StatusCode resp),
                       lp_Raw := JObj [(''error'', JStr (h_Body resp))]\<rparr>
      else (case jparse J (h_Body resp) of
        None \<Rightarrow> empty_response\<lparr>lp_Content := ''Error: Failed to parse response''\<rparr>
      | Some parsed \<Rightarrow>
          (case parse_completion parsed of
             (r, True) \<Rightarrow> r
           | (r, False) \<Rightarrow> r\<lparr>lp_Content := ''Error: Failed to parse response''\<rparr>)))"

definition request_body :: "string \<Rightarrow> llm_request \<Rightarrow> json res" where
  "request_body defaultModel req =
     (let b = JObj [(''model'', JStr (if lr_Model req = [] then defaultModel else lr_Model req)),
                    (''messages'', lr_Messages req)]
      in if is_object (lr_Parameters req) then j_set_all b (j_items (lr_Parameters req)) else Inr b)"

definition Complete ::
    "jlib \<Rightarrow> (string \<Rightarrow> string \<Rightarrow> int \<Rightarrow> http_response res) \<Rightarrow> string \<Rightarrow> string \<Rightarrow> llm_request \<Rightarrow> llm_response res" where
  "Complete J post baseUrl defaultModel req =
     bindE (request_body defaultModel req) (\<lambda>b.
     bindE (jdump J b) (\<lambda>s.
     bindE (post (baseUrl @ ''/v1/chat/completions'') s 60) (\<lambda>resp.
       Inr (completion_response J resp))))"

definition IsAvailable :: "(string \<Rightarrow> int \<Rightarrow> http_response res) \<Rightarrow> string \<Rightarrow> bool" where
  "IsAvailable get baseUrl =
     (case get (baseUrl @ ''/health'') 5 of Inl e \<Rightarrow> False | Inr resp \<Rightarrow> h_StatusCode resp = 200)"

section \<open>The llm tool\<close>

definition user_message :: "string \<Rightarrow> json" where
  "user_message s = JObj [(''role'', JStr ''user''), (''content'', JStr s)]"

definition llm_tool_request :: "json \<Rightarrow> llm_request res" where
  "llm_tool_request request =
     (if \<not> j_contains request ''payload'' then
        Inr \<lparr>lr_Model = [], lr_Messages = JNull, lr_Parameters = JNull\<rparr>
      else let p = j_at request ''payload'' in
        bindE (if j_contains p ''model'' then get_string (j_at p ''model'') else Inr []) (\<lambda>model.
        bindE (if \<not> j_contains p ''messages'' \<and> j_contains p ''prompt''
               then bindE (get_string (j_at p ''prompt'')) (\<lambda>s. Inr (JArr [user_message s]))
               else Inr (j_at p ''messages'')) (\<lambda>messages.
          Inr \<lparr>lr_Model = model, lr_Messages = messages, lr_Parameters = j_at p ''parameters''\<rparr>)))"

definition LLMCommand :: "(llm_request \<Rightarrow> llm_response res) \<Rightarrow> json \<Rightarrow> json res" where
  "LLMCommand provider request =
     bindE (llm_tool_request request) (\<lambda>req.
     bindE (provider req) (\<lambda>resp.
       Inr (JObj [(''status'', JStr ''ok''), (''content'', JStr (lp_Content resp)),
                  (''input_tokens'', JInt (lp_InputTokens resp)),
                  (''output_tokens'', JInt (lp_OutputTokens resp)),
                  (''finish_reason'', JStr (lp_FinishReason resp))])))"

section \<open>Skills as prompts\<close>

fun rule_lines :: "nat \<Rightarrow> string list \<Rightarrow> string" where
  "rule_lines i [] = []"
| "rule_lines i (r # rs) = nat_str i @ ''. '' @ r @ [NL] @ rule_lines (Suc i) rs"

definition system_content :: "skill_def \<Rightarrow> string" where
  "system_content skill =
     (if sd_Rules skill = [] then sd_SystemPrompt skill
      else sd_SystemPrompt skill @ (if sd_SystemPrompt skill \<noteq> [] then [NL, NL] else [])
           @ ''Rules:'' @ [NL] @ rule_lines 1 (sd_Rules skill))"

definition skill_messages :: "skill_def \<Rightarrow> string \<Rightarrow> json" where
  "skill_messages skill prompt =
     JArr ((if system_content skill \<noteq> []
            then [JObj [(''role'', JStr ''system''), (''content'', JStr (system_content skill))]] else [])
           @ [user_message prompt])"

definition skill_request :: "skill_def \<Rightarrow> string \<Rightarrow> string \<Rightarrow> json \<Rightarrow> llm_request res" where
  "skill_request skill model prompt payload =
     bindE (if j_contains payload ''parameters''
            then j_set_all (sd_DefaultParameters skill) (j_items (j_at payload ''parameters''))
            else Inr (sd_DefaultParameters skill)) (\<lambda>params.
       Inr \<lparr>lr_Model = model, lr_Messages = skill_messages skill prompt, lr_Parameters = params\<rparr>)"

definition skill_reply :: "string \<Rightarrow> string \<Rightarrow> llm_response \<Rightarrow> json" where
  "skill_reply name model resp =
     JObj [(''status'', JStr ''ok''), (''skill'', JStr name), (''content'', JStr (lp_Content resp)),
           (''model'', JStr model), (''input_tokens'', JInt (lp_InputTokens resp)),
           (''output_tokens'', JInt (lp_OutputTokens resp))]"

definition fail_reply :: "string \<Rightarrow> json" where
  "fail_reply e = JObj [(''status'', JStr ''error''), (''error'', JStr e)]"

text \<open>\<^verbatim>\<open>catch (const std::invalid_argument&)\<close> around the rendering.\<close>

definition catch_invalid :: "string res \<Rightarrow> (string \<Rightarrow> json res) \<Rightarrow> json res" where
  "catch_invalid m f = (case m of Inl (InvalidArgument e) \<Rightarrow> Inr (fail_reply e) | Inl e \<Rightarrow> Inl e | Inr s \<Rightarrow> f s)"

definition SkillCommand :: "jlib \<Rightarrow> (llm_request \<Rightarrow> llm_response res) \<Rightarrow> engine \<Rightarrow> json \<Rightarrow> json res" where
  "SkillCommand J provider eng request =
     (let payload = j_at request ''payload'' in
      if \<not> j_contains request ''payload'' \<or> \<not> j_contains payload ''skill''
      then Inr (fail_reply (''Missing '' @ [SQ] @ ''skill'' @ [SQ] @ '' in payload''))
      else bindE (get_string (j_at payload ''skill'')) (\<lambda>skillName.
        case SkillEngine.Resolve eng skillName of
          None \<Rightarrow> Inr (JObj [(''status'', JStr ''error''), (''error'', JStr (''Unknown skill: '' @ skillName)),
                             (''available_skills'', JArr (map JStr (ListSkills eng)))])
        | Some skill \<Rightarrow>
            bindE (value_json payload ''variables'' (JObj [])) (\<lambda>vars.
            catch_invalid (RenderPrompt J skill vars) (\<lambda>prompt.
            bindE (value_str payload ''model'' (sd_DefaultModel skill)) (\<lambda>model.
            bindE (skill_request skill model prompt payload) (\<lambda>req.
            bindE (provider req) (\<lambda>resp. Inr (skill_reply skillName model resp))))))))"

section \<open>Skills as tools\<close>

fun esc_loop :: "string \<Rightarrow> string" where
  "esc_loop [] = []"
| "esc_loop (c # cs) = (if c = SQ then [SQ, BSL, SQ, SQ] else [c]) @ esc_loop cs"

definition ShellEscape :: "string \<Rightarrow> string" where
  "ShellEscape v = [SQ] @ esc_loop v @ [SQ]"

definition kMaxOutput :: nat where "kMaxOutput = 4194304"

text \<open>The \<^verbatim>\<open>fgets\<close> loop over the chunks the shell prints.\<close>

fun gather_output :: "string list \<Rightarrow> string \<Rightarrow> string" where
  "gather_output [] output = output"
| "gather_output (b # bs) output =
     (let o2 = output @ b in if kMaxOutput \<le> length o2 then take kMaxOutput o2 else gather_output bs o2)"

definition RunShellCommand :: "(string \<Rightarrow> (string list \<times> int) option) \<Rightarrow> string \<Rightarrow> string \<times> int" where
  "RunShellCommand popen cmd =
     (case popen cmd of None \<Rightarrow> ([], - 1) | Some (bufs, rc) \<Rightarrow> (gather_output bufs [], rc))"

definition escape_value :: "json \<Rightarrow> json" where
  "escape_value v = (case v of JStr s \<Rightarrow> JStr (ShellEscape s) | _ \<Rightarrow> v)"

definition escape_vars :: "json \<Rightarrow> json res" where
  "escape_vars vars = j_set_all (JObj []) (map (\<lambda>(k, v). (k, escape_value v)) (j_items vars))"

definition run_command_skill ::
    "jlib \<Rightarrow> (string \<Rightarrow> (string list \<times> int) option) \<Rightarrow> skill_def \<Rightarrow> json \<Rightarrow> json res" where
  "run_command_skill J popen skill vars =
     bindE (escape_vars vars) (\<lambda>escaped.
     catch_invalid (StaticRenderPrompt J (skill\<lparr>sd_PromptTemplate := sd_CommandTemplate skill\<rparr>) escaped) (\<lambda>cmd.
     if cmd = [] then Inr (fail_reply ''Empty command after interpolation'')
     else (case RunShellCommand popen cmd of (output, rc) \<Rightarrow>
       Inr (JObj [(''status'', JStr ''ok''), (''skill'', JStr (sd_Name skill)),
                  (''content'', JStr (if output = [] then ''(no results)'' else output)),
                  (''exit_code'', JInt rc)]))))"

definition SkillToolAdapter ::
    "jlib \<Rightarrow> (llm_request \<Rightarrow> llm_response res) \<Rightarrow> (string \<Rightarrow> (string list \<times> int) option) \<Rightarrow> skill_def
     \<Rightarrow> json \<Rightarrow> json res" where
  "SkillToolAdapter J provider popen skill request =
     bindE (value_json request ''payload'' (JObj [])) (\<lambda>vars.
     if sd_Type skill = Command then run_command_skill J popen skill vars
     else catch_invalid (StaticRenderPrompt J skill vars) (\<lambda>prompt.
       bindE (value_str vars ''model'' (sd_DefaultModel skill)) (\<lambda>model.
       bindE (skill_request skill model prompt (j_at request ''payload'')) (\<lambda>req.
       case provider req of
         Inr resp \<Rightarrow> Inr (skill_reply (sd_Name skill) model resp)
       | Inl UnknownException \<Rightarrow> Inl UnknownException
       | Inl e \<Rightarrow> Inr (fail_reply (what e))))))"

fun skill_properties :: "string list \<Rightarrow> (string \<times> json) list \<Rightarrow> (string \<times> json) list" where
  "skill_properties [] acc = acc"
| "skill_properties (v # vs) acc = skill_properties vs (AList.update v
     (JObj [(''type'', JStr ''string''), (''description'', JStr (''Required: '' @ v))]) acc)"

definition skill_metadata :: "skill_def \<Rightarrow> ToolSource \<Rightarrow> tool_metadata" where
  "skill_metadata skill source =
     \<lparr>m_Name = sd_Name skill,
      m_Description = take kDescriptionMaxChars (sd_Description skill),
      m_InputSchema = JObj [(''type'', JStr ''object''),
        (''properties'', JObj (AList.update ''parameters'' (JObj [(''type'', JStr ''object''),
            (''description'', JStr ''Override default LLM parameters (temperature, max_tokens, ...)'')])
          (AList.update ''model'' (JObj [(''type'', JStr ''string''),
            (''description'', JStr ''Override the default LLM model'')])
            (skill_properties (sd_RequiredVariables skill) [])))),
        (''required'', JArr (map JStr (sd_RequiredVariables skill)))],
      m_DefaultModel = sd_DefaultModel skill, m_DefaultParameters = sd_DefaultParameters skill,
      m_Source = source, m_Hidden = False\<rparr>"

section \<open>The shell's reading of a quoted word\<close>

text \<open>
  POSIX quoting, for words without unquoted characters: inside single quotes every byte but
  the closing quote stands for itself; outside, a backslash quotes the next byte.  The result
  is the literal word, and \<open>None\<close> if a quote is left open or a byte stands unquoted, where
  the shell would split, expand or interpret it.
\<close>

fun sh_word :: "bool \<Rightarrow> string \<Rightarrow> string option" where
  "sh_word True [] = None"
| "sh_word False [] = Some []"
| "sh_word True (c # cs) = (if c = SQ then sh_word False cs else map_option ((#) c) (sh_word True cs))"
| "sh_word False [c] = (if c = SQ then sh_word True [] else None)"
| "sh_word False (c # d # ds) =
     (if c = SQ then sh_word True (d # ds)
      else if c = BSL then map_option ((#) d) (sh_word False ds) else None)"

lemma sh_word_esc: "sh_word True (esc_loop v @ SQ # r) = map_option ((@) v) (sh_word False r)"
proof (induction v)
  case (Cons c v)
  show ?case
  proof (cases "c = SQ")
    case True
    have "sh_word False (SQ # esc_loop v @ SQ # r) = sh_word True (esc_loop v @ SQ # r)"
      by (cases "esc_loop v @ SQ # r") auto
    then show ?thesis using Cons True by (simp add: option.map_comp comp_def)
  next
    case False
    then show ?thesis using Cons by (simp add: option.map_comp comp_def)
  qed
qed (cases "sh_word False r"; simp)

lemma sh_word_open: "sh_word False (SQ # cs) = sh_word True cs"
  by (cases cs) auto

lemma sh_word_ShellEscape: "sh_word False (ShellEscape v) = Some v"
  using sh_word_esc [of v "[]"] by (simp add: ShellEscape_def sh_word_open)

lemma sh_word_bare: "c \<noteq> SQ \<Longrightarrow> c \<noteq> BSL \<Longrightarrow> sh_word False (c # cs) = None"
  by (cases cs) auto

text \<open>Removing a pair of braces from a quoted word leaves a quoted word.\<close>

lemma sh_word_erase:
  assumes "b \<noteq> SQ" "b \<noteq> BSL"
  shows "sh_word q (xs @ b # b # ys) = Some u \<Longrightarrow> \<exists>u'. sh_word q (xs @ ys) = Some u' \<and> set u' \<subseteq> set u"
proof (induction q xs arbitrary: u rule: sh_word.induct)
  case 1
  then show ?case using assms by auto
next
  case 2
  then show ?case using assms by auto
next
  case (3 c cs)
  then show ?case by (fastforce split: if_splits)
next
  case (4 c)
  then show ?case using assms by (auto simp: sh_word_open sh_word_bare split: if_splits dest: "4.IH")
next
  case (5 c d ds)
  then show ?case by (fastforce split: if_splits)
qed

lemma sublist_pair_esc: "b \<noteq> SQ \<Longrightarrow> b \<noteq> BSL \<Longrightarrow> sublist [b, b] (esc_loop v) \<Longrightarrow> sublist [b, b] v"
proof (induction v)
  case (Cons c v)
  have p: "prefix [b] (esc_loop v) \<Longrightarrow> prefix [b] v" using Cons.prems(1) by (cases v) (auto split: if_splits)
  show ?case using Cons p by (auto simp: sublist_Cons_right split: if_splits)
qed simp

lemma sublist_pair_ShellEscape:
  "b \<noteq> SQ \<Longrightarrow> b \<noteq> BSL \<Longrightarrow> sublist [b, b] (ShellEscape v) \<Longrightarrow> sublist [b, b] v"
proof -
  assume b: "b \<noteq> SQ" "b \<noteq> BSL" and s: "sublist [b, b] (ShellEscape v)"
  have "sublist [b, b] (esc_loop v @ [SQ])" using s b by (simp add: ShellEscape_def sublist_Cons_right)
  then have "sublist [b, b] (esc_loop v)"
    using b by (auto simp: sublist_append prefix_Cons suffix_Cons sublist_Cons_right dest: suffix_ConsD)
  then show ?thesis using sublist_pair_esc b by blast
qed

lemma sanitized_word:
  "\<exists>u. sh_word False (SanitizeVariable (ShellEscape v)) = Some u \<and> set u \<subseteq> set v
     \<and> (sublist LB v \<or> sublist RB v \<or> u = v)"
proof -
  let ?P = "\<lambda>t. \<exists>u. sh_word False t = Some u \<and> set u \<subseteq> set v"
  have step: "?P (a @ [b, b] @ c) \<Longrightarrow> ?P (a @ c)" if "b \<noteq> SQ" "b \<noteq> BSL" for a b c
    using sh_word_erase [OF that, of False a c] by fastforce
  have "?P (ShellEscape v)" by (simp add: sh_word_ShellEscape)
  then have "?P (erase_all LB (ShellEscape v))"
    by (rule erase_all_induct) (simp only: LB_def, rule step, simp_all)
  then have "?P (SanitizeVariable (ShellEscape v))"
    unfolding SanitizeVariable_def
    by (rule erase_all_induct) (simp only: RB_def, rule step, simp_all)
  moreover have "SanitizeVariable (ShellEscape v) = ShellEscape v" if "\<not> sublist LB v" "\<not> sublist RB v"
  proof -
    have "\<not> sublist LB (ShellEscape v)" "\<not> sublist RB (ShellEscape v)"
      using that sublist_pair_ShellEscape [of "CHR ''{''" v] sublist_pair_ShellEscape [of "CHR ''}''" v]
      by (auto simp: LB_def RB_def)
    then show ?thesis by (simp add: SanitizeVariable_def erase_all_None)
  qed
  ultimately show ?thesis using sh_word_ShellEscape [of v] by fastforce
qed

lemma escape_vars_lookup:
  "j_set_all (JObj acc) (map (\<lambda>(k, v). (k, f v)) kvs) = Inr ev \<Longrightarrow>
     map_of kvs w = Some v \<Longrightarrow> distinct (map fst kvs) \<Longrightarrow> j_lookup ev w = Some (f v)"
proof (induction kvs arbitrary: acc)
  case (Cons kv kvs)
  obtain k x where kv: "kv = (k, x)" by (cases kv)
  have keep: "j_set_all (JObj al) (map (\<lambda>(k, v). (k, f v)) xs) = Inr ev \<Longrightarrow> w \<notin> fst ` set xs
      \<Longrightarrow> j_lookup ev w = map_of al w" for al xs
    by (induction xs arbitrary: al) (auto simp: update_conv')
  show ?case
  proof (cases "k = w")
    case True
    then show ?thesis
      using Cons.prems kv keep [of "AList.update k (f x) acc" kvs] by (simp add: update_conv')
  next
    case False
    then show ?thesis using Cons kv by simp
  qed
qed simp

section \<open>Properties\<close>


text \<open>An array of one string with a command substitution, and a string with a quote.\<close>

definition ex_cmd_vars :: "(string \<times> json) list" where
  "ex_cmd_vars = [(''f'', JArr [JStr ''$(id)'']), (''q'', JStr (''a'' @ [SQ] @ ''b''))]"

definition ex_dump :: jlib where
  "ex_dump = \<lparr>jparse = \<lambda>s. None, jdump = \<lambda>j. Inr ([CHR ''['', DQ] @ ''$(id)'' @ [DQ, CHR '']''])\<rparr>"


text \<open>
  When the model server answers with a status other than 200, the llm tool still replies
  with status ok; the failure is visible only in the text of the content.
\<close>

theorem llm_failure_replied_ok:
  assumes "llm_tool_request request = Inr req" "request_body model req = Inr b" "jdump J b = Inr s"
    and "post (baseUrl @ ''/v1/chat/completions'') s 60 = Inr resp" "h_StatusCode resp \<noteq> 200"
  shows "\<exists>j. LLMCommand (Complete J post baseUrl model) request = Inr j
     \<and> j_lookup j ''status'' = Some (JStr ''ok'')
     \<and> j_lookup j ''content'' = Some (JStr (''Error: LiteLLM returned status '' @ int_str (h_StatusCode resp)))"
  using assms by (simp add: LLMCommand_def Complete_def completion_response_def)

theorem llm_failure_replied_ok_witness:
  "\<exists>j. LLMCommand (Complete ex_dump (\<lambda>u s t. Inr \<lparr>h_StatusCode = 500, h_Body = []\<rparr>) ''http://x'' ''m'') JNull = Inr j
     \<and> j_lookup j ''status'' = Some (JStr ''ok'')"
proof -
  have r: "llm_tool_request JNull = Inr \<lparr>lr_Model = [], lr_Messages = JNull, lr_Parameters = JNull\<rparr>"
    by (simp add: llm_tool_request_def j_contains_def)
  obtain b where b: "request_body ''m'' \<lparr>lr_Model = [], lr_Messages = JNull, lr_Parameters = JNull\<rparr> = Inr b"
    by (simp add: request_body_def)
  have s: "jdump ex_dump b = Inr ([CHR ''['', DQ] @ ''$(id)'' @ [DQ, CHR '']''])" by (simp add: ex_dump_def)
  have p: "(\<lambda>u s t. Inr \<lparr>h_StatusCode = 500, h_Body = []\<rparr>) (''http://x'' @ ''/v1/chat/completions'') q 60
      = Inr \<lparr>h_StatusCode = 500, h_Body = []\<rparr>" for q by simp
  show ?thesis using llm_failure_replied_ok [OF r b s p] by auto
qed

end
