(* ===== verification/PluginSkills.thy ===== *)
theory PluginSkills
  imports SkillEngine YamlFrontmatter
begin

text \<open>
  \<^verbatim>\<open>include/plugins/PackManifest.h\<close> and \<^verbatim>\<open>src/skills/PluginLoader.cpp\<close>: the manifest of a
  plugin directory, and the skills a plugin ships as \<^verbatim>\<open>SKILL.md\<close> files.  \<open>rd\<close> is the JSON
  library's stream reader (\<^verbatim>\<open>in >> j\<close>).  The loop that expands \<^verbatim>\<open>${PLUGIN_DIR}\<close> may run
  forever, so it is a partial function: \<open>None\<close> is a call that does not return.
\<close>

section \<open>Manifests\<close>

record pack_manifest =
  pm_id :: string
  pm_description :: string
  pm_packs :: "string list"
  pm_os :: "string list"
  pm_tools :: "string list"
  pm_runtime :: string
  pm_present :: bool

definition takeList :: "json \<Rightarrow> string \<Rightarrow> string list \<Rightarrow> string list" where
  "takeList j key out =
     (case j_lookup j key of
        Some (JStr s) \<Rightarrow> out @ [s]
      | Some (JArr vs) \<Rightarrow> out @ strings_of vs
      | _ \<Rightarrow> out)"

definition string_key :: "json \<Rightarrow> string \<Rightarrow> string option" where
  "string_key j key = (case j_lookup j key of Some (JStr s) \<Rightarrow> Some s | _ \<Rightarrow> None)"

definition or_key :: "json \<Rightarrow> string \<Rightarrow> string \<Rightarrow> string" where
  "or_key j key dflt = (case string_key j key of Some s \<Rightarrow> s | None \<Rightarrow> dflt)"

definition manifest_of :: "string \<Rightarrow> json \<Rightarrow> pack_manifest" where
  "manifest_of dirname j =
     (let packs = takeList j ''packs'' []; os = takeList j ''os'' []
      in \<lparr>pm_id = (case string_key j ''id'' of Some s \<Rightarrow> s | None \<Rightarrow> or_key j ''name'' dirname),
          pm_description = or_key j ''description'' [],
          pm_packs = (if packs = [] then takeList j ''profile'' packs else packs),
          pm_os = (if os = [] then takeList j ''platforms'' os else os),
          pm_tools = takeList j ''tools'' [],
          pm_runtime = or_key j ''runtime'' [],
          pm_present = True\<rparr>)"

definition FromDirectory :: "(string \<Rightarrow> json option) \<Rightarrow> filesys \<Rightarrow> path \<Rightarrow> pack_manifest" where
  "FromDirectory rd fs pluginDir =
     (let absent = \<lparr>pm_id = filename pluginDir, pm_description = [], pm_packs = [], pm_os = [],
                    pm_tools = [], pm_runtime = [], pm_present = False\<rparr>
      in case fs_read fs (pluginDir @ [''plugin.json'']) of
           None \<Rightarrow> absent
         | Some s \<Rightarrow> (case rd s of None \<Rightarrow> absent | Some j \<Rightarrow> manifest_of (filename pluginDir) j))"

text \<open>The platform the program is compiled for.\<close>

datatype platform = Windows | Apple | Linux

fun platform_names :: "platform \<Rightarrow> string list" where
  "platform_names Windows = [''win32'', ''windows'']"
| "platform_names Apple = [''darwin'', ''macos'']"
| "platform_names Linux = [''linux'']"

definition OsMatches :: "platform \<Rightarrow> pack_manifest \<Rightarrow> bool" where
  "OsMatches pf m \<longleftrightarrow>
     (if pm_os m = [] then True
      else list_ex (\<lambda>name. name = ''any'' \<or> name = ''*'' \<or> name \<in> set (platform_names pf)) (pm_os m))"

definition Allowed :: "platform \<Rightarrow> pack_manifest \<Rightarrow> string set \<Rightarrow> bool \<Rightarrow> bool" where
  "Allowed pf m active gate =
     (if \<not> OsMatches pf m then False
      else if \<not> gate then True
      else if pm_packs m = [] then False
      else list_ex (\<lambda>p. p \<in> active) (pm_packs m))"

section \<open>Expanding the plugin directory\<close>

definition marker :: string where "marker = ''${PLUGIN_DIR}''"

partial_function (option) expand_loop :: "string \<Rightarrow> string \<Rightarrow> string option" where
  "expand_loop pluginDir ct =
     (case find_sub marker ct of
        None \<Rightarrow> Some ct
      | Some pos \<Rightarrow> expand_loop pluginDir (take pos ct @ pluginDir @ drop (pos + length marker) ct))"

definition ParseSkillMd :: "jlib \<Rightarrow> string \<Rightarrow> string \<Rightarrow> string \<Rightarrow> skill_def res option" where
  "ParseSkillMd J content fallbackName pluginDir =
     (let fm = ParseYamlFrontmatter content in
      if fm_error fm \<noteq> [] then Some (Inl (RuntimeError (fm_error fm)))
      else
        let name = GetString J fm ''name'';
            type = (if GetString J fm ''type'' = ''command'' then Command else LLM);
            ct = GetString J fm ''command_template'';
            skill = \<lparr>sd_Name = (if name = [] then fallbackName else name),
                     sd_Description = GetString J fm ''description'',
                     sd_PromptTemplate = fm_body fm, sd_DefaultModel = [],
                     sd_DefaultParameters = JNull,
                     sd_RequiredVariables = GetStringList fm ''variables'',
                     sd_SystemPrompt = [], sd_Rules = GetStringList fm ''rules'',
                     sd_Type = type, sd_CommandTemplate = []\<rparr>;
            finish = (\<lambda>t. if sd_Name skill = []
                          then Inl (RuntimeError (''SKILL.md has no '' @ [SQ] @ ''name'' @ [SQ] @ '' field and no fallback name was given''))
                          else Inr (skill\<lparr>sd_CommandTemplate := t\<rparr>))
        in if type = Command
           then map_option finish (if pluginDir = [] then Some ct else expand_loop pluginDir ct)
           else Some (finish []))"

section \<open>Loading the skills of a directory of plugins\<close>

definition add_parsed :: "bool \<Rightarrow> string list \<times> engine \<Rightarrow> skill_def res \<Rightarrow> string list \<times> engine" where
  "add_parsed scriptPack = (\<lambda>(loaded, eng) parsed.
     case parsed of
       Inl e \<Rightarrow> (loaded, eng)
     | Inr skill \<Rightarrow>
         if scriptPack \<and> sd_Type skill = Command then (loaded, eng)
         else (case LoadSkill skill eng of
                 Inl e \<Rightarrow> (loaded, eng)
               | Inr eng' \<Rightarrow> (loaded @ [sd_Name skill], eng')))"

definition load_skill_md ::
    "jlib \<Rightarrow> filesys \<Rightarrow> path \<Rightarrow> bool \<Rightarrow> path \<Rightarrow> string list \<times> engine \<Rightarrow> (string list \<times> engine) option" where
  "load_skill_md J fs pluginDir scriptPack skillDir acc =
     (case fs_read fs (skillDir @ [''SKILL.md'']) of
        None \<Rightarrow> Some acc
      | Some content \<Rightarrow>
          map_option (add_parsed scriptPack acc)
            (ParseSkillMd J content (filename skillDir) (path_str pluginDir)))"

definition child_dirs :: "filesys \<Rightarrow> path \<Rightarrow> path list" where
  "child_dirs fs d = map fst (filter (\<lambda>(p, n). n = Directory) (fs_children fs d))"

fun fold_opt :: "('a \<Rightarrow> 's \<Rightarrow> 's option) \<Rightarrow> 'a list \<Rightarrow> 's \<Rightarrow> 's option" where
  "fold_opt f [] s = Some s"
| "fold_opt f (x # xs) s = (case f x s of None \<Rightarrow> None | Some s' \<Rightarrow> fold_opt f xs s')"

definition load_plugin ::
    "jlib \<Rightarrow> (string \<Rightarrow> json option) \<Rightarrow> filesys \<Rightarrow> path \<Rightarrow> string list \<times> engine \<Rightarrow> (string list \<times> engine) option" where
  "load_plugin J rd fs pluginDir acc =
     (let scriptPack = pm_runtime (FromDirectory rd fs pluginDir) \<noteq> [];
          skillsDir = pluginDir @ [''skills'']
      in if \<not> fs_exists fs skillsDir \<or> \<not> fs_is_dir fs skillsDir then Some acc
         else fold_opt (load_skill_md J fs pluginDir scriptPack) (child_dirs fs skillsDir) acc)"

definition LoadIntoEngine ::
    "jlib \<Rightarrow> (string \<Rightarrow> json option) \<Rightarrow> filesys \<Rightarrow> path \<Rightarrow> engine \<Rightarrow> (string list \<times> engine) option" where
  "LoadIntoEngine J rd fs pluginsDir eng =
     (if \<not> fs_exists fs pluginsDir \<or> \<not> fs_is_dir fs pluginsDir then Some ([], eng)
      else fold_opt (load_plugin J rd fs) (child_dirs fs pluginsDir) ([], eng))"

section \<open>The expansion loop\<close>

lemma marker_nonempty [simp]: "marker \<noteq> []"
  by (simp add: marker_def)

lemma expand_stop: "find_sub marker ct = None \<Longrightarrow> expand_loop d ct = Some ct"
  by (subst expand_loop.simps) simp

lemma expand_step:
  "find_sub marker ct = Some pos \<Longrightarrow>
     expand_loop d ct = expand_loop d (take pos ct @ d @ drop (pos + length marker) ct)"
  by (subst expand_loop.simps) simp

text \<open>A byte of the marker that the directory lacks is used up by every round.\<close>

lemma count_step:
  assumes "find_sub marker ct = Some pos" "c \<in> set marker" "c \<notin> set d"
  shows "count_list (take pos ct @ d @ drop (pos + length marker) ct) c < count_list ct c"
proof -
  have "count_list ct c = count_list (take pos ct @ marker @ drop (pos + length marker) ct) c"
    using find_sub_Some [OF assms(1)] by simp
  then show ?thesis using assms(2,3) by (simp add: count_list_0_iff count_notin less_add_same_cancel1)
     (meson count_list_0_iff gr0I)
qed

lemma expand_terminates:
  assumes "c \<in> set marker" "c \<notin> set d"
  shows "\<exists>t. expand_loop d ct = Some t \<and> \<not> sublist marker t"
proof (induction "count_list ct c" arbitrary: ct rule: less_induct)
  case less
  show ?case
  proof (cases "find_sub marker ct")
    case None
    then show ?thesis using expand_stop find_sub_None_iff by blast
  next
    case (Some pos)
    then show ?thesis using less [OF count_step [OF Some assms]] expand_step by simp
  qed
qed

lemma expand_result:
  assumes "expand_loop d ct = Some t"
  shows "\<not> (sublist marker d \<and> sublist marker ct) \<and> \<not> sublist marker t"
proof (rule expand_loop.raw_induct [OF _ assms], goal_cases)
  case (1 f d ct t)
  show ?case
  proof (cases "find_sub marker ct")
    case None
    then show ?thesis using 1 find_sub_None_iff [of marker ct] by auto
  next
    case (Some pos)
    then have s: "f d (take pos ct @ d @ drop (pos + length marker) ct) = Some t" using 1(2) by simp
    have "sublist marker d \<Longrightarrow> sublist marker (take pos ct @ d @ drop (pos + length marker) ct)"
      by (metis sublist_appendI sublist_order.order.trans)
    then show ?thesis using 1(1) [OF s] by blast
  qed
qed

lemma find_marker_skip:
  assumes "CHR ''$'' \<notin> set p"
  shows "find_sub marker (p @ marker @ r) = Some (length p)"
  using assms
proof (induction p)
  case Nil
  then show ?case by (cases "marker @ r") (auto simp: marker_def)
next
  case (Cons c p)
  then have "\<not> prefix marker ((c # p) @ marker @ r)" by (simp add: marker_def)
  then show ?case using Cons by simp
qed

fun with_marker :: "string \<Rightarrow> string \<Rightarrow> string list \<Rightarrow> string" where
  "with_marker m p [] = p"
| "with_marker m p (q # qs) = p @ m @ with_marker m q qs"

lemma expand_pieces:
  assumes "CHR ''$'' \<notin> set d"
  shows "\<forall>q\<in>set (p # qs). CHR ''$'' \<notin> set q \<Longrightarrow>
     expand_loop d (with_marker marker p qs) = Some (with_marker d p qs)"
proof (induction qs arbitrary: p)
  case Nil
  then have "\<not> sublist marker p" using set_mono_sublist [of marker p] by (auto simp: marker_def)
  then show ?case using expand_stop find_sub_None_iff by simp
next
  case (Cons q qs)
  have fold: "with_marker m (p @ x @ q) qs = p @ x @ with_marker m q qs" for m x
    by (cases qs) simp_all
  have "expand_loop d (with_marker marker p (q # qs)) = expand_loop d (with_marker marker (p @ d @ q) qs)"
    using expand_step [OF find_marker_skip [of p "with_marker marker q qs"]] Cons.prems by (simp add: fold)
  also have "\<dots> = Some (with_marker d (p @ d @ q) qs)" using Cons assms by simp
  finally show ?case by (simp add: fold)
qed

text \<open>
  C27: The expansion of \<^verbatim>\<open>${PLUGIN_DIR}\<close> in a command template.  It returns, and leaves no
  marker, whenever the plugin's path lacks one of the marker's bytes; with no dollar sign in
  the path nor between the markers it replaces every marker by the path and nothing else.  A
  path that itself contains the marker makes it loop forever as soon as the template has one.
\<close>

theorem expansion_of_plugin_dir:
  "(set marker - set dir \<noteq> {} \<longrightarrow> (\<exists>t. expand_loop dir ct = Some t \<and> \<not> sublist marker t))
   \<and> (CHR ''$'' \<notin> set (dir @ concat (p # qs)) \<longrightarrow>
        expand_loop dir (with_marker marker p qs) = Some (with_marker dir p qs))
   \<and> (sublist marker dir \<and> sublist marker ct \<longrightarrow> expand_loop dir ct = None)"
proof (intro conjI impI)
  show "\<exists>t. expand_loop dir ct = Some t \<and> \<not> sublist marker t" if "set marker - set dir \<noteq> {}"
    using that expand_terminates [of _ dir ct] by blast
  show "expand_loop dir (with_marker marker p qs) = Some (with_marker dir p qs)"
    if "CHR ''$'' \<notin> set (dir @ concat (p # qs))"
    using that by (intro expand_pieces) auto
  show "expand_loop dir ct = None" if "sublist marker dir \<and> sublist marker ct"
    using that expand_result [of dir ct] by (cases "expand_loop dir ct") auto
qed

theorem expansion_of_plugin_dir_witness:
  "expand_loop ''/p'' (''ls '' @ marker @ ''/x'') = Some ''ls /p/x''
   \<and> expand_loop (''/'' @ marker) (''ls '' @ marker) = None"
proof -
  have "expand_loop ''/p'' (with_marker marker ''ls '' [''/x'']) = Some (with_marker ''/p'' ''ls '' [''/x''])"
    using expansion_of_plugin_dir [of "''/p''" "[]" "''ls ''" "[''/x'']"] by simp
  moreover have "expand_loop (''/'' @ marker) (''ls '' @ marker) = None"
    using expansion_of_plugin_dir [of "''/'' @ marker" "''ls '' @ marker" "[]" "[]"]
    by (metis sublist_appendI append_Nil2)
  ultimately show ?thesis by simp
qed

section \<open>What loading changes\<close>

definition loads_to :: "string list \<times> engine \<Rightarrow> string list \<times> engine \<Rightarrow> bool" where
  "loads_to a b \<longleftrightarrow> (\<exists>new. fst b = fst a @ new \<and> [] \<notin> set new
     \<and> dom (SkillEngine.Resolve (snd b)) = set new \<union> dom (SkillEngine.Resolve (snd a))
     \<and> (\<forall>n. n \<notin> set new \<longrightarrow> SkillEngine.Resolve (snd b) n = SkillEngine.Resolve (snd a) n))"

lemma loads_to_refl: "loads_to a a"
  by (auto simp: loads_to_def intro: exI [of _ "[]"])

lemma loads_to_trans:
  assumes "loads_to a b" "loads_to b c"
  shows "loads_to a c"
proof -
  obtain m where m: "fst b = fst a @ m" "[] \<notin> set m"
      "dom (SkillEngine.Resolve (snd b)) = set m \<union> dom (SkillEngine.Resolve (snd a))"
      "\<And>x. x \<notin> set m \<Longrightarrow> SkillEngine.Resolve (snd b) x = SkillEngine.Resolve (snd a) x"
    using assms(1) by (auto simp: loads_to_def)
  obtain n where n: "fst c = fst b @ n" "[] \<notin> set n"
      "dom (SkillEngine.Resolve (snd c)) = set n \<union> dom (SkillEngine.Resolve (snd b))"
      "\<And>x. x \<notin> set n \<Longrightarrow> SkillEngine.Resolve (snd c) x = SkillEngine.Resolve (snd b) x"
    using assms(2) by (auto simp: loads_to_def)
  have "dom (SkillEngine.Resolve (snd c)) = set (m @ n) \<union> dom (SkillEngine.Resolve (snd a))"
    unfolding n(3) m(3) by (simp add: Un_assoc Un_left_commute)
  moreover have "fst c = fst a @ m @ n" "[] \<notin> set (m @ n)" using m n by simp_all
  moreover have "SkillEngine.Resolve (snd c) x = SkillEngine.Resolve (snd a) x" if "x \<notin> set (m @ n)" for x
    using m(4) [of x] n(4) [of x] that by simp
  ultimately show ?thesis unfolding loads_to_def by (intro exI [of _ "m @ n"] conjI allI impI)
qed

lemma fold_opt_loads:
  assumes "\<And>x a b. f x a = Some b \<Longrightarrow> loads_to a b"
  shows "fold_opt f xs s = Some s' \<Longrightarrow> loads_to s s'"
proof (induction xs arbitrary: s)
  case Nil
  then show ?case by (simp add: loads_to_refl)
next
  case (Cons x xs)
  then obtain a where a: "f x s = Some a" "fold_opt f xs a = Some s'" by (auto split: option.splits)
  show ?case using loads_to_trans [OF assms [OF a(1)] Cons.IH [OF a(2)]] .
qed

lemma fold_opt_total: "(\<And>x a. \<exists>b. f x a = Some b) \<Longrightarrow> \<exists>b. fold_opt f xs a = Some b"
proof (induction xs arbitrary: a)
  case (Cons x xs)
  obtain b where "f x a = Some b" using Cons.prems by blast
  then show ?case using Cons by simp
qed simp

lemma LoadSkill_loads: "LoadSkill k eng = Inr eng' \<Longrightarrow> loads_to (loaded, eng) (loaded @ [sd_Name k], eng')"
  unfolding loads_to_def
  by (rule exI [of _ "[sd_Name k]"])
     (auto simp: LoadSkill_def SkillEngine.Resolve_def update_conv' split: if_splits)

lemma add_parsed_loads: "loads_to a (add_parsed scr a p)"
  using loads_to_refl [of a] LoadSkill_loads
  by (cases a) (auto simp: add_parsed_def split: sum.split)

lemma load_skill_md_loads: "load_skill_md J fs d scr sd a = Some b \<Longrightarrow> loads_to a b"
  using loads_to_refl [of a] add_parsed_loads [of a] by (auto simp: load_skill_md_def split: option.splits)

lemma load_plugin_loads: "load_plugin J rd fs p a = Some b \<Longrightarrow> loads_to a b"
  using loads_to_refl [of a]
    fold_opt_loads [of "load_skill_md J fs p (pm_runtime (FromDirectory rd fs p) \<noteq> [])", OF load_skill_md_loads]
  by (auto simp: load_plugin_def Let_def split: if_splits)

lemma ParseSkillMd_total: "CHR ''$'' \<notin> set dir \<Longrightarrow> \<exists>r. ParseSkillMd J content nm dir = Some r"
  using expand_terminates [of "CHR ''$''" dir] by (fastforce simp: ParseSkillMd_def marker_def Let_def)

lemma load_skill_md_total: "CHR ''$'' \<notin> set (path_str p) \<Longrightarrow> \<exists>b. load_skill_md J fs p scr sd a = Some b"
proof (cases "fs_read fs (sd @ [''SKILL.md''])")
  case None
  then show ?thesis by (simp add: load_skill_md_def)
next
  case (Some content)
  assume "CHR ''$'' \<notin> set (path_str p)"
  then obtain r where "ParseSkillMd J content (filename sd) (path_str p) = Some r"
    using ParseSkillMd_total by blast
  then show ?thesis using Some by (simp add: load_skill_md_def)
qed

lemma load_plugin_total: "CHR ''$'' \<notin> set (path_str p) \<Longrightarrow> \<exists>b. load_plugin J rd fs p a = Some b \<and> loads_to a b"
proof -
  assume p: "CHR ''$'' \<notin> set (path_str p)"
  have "\<exists>b. load_plugin J rd fs p a = Some b"
    using fold_opt_total [of "load_skill_md J fs p (pm_runtime (FromDirectory rd fs p) \<noteq> [])",
        OF load_skill_md_total [OF p]]
    by (auto simp: load_plugin_def Let_def)
  then show ?thesis using load_plugin_loads by blast
qed

lemma load_plugins_total:
  "CHR ''$'' \<notin> set (concat (map path_str ps)) \<Longrightarrow>
     \<exists>b. fold_opt (load_plugin J rd fs) ps a = Some b \<and> loads_to a b"
proof (induction ps arbitrary: a)
  case Nil
  then show ?case by (simp add: loads_to_refl)
next
  case (Cons p ps)
  then have "CHR ''$'' \<notin> set (path_str p)" "CHR ''$'' \<notin> set (concat (map path_str ps))" by simp_all
  then obtain b c where "load_plugin J rd fs p a = Some b" "loads_to a b"
      "fold_opt (load_plugin J rd fs) ps b = Some c" "loads_to b c"
    using load_plugin_total Cons.IH by blast
  then show ?case using loads_to_trans by (intro exI [of _ c]) simp
qed

text \<open>
  Loading a directory of plugins, when it returns, adds exactly the skills it reports:
  every reported name is non-empty and resolves, and a name it does not report resolves as
  before.  It returns unless a plugin's path holds every byte of the marker, so in
  particular whenever no path component under the directory has a dollar sign.
\<close>

theorem loaded_skills_resolve:
  assumes "CHR ''$'' \<notin> set (concat (map path_str (child_dirs fs dir)))"
  shows "\<exists>names eng'. LoadIntoEngine J rd fs dir eng = Some (names, eng') \<and> [] \<notin> set names
     \<and> (\<forall>n. SkillEngine.Resolve eng' n \<noteq> None \<longleftrightarrow> n \<in> set names \<or> SkillEngine.Resolve eng n \<noteq> None)
     \<and> (\<forall>n. n \<notin> set names \<longrightarrow> SkillEngine.Resolve eng' n = SkillEngine.Resolve eng n)"
proof -
  obtain b where b: "LoadIntoEngine J rd fs dir eng = Some b" "loads_to ([], eng) b"
    using load_plugins_total [OF assms, of J rd fs "([], eng)"] loads_to_refl
    by (cases "fs_exists fs dir \<and> fs_is_dir fs dir") (auto simp: LoadIntoEngine_def)
  show ?thesis
    by (rule exI [of _ "fst b"], rule exI [of _ "snd b"])
       (use b in \<open>auto simp: loads_to_def set_eq_iff domIff\<close>)
qed

theorem loaded_skills_resolve_witness:
  "\<exists>names eng'. LoadIntoEngine \<lparr>jparse = \<lambda>s. None, jdump = \<lambda>j. Inr []\<rparr> (\<lambda>s. None)
      [([''plugins''], Directory), ([''plugins'', ''a''], Directory)] [''plugins''] [] = Some (names, eng') \<and> [] \<notin> set names"
proof -
  have "CHR ''$'' \<notin> set (concat (map path_str
      (child_dirs [([''plugins''], Directory), ([''plugins'', ''a''], Directory)] [''plugins''])))"
    by (simp add: child_dirs_def fs_children_def path_str_def)
  from loaded_skills_resolve [OF this] show ?thesis by blast
qed

end
