(* ===== verification/StdioTransport.thy ===== *)
theory StdioTransport
  imports CommandRegistry WorkspaceJail AgentSkills SkillEngine "HOL-Library.List_Lexorder"
begin

text \<open>
  \<^verbatim>\<open>src/server/StdioTransport.cpp\<close>: the MCP protocol (JSON-RPC 2.0) over lines of text.  The
  record \<open>stdio_env\<close> holds what a transport is constructed with and what lies outside it: the
  JSON library, the tools behind the registry and their \<^verbatim>\<open>Cancel\<close>, the skill engine, the
  catalogue of the core runtime, the file system with its modification times and
  canonicalisation.  The record \<open>stdio\<close> is the transport's own state; a handler maps it,
  the registry and the rest of the world.  An exception that leaves a handler is \<open>Inl\<close>.
\<close>

section \<open>State\<close>

record ('c, 'w) stdio_env =
  c_json :: jlib
  c_tools :: "('c, 'w) strategy"
  c_cancel :: "'c \<Rightarrow> string \<Rightarrow> 'w \<Rightarrow> 'w"
  c_engine :: "engine option"
  c_catalog :: "'w \<Rightarrow> discovery option"
  c_files :: "'w \<Rightarrow> filesys"
  c_mtime :: "'w \<Rightarrow> path \<Rightarrow> int option"
  c_canonical :: "'w \<Rightarrow> path \<Rightarrow> path option"
  c_weakly :: "'w \<Rightarrow> path \<Rightarrow> path option"
  c_noread :: "path \<Rightarrow> bool"
  m_ResourceRoot :: string
  m_ServerName :: string
  m_ServerVersion :: string

record stdio =
  m_Initialized :: bool
  m_InFlightRequests :: "(string \<times> string) list"
  m_SubscribedUris :: "string set"
  m_SubscribedMtimes :: "(string \<times> int) list"
  m_WatcherJoinable :: bool
  m_ResourceWatcherStop :: bool
  m_Output :: string

type_synonym ('c, 'w) tstate = "stdio \<times> 'c registry \<times> 'w"

definition start_stdio :: stdio where
  "start_stdio = \<lparr>m_Initialized = False, m_InFlightRequests = [], m_SubscribedUris = {},
     m_SubscribedMtimes = [], m_WatcherJoinable = False, m_ResourceWatcherStop = False, m_Output = []\<rparr>"

definition JSONRPC_PARSE_ERROR :: int where "JSONRPC_PARSE_ERROR = - 32700"
definition JSONRPC_INVALID_REQUEST :: int where "JSONRPC_INVALID_REQUEST = - 32600"
definition JSONRPC_METHOD_NOT_FOUND :: int where "JSONRPC_METHOD_NOT_FOUND = - 32601"
definition JSONRPC_INVALID_PARAMS :: int where "JSONRPC_INVALID_PARAMS = - 32602"
definition JSONRPC_INTERNAL_ERROR :: int where "JSONRPC_INTERNAL_ERROR = - 32603"

definition MakeResponse :: "json \<Rightarrow> json \<Rightarrow> json" where
  "MakeResponse mid result = JObj [(''jsonrpc'', JStr ''2.0''), (''id'', mid), (''result'', result)]"

definition MakeError :: "json \<Rightarrow> int \<Rightarrow> string \<Rightarrow> json \<Rightarrow> json" where
  "MakeError mid code message data =
     JObj [(''jsonrpc'', JStr ''2.0''), (''id'', mid),
           (''error'', JObj ([(''code'', JInt code), (''message'', JStr message)]
                           @ (if data = JNull then [] else [(''data'', data)])))]"

definition bad_params :: "json \<Rightarrow> string \<Rightarrow> json" where
  "bad_params mid message = MakeError mid JSONRPC_INVALID_PARAMS message JNull"

definition SendMessage :: "jlib \<Rightarrow> json \<Rightarrow> stdio \<Rightarrow> stdio res" where
  "SendMessage J msg st = bindE (jdump J msg) (\<lambda>d. Inr (st\<lparr>m_Output := m_Output st @ d @ [NL]\<rparr>))"

text \<open>What the watchers of the loaders send through the transport, in stdio mode.\<close>

definition PushNotification :: "jlib \<Rightarrow> json \<Rightarrow> stdio \<Rightarrow> stdio res" where
  "PushNotification J notification st = SendMessage J notification st"

definition list_changed :: "json \<Rightarrow> json" where
  "list_changed payload = JObj
     [(''jsonrpc'', JStr ''2.0''), (''method'', JStr ''notifications/tools/list_changed''), (''params'', payload)]"

text \<open>A parameter that must be a string.\<close>

definition string_param :: "json \<Rightarrow> string \<Rightarrow> string option" where
  "string_param params key = (case j_lookup params key of Some (JStr s) \<Rightarrow> Some s | _ \<Rightarrow> None)"

definition text_item :: "json \<Rightarrow> json" where
  "text_item t = JArr [JObj [(''type'', JStr ''text''), (''text'', t)]]"

section \<open>initialize and tools/list\<close>

definition initialize_result :: "('c, 'w) stdio_env \<Rightarrow> json" where
  "initialize_result E = JObj
     [(''protocolVersion'', JStr ''2024-11-05''),
      (''capabilities'', JObj [(''tools'', JObj [(''listChanged'', JBool True)]),
                               (''prompts'', JObj []),
                               (''resources'', JObj [(''subscribe'', JBool True)])]),
      (''serverInfo'', JObj [(''name'', JStr (m_ServerName E)), (''version'', JStr (m_ServerVersion E))])]"

definition HandleInitialize :: "('c, 'w) stdio_env \<Rightarrow> json \<Rightarrow> stdio \<Rightarrow> json \<times> stdio" where
  "HandleInitialize E mid st = (MakeResponse mid (initialize_result E), st\<lparr>m_Initialized := True\<rparr>)"

definition BuildToolList :: "('c, 'w) stdio_env \<Rightarrow> 'c registry \<Rightarrow> (string \<times> string \<times> json) list" where
  "BuildToolList E r = map (\<lambda>m. (m_Name m, m_Description m, m_InputSchema m)) (ListToolMetadata (c_tools E) r)"

definition HandleToolsList :: "('c, 'w) stdio_env \<Rightarrow> 'c registry \<Rightarrow> json \<Rightarrow> json" where
  "HandleToolsList E r mid =
     MakeResponse mid (JObj [(''tools'', JArr (map (\<lambda>(n, d, s).
       JObj [(''name'', JStr n), (''description'', JStr d), (''inputSchema'', s)]) (BuildToolList E r)))])"

section \<open>tools/call\<close>

definition inject_defaults :: "tool_metadata \<Rightarrow> json \<Rightarrow> json res" where
  "inject_defaults meta arguments =
     bindE (if m_DefaultModel meta \<noteq> [] \<and> \<not> j_contains arguments ''model''
            then j_set arguments ''model'' (JStr (m_DefaultModel meta)) else Inr arguments) (\<lambda>a.
     if m_DefaultParameters meta \<noteq> JNull \<and> \<not> j_empty (m_DefaultParameters meta) \<and> \<not> j_contains a ''parameters''
     then j_set a ''parameters'' (m_DefaultParameters meta) else Inr a)"

definition id_text :: "jlib \<Rightarrow> json \<Rightarrow> string res" where
  "id_text J mid = (case mid of JStr s \<Rightarrow> Inr s | _ \<Rightarrow> jdump J mid)"

text \<open>
  A call that has been looked up and entered into the in-flight map.  \<open>call_begin\<close> is
  \<^verbatim>\<open>HandleToolsCall\<close> up to its \<^verbatim>\<open>try\<close>, \<open>call_end\<close> the rest; between the two another thread
  may run.
\<close>

record call =
  k_id :: json
  k_request_id :: string
  k_tool :: string
  k_request :: json

datatype call_start = Refused json | Started call

definition call_begin ::
    "('c, 'w) stdio_env \<Rightarrow> json \<Rightarrow> json \<Rightarrow> stdio \<times> 'c registry \<Rightarrow> (call_start \<times> stdio) res" where
  "call_begin E params mid = (\<lambda>(st, r).
     case string_param params ''name'' of
       None \<Rightarrow> Inr (Refused (bad_params mid ''Missing required parameter: name''), st)
     | Some toolName \<Rightarrow>
         bindE (value_json params ''arguments'' (JObj [])) (\<lambda>arguments.
         case CommandRegistry.Resolve r toolName of
           None \<Rightarrow> Inr (Refused (bad_params mid (''Unknown tool: '' @ toolName)), st)
         | Some cmd \<Rightarrow>
             bindE (inject_defaults (GetMetadata (c_tools E) cmd) arguments) (\<lambda>a.
             bindE (id_text (c_json E) mid) (\<lambda>requestId.
             bindE (j_set a ''_requestId'' (JStr requestId)) (\<lambda>a2.
               Inr (Started \<lparr>k_id = mid, k_request_id = requestId, k_tool = toolName,
                      k_request = JObj [(''command'', JStr toolName), (''payload'', a2)]\<rparr>,
                    st\<lparr>m_InFlightRequests := AList.update requestId toolName (m_InFlightRequests st)\<rparr>))))))"

text \<open>The MCP result made of a tool's reply.\<close>

definition call_result :: "jlib \<Rightarrow> json \<Rightarrow> json res" where
  "call_result J result =
     bindE (value_bool result ''isError'' False) (\<lambda>flag.
     bindE (if flag then Inr True else bindE (value_str result ''status'' ''ok'') (\<lambda>s. Inr (s = ''error''))) (\<lambda>isError.
     bindE (case j_lookup result ''content'' of
              Some (JStr s) \<Rightarrow> Inr (text_item (JStr s))
            | Some (JArr xs) \<Rightarrow> Inr (JArr xs)
            | _ \<Rightarrow> bindE (jdump J result) (\<lambda>d. Inr (text_item (JStr d)))) (\<lambda>content.
       Inr (JObj [(''content'', content), (''isError'', JBool isError)]))))"

definition catch_std :: "json \<Rightarrow> json res \<Rightarrow> json res" where
  "catch_std mid m =
     (case m of Inr r \<Rightarrow> Inr (MakeResponse mid r)
      | Inl e \<Rightarrow> if is_std_exception e then Inr (MakeError mid JSONRPC_INTERNAL_ERROR (what e) JNull) else Inl e)"

definition call_end ::
    "('c, 'w) stdio_env \<Rightarrow> call \<Rightarrow> ('c, 'w) tstate \<Rightarrow> json res \<times> ('c, 'w) tstate" where
  "call_end E k = (\<lambda>(st, s).
     let st' = st\<lparr>m_InFlightRequests := AList.delete (k_request_id k) (m_InFlightRequests st)\<rparr>
     in case ExecuteWithChaining (c_tools E) (k_tool k) (k_request k) 0 s of
          (Inr result, s') \<Rightarrow> (catch_std (k_id k) (call_result (c_json E) result), st', s')
        | (Inl e, s') \<Rightarrow> (catch_std (k_id k) (Inl e), if is_std_exception e then st' else st, s'))"

definition HandleToolsCall ::
    "('c, 'w) stdio_env \<Rightarrow> json \<Rightarrow> json \<Rightarrow> ('c, 'w) tstate \<Rightarrow> json res \<times> ('c, 'w) tstate" where
  "HandleToolsCall E params mid = (\<lambda>(st, r, w).
     case call_begin E params mid (st, r) of
       Inl e \<Rightarrow> (Inl e, st, r, w)
     | Inr (Refused resp, st') \<Rightarrow> (Inr resp, st', r, w)
     | Inr (Started k, st') \<Rightarrow> call_end E k (st', r, w))"

section \<open>tools/call\_batch\<close>

text \<open>
  Phase 1 makes each call a request or an error and starts it; phase 2 collects.  The tools
  of a batch run in parallel threads; the model runs each one when it is started, one of
  the orders the code allows.  A started tool runs without a chain and without a request id.
\<close>

datatype pending = BatchError string string | Ran string "json res"

definition batch_call ::
    "('c, 'w) stdio_env \<Rightarrow> json \<Rightarrow> 'c registry \<times> 'w \<Rightarrow> pending res \<times> 'c registry \<times> 'w" where
  "batch_call E call s =
     (case string_param call ''name'' of
        None \<Rightarrow> (Inr (BatchError ''<unknown>'' (''Each call must have a string '' @ [SQ] @ ''name'' @ [SQ] @ '' field'')), s)
      | Some toolName \<Rightarrow>
          (case value_json call ''arguments'' (JObj []) of
             Inl e \<Rightarrow> (Inl e, s)
           | Inr arguments \<Rightarrow>
               (case CommandRegistry.Resolve (fst s) toolName of
                  None \<Rightarrow> (Inr (BatchError toolName (''Unknown tool: '' @ toolName)), s)
                | Some cmd \<Rightarrow>
                    (case inject_defaults (GetMetadata (c_tools E) cmd) arguments of
                       Inl e \<Rightarrow> (Inl e, s)
                     | Inr a \<Rightarrow>
                         (case ExecuteAsync (c_tools E) cmd
                                 (JObj [(''command'', JStr toolName), (''payload'', a)]) s of
                            (res, s') \<Rightarrow> (Inr (Ran toolName res), s'))))))"

fun batch_loop ::
    "('c, 'w) stdio_env \<Rightarrow> json list \<Rightarrow> 'c registry \<times> 'w \<Rightarrow> pending list res \<times> 'c registry \<times> 'w" where
  "batch_loop E [] s = (Inr [], s)"
| "batch_loop E (c # cs) s =
     (case batch_call E c s of
        (Inl e, s') \<Rightarrow> (Inl e, s')
      | (Inr p, s') \<Rightarrow> (case batch_loop E cs s' of
            (Inl e, s'') \<Rightarrow> (Inl e, s'')
          | (Inr ps, s'') \<Rightarrow> (Inr (p # ps), s'')))"

definition batch_entry :: "string \<Rightarrow> bool \<Rightarrow> string \<Rightarrow> json" where
  "batch_entry name isError t =
     JObj [(''name'', JStr name), (''isError'', JBool isError), (''content'', text_item (JStr t))]"

definition batch_item :: "jlib \<Rightarrow> pending \<Rightarrow> json res" where
  "batch_item J p =
     (case p of
        BatchError name msg \<Rightarrow> Inr (batch_entry name True msg)
      | Ran name res \<Rightarrow>
          (case bindE res (\<lambda>result. bindE (value_str result ''status'' ''ok'') (\<lambda>status.
                 bindE (jdump J result) (\<lambda>d. Inr (batch_entry name (status = ''error'') d)))) of
             Inr item \<Rightarrow> Inr item
           | Inl e \<Rightarrow> if is_std_exception e then Inr (batch_entry name True (what e)) else Inl e))"

definition HandleToolsCallBatch ::
    "('c, 'w) stdio_env \<Rightarrow> json \<Rightarrow> json \<Rightarrow> 'c registry \<times> 'w \<Rightarrow> json res \<times> 'c registry \<times> 'w" where
  "HandleToolsCallBatch E params mid s =
     (case j_lookup params ''calls'' of
        Some (JArr calls) \<Rightarrow>
          if calls = [] then (Inr (MakeResponse mid (JObj [(''results'', JArr [])])), s)
          else (case batch_loop E calls s of
            (Inl e, s') \<Rightarrow> (Inl e, s')
          | (Inr ps, s') \<Rightarrow>
              (bindE (mapE (batch_item (c_json E)) ps)
                 (\<lambda>rs. Inr (MakeResponse mid (JObj [(''results'', JArr rs)]))), s'))
      | _ \<Rightarrow> (Inr (bad_params mid ''Missing required parameter: calls (array)''), s))"

section \<open>Prompts\<close>

definition prompt_argument :: "json \<Rightarrow> json res" where
  "prompt_argument var = bindE (get_string var) (\<lambda>s.
     Inr (JObj [(''name'', JStr s), (''description'', JStr ''Required variable''), (''required'', JBool True)]))"

definition prompt_of :: "json \<Rightarrow> json res" where
  "prompt_of skill =
     bindE (value_str skill ''name'' []) (\<lambda>name.
     bindE (value_str skill ''description'' []) (\<lambda>desc.
     bindE (if j_contains skill ''required_variables''
            then mapE prompt_argument (j_elems (j_at skill ''required_variables'')) else Inr []) (\<lambda>args.
       Inr (JObj [(''name'', JStr name), (''description'', JStr desc), (''arguments'', JArr args)]))))"

definition HandlePromptsList :: "('c, 'w) stdio_env \<Rightarrow> json \<Rightarrow> json res" where
  "HandlePromptsList E mid =
     bindE (case c_engine E of None \<Rightarrow> Inr []
            | Some eng \<Rightarrow> mapE prompt_of (j_elems (ListSkillsJson eng))) (\<lambda>ps.
       Inr (MakeResponse mid (JObj [(''prompts'', JArr ps)])))"

definition prompt_result :: "string \<Rightarrow> json" where
  "prompt_result rendered = JObj [(''messages'', JArr [JObj [(''role'', JStr ''user''),
     (''content'', JObj [(''type'', JStr ''text''), (''text'', JStr rendered)])]])]"

definition HandlePromptsGet :: "('c, 'w) stdio_env \<Rightarrow> json \<Rightarrow> json \<Rightarrow> json res" where
  "HandlePromptsGet E params mid =
     (case string_param params ''name'' of
        None \<Rightarrow> Inr (bad_params mid ''Missing required parameter: name'')
      | Some promptName \<Rightarrow>
          bindE (value_json params ''arguments'' (JObj [])) (\<lambda>arguments.
          case c_engine E of
            None \<Rightarrow> Inr (bad_params mid ''No skill engine available'')
          | Some eng \<Rightarrow>
              (case SkillEngine.Resolve eng promptName of
                 None \<Rightarrow> Inr (bad_params mid (''Unknown prompt: '' @ promptName))
               | Some skill \<Rightarrow>
                   (case RenderPrompt (c_json E) skill arguments of
                      Inr rendered \<Rightarrow> Inr (MakeResponse mid (prompt_result rendered))
                    | Inl e \<Rightarrow> if is_std_exception e then Inr (bad_params mid (what e)) else Inl e))))"

section \<open>Resources\<close>

text \<open>\<^verbatim>\<open>lexically_normal\<close> of an absolute path, as its components.\<close>

fun lex_normal :: "path \<Rightarrow> path \<Rightarrow> path" where
  "lex_normal acc [] = rev acc"
| "lex_normal acc (x # xs) =
     (if x = ''.'' \<or> x = [] then lex_normal acc xs
      else if x = ''..'' then lex_normal (tl acc) xs
      else lex_normal (x # acc) xs)"

text \<open>\<^verbatim>\<open>fs::exists\<close> follows links, as \<^verbatim>\<open>fs::canonical\<close> does.\<close>

definition res_exists :: "('c, 'w) stdio_env \<Rightarrow> 'w \<Rightarrow> path \<Rightarrow> bool" where
  "res_exists E w p \<longleftrightarrow> (case c_canonical E w p of None \<Rightarrow> False | Some c \<Rightarrow> fs_exists (c_files E w) c)"

definition advertised_skills :: "('c, 'w) stdio_env \<Rightarrow> 'c registry \<Rightarrow> 'w \<Rightarrow> discovery option" where
  "advertised_skills E r w = (if IsAdvertised r ''skills'' then c_catalog E w else None)"

definition kMaxEntries :: nat where "kMaxEntries = 200"

definition skill_resource :: "agent_skill \<Rightarrow> json" where
  "skill_resource s = JObj [(''uri'', JStr (''skill://'' @ as_Name s)), (''name'', JStr (as_Name s)),
     (''description'', JStr (as_Description s)), (''mimeType'', JStr ''text/markdown'')]"

fun path_rel_str :: "path \<Rightarrow> string" where
  "path_rel_str [] = []"
| "path_rel_str [x] = x"
| "path_rel_str (x # xs) = x @ ''/'' @ path_rel_str xs"

definition relative :: "('c, 'w) stdio_env \<Rightarrow> 'w \<Rightarrow> path \<Rightarrow> path \<Rightarrow> string option" where
  "relative E w p root =
     (case (c_weakly E w p, c_weakly E w root) of
        (Some a, Some b) \<Rightarrow> Some (path_rel_str (lexically_relative a b)) | _ \<Rightarrow> None)"

fun list_files :: "('c, 'w) stdio_env \<Rightarrow> 'w \<Rightarrow> path \<Rightarrow> nat \<Rightarrow> (path \<times> node) list \<Rightarrow> json list" where
  "list_files E w root cnt [] = []"
| "list_files E w root cnt ((p, n) # ps) =
     (if kMaxEntries \<le> cnt then []
      else if n = Directory then list_files E w root cnt ps
      else (case relative E w p root of
              None \<Rightarrow> list_files E w root cnt ps
            | Some rel \<Rightarrow> JObj [(''uri'', JStr (''file://'' @ rel)), (''name'', JStr rel),
                               (''mimeType'', JStr ''text/plain'')]
                          # list_files E w root (Suc cnt) ps))"

definition HandleResourcesList :: "('c, 'w) stdio_env \<Rightarrow> json \<Rightarrow> 'c registry \<times> 'w \<Rightarrow> json" where
  "HandleResourcesList E mid = (\<lambda>(r, w).
     let skillsPart = (case advertised_skills E r w of None \<Rightarrow> [] | Some d \<Rightarrow> map skill_resource (skills d));
         root = path_parts (m_ResourceRoot E);
         filesPart = (if m_ResourceRoot E = [] then []
           else if \<not> fs_exists (c_files E w) root \<or> \<not> fs_is_dir (c_files E w) root then []
           else list_files E w root 0 (filter (\<lambda>(p, n). strict_prefix root p) (c_files E w)))
     in MakeResponse mid (JObj [(''resources'', JArr (skillsPart @ filesPart))]))"

definition contents_reply :: "json \<Rightarrow> string \<Rightarrow> string \<Rightarrow> string \<Rightarrow> json" where
  "contents_reply mid uri mime t = MakeResponse mid (JObj [(''contents'', JArr
     [JObj [(''uri'', JStr uri), (''mimeType'', JStr mime), (''text'', JStr t)]])])"

text \<open>The text after \<^verbatim>\<open>skill://\<close>, split at its first slash.\<close>

definition split_skill_uri :: "string \<Rightarrow> string \<times> string" where
  "split_skill_uri rest =
     (case find_sub ''/'' rest of None \<Rightarrow> (rest, []) | Some slash \<Rightarrow> (take slash rest, drop (slash + 1) rest))"

definition ReadSkillResource ::
    "('c, 'w) stdio_env \<Rightarrow> string \<Rightarrow> json \<Rightarrow> 'c registry \<times> 'w \<Rightarrow> json" where
  "ReadSkillResource E uri mid = (\<lambda>(r, w).
     case advertised_skills E r w of
       None \<Rightarrow> bad_params mid ''skills pack is not advertised; call activate pack=skills''
     | Some catalog \<Rightarrow>
         (case split_skill_uri (drop 8 uri) of (name, rel) \<Rightarrow>
            if rel = [] then
              (case LoadAgentSkillBody (c_files E w) catalog name of
                 Inl e \<Rightarrow> bad_params mid e
               | Inr b \<Rightarrow> contents_reply mid uri ''text/markdown'' (fst (CapHead (sb_body b))))
            else (case find (\<lambda>s. as_Name s = name) (skills catalog) of
                None \<Rightarrow> bad_params mid (''Unknown skill: '' @ name)
              | Some s \<Rightarrow>
                  if as_Root s = [] then bad_params mid (''Unknown skill: '' @ name)
                  else let skillRoot = path_parts (as_Root s) in
                    (case (c_weakly E w (abs_path skillRoot rel), c_weakly E w skillRoot) of
                       (Some full, Some root) \<Rightarrow>
                         if \<not> inside root full
                         then bad_params mid ''Access denied: path outside skill root''
                         else (case fs_read (c_files E w) full of
                             None \<Rightarrow> bad_params mid (''Resource not found: '' @ uri)
                           | Some s \<Rightarrow> contents_reply mid uri ''text/plain''
                               (fst (CapHead (if c_noread E full then [] else s))))
                     | _ \<Rightarrow> bad_params mid ''Access denied: path outside skill root''))))"

definition uri_path :: "('c, 'w) stdio_env \<Rightarrow> string \<Rightarrow> path" where
  "uri_path E uri =
     (let relPath = (if prefix ''file://'' uri then drop 7 uri else uri)
      in lex_normal [] (abs_path (path_parts (m_ResourceRoot E)) relPath))"

text \<open>The checks that read and subscribe share: the canonical path, or the error reply.\<close>

definition check_resource :: "('c, 'w) stdio_env \<Rightarrow> 'w \<Rightarrow> json \<Rightarrow> string \<Rightarrow> json + path" where
  "check_resource E w mid uri =
     (let fullPath = uri_path E uri in
      case c_canonical E w (path_parts (m_ResourceRoot E)) of
        None \<Rightarrow> Inl (MakeError mid JSONRPC_INTERNAL_ERROR ''Cannot resolve resource root'' JNull)
      | Some canonRoot \<Rightarrow>
          if \<not> res_exists E w fullPath then Inl (bad_params mid (''Resource not found: '' @ uri))
          else (case c_canonical E w fullPath of
              None \<Rightarrow> Inl (bad_params mid ''Access denied: path outside resource root'')
            | Some canonPath \<Rightarrow>
                if prefix (path_str canonRoot) (path_str canonPath) then Inr canonPath
                else Inl (bad_params mid ''Access denied: path outside resource root'')))"

definition kMaxReadSize :: nat where "kMaxReadSize = 1048576"

definition HandleResourcesRead ::
    "('c, 'w) stdio_env \<Rightarrow> json \<Rightarrow> json \<Rightarrow> 'c registry \<times> 'w \<Rightarrow> json" where
  "HandleResourcesRead E params mid = (\<lambda>(r, w).
     case string_param params ''uri'' of
       None \<Rightarrow> bad_params mid ''Missing required parameter: uri''
     | Some uri \<Rightarrow>
         if prefix ''skill://'' uri then ReadSkillResource E uri mid (r, w)
         else (case check_resource E w mid uri of
           Inl e \<Rightarrow> e
         | Inr canonPath \<Rightarrow>
             if c_noread E canonPath
             then MakeError mid JSONRPC_INTERNAL_ERROR (''Cannot open resource: '' @ uri) JNull
             else contents_reply mid uri ''text/plain''
                    (case fs_read (c_files E w) canonPath of None \<Rightarrow> [] | Some s \<Rightarrow> take kMaxReadSize s)))"

section \<open>Subscriptions\<close>

definition StartResourceWatcher :: "stdio \<Rightarrow> stdio" where
  "StartResourceWatcher st =
     (if m_WatcherJoinable st then st
      else st\<lparr>m_ResourceWatcherStop := False, m_WatcherJoinable := True\<rparr>)"

text \<open>Once the join has returned.  Whether it returns is the subject of theory \<open>Watcher\<close>.\<close>

definition StopResourceWatcher :: "stdio \<Rightarrow> stdio" where
  "StopResourceWatcher st = st\<lparr>m_ResourceWatcherStop := True, m_WatcherJoinable := False\<rparr>"

definition HandleResourcesSubscribe ::
    "('c, 'w) stdio_env \<Rightarrow> json \<Rightarrow> json \<Rightarrow> 'w \<Rightarrow> stdio \<Rightarrow> json \<times> stdio" where
  "HandleResourcesSubscribe E params mid w st =
     (case string_param params ''uri'' of
        None \<Rightarrow> (bad_params mid ''Missing required parameter: uri'', st)
      | Some uri \<Rightarrow>
          (case check_resource E w mid uri of
             Inl e \<Rightarrow> (e, st)
           | Inr canonPath \<Rightarrow>
               let st1 = st\<lparr>m_SubscribedUris := insert uri (m_SubscribedUris st)\<rparr>;
                   st2 = (case c_mtime E w canonPath of None \<Rightarrow> st1
                          | Some t \<Rightarrow> st1\<lparr>m_SubscribedMtimes := AList.update uri t (m_SubscribedMtimes st1)\<rparr>)
               in (MakeResponse mid (JObj []), StartResourceWatcher st2)))"

definition HandleResourcesUnsubscribe :: "json \<Rightarrow> json \<Rightarrow> stdio \<Rightarrow> json \<times> stdio" where
  "HandleResourcesUnsubscribe params mid st =
     (case string_param params ''uri'' of
        None \<Rightarrow> (bad_params mid ''Missing required parameter: uri'', st)
      | Some uri \<Rightarrow>
          let st1 = st\<lparr>m_SubscribedUris := m_SubscribedUris st - {uri},
                       m_SubscribedMtimes := AList.delete uri (m_SubscribedMtimes st)\<rparr>
          in (MakeResponse mid (JObj []),
              if m_SubscribedUris st1 = {} then StopResourceWatcher st1 else st1))"

text \<open>One round of the watcher thread over the subscribed URIs, in the order of the set.\<close>

definition updated_notification :: "string \<Rightarrow> json" where
  "updated_notification uri = JObj [(''jsonrpc'', JStr ''2.0''),
     (''method'', JStr ''notifications/resources/updated''), (''params'', JObj [(''uri'', JStr uri)])]"

definition watch_uri :: "('c, 'w) stdio_env \<Rightarrow> 'w \<Rightarrow> string \<Rightarrow> stdio \<Rightarrow> stdio res" where
  "watch_uri E w uri st =
     (let fullPath = uri_path E uri in
      if \<not> res_exists E w fullPath then Inr st
      else (case c_mtime E w fullPath of
          None \<Rightarrow> Inr st
        | Some mtime \<Rightarrow>
            if map_of (m_SubscribedMtimes st) uri = Some mtime then Inr st
            else SendMessage (c_json E) (updated_notification uri)
                   (st\<lparr>m_SubscribedMtimes := AList.update uri mtime (m_SubscribedMtimes st)\<rparr>)))"

fun watch_uris :: "('c, 'w) stdio_env \<Rightarrow> 'w \<Rightarrow> string list \<Rightarrow> stdio \<Rightarrow> stdio res" where
  "watch_uris E w [] st = Inr st"
| "watch_uris E w (u # us) st = bindE (watch_uri E w u st) (watch_uris E w us)"

definition watch_round :: "('c, 'w) stdio_env \<Rightarrow> 'w \<Rightarrow> stdio \<Rightarrow> stdio res" where
  "watch_round E w st = watch_uris E w (sorted_list_of_set (m_SubscribedUris st)) st"

section \<open>Cancellation\<close>

definition HandleCancelNotification ::
    "('c, 'w) stdio_env \<Rightarrow> json \<Rightarrow> ('c, 'w) tstate \<Rightarrow> unit res \<times> ('c, 'w) tstate" where
  "HandleCancelNotification E params = (\<lambda>(st, r, w).
     case j_lookup params ''requestId'' of
       None \<Rightarrow> (Inr (), st, r, w)
     | Some rawId \<Rightarrow>
         (case id_text (c_json E) rawId of
            Inl e \<Rightarrow> (Inl e, st, r, w)
          | Inr cancelledId \<Rightarrow>
              (case map_of (m_InFlightRequests st) cancelledId of
                 None \<Rightarrow> (Inr (), st, r, w)
               | Some toolName \<Rightarrow>
                   (case CommandRegistry.Resolve r toolName of
                      None \<Rightarrow> (Inr (), st, r, w)
                    | Some cmd \<Rightarrow> (Inr (), st, r, c_cancel E cmd cancelledId w)))))"

section \<open>Dispatch\<close>

definition dispatch_initialized ::
    "('c, 'w) stdio_env \<Rightarrow> string \<Rightarrow> json \<Rightarrow> json \<Rightarrow> ('c, 'w) tstate \<Rightarrow> json res \<times> ('c, 'w) tstate" where
  "dispatch_initialized E meth mid params = (\<lambda>(st, r, w).
     if meth = ''tools/list'' then (Inr (HandleToolsList E r mid), st, r, w)
     else if meth = ''tools/call'' then HandleToolsCall E params mid (st, r, w)
     else if meth = ''tools/call_batch'' then
       (case HandleToolsCallBatch E params mid (r, w) of (res, s') \<Rightarrow> (res, st, s'))
     else if meth = ''prompts/list'' then (HandlePromptsList E mid, st, r, w)
     else if meth = ''prompts/get'' then (HandlePromptsGet E params mid, st, r, w)
     else if meth = ''resources/list'' then (Inr (HandleResourcesList E mid (r, w)), st, r, w)
     else if meth = ''resources/read'' then (Inr (HandleResourcesRead E params mid (r, w)), st, r, w)
     else if meth = ''resources/subscribe'' then
       (case HandleResourcesSubscribe E params mid w st of (resp, st') \<Rightarrow> (Inr resp, st', r, w))
     else if meth = ''resources/unsubscribe'' then
       (case HandleResourcesUnsubscribe params mid st of (resp, st') \<Rightarrow> (Inr resp, st', r, w))
     else (Inr (MakeError mid JSONRPC_METHOD_NOT_FOUND (''Method not found: '' @ meth) JNull), st, r, w))"

definition Dispatch :: "('c, 'w) stdio_env \<Rightarrow> json \<Rightarrow> ('c, 'w) tstate \<Rightarrow> json res \<times> ('c, 'w) tstate" where
  "Dispatch E message = (\<lambda>(st, r, w).
     case get_string (j_at message ''method'') of
       Inl e \<Rightarrow> (Inl e, st, r, w)
     | Inr meth \<Rightarrow>
         (let mid = j_at message ''id'';
              params = (case j_lookup message ''params'' of None \<Rightarrow> JObj [] | Some p \<Rightarrow> p) in
          if meth = ''initialize'' then
            (case HandleInitialize E mid st of (resp, st') \<Rightarrow> (Inr resp, st', r, w))
          else if meth = ''notifications/initialized'' then (Inr JNull, st, r, w)
          else if meth = ''notifications/cancelled'' then
            (case HandleCancelNotification E params (st, r, w) of
               (Inl e, s') \<Rightarrow> (Inl e, s') | (Inr u, s') \<Rightarrow> (Inr JNull, s'))
          else if \<not> m_Initialized st then
            (Inr (MakeError mid JSONRPC_INVALID_REQUEST ''Server not initialized'' JNull), st, r, w)
          else dispatch_initialized E meth mid params (st, r, w)))"

section \<open>The read loop\<close>

text \<open>
  What the loop makes of one line: nothing, an answer sent at once, a call handed to the
  thread pool, or an exception that leaves \<^verbatim>\<open>Run\<close>.
\<close>

datatype ('c, 'w) line_step = Continue "('c, 'w) tstate" | Submit json | Escape exn "('c, 'w) tstate"

definition send_step :: "('c, 'w) stdio_env \<Rightarrow> json \<Rightarrow> ('c, 'w) tstate \<Rightarrow> ('c, 'w) line_step" where
  "send_step E msg = (\<lambda>(st, s). case SendMessage (c_json E) msg st of
     Inl e \<Rightarrow> Escape e (st, s) | Inr st' \<Rightarrow> Continue (st', s))"

definition valid_message :: "json \<Rightarrow> bool" where
  "valid_message message \<longleftrightarrow> is_object message \<and> j_lookup message ''jsonrpc'' = Some (JStr ''2.0'')
     \<and> j_contains message ''method''"

definition run_line :: "('c, 'w) stdio_env \<Rightarrow> string \<Rightarrow> ('c, 'w) tstate \<Rightarrow> ('c, 'w) line_step" where
  "run_line E line ts =
     (if line = [] then Continue ts
      else (case jparse (c_json E) (strip_cr line) of
        None \<Rightarrow> send_step E (MakeError JNull JSONRPC_PARSE_ERROR ''Parse error'' JNull) ts
      | Some message \<Rightarrow>
          if \<not> valid_message message then
            send_step E (MakeError (j_at message ''id'') JSONRPC_INVALID_REQUEST ''Invalid JSON-RPC 2.0 request'' JNull) ts
          else (case value_str message ''method'' [] of
            Inl e \<Rightarrow> Escape e ts
          | Inr meth \<Rightarrow>
              if meth = ''tools/call'' \<and> j_contains message ''id'' then Submit message
              else (case Dispatch E message ts of
                  (Inl e, ts') \<Rightarrow> Escape e ts'
                | (Inr response, ts') \<Rightarrow>
                    if j_contains message ''id'' \<and> response \<noteq> JNull then send_step E response ts'
                    else Continue ts'))))"

end
