(* ===== verification/StdioFacts.thy ===== *)
theory StdioFacts
  imports StdioTransport
begin

text \<open>
  Facts about the transport: what counts as an answer, which handlers may throw, and the
  system of read loop and thread pool as a step relation, in which calls start and finish in
  any order the pool allows.
\<close>

section \<open>Answers\<close>

definition answer_for :: "json \<Rightarrow> json \<Rightarrow> bool" where
  "answer_for mid resp \<longleftrightarrow>
     (\<exists>result. resp = MakeResponse mid result) \<or> (\<exists>code msg data. resp = MakeError mid code msg data)"

named_theorems answers "handlers reply with an answer"

lemma answer_response [simp, answers]: "answer_for mid (MakeResponse mid result)"
  by (auto simp: answer_for_def)

lemma answer_error [simp, answers]: "answer_for mid (MakeError mid code msg data)"
  by (auto simp: answer_for_def)

lemma answer_bad [simp, answers]: "answer_for mid (bad_params mid msg)"
  by (simp add: bad_params_def)

lemma answer_contents [simp, answers]: "answer_for mid (contents_reply mid uri mime t)"
  by (simp add: contents_reply_def)

lemma answer_fields:
  assumes "answer_for mid resp"
  shows "j_lookup resp ''jsonrpc'' = Some (JStr ''2.0'') \<and> j_lookup resp ''id'' = Some mid
     \<and> (j_contains resp ''result'' \<longleftrightarrow> \<not> j_contains resp ''error'') \<and> resp \<noteq> JNull"
  using assms by (auto simp: answer_for_def MakeResponse_def MakeError_def j_contains_def)

lemma answer_catch: "catch_std mid m = Inr resp \<Longrightarrow> answer_for mid resp"
  by (auto simp: catch_std_def split: sum.splits if_splits)

lemma answer_call_begin: "call_begin E params mid (st, r) = Inr (Refused resp, st') \<Longrightarrow> answer_for mid resp \<and> st' = st"
  by (auto simp: call_begin_def bindE_eq_Inr split: option.splits)

lemma call_begin_id: "call_begin E params mid (st, r) = Inr (Started k, st') \<Longrightarrow> k_id k = mid"
  by (auto simp: call_begin_def bindE_eq_Inr split: option.splits)

lemma answer_call_end: "call_end E k ts = (Inr resp, ts') \<Longrightarrow> answer_for (k_id k) resp"
  by (cases ts) (auto simp: call_end_def Let_def split: prod.splits sum.splits dest: answer_catch)

lemma answer_tools_call: "HandleToolsCall E params mid ts = (Inr resp, ts') \<Longrightarrow> answer_for mid resp"
  by (cases ts)
     (auto simp: HandleToolsCall_def split: sum.splits call_start.splits
       dest!: answer_call_begin answer_call_end call_begin_id)

lemma answer_batch: "HandleToolsCallBatch E params mid s = (Inr resp, s') \<Longrightarrow> answer_for mid resp"
  by (auto simp: HandleToolsCallBatch_def bindE_eq_Inr split: option.splits json.splits if_splits prod.splits sum.splits)

lemma answer_prompts_get:
  assumes h: "HandlePromptsGet E params mid = Inr resp"
  shows "answer_for mid resp"
proof (cases "string_param params ''name''")
  case None
  then show ?thesis using h by (auto simp: HandlePromptsGet_def)
next
  case (Some name)
  show ?thesis
  proof (cases "c_engine E")
    case None
    then show ?thesis using h Some by (auto simp: HandlePromptsGet_def bindE_eq_Inr)
  next
    case (Some eng)
    show ?thesis
    proof (cases "SkillEngine.Resolve eng name")
      case None
      then show ?thesis using h Some \<open>string_param params ''name'' = Some name\<close>
        by (auto simp: HandlePromptsGet_def bindE_eq_Inr)
    next
      case (Some skill)
      then obtain a where "(case RenderPrompt (c_json E) skill a of
            Inr rendered \<Rightarrow> Inr (MakeResponse mid (prompt_result rendered))
          | Inl e \<Rightarrow> if is_std_exception e then Inr (bad_params mid (what e)) else Inl e) = Inr resp"
        using h \<open>c_engine E = Some eng\<close> \<open>string_param params ''name'' = Some name\<close>
        by (auto simp: HandlePromptsGet_def bindE_eq_Inr)
      then show ?thesis by (cases "RenderPrompt (c_json E) skill a") (auto split: if_splits)
    qed
  qed
qed

lemma answer_skill_resource: "answer_for mid (ReadSkillResource E uri mid s)"
  by (cases s) (simp add: ReadSkillResource_def Let_def split: option.split sum.split prod.split)

lemma answer_check: "check_resource E w mid uri = Inl resp \<Longrightarrow> answer_for mid resp"
  by (auto simp: check_resource_def Let_def split: option.splits if_splits)

lemma answer_read: "answer_for mid (HandleResourcesRead E params mid s)"
  by (cases s) (auto simp: HandleResourcesRead_def answer_skill_resource split: option.split sum.split dest: answer_check)

lemma answer_subscribe: "answer_for mid (fst (HandleResourcesSubscribe E params mid w st))"
  by (auto simp: HandleResourcesSubscribe_def Let_def split: option.split sum.split dest: answer_check)

lemma answer_unsubscribe: "answer_for mid (fst (HandleResourcesUnsubscribe params mid st))"
  by (auto simp: HandleResourcesUnsubscribe_def Let_def split: option.split)

lemma answer_initialized:
  assumes "dispatch_initialized E meth mid params ts = (Inr resp, ts')"
  shows "answer_for mid resp"
proof -
  obtain st r w where ts: "ts = (st, r, w)" by (cases ts)
  show ?thesis
    using assms answer_subscribe [of mid E params w st] answer_unsubscribe [of mid params st] answer_read [of mid E params "(r, w)"]
    unfolding dispatch_initialized_def ts prod.case
    by (auto split: if_split_asm prod.splits simp: HandleToolsList_def HandlePromptsList_def HandleResourcesList_def
        Let_def bindE_eq_Inr dest: answer_tools_call answer_batch answer_prompts_get)
qed

section \<open>Methods that never throw\<close>

definition dump_throws_std :: "jlib \<Rightarrow> bool" where
  "dump_throws_std J \<longleftrightarrow> (\<forall>j e. jdump J j = Inl e \<longrightarrow> is_std_exception e)"

lemma interpolate_std: "dump_throws_std J \<Longrightarrow> Interpolate J vars s = Inl e \<Longrightarrow> is_std_exception e"
proof (induction J vars s arbitrary: e rule: Interpolate.induct)
  case (2 J vars c cs)
  have v: "variable_text J vars w = Inl e \<Longrightarrow> is_std_exception e" for w e
    using 2(3) by (auto simp: variable_text_def dump_throws_std_def bindE_def split: option.splits json.splits sum.splits)
  show ?case
    using 2 v by (auto simp: bindE_def split: option.splits sum.splits)
qed simp

lemma render_std: "dump_throws_std J \<Longrightarrow> RenderPrompt J skill vars = Inl e \<Longrightarrow> is_std_exception e"
  by (auto simp: RenderPrompt_def StaticRenderPrompt_def dest: interpolate_std split: option.splits)

lemma mapE_total: "(\<And>x. x \<in> set xs \<Longrightarrow> \<exists>y. f x = Inr y) \<Longrightarrow> \<exists>ys. mapE f xs = Inr ys"
proof (induction xs)
  case (Cons x xs)
  obtain y ys where "f x = Inr y" "mapE f xs = Inr ys" using Cons by fastforce
  then show ?case by simp
qed simp

lemma prompts_total: "\<exists>resp. HandlePromptsList E mid = Inr resp"
proof -
  have "\<exists>ys. mapE prompt_of (j_elems (ListSkillsJson eng)) = Inr ys" for eng
  proof (rule mapE_total)
    fix x assume "x \<in> set (j_elems (ListSkillsJson eng))"
    then obtain name skill where "(name, skill) \<in> set eng" and x: "x = JObj [(''name'', JStr (sd_Name skill)), (''description'', JStr (sd_Description skill)),
           (''default_model'', JStr (sd_DefaultModel skill)),
           (''required_variables'', JArr (map JStr (sd_RequiredVariables skill)))]"
      by (auto simp: ListSkillsJson_def)
    have "\<exists>ys. mapE prompt_argument (map JStr (sd_RequiredVariables skill)) = Inr ys"
      by (rule mapE_total) (auto simp: prompt_argument_def)
    then show "\<exists>y. prompt_of x = Inr y"
      by (auto simp: prompt_of_def x value_defs j_contains_def j_at_def)
  qed
  then obtain f where "mapE prompt_of (j_elems (ListSkillsJson eng)) = Inr (f eng)" for eng by metis
  then show ?thesis by (simp add: HandlePromptsList_def split: option.split)
qed

lemma prompts_get_total: "dump_throws_std (c_json E) \<Longrightarrow> \<exists>resp. HandlePromptsGet E params mid = Inr resp"
proof (cases "string_param params ''name''")
  case (Some name)
  assume d: "dump_throws_std (c_json E)"
  obtain kvs where "params = JObj kvs" using Some by (cases params) (auto simp: string_param_def)
  then obtain a where "value_json params ''arguments'' (JObj []) = Inr a"
    by (cases "map_of kvs ''arguments''") (simp_all add: value_defs)
  then show ?thesis using Some render_std [OF d]
    by (auto simp: HandlePromptsGet_def split: option.split sum.split)
qed (simp add: HandlePromptsGet_def)

definition may_throw :: "string set" where
  "may_throw = {''tools/call'', ''tools/call_batch''}"

lemma initialized_total:
  assumes "dump_throws_std (c_json E)" "meth \<notin> may_throw"
  shows "\<exists>resp ts'. dispatch_initialized E meth mid params ts = (Inr resp, ts')"
proof -
  obtain st r w where ts: "ts = (st, r, w)" by (cases ts)
  show ?thesis
    using assms(2) prompts_total [of E mid] prompts_get_total [OF assms(1), of params mid]
    by (auto simp: dispatch_initialized_def ts may_throw_def split: prod.split)
qed

section \<open>The system of loop and pool\<close>

text \<open>
  The input still to be read, the tasks of the pool that have not begun, the calls whose tool
  is running, the transport, and the exception that left \<^verbatim>\<open>Run\<close>.  A task dispatches its
  message; the workers take tasks in order, but one that has taken a task may be overtaken.  A
  call that was not refused finishes in a later step, and a reply whose \<^verbatim>\<open>dump\<close> throws, or a
  call that throws, is lost in the task's future.  The resource watcher looks at a subscribed
  URI between any two steps, and the watchers of the plugin loaders push their notifications.
\<close>

record ('c, 'w) sys =
  y_lines :: "string list"
  y_tasks :: "json list"
  y_running :: "call list"
  y_state :: "('c, 'w) tstate"
  y_escaped :: "exn option"

definition task_begin :: "('c, 'w) stdio_env \<Rightarrow> json \<Rightarrow> stdio \<times> 'c registry \<Rightarrow> (call_start \<times> stdio) res" where
  "task_begin E message = (\<lambda>(st, r).
     if \<not> m_Initialized st
     then Inr (Refused (MakeError (j_at message ''id'') JSONRPC_INVALID_REQUEST ''Server not initialized'' JNull), st)
     else call_begin E (case j_lookup message ''params'' of None \<Rightarrow> JObj [] | Some p \<Rightarrow> p)
            (j_at message ''id'') (st, r))"

definition send_or_lose :: "jlib \<Rightarrow> json res \<Rightarrow> stdio \<Rightarrow> stdio" where
  "send_or_lose J res st =
     (case bindE res (\<lambda>msg. SendMessage J msg st) of Inl e \<Rightarrow> st | Inr st' \<Rightarrow> st')"

inductive sys_step :: "('c, 'w) stdio_env \<Rightarrow> ('c, 'w) sys \<Rightarrow> ('c, 'w) sys \<Rightarrow> bool" for E where
  read_continue: "y_escaped y = None \<Longrightarrow> y_lines y = l # ls \<Longrightarrow> run_line E l (y_state y) = Continue ts \<Longrightarrow>
     sys_step E y (y\<lparr>y_lines := ls, y_state := ts\<rparr>)"
| read_submit: "y_escaped y = None \<Longrightarrow> y_lines y = l # ls \<Longrightarrow> run_line E l (y_state y) = Submit msg \<Longrightarrow>
     sys_step E y (y\<lparr>y_lines := ls, y_tasks := y_tasks y @ [msg]\<rparr>)"
| read_escape: "y_escaped y = None \<Longrightarrow> y_lines y = l # ls \<Longrightarrow> run_line E l (y_state y) = Escape e ts \<Longrightarrow>
     sys_step E y (y\<lparr>y_lines := ls, y_state := ts, y_escaped := Some e\<rparr>)"
| task_lost: "y_tasks y = q1 @ msg # q2 \<Longrightarrow> y_state y = (st, r, w) \<Longrightarrow> task_begin E msg (st, r) = Inl e \<Longrightarrow>
     sys_step E y (y\<lparr>y_tasks := q1 @ q2\<rparr>)"
| task_refused: "y_tasks y = q1 @ msg # q2 \<Longrightarrow> y_state y = (st, r, w) \<Longrightarrow>
     task_begin E msg (st, r) = Inr (Refused resp, st') \<Longrightarrow>
     sys_step E y (y\<lparr>y_tasks := q1 @ q2, y_state := (send_or_lose (c_json E) (Inr resp) st', r, w)\<rparr>)"
| task_started: "y_tasks y = q1 @ msg # q2 \<Longrightarrow> y_state y = (st, r, w) \<Longrightarrow>
     task_begin E msg (st, r) = Inr (Started k, st') \<Longrightarrow>
     sys_step E y (y\<lparr>y_tasks := q1 @ q2, y_running := k # y_running y, y_state := (st', r, w)\<rparr>)"
| call_finished: "y_running y = ks1 @ k # ks2 \<Longrightarrow> call_end E k (y_state y) = (res, st', s') \<Longrightarrow>
     sys_step E y (y\<lparr>y_running := ks1 @ ks2, y_state := (send_or_lose (c_json E) res st', s')\<rparr>)"
| watcher_visit: "y_state y = (st, r, w) \<Longrightarrow> m_WatcherJoinable st \<Longrightarrow> u \<in> m_SubscribedUris st \<Longrightarrow>
     watch_uri E w u st = Inr st' \<Longrightarrow> sys_step E y (y\<lparr>y_state := (st', r, w)\<rparr>)"
| loader_push: "y_state y = (st, r, w) \<Longrightarrow> PushNotification (c_json E) (list_changed payload) st = Inr st' \<Longrightarrow>
     sys_step E y (y\<lparr>y_state := (st', r, w)\<rparr>)"

definition sys_start :: "string list \<Rightarrow> 'c registry \<times> 'w \<Rightarrow> ('c, 'w) sys" where
  "sys_start ls s = \<lparr>y_lines = ls, y_tasks = [], y_running = [], y_state = (start_stdio, s), y_escaped = None\<rparr>"

definition reachable :: "('c, 'w) stdio_env \<Rightarrow> string list \<Rightarrow> 'c registry \<times> 'w \<Rightarrow> ('c, 'w) sys \<Rightarrow> bool" where
  "reachable E ls s y \<longleftrightarrow> (sys_step E)\<^sup>*\<^sup>* (sys_start ls s) y"

lemma reachable_induct [consumes 1, case_names start step]:
  assumes "reachable E ls s y" "P (sys_start ls s)"
    and "\<And>y y'. reachable E ls s y \<Longrightarrow> P y \<Longrightarrow> sys_step E y y' \<Longrightarrow> P y'"
  shows "P y"
  using assms(1) unfolding reachable_def
  by (induction rule: rtranclp_induct) (use assms(2,3) in \<open>auto simp: reachable_def\<close>)

section \<open>In-flight requests\<close>

definition flight_keys :: "stdio \<Rightarrow> string set" where
  "flight_keys st = fst ` set (m_InFlightRequests st)"

lemma flight_keys_update [simp]:
  "flight_keys (st\<lparr>m_InFlightRequests := AList.update k v (m_InFlightRequests st)\<rparr>) = insert k (flight_keys st)"
  by (simp add: flight_keys_def dom_update)

lemma flight_keys_delete [simp]:
  "flight_keys (st\<lparr>m_InFlightRequests := AList.delete k (m_InFlightRequests st)\<rparr>) = flight_keys st - {k}"
proof -
  have "flight_keys st = set (map fst (m_InFlightRequests st))" for st by (simp add: flight_keys_def)
  then show ?thesis by (auto simp: delete_keys simp del: set_map)
qed

lemma flight_keys_mtimes [simp]: "flight_keys (st\<lparr>m_SubscribedMtimes := m\<rparr>) = flight_keys st"
  by (simp add: flight_keys_def)

lemma keys_send: "SendMessage J msg st = Inr st' \<Longrightarrow> flight_keys st' = flight_keys st \<and> m_Initialized st' = m_Initialized st"
  by (auto simp: SendMessage_def flight_keys_def bindE_eq_Inr)

lemma keys_send_or_lose [simp]:
  "flight_keys (send_or_lose J res st) = flight_keys st"
  "m_Initialized (send_or_lose J res st) = m_Initialized st"
proof -
  have "flight_keys (send_or_lose J res st) = flight_keys st \<and> m_Initialized (send_or_lose J res st) = m_Initialized st"
    by (auto simp: send_or_lose_def bindE_eq_Inr split: sum.split dest: keys_send)
  then show "flight_keys (send_or_lose J res st) = flight_keys st"
    "m_Initialized (send_or_lose J res st) = m_Initialized st" by simp_all
qed

lemma keys_watch: "watch_uri E w u st = Inr st' \<Longrightarrow> flight_keys st' = flight_keys st \<and> m_Initialized st' = m_Initialized st"
  using keys_send [of "c_json E" "updated_notification u" "st\<lparr>m_SubscribedMtimes := AList.update u mt (m_SubscribedMtimes st)\<rparr>" st' for mt]
  by (simp add: watch_uri_def Let_def split: if_split_asm option.split_asm)

lemma keys_push: "PushNotification J n st = Inr st' \<Longrightarrow> flight_keys st' = flight_keys st \<and> m_Initialized st' = m_Initialized st"
  unfolding PushNotification_def by (rule keys_send)

lemma keys_refused: "task_begin E msg (st, r) = Inr (Refused resp, st') \<Longrightarrow> st' = st"
  by (auto simp: task_begin_def split: if_splits dest: answer_call_begin)

lemma keys_started:
  "call_begin E params mid (st, r) = Inr (Started k, st') \<Longrightarrow>
     flight_keys st' = insert (k_request_id k) (flight_keys st) \<and> m_Initialized st' = m_Initialized st"
  by (auto simp: call_begin_def bindE_eq_Inr split: option.splits)

lemma keys_task_started:
  "task_begin E msg (st, r) = Inr (Started k, st') \<Longrightarrow>
     m_Initialized st \<and> flight_keys st' = insert (k_request_id k) (flight_keys st) \<and> m_Initialized st' = m_Initialized st"
  by (auto simp: task_begin_def split: if_splits dest: keys_started)

lemma keys_call_end:
  assumes "throws_std (c_tools E)" "call_end E k (st, s) = (res, st', s')"
  shows "flight_keys st' = flight_keys st - {k_request_id k} \<and> m_Initialized st' = m_Initialized st"
  using assms(2) chain_throws_std [OF assms(1), of "k_tool k" "k_request k" 0 s]
  by (auto simp: call_end_def Let_def split: prod.splits sum.splits if_splits)

lemma keys_subscribe:
  "HandleResourcesSubscribe E params mid w st = (resp, st') \<Longrightarrow>
     flight_keys st' = flight_keys st \<and> m_Initialized st' = m_Initialized st"
  by (auto simp: HandleResourcesSubscribe_def StartResourceWatcher_def flight_keys_def Let_def
      split: option.split_asm sum.split_asm if_split_asm)

lemma keys_unsubscribe:
  "HandleResourcesUnsubscribe params mid st = (resp, st') \<Longrightarrow>
     flight_keys st' = flight_keys st \<and> m_Initialized st' = m_Initialized st"
  by (auto simp: HandleResourcesUnsubscribe_def StopResourceWatcher_def flight_keys_def Let_def
      split: option.split_asm if_split_asm)

lemma keys_tools_call:
  assumes "throws_std (c_tools E)" "HandleToolsCall E params mid (st, s) = (res, st', s')"
  shows "flight_keys st' \<subseteq> flight_keys st \<and> m_Initialized st' = m_Initialized st"
proof -
  obtain r w where s: "s = (r, w)" by (cases s)
  show ?thesis
    using assms(2) unfolding HandleToolsCall_def s prod.case
    by (auto split: sum.split_asm prod.split_asm call_start.split_asm
        dest!: answer_call_begin keys_started keys_call_end [OF assms(1)])
qed

lemma keys_dispatch:
  assumes std: "throws_std (c_tools E)" and d: "Dispatch E msg (st, s) = (res, st', s')"
  shows "flight_keys st' \<subseteq> flight_keys st"
proof -
  obtain r w where s: "s = (r, w)" by (cases s)
  have cancel: "HandleCancelNotification E params (st, r, w) = (u, st2, s2) \<Longrightarrow> st2 = st" for params u st2 s2
    by (auto simp: HandleCancelNotification_def split: option.split_asm sum.split_asm)
  have "dispatch_initialized E meth mid params (st, r, w) = (res, st', s') \<Longrightarrow> flight_keys st' \<subseteq> flight_keys st"
    for meth mid params
    unfolding dispatch_initialized_def prod.case
    by (auto split: if_split_asm prod.split_asm
        dest: keys_tools_call [OF std] keys_subscribe keys_unsubscribe)
  then show ?thesis
    using d unfolding Dispatch_def s prod.case
    by (auto simp: Let_def HandleInitialize_def flight_keys_def split: sum.split_asm if_split_asm prod.split_asm
        dest!: cancel)
qed

lemma keys_send_step:
  "send_step E msg (st, s) = Continue (st', s') \<or> send_step E msg (st, s) = Escape e (st', s') \<Longrightarrow>
     flight_keys st' = flight_keys st \<and> m_Initialized st' = m_Initialized st \<and> s' = s"
  by (auto simp: send_step_def split: sum.split_asm dest: keys_send)

lemma send_step_no_submit [simp]: "send_step E msg ts \<noteq> Submit m"
  by (cases ts) (auto simp: send_step_def split: sum.split)

definition step_state :: "('c, 'w) line_step \<Rightarrow> ('c, 'w) tstate option" where
  "step_state x = (case x of Continue ts \<Rightarrow> Some ts | Escape e ts \<Rightarrow> Some ts | Submit m \<Rightarrow> None)"

lemma step_state_send:
  "step_state (send_step E msg (st, s)) = Some (st', s') \<Longrightarrow>
     flight_keys st' = flight_keys st \<and> m_Initialized st' = m_Initialized st \<and> s' = s"
  using keys_send_step [of E msg st s st' s']
  by (cases "send_step E msg (st, s)") (auto simp: step_state_def)

lemma run_line_state:
  assumes "step_state (run_line E l (st, s)) = Some (st', s')"
  shows "(flight_keys st' = flight_keys st \<and> m_Initialized st' = m_Initialized st \<and> s' = s)
    \<or> (\<exists>msg res st2. jparse (c_json E) (strip_cr l) = Some msg \<and> Dispatch E msg (st, s) = (res, st2, s')
         \<and> flight_keys st' = flight_keys st2 \<and> m_Initialized st' = m_Initialized st2)"
proof (cases "l = [] \<or> jparse (c_json E) (strip_cr l) = None")
  case True
  then have "step_state (run_line E l (st, s)) = Some (st, s)
      \<or> (\<exists>m. run_line E l (st, s) = send_step E m (st, s))"
    by (auto simp: run_line_def step_state_def)
  then show ?thesis using assms step_state_send [of E _ st s st' s'] by auto
next
  case False
  then obtain msg where l: "l \<noteq> []" and msg: "jparse (c_json E) (strip_cr l) = Some msg" by auto
  obtain res st2 s2 where d: "Dispatch E msg (st, s) = (res, st2, s2)" by (cases "Dispatch E msg (st, s)")
  have disp: "step_state (case Dispatch E msg (st, s) of
        (Inl e, ts') \<Rightarrow> Escape e ts'
      | (Inr response, ts') \<Rightarrow>
          if j_contains msg ''id'' \<and> response \<noteq> JNull then send_step E response ts' else Continue ts') = Some (st', s')
      \<Longrightarrow> flight_keys st' = flight_keys st2 \<and> m_Initialized st' = m_Initialized st2 \<and> s' = s2"
    using step_state_send [of E _ st2 s2]
    by (cases res) (auto simp: d step_state_def [of "Escape _ _"] step_state_def [of "Continue _"] split: if_split_asm)
  show ?thesis
    using assms l msg disp step_state_send [of E _ st s] d
    by (auto simp: run_line_def step_state_def [of "Escape _ _"] step_state_def [of "Submit _"]
        split: if_split_asm sum.split_asm)
qed

section \<open>Properties\<close>

text \<open>
  C7: In every state the transport can reach, whatever the interleaving of reading, starting
  and finishing calls, an entry of the in-flight map belongs to a call that is running; when
  no call runs the map is empty, so no cancelled or failed call leaves an entry behind.
\<close>

theorem in_flight_tracks_running:
  assumes "throws_std (c_tools E)" "reachable E input s y"
  shows "fst ` set (m_InFlightRequests (fst (y_state y))) \<subseteq> k_request_id ` set (y_running y)
     \<and> (y_running y = [] \<longrightarrow> m_InFlightRequests (fst (y_state y)) = [])"
proof -
  have "flight_keys (fst (y_state y)) \<subseteq> k_request_id ` set (y_running y)"
    using assms(2)
  proof (induction rule: reachable_induct)
    case start
    then show ?case by (simp add: sys_start_def start_stdio_def flight_keys_def)
  next
    case (step y y')
    obtain st s where ys: "y_state y = (st, s)" by (cases "y_state y")
    have line: "flight_keys st' \<subseteq> flight_keys st" if "step_state (run_line E l (st, s)) = Some (st', s')" for l st' s'
      using run_line_state [OF that] keys_dispatch [OF assms(1)] by fastforce
    from \<open>sys_step E y y'\<close> show ?case
    proof (cases rule: sys_step.cases)
      case (read_continue l ls ts)
      then show ?thesis using step.IH ys line [of l] by (cases ts) (fastforce simp: step_state_def)
    next
      case (read_escape l ls e ts)
      then show ?thesis using step.IH ys line [of l] by (cases ts) (fastforce simp: step_state_def)
    next
      case (task_refused q1 msg q2 st r w resp st')
      then show ?thesis using step.IH keys_refused [of E msg st r resp st'] by auto
    next
      case (task_started q1 msg q2 st r w k st')
      then show ?thesis using step.IH keys_task_started [of E msg st r k st'] by auto
    next
      case (call_finished ks1 k ks2 res st' s')
      then show ?thesis using step.IH ys keys_call_end [OF assms(1), of k st s res st' s'] by auto
    next
      case (watcher_visit st r w u st')
      then show ?thesis using step.IH keys_watch [of E w u st st'] by simp
    next
      case (loader_push st r w payload st')
      then show ?thesis using step.IH keys_push [of "c_json E" "list_changed payload" st st'] by simp
    qed (use step.IH in simp_all)
  qed
  then show ?thesis by (auto simp: flight_keys_def)
qed

text \<open>A concrete transport: no tools, no files, and a library that reads every line as one message.\<close>

definition ex_stdio :: "json \<Rightarrow> (bool, nat) stdio_env" where
  "ex_stdio message =
     \<lparr>c_json = \<lparr>jparse = \<lambda>s. Some message, jdump = \<lambda>j. Inr []\<rparr>,
      c_tools = \<lparr>ExecuteAsync = \<lambda>c q s. (Inr (JObj [(''status'', JStr ''ok''), (''content'', JStr ''done'')]), s),
                 GetMetadata = \<lambda>c. \<lparr>m_Name = [], m_Description = [], m_InputSchema = JNull, m_DefaultModel = [],
                   m_DefaultParameters = JNull, m_Source = BuiltIn, m_Hidden = False\<rparr>,
                 Shutdown = \<lambda>c w. w\<rparr>,
      c_cancel = \<lambda>c i w. w + 1, c_engine = None, c_catalog = \<lambda>w. None, c_files = \<lambda>w. [],
      c_mtime = \<lambda>w p. None, c_canonical = \<lambda>w p. Some p, c_weakly = \<lambda>w p. Some p, c_noread = \<lambda>p. False,
      m_ResourceRoot = ''/r'', m_ServerName = ''toolsmith'', m_ServerVersion = ''1''\<rparr>"

definition ex_tools :: "bool registry" where
  "ex_tools = empty_registry\<lparr>m_Commands := [(''echo'', True)]\<rparr>"

lemma ex_stdio_std: "throws_std (c_tools (ex_stdio m))"
  by (simp add: throws_std_def ex_stdio_def)

definition ex_call :: json where
  "ex_call = JObj [(''jsonrpc'', JStr ''2.0''), (''id'', JInt 1), (''method'', JStr ''tools/call''),
                   (''params'', JObj [(''name'', JStr ''echo'')])]"

theorem in_flight_tracks_running_witness:
  "m_InFlightRequests (fst (y_state (sys_start [''x''] (ex_tools, 0) :: (bool, nat) sys))) = []"
proof -
  have r: "reachable (ex_stdio ex_call) [''x''] (ex_tools, 0) (sys_start [''x''] (ex_tools, 0))"
    by (simp add: reachable_def)
  show ?thesis using in_flight_tracks_running [OF ex_stdio_std r] by (simp add: sys_start_def)
qed

section \<open>Before initialization\<close>

definition asks_initialize :: "('c, 'w) stdio_env \<Rightarrow> string \<Rightarrow> bool" where
  "asks_initialize E line \<longleftrightarrow>
     (case jparse (c_json E) (strip_cr line) of None \<Rightarrow> False
      | Some msg \<Rightarrow> j_lookup msg ''method'' = Some (JStr ''initialize''))"

lemma dispatch_before_init:
  assumes "\<not> m_Initialized st" "m_InFlightRequests st = []" "j_lookup msg ''method'' \<noteq> Some (JStr ''initialize'')"
    and d: "Dispatch E msg (st, s) = (res, st', s')"
  shows "st' = st \<and> s' = s"
proof -
  obtain r w where s: "s = (r, w)" by (cases s)
  have m: "get_string (j_at msg ''method'') \<noteq> Inr ''initialize''"
    using assms(3) by (auto simp: j_at_def split: option.splits elim: get_string.elims)
  have cancel: "HandleCancelNotification E params (st, r, w) = (u, st2, s2) \<Longrightarrow> st2 = st \<and> s2 = (r, w)" for params u st2 s2
    using assms(2) by (auto simp: HandleCancelNotification_def split: option.split_asm sum.split_asm)
  show ?thesis
    using d m assms(1) unfolding Dispatch_def s prod.case
    by (auto simp: Let_def split: sum.split_asm if_split_asm prod.split_asm dest!: cancel)
qed

definition untouched :: "'c registry \<times> 'w \<Rightarrow> ('c, 'w) sys \<Rightarrow> bool" where
  "untouched s y \<longleftrightarrow> \<not> m_Initialized (fst (y_state y)) \<and> flight_keys (fst (y_state y)) = {}
     \<and> snd (y_state y) = s \<and> y_running y = []"

lemma flight_keys_empty: "flight_keys st = {} \<longleftrightarrow> m_InFlightRequests st = []"
  by (simp add: flight_keys_def)

text \<open>
  C8: Until a line asks for initialize, nothing runs and nothing changes: along every
  interleaving the registry and the world stay as they were, no call is running, none is in
  flight, and the transport stays uninitialized.
\<close>

theorem nothing_before_initialize:
  assumes "\<not> list_ex (asks_initialize E) input" "reachable E input s y"
  shows "snd (y_state y) = s \<and> y_running y = [] \<and> m_InFlightRequests (fst (y_state y)) = []
     \<and> \<not> m_Initialized (fst (y_state y))"
proof -
  have "untouched s y \<and> \<not> list_ex (asks_initialize E) (y_lines y)"
    using assms(2)
  proof (induction rule: reachable_induct)
    case start
    then show ?case using assms(1) by (simp add: untouched_def sys_start_def start_stdio_def flight_keys_def)
  next
    case (step y y')
    obtain st where ys: "y_state y = (st, s)"
      using step.IH by (cases "y_state y") (simp add: untouched_def)
    have line: "\<not> m_Initialized st' \<and> flight_keys st' = {} \<and> s' = s"
      if l: "y_lines y = l # ls" and r: "step_state (run_line E l (st, s)) = Some (st', s')" for l ls st' s'
      using run_line_state [OF r]
    proof (elim disjE exE conjE)
      assume "flight_keys st' = flight_keys st" "m_Initialized st' = m_Initialized st" "s' = s"
      then show ?thesis using step.IH ys by (simp add: untouched_def)
    next
      fix msg res st2
      assume d: "jparse (c_json E) (strip_cr l) = Some msg" "Dispatch E msg (st, s) = (res, st2, s')"
        and st': "flight_keys st' = flight_keys st2" "m_Initialized st' = m_Initialized st2"
      have "st2 = st \<and> s' = s"
        using step.IH ys l d by (intro dispatch_before_init)
          (auto simp: untouched_def flight_keys_empty asks_initialize_def)
      then show ?thesis using st' step.IH ys by (simp add: untouched_def)
    qed
    from \<open>sys_step E y y'\<close> show ?case
    proof (cases rule: sys_step.cases)
      case (read_continue l ls ts)
      then show ?thesis using step.IH ys line [of l ls "fst ts" "snd ts"] by (simp add: untouched_def step_state_def)
    next
      case (read_escape l ls e ts)
      then show ?thesis using step.IH ys line [of l ls "fst ts" "snd ts"] by (simp add: untouched_def step_state_def)
    next
      case (task_refused q1 msg q2 st2 r w resp st')
      then show ?thesis using step.IH ys keys_refused [of E msg st2 r resp st'] by (auto simp: untouched_def)
    next
      case (task_started q1 msg q2 st2 r w k st')
      then show ?thesis using step.IH ys keys_task_started [of E msg st2 r k st'] by (auto simp: untouched_def)
    next
      case (call_finished ks1 k ks2 res st' s')
      then show ?thesis using step.IH by (simp add: untouched_def)
    next
      case (watcher_visit st2 r w u st')
      then show ?thesis using step.IH ys keys_watch [of E w u st2 st'] by (auto simp: untouched_def)
    next
      case (loader_push st2 r w payload st')
      then show ?thesis using step.IH ys keys_push [of "c_json E" "list_changed payload" st2 st'] by (auto simp: untouched_def)
    qed (use step.IH in \<open>simp_all add: untouched_def\<close>)
  qed
  then show ?thesis by (simp add: untouched_def flight_keys_empty)
qed

theorem nothing_before_initialize_witness:
  "\<exists>y. reachable (ex_stdio ex_call) [''x''] (ex_tools, 0) y \<and> y_tasks y = [ex_call] \<and> y_running y = []"
proof -
  let ?y = "(sys_start [''x''] (ex_tools, 0))\<lparr>y_lines := [], y_tasks := [ex_call]\<rparr>"
  have "run_line (ex_stdio ex_call) ''x'' (start_stdio, ex_tools, 0) = Submit ex_call"
    by (simp add: run_line_def ex_stdio_def ex_call_def valid_message_def j_contains_def value_defs)
  then have "sys_step (ex_stdio ex_call) (sys_start [''x''] (ex_tools, 0)) ?y"
    using sys_step.read_submit [of "sys_start [''x''] (ex_tools, 0)" "''x''" "[]" "ex_stdio ex_call" ex_call]
    by (simp add: sys_start_def)
  then have r: "reachable (ex_stdio ex_call) [''x''] (ex_tools, 0) ?y" by (simp add: reachable_def)
  have "\<not> list_ex (asks_initialize (ex_stdio ex_call)) [''x'']"
    by (simp add: asks_initialize_def ex_stdio_def ex_call_def)
  from nothing_before_initialize [OF this r] r show ?thesis by (intro exI [of _ ?y]) simp
qed

end
