(* ===== verification/StdioReplies.thy ===== *)
theory StdioReplies
  imports StdioFacts
begin

text \<open>
  What the transport replies: one answer per request, the replies of tool calls and of
  batches, and which files the resource methods reach.
\<close>

section \<open>Requests\<close>

definition silent :: "string set" where
  "silent = {''notifications/initialized'', ''notifications/cancelled''}"

lemma dispatch_answers:
  assumes d: "dump_throws_std (c_json E)" and m: "j_lookup msg ''method'' = Some (JStr meth)"
    and n: "meth \<notin> silent \<union> may_throw"
  shows "\<exists>resp ts'. Dispatch E msg ts = (Inr resp, ts') \<and> answer_for (j_at msg ''id'') resp"
proof -
  obtain st r w where ts: "ts = (st, r, w)" by (cases ts)
  let ?params = "case j_lookup msg ''params'' of None \<Rightarrow> JObj [] | Some p \<Rightarrow> p"
  have m': "j_at msg ''method'' = JStr meth" using m by (simp add: j_at_def)
  obtain resp st' r' w' where i: "dispatch_initialized E meth (j_at msg ''id'') ?params (st, r, w) = (Inr resp, st', r', w')"
    using initialized_total [OF d] n by (metis UnCI prod_cases3)
  show ?thesis
    using n i answer_initialized [OF i]
    by (auto simp: Dispatch_def ts m' silent_def HandleInitialize_def Let_def)
qed

text \<open>
  A line that holds a JSON-RPC request is answered: for every method other than
  tools/call and tools/call\_batch exactly one message is sent, it carries version 2.0 and the
  id of the request, and it holds either a result or an error; tools/call becomes a task of
  the thread pool.  A request whose method is not a string, however, throws out of the read
  loop and ends it.
\<close>

theorem request_answered:
  assumes "dump_throws_std (c_json E)" "line \<noteq> []" "jparse (c_json E) (strip_cr line) = Some msg"
    and "valid_message msg" "j_lookup msg ''id'' = Some mid" "j_lookup msg ''method'' = Some m"
  shows "case m of
      JStr meth \<Rightarrow>
        if meth = ''tools/call'' then run_line E line ts = Submit msg
        else meth \<notin> silent \<union> may_throw \<longrightarrow>
          (\<exists>resp ts'. run_line E line ts = send_step E resp ts'
             \<and> j_lookup resp ''jsonrpc'' = Some (JStr ''2.0'') \<and> j_lookup resp ''id'' = Some mid
             \<and> (j_contains resp ''result'' \<longleftrightarrow> \<not> j_contains resp ''error''))
    | _ \<Rightarrow> run_line E line ts = Escape JsonTypeError ts"
proof (cases m)
  case (JStr meth)
  have v: "value_str msg ''method'' [] = Inr meth" "j_contains msg ''id''" "j_at msg ''id'' = mid"
    using assms(4-6) JStr by (auto simp: value_defs valid_message_def j_contains_def j_at_def)
  show ?thesis
  proof (cases "meth = ''tools/call''")
    case True
    then show ?thesis using assms(2-4) JStr v by (simp add: run_line_def)
  next
    case False
    have "\<exists>resp ts'. Dispatch E msg ts = (Inr resp, ts') \<and> answer_for mid resp" if "meth \<notin> silent \<union> may_throw"
      using dispatch_answers [OF assms(1) _ that, of msg ts] assms(6) JStr v(3) by auto
    then show ?thesis
      using assms(2-4) JStr v False answer_fields by (fastforce simp: run_line_def)
  qed
qed (use assms in \<open>auto simp: run_line_def value_defs valid_message_def\<close>)

definition ex_ping :: json where
  "ex_ping = JObj [(''jsonrpc'', JStr ''2.0''), (''id'', JInt 7), (''method'', JStr ''ping'')]"

theorem request_answered_witness:
  "\<exists>resp ts'. run_line (ex_stdio ex_ping) ''x'' (start_stdio, ex_tools, 0) = send_step (ex_stdio ex_ping) resp ts'
     \<and> j_lookup resp ''id'' = Some (JInt 7)"
proof -
  have "dump_throws_std (c_json (ex_stdio ex_ping))" "jparse (c_json (ex_stdio ex_ping)) (strip_cr ''x'') = Some ex_ping"
    by (simp_all add: ex_stdio_def dump_throws_std_def)
  moreover have "valid_message ex_ping" "j_lookup ex_ping ''id'' = Some (JInt 7)" "j_lookup ex_ping ''method'' = Some (JStr ''ping'')"
    by (simp_all add: ex_ping_def valid_message_def j_contains_def)
  ultimately show ?thesis
    using request_answered [of "ex_stdio ex_ping" "''x''" ex_ping "JInt 7" "JStr ''ping''" "(start_stdio, ex_tools, 0)"]
    by (auto simp: silent_def may_throw_def)
qed

section \<open>Tool calls\<close>

lemma inject_defaults_ok:
  assumes "is_object a \<or> a = JNull"
  shows "\<exists>a'. inject_defaults meta a = Inr a' \<and> (is_object a' \<or> a' = JNull)"
proof -
  have s: "\<exists>b. j_set a k v = Inr b \<and> is_object b" if "is_object a \<or> a = JNull" for a k v
    using that j_set_ok by auto
  obtain b where b: "(if m_DefaultModel meta \<noteq> [] \<and> \<not> j_contains a ''model''
      then j_set a ''model'' (JStr (m_DefaultModel meta)) else Inr a) = Inr b" "is_object b \<or> b = JNull"
  proof (cases "m_DefaultModel meta \<noteq> [] \<and> \<not> j_contains a ''model''")
    case True
    then show ?thesis using that s [OF assms, of "''model''" "JStr (m_DefaultModel meta)"] by auto
  next
    case False
    then show ?thesis using that [of a] assms by auto
  qed
  then show ?thesis using s [OF b(2), of "''parameters''" "m_DefaultParameters meta"] by (auto simp: inject_defaults_def)
qed

lemma inject_defaults_bad:
  assumes "\<not> is_object a" "a \<noteq> JNull"
  shows "inject_defaults meta a = Inl JsonTypeError \<or> inject_defaults meta a = Inr a"
  using assms by (cases a) (auto simp: inject_defaults_def)

lemma call_result_std: "dump_throws_std J \<Longrightarrow> call_result J result = Inl e \<Longrightarrow> is_std_exception e"
proof -
  have g: "get_string j = Inl e \<Longrightarrow> is_std_exception e" "get_bool j = Inl e \<Longrightarrow> is_std_exception e" for j e
    by (cases j; simp)+
  have v: "value_with get j k d = Inl e \<Longrightarrow> (\<And>x e. get x = Inl e \<Longrightarrow> is_std_exception e) \<Longrightarrow> is_std_exception e" for get j k d e
    by (auto simp: value_with_def split: if_splits option.splits)
  show "dump_throws_std J \<Longrightarrow> call_result J result = Inl e \<Longrightarrow> is_std_exception e"
    unfolding call_result_def dump_throws_std_def value_bool_def value_str_def bindE_def
    by (auto split: sum.split_asm if_split_asm option.split_asm json.split_asm dest!: v dest: g)
qed

lemma call_end_answers:
  assumes "dump_throws_std (c_json E)" "throws_std (c_tools E)"
  shows "\<exists>resp. fst (call_end E k ts) = Inr resp \<and> answer_for (k_id k) resp"
proof -
  obtain st s where ts: "ts = (st, s)" by (cases ts)
  have "\<exists>resp. fst (call_end E k (st, s)) = Inr resp"
    using chain_throws_std [OF assms(2), of "k_tool k" "k_request k" 0 s] call_result_std [OF assms(1)]
    by (auto simp: call_end_def Let_def catch_std_def split: prod.split sum.split)
  then show ?thesis using answer_call_end [of E k ts] ts by (metis prod.collapse)
qed



section \<open>Batches\<close>

definition batch_name :: "json \<Rightarrow> string" where
  "batch_name c = (case string_param c ''name'' of None \<Rightarrow> ''<unknown>'' | Some n \<Rightarrow> n)"

definition batch_args_ok :: "json \<Rightarrow> bool" where
  "batch_args_ok c \<longleftrightarrow> (case j_lookup c ''arguments'' of None \<Rightarrow> True | Some a \<Rightarrow> is_object a \<or> a = JNull)"

fun pending_name :: "pending \<Rightarrow> string" where
  "pending_name (BatchError n e) = n"
| "pending_name (Ran n res) = n"

definition pending_std :: "pending \<Rightarrow> bool" where
  "pending_std p = (case p of BatchError n e \<Rightarrow> True | Ran n res \<Rightarrow> \<forall>e. res = Inl e \<longrightarrow> is_std_exception e)"

lemma batch_call_ok:
  assumes std: "throws_std (c_tools E)" and ok: "batch_args_ok c"
  shows "\<exists>p s'. batch_call E c s = (Inr p, s') \<and> pending_name p = batch_name c \<and> pending_std p"
proof (cases "string_param c ''name''")
  case None
  then show ?thesis by (simp add: batch_call_def batch_name_def pending_std_def)
next
  case (Some name)
  then obtain kvs where kvs: "c = JObj kvs" by (cases c) (auto simp: string_param_def)
  obtain a where a: "value_json c ''arguments'' (JObj []) = Inr a" "is_object a \<or> a = JNull"
    using ok that by (cases "map_of kvs ''arguments''") (auto simp: kvs value_defs batch_args_ok_def)
  show ?thesis
  proof (cases "CommandRegistry.Resolve (fst s) name")
    case None
    then show ?thesis using Some a by (simp add: batch_call_def batch_name_def pending_std_def)
  next
    case (Some cmd)
    obtain b where b: "inject_defaults (GetMetadata (c_tools E) cmd) a = Inr b"
      using inject_defaults_ok [OF a(2)] by blast
    obtain res s' where x: "ExecuteAsync (c_tools E) cmd (JObj [(''command'', JStr name), (''payload'', b)]) s = (res, s')"
      by (cases "ExecuteAsync (c_tools E) cmd (JObj [(''command'', JStr name), (''payload'', b)]) s")
    have "\<forall>e. res = Inl e \<longrightarrow> is_std_exception e" using std x by (metis fst_conv throws_std_def)
    then show ?thesis
      using \<open>string_param c ''name'' = Some name\<close> Some a(1) b x
      by (simp add: batch_call_def batch_name_def pending_std_def)
  qed
qed

lemma batch_loop_ok:
  assumes "throws_std (c_tools E)"
  shows "list_all batch_args_ok cs \<Longrightarrow>
     \<exists>ps s'. batch_loop E cs s = (Inr ps, s') \<and> map pending_name ps = map batch_name cs \<and> list_all pending_std ps"
proof (induction cs arbitrary: s)
  case (Cons c cs)
  obtain p s1 where p: "batch_call E c s = (Inr p, s1)" "pending_name p = batch_name c" "pending_std p"
    using batch_call_ok [OF assms] Cons.prems by fastforce
  obtain ps s2 where "batch_loop E cs s1 = (Inr ps, s2)" "map pending_name ps = map batch_name cs" "list_all pending_std ps"
    using Cons by fastforce
  then show ?case using p by simp
qed simp

lemma batch_item_ok:
  assumes "dump_throws_std J" "pending_std p"
  shows "\<exists>item. batch_item J p = Inr item \<and> j_lookup item ''name'' = Some (JStr (pending_name p))"
proof (cases p)
  case (BatchError n e)
  then show ?thesis by (simp add: batch_item_def batch_entry_def)
next
  case (Ran n res)
  let ?m = "bindE res (\<lambda>result. bindE (value_str result ''status'' ''ok'') (\<lambda>status.
                 bindE (jdump J result) (\<lambda>d. Inr (batch_entry n (status = ''error'') d))))"
  have g: "get_string j = Inl e \<Longrightarrow> is_std_exception e" for j e by (cases j) auto
  have e: "is_std_exception e" if "?m = Inl e" for e
    using that assms g unfolding dump_throws_std_def pending_std_def Ran
    by (auto simp: bindE_def value_defs split: sum.split_asm if_split_asm option.split_asm)
  have i: "\<exists>f d. item = batch_entry n f d" if "?m = Inr item" for item
    using that by (auto simp: bindE_eq_Inr)
  show ?thesis
    using e i by (cases ?m) (auto simp: batch_item_def Ran batch_entry_def)
qed

lemma batch_items_ok:
  assumes "dump_throws_std J"
  shows "list_all pending_std ps \<Longrightarrow>
     \<exists>rs. mapE (batch_item J) ps = Inr rs \<and> map (\<lambda>r. j_lookup r ''name'') rs = map (\<lambda>p. Some (JStr (pending_name p))) ps"
proof (induction ps)
  case (Cons p ps)
  then show ?case using batch_item_ok [OF assms, of p] by fastforce
qed simp

text \<open>
  C24: A batch whose calls have object, null or absent arguments is answered with exactly one
  result per call, in the order of the calls and under the names they asked for, whatever
  the tools reply or throw.
\<close>

theorem batch_in_order:
  assumes "dump_throws_std (c_json E)" "throws_std (c_tools E)"
    and "j_lookup params ''calls'' = Some (JArr calls)" "list_all batch_args_ok calls"
  shows "\<exists>rs s'. HandleToolsCallBatch E params mid s = (Inr (MakeResponse mid (JObj [(''results'', JArr rs)])), s')
     \<and> map (\<lambda>r. j_lookup r ''name'') rs = map (\<lambda>c. Some (JStr (batch_name c))) calls"
proof -
  obtain ps s1 where ps: "batch_loop E calls s = (Inr ps, s1)" "map pending_name ps = map batch_name calls" "list_all pending_std ps"
    using batch_loop_ok [OF assms(2,4)] by blast
  obtain rs where rs: "mapE (batch_item (c_json E)) ps = Inr rs"
      "map (\<lambda>r. j_lookup r ''name'') rs = map (\<lambda>p. Some (JStr (pending_name p))) ps"
    using batch_items_ok [OF assms(1) ps(3)] by blast
  have "map (\<lambda>r. j_lookup r ''name'') rs = map (\<lambda>n. Some (JStr n)) (map pending_name ps)" using rs(2) by simp
  then have "map (\<lambda>r. j_lookup r ''name'') rs = map (\<lambda>c. Some (JStr (batch_name c))) calls" by (simp add: ps(2))
  then show ?thesis using assms(3) ps(1) rs(1) by (auto simp: HandleToolsCallBatch_def)
qed

theorem batch_in_order_witness:
  "\<exists>rs s'. HandleToolsCallBatch (ex_stdio JNull)
       (JObj [(''calls'', JArr [JObj [(''name'', JStr ''echo'')], JNull])]) (JInt 3) (ex_tools, 0)
     = (Inr (MakeResponse (JInt 3) (JObj [(''results'', JArr rs)])), s')
     \<and> map (\<lambda>r. j_lookup r ''name'') rs = [Some (JStr ''echo''), Some (JStr ''<unknown>'')]"
proof -
  have "dump_throws_std (c_json (ex_stdio JNull))" by (simp add: ex_stdio_def dump_throws_std_def)
  then show ?thesis
    using batch_in_order [OF _ ex_stdio_std, of JNull "JObj [(''calls'', JArr [JObj [(''name'', JStr ''echo'')], JNull])]"
        "[JObj [(''name'', JStr ''echo'')], JNull]" "JInt 3" "(ex_tools, 0)"]
    by (simp add: batch_args_ok_def batch_name_def string_param_def)
qed

end
