(* ===== verification/StdioResources.thy ===== *)
theory StdioResources
  imports StdioTransport
begin

text \<open>
  Which files the resource methods reach: the check that compares canonical paths as strings
  is characterised on components.
\<close>

section \<open>Prefixes of path strings\<close>

definition slash_free :: "path \<Rightarrow> bool" where
  "slash_free p \<longleftrightarrow> list_all (\<lambda>x. x \<noteq> [] \<and> CHR ''/'' \<notin> set x) p"

text \<open>A path whose first component after the root's parent extends the root's name.\<close>

definition sibling :: "path \<Rightarrow> path \<Rightarrow> bool" where
  "sibling root p \<longleftrightarrow> root \<noteq> [] \<and> length root \<le> length p \<and> butlast root = take (length root - 1) p
     \<and> strict_prefix (last root) (p ! (length root - 1))"

lemma prefix_component:
  "CHR ''/'' \<notin> set x \<Longrightarrow> t = [] \<or> hd t = CHR ''/'' \<Longrightarrow> prefix x (y @ t) \<longleftrightarrow> prefix x y"
proof -
  assume x: "CHR ''/'' \<notin> set x" and t: "t = [] \<or> hd t = CHR ''/''"
  show ?thesis
  proof
    assume "prefix x (y @ t)"
    then consider "prefix x y" | u where "x = y @ u" "prefix u t" by (auto simp: prefix_append)
    then show "prefix x y"
    proof cases
      case 2
      then show ?thesis using x t by (cases u; cases t) auto
    qed
  next
    assume "prefix x y"
    then show "prefix x (y @ t)" by (rule prefix_prefix)
  qed
qed

lemma prefix_extended:
  "CHR ''/'' \<notin> set x \<Longrightarrow> CHR ''/'' \<notin> set y \<Longrightarrow> r \<noteq> [] \<Longrightarrow> hd r = CHR ''/'' \<Longrightarrow> t = [] \<or> hd t = CHR ''/'' \<Longrightarrow>
     prefix (x @ r) (y @ t) \<longleftrightarrow> x = y \<and> prefix r t"
proof (induction x arbitrary: y)
  case Nil
  then show ?case by (cases y; cases r) auto
next
  case (Cons c x)
  then show ?case by (cases y; cases t) auto
qed

lemma path_tail_hd: "path_tail p = [] \<or> hd (path_tail p) = CHR ''/''"
  by (cases p) auto

lemma path_tail_Nil [simp]: "path_tail p = [] \<longleftrightarrow> p = []"
  by (cases p) auto

lemma prefix_path_tail:
  "slash_free root \<Longrightarrow> slash_free p \<Longrightarrow> root \<noteq> [] \<Longrightarrow>
     prefix (path_tail root) (path_tail p) \<longleftrightarrow> prefix root p \<or> sibling root p"
proof (induction root arbitrary: p)
  case (Cons x root)
  show ?case
  proof (cases p)
    case Nil
    then show ?thesis by (simp add: sibling_def)
  next
    case p: (Cons y q)
    have x: "CHR ''/'' \<notin> set x" "CHR ''/'' \<notin> set y" using Cons.prems p by (simp_all add: slash_free_def)
    show ?thesis
    proof (cases "root = []")
      case True
      then show ?thesis using prefix_component [OF x(1) path_tail_hd, of y q]
        by (auto simp: p sibling_def strict_prefix_def)
    next
      case False
      have "prefix (path_tail (x # root)) (path_tail p) \<longleftrightarrow> x = y \<and> prefix (path_tail root) (path_tail q)"
        using prefix_extended [OF x, of "path_tail root" "path_tail q"] path_tail_hd [of root] path_tail_hd [of q] False
        by (simp add: p)
      also have "\<dots> \<longleftrightarrow> x = y \<and> (prefix root q \<or> sibling root q)"
        using Cons.IH [of q] Cons.prems False p by (auto simp: slash_free_def)
      also have "\<dots> \<longleftrightarrow> prefix (x # root) p \<or> sibling (x # root) p"
        using False by (cases root) (auto simp: p sibling_def)
      finally show ?thesis .
    qed
  qed
qed simp

lemma prefix_path_str:
  assumes "slash_free root" "slash_free p"
  shows "prefix (path_str root) (path_str p) \<longleftrightarrow> prefix root p \<or> sibling root p"
proof (cases "root = []")
  case True
  then show ?thesis using path_tail_hd [of p] by (cases "path_tail p") (auto simp: path_str_def sibling_def)
next
  case False
  show ?thesis
  proof (cases "p = []")
    case True
    have "path_tail root \<noteq> []" using False by simp
    moreover have "length (path_tail root) \<noteq> 1"
      using False assms(1) by (cases root) (auto simp: slash_free_def)
    ultimately have "\<not> prefix (path_tail root) ''/''" by (auto dest!: prefix_length_le simp: le_Suc_eq)
    then show ?thesis using False True by (simp add: path_str_def sibling_def)
  next
    case False
    then show ?thesis using prefix_path_tail [OF assms \<open>root \<noteq> []\<close>] \<open>root \<noteq> []\<close> by (simp add: path_str_def)
  qed
qed

section \<open>The scope of the resource methods\<close>

text \<open>Canonical paths are in normal form and their components hold no slash.\<close>

definition canonical_paths :: "(path \<Rightarrow> path option) \<Rightarrow> bool" where
  "canonical_paths cn \<longleftrightarrow> (\<forall>p q. cn p = Some q \<longrightarrow> normal q \<and> slash_free q)"

lemma check_resource_ok:
  "check_resource E w mid uri = Inr p \<longleftrightarrow>
     (\<exists>root. c_canonical E w (path_parts (m_ResourceRoot E)) = Some root
        \<and> c_canonical E w (uri_path E uri) = Some p \<and> fs_exists (c_files E w) p \<and> prefix (path_str root) (path_str p))"
  by (auto simp: check_resource_def res_exists_def Let_def split: option.splits if_splits)

lemma check_resource_no_result: "check_resource E w mid uri = Inl resp \<Longrightarrow> \<not> j_contains resp ''result''"
  by (auto simp: check_resource_def Let_def bad_params_def MakeError_def j_contains_def split: option.splits if_splits)

text \<open>
  C13: The files that resources/read returns by path, and the only ones it can be subscribed
  to, are exactly the existing files whose canonical path lies under the canonical root or
  under a sibling of the root whose name merely begins with the root's name: the check
  compares strings, so with root /srv/app the file /srv/app-keys/id is served.
\<close>

theorem resource_scope:
  assumes "canonical_paths (c_canonical E w)" "c_canonical E w (path_parts (m_ResourceRoot E)) = Some root"
    and "c_canonical E w (uri_path E uri) = Some p" "fs_exists (c_files E w) p"
    and "\<not> prefix ''skill://'' uri" "\<not> c_noread E p"
  shows "(j_contains (HandleResourcesRead E (JObj [(''uri'', JStr uri)]) mid (r, w)) ''result''
            \<longleftrightarrow> inside root p \<or> sibling root p)
     \<and> (uri \<in> m_SubscribedUris (snd (HandleResourcesSubscribe E (JObj [(''uri'', JStr uri)]) mid w start_stdio))
            \<longleftrightarrow> inside root p \<or> sibling root p)
     \<and> (inside root p \<or> sibling root p \<longrightarrow>
          HandleResourcesRead E (JObj [(''uri'', JStr uri)]) mid (r, w) = contents_reply mid uri ''text/plain''
            (case fs_read (c_files E w) p of None \<Rightarrow> [] | Some s \<Rightarrow> take kMaxReadSize s))"
proof -
  have n: "normal root" "slash_free root" "normal p" "slash_free p"
    using assms(1-3) by (auto simp: canonical_paths_def)
  have nd: "[] \<notin> set p" "''..'' \<notin> set p" using n(3) by (auto simp: normal_def list_all_iff)
  have "''..'' \<notin> set (drop (length root) p)" using nd(2) in_set_dropD by fastforce
  then have "inside root p \<longleftrightarrow> prefix root p" using inside_iff [OF n(1) nd(1)] by simp
  then have pre: "prefix (path_str root) (path_str p) \<longleftrightarrow> inside root p \<or> sibling root p"
    using prefix_path_str [OF n(2,4)] by simp
  have s: "string_param (JObj [(''uri'', JStr uri)]) ''uri'' = Some uri" by (simp add: string_param_def)
  show ?thesis
  proof (cases "prefix (path_str root) (path_str p)")
    case True
    then have c: "check_resource E w mid uri = Inr p" using assms(2-4) by (simp add: check_resource_ok)
    have u: "uri \<in> m_SubscribedUris (snd (HandleResourcesSubscribe E (JObj [(''uri'', JStr uri)]) mid w start_stdio))"
      by (cases "c_mtime E w p") (simp_all add: HandleResourcesSubscribe_def s c StartResourceWatcher_def Let_def)
    have h: "HandleResourcesRead E (JObj [(''uri'', JStr uri)]) mid (r, w) = contents_reply mid uri ''text/plain''
            (case fs_read (c_files E w) p of None \<Rightarrow> [] | Some s \<Rightarrow> take kMaxReadSize s)"
      using assms(5,6) by (simp add: HandleResourcesRead_def s c)
    have "j_contains (contents_reply mid uri mime x) ''result''" for mime x
      by (simp add: contents_reply_def MakeResponse_def j_contains_def)
    then show ?thesis using pre True u h by simp
  next
    case False
    then have "check_resource E w mid uri \<noteq> Inr q" for q using assms(2,3) by (auto simp: check_resource_ok)
    then obtain resp where c: "check_resource E w mid uri = Inl resp" by (cases "check_resource E w mid uri") auto
    have "uri \<notin> m_SubscribedUris (snd (HandleResourcesSubscribe E (JObj [(''uri'', JStr uri)]) mid w start_stdio))"
      by (simp add: HandleResourcesSubscribe_def s c start_stdio_def)
    moreover have "HandleResourcesRead E (JObj [(''uri'', JStr uri)]) mid (r, w) = resp"
      using assms(5) by (simp add: HandleResourcesRead_def s c)
    ultimately show ?thesis using pre False check_resource_no_result [OF c] by simp
  qed
qed

definition ex_resources :: "(bool, nat) stdio_env" where
  "ex_resources =
     \<lparr>c_json = \<lparr>jparse = \<lambda>s. None, jdump = \<lambda>j. Inr []\<rparr>,
      c_tools = \<lparr>ExecuteAsync = \<lambda>c q s. (Inr JNull, s),
                 GetMetadata = \<lambda>c. \<lparr>m_Name = [], m_Description = [], m_InputSchema = JNull, m_DefaultModel = [],
                   m_DefaultParameters = JNull, m_Source = BuiltIn, m_Hidden = False\<rparr>,
                 Shutdown = \<lambda>c w. w\<rparr>,
      c_cancel = \<lambda>c i w. w, c_engine = None, c_catalog = \<lambda>w. None,
      c_files = \<lambda>w. [([''srv''], Directory), ([''srv'', ''app''], Directory), ([''srv'', ''app-keys''], Directory),
                     ([''srv'', ''app-keys'', ''id''], RegFile ''secret'')],
      c_mtime = \<lambda>w p. None,
      c_canonical = \<lambda>w p. if normal p \<and> slash_free p then Some p else None, c_weakly = \<lambda>w p. Some p,
      c_noread = \<lambda>p. False, m_ResourceRoot = ''/srv/app'', m_ServerName = ''toolsmith'', m_ServerVersion = ''1''\<rparr>"

theorem resource_scope_witness:
  "HandleResourcesRead ex_resources (JObj [(''uri'', JStr ''file://../app-keys/id'')]) (JInt 1) (empty_registry, 0)
     = contents_reply (JInt 1) ''file://../app-keys/id'' ''text/plain'' ''secret''"
proof -
  have c: "canonical_paths (c_canonical ex_resources 0)"
    by (simp add: canonical_paths_def ex_resources_def)
  have root: "c_canonical ex_resources 0 (path_parts (m_ResourceRoot ex_resources)) = Some [''srv'', ''app'']"
    by (simp add: ex_resources_def path_parts_def normal_def slash_free_def)
  have p: "c_canonical ex_resources 0 (uri_path ex_resources ''file://../app-keys/id'') = Some [''srv'', ''app-keys'', ''id'']"
    by (simp add: ex_resources_def uri_path_def abs_path_def is_absolute_def path_parts_def normal_def slash_free_def)
  have e: "fs_exists (c_files ex_resources 0) [''srv'', ''app-keys'', ''id'']" "\<not> c_noread ex_resources [''srv'', ''app-keys'', ''id'']"
    "fs_read (c_files ex_resources 0) [''srv'', ''app-keys'', ''id''] = Some ''secret''"
    by (simp_all add: ex_resources_def fs_exists_def fs_node_def fs_read_def)
  have s: "sibling [''srv'', ''app''] [''srv'', ''app-keys'', ''id'']"
    by (simp add: sibling_def strict_prefix_def)
  show ?thesis
    using resource_scope [OF c root p e(1) _ e(2), of "JInt 1" empty_registry] s e(3)
    by (simp add: kMaxReadSize_def)
qed

end
