(* ===== verification/Watcher.thy ===== *)
theory Watcher
  imports StdioTransport
begin

text \<open>
  The resource watcher of \<^verbatim>\<open>src/server/StdioTransport.cpp\<close> as two threads: the read loop,
  which subscribes, unsubscribes and finally stops the watcher, and the watcher, which polls
  under \<^verbatim>\<open>m_SubscriptionMutex\<close>.  A step is one access to the mutex, to the stop flag or to the
  thread handle; a join waits for the watcher to have returned.
\<close>

datatype main_pc =
    Ready
  | SubLock string | SubUnlock | SubStart
  | UnsubLock string | UnsubJoin | UnsubUnlock
  | EndJoin | Finished

datatype watch_pc = NoThread | LoopHead | Sleeping | Woken | WantLock | Polling | Returned

datatype owner = MainThread | WatchThread

record watch_state =
  wmain :: main_pc
  wwatch :: watch_pc
  wowner :: "owner option"
  wstop :: bool
  wjoinable :: bool
  wuris :: "string set"

definition watch_start :: watch_state where
  "watch_start = \<lparr>wmain = Ready, wwatch = NoThread, wowner = None, wstop = False, wjoinable = False, wuris = {}\<rparr>"

text \<open>The effect of the unsubscribe handler once it holds the mutex.\<close>

definition unsub_locked :: "string \<Rightarrow> watch_state \<Rightarrow> watch_state" where
  "unsub_locked u y =
     (let y1 = y\<lparr>wowner := Some MainThread, wuris := wuris y - {u}\<rparr>
      in if wuris y1 = {} then y1\<lparr>wstop := True, wmain := (if wjoinable y1 then UnsubJoin else UnsubUnlock)\<rparr>
         else y1\<lparr>wmain := UnsubUnlock\<rparr>)"

definition start_watcher :: "watch_state \<Rightarrow> watch_state" where
  "start_watcher y = (if wjoinable y then y else y\<lparr>wstop := False, wjoinable := True, wwatch := LoopHead\<rparr>)"

inductive main_step :: "watch_state \<Rightarrow> watch_state \<Rightarrow> bool" where
  subscribe: "wmain y = Ready \<Longrightarrow> main_step y (y\<lparr>wmain := SubLock u\<rparr>)"
| sub_lock: "wmain y = SubLock u \<Longrightarrow> wowner y = None \<Longrightarrow>
     main_step y (y\<lparr>wowner := Some MainThread, wuris := insert u (wuris y), wmain := SubUnlock\<rparr>)"
| sub_unlock: "wmain y = SubUnlock \<Longrightarrow> main_step y (y\<lparr>wowner := None, wmain := SubStart\<rparr>)"
| sub_start: "wmain y = SubStart \<Longrightarrow> main_step y ((start_watcher y)\<lparr>wmain := Ready\<rparr>)"
| unsubscribe: "wmain y = Ready \<Longrightarrow> main_step y (y\<lparr>wmain := UnsubLock u\<rparr>)"
| unsub_lock: "wmain y = UnsubLock u \<Longrightarrow> wowner y = None \<Longrightarrow> main_step y (unsub_locked u y)"
| unsub_join: "wmain y = UnsubJoin \<Longrightarrow> wwatch y = Returned \<Longrightarrow>
     main_step y (y\<lparr>wjoinable := False, wwatch := NoThread, wmain := UnsubUnlock\<rparr>)"
| unsub_unlock: "wmain y = UnsubUnlock \<Longrightarrow> main_step y (y\<lparr>wowner := None, wmain := Ready\<rparr>)"
| end_of_run: "wmain y = Ready \<Longrightarrow>
     main_step y (y\<lparr>wstop := True, wmain := (if wjoinable y then EndJoin else Finished)\<rparr>)"
| end_join: "wmain y = EndJoin \<Longrightarrow> wwatch y = Returned \<Longrightarrow>
     main_step y (y\<lparr>wjoinable := False, wwatch := NoThread, wmain := Finished\<rparr>)"

inductive watch_step :: "watch_state \<Rightarrow> watch_state \<Rightarrow> bool" where
  loop_head: "wwatch y = LoopHead \<Longrightarrow> watch_step y (y\<lparr>wwatch := (if wstop y then Returned else Sleeping)\<rparr>)"
| wake: "wwatch y = Sleeping \<Longrightarrow> watch_step y (y\<lparr>wwatch := Woken\<rparr>)"
| woken: "wwatch y = Woken \<Longrightarrow> watch_step y (y\<lparr>wwatch := (if wstop y then Returned else WantLock)\<rparr>)"
| lock: "wwatch y = WantLock \<Longrightarrow> wowner y = None \<Longrightarrow>
     watch_step y (y\<lparr>wowner := Some WatchThread, wwatch := Polling\<rparr>)"
| polled: "wwatch y = Polling \<Longrightarrow> watch_step y (y\<lparr>wowner := None, wwatch := LoopHead\<rparr>)"

definition threads_step :: "watch_state \<Rightarrow> watch_state \<Rightarrow> bool" where
  "threads_step y y' \<longleftrightarrow> main_step y y' \<or> watch_step y y'"

definition threads_reach :: "watch_state \<Rightarrow> bool" where
  "threads_reach y \<longleftrightarrow> threads_step\<^sup>*\<^sup>* watch_start y"

definition stuck :: "watch_state \<Rightarrow> bool" where
  "stuck y \<longleftrightarrow> (\<nexists>y'. threads_step y y')"

inductive_cases main_stepE: "main_step y y'"
inductive_cases watch_stepE: "watch_step y y'"

section \<open>Invariant\<close>

text \<open>Who holds the mutex, when the thread exists, and what a waiting join relies on.\<close>

definition threads_inv :: "watch_state \<Rightarrow> bool" where
  "threads_inv y \<longleftrightarrow>
     (wowner y = Some MainThread \<longleftrightarrow> wmain y \<in> {SubUnlock, UnsubJoin, UnsubUnlock})
     \<and> (wowner y = Some WatchThread \<longleftrightarrow> wwatch y = Polling)
     \<and> (wjoinable y \<longleftrightarrow> wwatch y \<noteq> NoThread)
     \<and> (wmain y \<in> {UnsubJoin, EndJoin} \<longrightarrow> wjoinable y \<and> wstop y)"

lemma inv_start: "threads_inv watch_start"
  by (simp add: threads_inv_def watch_start_def)

lemma inv_main: "main_step y y' \<Longrightarrow> threads_inv y \<Longrightarrow> threads_inv y'"
  by (erule main_stepE) (auto simp: threads_inv_def unsub_locked_def start_watcher_def Let_def)

lemma inv_watch: "watch_step y y' \<Longrightarrow> threads_inv y \<Longrightarrow> threads_inv y'"
  by (erule watch_stepE) (auto simp: threads_inv_def)

lemma inv_reach: "threads_reach y \<Longrightarrow> threads_inv y"
  unfolding threads_reach_def
  by (induction rule: rtranclp_induct) (auto simp: inv_start threads_step_def intro: inv_main inv_watch)

section \<open>Where the threads can get stuck\<close>

lemma watch_can_step:
  "wwatch y \<notin> {NoThread, Returned} \<Longrightarrow> wwatch y = WantLock \<longrightarrow> wowner y = None \<Longrightarrow> \<exists>y'. watch_step y y'"
  by (cases "wwatch y") (auto intro: watch_step.intros)

lemma main_can_step:
  assumes "wmain y \<noteq> Finished" "wmain y \<in> {UnsubJoin, EndJoin} \<longrightarrow> wwatch y = Returned"
    "(\<exists>u. wmain y = SubLock u \<or> wmain y = UnsubLock u) \<longrightarrow> wowner y = None"
  shows "\<exists>y'. main_step y y'"
  using assms by (cases "wmain y") (auto intro: main_step.intros)

lemma stuck_is_deadlock:
  assumes inv: "threads_inv y" and s: "stuck y" and n: "wmain y \<noteq> Finished"
  shows "wmain y = UnsubJoin \<and> wwatch y = WantLock \<and> wowner y = Some MainThread"
proof -
  have no: "\<nexists>y'. main_step y y'" "\<nexists>y'. watch_step y y'" using s by (auto simp: stuck_def threads_step_def)
  have w: "wwatch y \<in> {NoThread, Returned} \<or> wwatch y = WantLock \<and> wowner y \<noteq> None"
    using watch_can_step [of y] no(2) by metis
  have m: "wmain y \<in> {UnsubJoin, EndJoin} \<and> wwatch y \<noteq> Returned
      \<or> (\<exists>u. wmain y = SubLock u \<or> wmain y = UnsubLock u) \<and> wowner y \<noteq> None"
    using main_can_step [OF n] no(1) by metis
  have o: "wowner y \<noteq> None \<Longrightarrow> wowner y = Some MainThread \<or> wowner y = Some WatchThread"
    by (metis option.exhaust owner.exhaust)
  show ?thesis using inv w m o by (auto simp: threads_inv_def)
qed

text \<open>A run into the deadlock: subscribe, let the watcher wake, unsubscribe.\<close>

definition deadlock :: watch_state where
  "deadlock = \<lparr>wmain = UnsubJoin, wwatch = WantLock, wowner = Some MainThread, wstop = True,
               wjoinable = True, wuris = {}\<rparr>"

lemma threads_stepI: "main_step y y' \<Longrightarrow> threads_step y y'" "watch_step y y' \<Longrightarrow> threads_step y y'"
  by (simp_all add: threads_step_def)

lemma deadlock_reachable: "threads_reach deadlock"
proof -
  define st where "st m w ow stp j us = \<lparr>wmain = m, wwatch = w, wowner = ow, wstop = stp, wjoinable = j, wuris = us\<rparr>"
    for m w ow stp j us
  have eqs: "watch_start = st Ready NoThread None False False {}"
    "deadlock = st UnsubJoin WantLock (Some MainThread) True True {}"
    by (simp_all add: st_def watch_start_def deadlock_def)
  have s1: "threads_step (st Ready NoThread None False False {}) (st (SubLock ''u'') NoThread None False False {})"
    using subscribe [of "st Ready NoThread None False False {}" "''u''"] by (simp add: st_def threads_stepI)
  have s2: "threads_step (st (SubLock ''u'') NoThread None False False {}) (st SubUnlock NoThread (Some MainThread) False False {''u''})"
    using sub_lock [of "st (SubLock ''u'') NoThread None False False {}" "''u''"] by (simp add: st_def threads_stepI)
  have s3: "threads_step (st SubUnlock NoThread (Some MainThread) False False {''u''}) (st SubStart NoThread None False False {''u''})"
    using sub_unlock [of "st SubUnlock NoThread (Some MainThread) False False {''u''}"] by (simp add: st_def threads_stepI)
  have s4: "threads_step (st SubStart NoThread None False False {''u''}) (st Ready LoopHead None False True {''u''})"
    using sub_start [of "st SubStart NoThread None False False {''u''}"] by (simp add: st_def start_watcher_def threads_stepI)
  have s5: "threads_step (st Ready LoopHead None False True {''u''}) (st Ready Sleeping None False True {''u''})"
    using loop_head [of "st Ready LoopHead None False True {''u''}"] by (simp add: st_def threads_stepI)
  have s6: "threads_step (st Ready Sleeping None False True {''u''}) (st Ready Woken None False True {''u''})"
    using wake [of "st Ready Sleeping None False True {''u''}"] by (simp add: st_def threads_stepI)
  have s7: "threads_step (st Ready Woken None False True {''u''}) (st Ready WantLock None False True {''u''})"
    using woken [of "st Ready Woken None False True {''u''}"] by (simp add: st_def threads_stepI)
  have s8: "threads_step (st Ready WantLock None False True {''u''}) (st (UnsubLock ''u'') WantLock None False True {''u''})"
    using unsubscribe [of "st Ready WantLock None False True {''u''}" "''u''"] by (simp add: st_def threads_stepI)
  have s9: "threads_step (st (UnsubLock ''u'') WantLock None False True {''u''}) (st UnsubJoin WantLock (Some MainThread) True True {})"
    using unsub_lock [of "st (UnsubLock ''u'') WantLock None False True {''u''}" "''u''"]
    by (simp add: st_def unsub_locked_def Let_def threads_stepI)
  show ?thesis
    unfolding threads_reach_def eqs
    by (meson s1 s2 s3 s4 s5 s6 s7 s8 s9 converse_rtranclp_into_rtranclp rtranclp.rtrancl_refl)
qed

lemma deadlock_stuck: "stuck deadlock"
  by (auto simp: stuck_def threads_step_def deadlock_def elim: main_stepE watch_stepE)

text \<open>
  C14: The threads get stuck before the run is over in exactly one situation, and it can be
  reached: the unsubscribe handler, which holds the subscription mutex, joins a watcher that
  is waiting for that mutex.  In every other reachable state of an unfinished run some
  thread can take a step.
\<close>

theorem unsubscribe_deadlock:
  "(\<exists>y. threads_reach y \<and> stuck y \<and> wmain y \<noteq> Finished)
   \<and> (\<forall>y. threads_reach y \<longrightarrow> wmain y \<noteq> Finished \<longrightarrow>
        (stuck y \<longleftrightarrow> wmain y = UnsubJoin \<and> wwatch y = WantLock \<and> wowner y = Some MainThread))"
proof (intro conjI allI impI)
  show "\<exists>y. threads_reach y \<and> stuck y \<and> wmain y \<noteq> Finished"
    by (rule exI [of _ deadlock]) (simp add: deadlock_reachable deadlock_stuck, simp add: deadlock_def)
next
  fix y
  assume y: "threads_reach y" "wmain y \<noteq> Finished"
  have "stuck y" if "wmain y = UnsubJoin \<and> wwatch y = WantLock \<and> wowner y = Some MainThread"
    using that by (auto simp: stuck_def threads_step_def elim: main_stepE watch_stepE)
  then show "stuck y \<longleftrightarrow> wmain y = UnsubJoin \<and> wwatch y = WantLock \<and> wowner y = Some MainThread"
    using stuck_is_deadlock [OF inv_reach [OF y(1)] _ y(2)] by blast
qed

theorem unsubscribe_deadlock_witness: "threads_reach deadlock \<and> stuck deadlock"
  using unsubscribe_deadlock deadlock_reachable by (auto simp: deadlock_def)

end
