(* ===== verification/PluginAdapters.thy ===== *)
theory PluginAdapters
  imports StdioFacts
begin

text \<open>
  \<^verbatim>\<open>src/plugins/NativePluginAdapter.cpp\<close> and \<^verbatim>\<open>src/plugins/ScriptPluginAdapter.cpp\<close>: the tools
  behind a shared library and behind a script.  The plugin's \<^verbatim>\<open>Execute\<close>, the clock, the
  temporary file and the subprocess are parameters; the atomics and the set of cancelled
  requests are the adapters' state.
\<close>

section \<open>The native adapter\<close>

definition kMaxFaults :: int where "kMaxFaults = 3"
definition kDefaultTimeoutSeconds :: int where "kDefaultTimeoutSeconds = 30"
definition kMaxConcurrentCalls :: int where "kMaxConcurrentCalls = 8"

record native_state =
  m_FaultCount :: int
  m_ActiveThreads :: int
  m_ShutdownRequested :: bool
  m_CancelledRequests :: "string set"

definition native_fresh :: native_state where
  "native_fresh = \<lparr>m_FaultCount = 0, m_ActiveThreads = 0, m_ShutdownRequested = False, m_CancelledRequests = {}\<rparr>"

text \<open>How the plugin's \<^verbatim>\<open>Execute\<close> ends, and whether it took longer than the timeout.\<close>

datatype plugin_outcome = Returned json | Threw string | ThrewUnknown

definition tool_error :: "string \<Rightarrow> json" where
  "tool_error msg = JObj [(''isError'', JBool True), (''content'', text_item (JStr msg))]"

definition plugin_msg :: "string \<Rightarrow> string \<Rightarrow> json" where
  "plugin_msg toolName rest = tool_error (''Plugin tool '' @ [SQ] @ toolName @ [SQ] @ rest)"

definition IsDisabled :: "native_state \<Rightarrow> bool" where
  "IsDisabled st \<longleftrightarrow> kMaxFaults \<le> m_FaultCount st"

definition NativeCancel :: "string \<Rightarrow> native_state \<Rightarrow> native_state" where
  "NativeCancel requestId st = st\<lparr>m_CancelledRequests := insert requestId (m_CancelledRequests st)\<rparr>"

definition NativeShutdown :: "native_state \<Rightarrow> native_state" where
  "NativeShutdown st = st\<lparr>m_ShutdownRequested := True\<rparr>"

text \<open>The checks before the plugin runs: the refusal, if there is one.\<close>

definition native_check :: "string \<Rightarrow> native_state \<Rightarrow> json option" where
  "native_check toolName st =
     (if m_ShutdownRequested st then Some (plugin_msg toolName '' is shutting down'')
      else if IsDisabled st then
        Some (plugin_msg toolName ('' is disabled after '' @ int_str kMaxFaults @ '' consecutive faults''))
      else if kMaxConcurrentCalls \<le> m_ActiveThreads st then
        Some (plugin_msg toolName ('' has too many outstanding calls ('' @ int_str (m_ActiveThreads st) @ '')''))
      else None)"

definition native_enter :: "native_state \<Rightarrow> native_state" where
  "native_enter st = st\<lparr>m_ActiveThreads := m_ActiveThreads st + 1\<rparr>"

definition native_leave ::
    "string \<Rightarrow> int \<Rightarrow> string \<Rightarrow> plugin_outcome \<Rightarrow> bool \<Rightarrow> native_state \<Rightarrow> json \<times> native_state" where
  "native_leave toolName timeout requestId outcome late st0 =
     (let st = st0\<lparr>m_ActiveThreads := m_ActiveThreads st0 - 1\<rparr>;
          faulted = st\<lparr>m_FaultCount := m_FaultCount st + 1\<rparr>
      in case outcome of
           Threw msg \<Rightarrow> (plugin_msg toolName ('' threw: '' @ msg), faulted)
         | ThrewUnknown \<Rightarrow> (plugin_msg toolName '' threw an unknown exception'', faulted)
         | Returned executed \<Rightarrow>
             if requestId \<noteq> [] \<and> requestId \<in> m_CancelledRequests st then
               (plugin_msg toolName '' was cancelled'',
                st\<lparr>m_CancelledRequests := m_CancelledRequests st - {requestId}\<rparr>)
             else if late then (plugin_msg toolName ('' timed out after '' @ int_str timeout @ ''s''), faulted)
             else (executed, st\<lparr>m_FaultCount := 0\<rparr>))"

definition NativePluginAdapter ::
    "string \<Rightarrow> int \<Rightarrow> (json \<Rightarrow> plugin_outcome \<times> bool) \<Rightarrow> json \<Rightarrow> native_state \<Rightarrow> json res \<times> native_state" where
  "NativePluginAdapter toolName timeout execute request st =
     (case value_str request ''_requestId'' [] of
        Inl e \<Rightarrow> (Inl e, st)
      | Inr requestId \<Rightarrow>
          (case native_check toolName st of
             Some refusal \<Rightarrow> (Inr refusal, st)
           | None \<Rightarrow>
               (case execute request of (outcome, late) \<Rightarrow>
                (case native_leave toolName timeout requestId outcome late (native_enter st) of
                   (reply, st') \<Rightarrow> (Inr reply, st')))))"

definition native_metadata :: "string \<Rightarrow> string \<Rightarrow> json \<Rightarrow> tool_metadata" where
  "native_metadata toolName description schema =
     \<lparr>m_Name = toolName, m_Description = description, m_InputSchema = schema, m_DefaultModel = [],
      m_DefaultParameters = JNull, m_Source = NativePlugin, m_Hidden = False\<rparr>"

section \<open>The script adapter\<close>

definition kMaxOutputBytes :: nat where "kMaxOutputBytes = 4194304"
definition kTimeoutSeconds :: int where "kTimeoutSeconds = 60"

text \<open>\<^verbatim>\<open>RunCommand\<close>: the chunks \<^verbatim>\<open>fgets\<close> delivers, or none when the pipe cannot be opened.\<close>

fun read_chunks :: "nat \<Rightarrow> string list \<Rightarrow> string \<Rightarrow> string" where
  "read_chunks maxBytes [] output = output"
| "read_chunks maxBytes (b # bs) output =
     (if maxBytes \<le> length (output @ b) then take maxBytes (output @ b) else read_chunks maxBytes bs (output @ b))"

definition RunCommand :: "(string \<Rightarrow> string list option) \<Rightarrow> string \<Rightarrow> nat \<Rightarrow> string" where
  "RunCommand popen cmd maxBytes = (case popen cmd of None \<Rightarrow> [] | Some bs \<Rightarrow> read_chunks maxBytes bs [])"

definition TrimRight :: "string \<Rightarrow> string" where
  "TrimRight s = rev (dropWhile (\<lambda>c. c = NL \<or> c = CR \<or> c = CHR '' '' \<or> c = TAB) (rev s))"

definition GetRuntimeExecutable :: "bool \<Rightarrow> string \<Rightarrow> string" where
  "GetRuntimeExecutable windows runtime =
     (if runtime = ''python'' then (if windows then ''python'' else ''python3'')
      else if runtime = ''node'' then ''node''
      else if runtime = ''dotnet'' then ''dotnet''
      else runtime)"

definition tool_name_char :: "char \<Rightarrow> bool" where
  "tool_name_char c \<longleftrightarrow> islower c \<or> isupper c \<or> isdigit c \<or> c = CHR ''_'' \<or> c = CHR ''-''"

definition IsValidToolName :: "string \<Rightarrow> bool" where
  "IsValidToolName name = (if name = [] then False else list_all tool_name_char name)"

definition BuildListCommand :: "bool \<Rightarrow> string \<Rightarrow> string \<Rightarrow> string" where
  "BuildListCommand windows runtime entrypoint =
     (if runtime = ''executable'' then [DQ] @ entrypoint @ [DQ] @ '' --mcp-list''
      else GetRuntimeExecutable windows runtime @ '' '' @ [DQ] @ entrypoint @ [DQ] @ '' --mcp-list'')"

definition BuildCallCommand :: "bool \<Rightarrow> string \<Rightarrow> string \<Rightarrow> string \<Rightarrow> string \<Rightarrow> string" where
  "BuildCallCommand windows runtime entrypoint toolName argsFilePath =
     (if runtime = ''executable'' then [DQ] @ entrypoint @ [DQ]
      else GetRuntimeExecutable windows runtime @ '' '' @ [DQ] @ entrypoint @ [DQ])
     @ '' --mcp-call '' @ toolName @ '' --mcp-args-file '' @ [DQ] @ argsFilePath @ [DQ]"

record script_tool_info =
  si_Name :: string
  si_Description :: string
  si_InputSchema :: json

definition discover_item :: "json \<Rightarrow> script_tool_info list res" where
  "discover_item item =
     (case string_param item ''name'' of
        None \<Rightarrow> Inr []
      | Some name \<Rightarrow>
          if \<not> IsValidToolName name then Inr []
          else bindE (value_str item ''description'' []) (\<lambda>desc.
            Inr [\<lparr>si_Name = name, si_Description = desc,
                  si_InputSchema = (if is_object (j_at item ''inputSchema'') then j_at item ''inputSchema'' else JNull)\<rparr>]))"

definition DiscoverTools :: "jlib \<Rightarrow> (string \<Rightarrow> string list option) \<Rightarrow> bool \<Rightarrow> string \<Rightarrow> string \<Rightarrow> script_tool_info list" where
  "DiscoverTools J popen windows runtime entrypoint =
     (let output = RunCommand popen (BuildListCommand windows runtime entrypoint) kMaxOutputBytes in
      if output = [] then []
      else (case jparse J (TrimRight output) of
          Some (JArr items) \<Rightarrow> (case mapE discover_item items of Inr ts \<Rightarrow> concat ts | Inl e \<Rightarrow> [])
        | _ \<Rightarrow> []))"

text \<open>
  What becomes of the subprocess: it ends with some output, or its thread fails, or it is
  still running when the wait ends.
\<close>

datatype run_outcome = Output string | SubprocessFailed string | TimedOut

record script_state =
  s_Counter :: nat
  cancelledRequests :: "string set"

record script_env =
  se_json :: jlib
  se_tmp :: string
  se_pid :: int
  se_windows :: bool
  se_write :: "string \<Rightarrow> string \<Rightarrow> bool"
  se_run :: "string \<Rightarrow> run_outcome"

definition ScriptCancel :: "string \<Rightarrow> script_state \<Rightarrow> script_state" where
  "ScriptCancel requestId st = st\<lparr>cancelledRequests := insert requestId (cancelledRequests st)\<rparr>"

definition script_result :: "jlib \<Rightarrow> string \<Rightarrow> json res" where
  "script_result J output =
     (case jparse J (TrimRight output) of
        None \<Rightarrow> Inr (tool_error (''Script output is not valid JSON: '' @ what JsonParseError
                  @ '' | output: '' @ take 200 (TrimRight output)))
      | Some result \<Rightarrow>
          bindE (value_str result ''status'' []) (\<lambda>status.
          if status = ''error'' then
            bindE (value_str result ''error'' ''Script reported error'') (\<lambda>msg. Inr (tool_error msg))
          else (case j_lookup result ''content'' of
              Some (JStr s) \<Rightarrow> j_set result ''content'' (text_item (JStr s))
            | _ \<Rightarrow> Inr result)))"

definition script_args :: "json \<Rightarrow> json res" where
  "script_args request =
     bindE (value_json request ''arguments'' (JObj [])) (\<lambda>a. value_json request ''payload'' a)"

definition ScriptPluginAdapter ::
    "script_env \<Rightarrow> string \<Rightarrow> string \<Rightarrow> string \<Rightarrow> json \<Rightarrow> script_state \<Rightarrow> json res \<times> script_state" where
  "ScriptPluginAdapter E runtime entrypoint toolName request st =
     (case bindE (value_str request ''_requestId'' []) (\<lambda>i. bindE (script_args request) (\<lambda>a. Inr (i, a))) of
        Inl e \<Rightarrow> (Inl e, st)
      | Inr (requestId, args) \<Rightarrow>
          let tmpPath = se_tmp E @ ''/mcp_script_'' @ nat_str (s_Counter st) @ ''_'' @ int_str (se_pid E) @ ''.json'';
              st1 = st\<lparr>s_Counter := s_Counter st + 1\<rparr>
          in (case jdump (se_json E) args of
              Inl e \<Rightarrow> (Inl e, st1)
            | Inr d \<Rightarrow>
                if \<not> se_write E tmpPath d
                then (Inr (tool_error (''Failed to create temp args file: '' @ tmpPath)), st1)
                else let outcome = se_run E (BuildCallCommand (se_windows E) runtime entrypoint toolName tmpPath) in
                if requestId \<noteq> [] \<and> requestId \<in> cancelledRequests st1 then
                  (Inr (tool_error (''Script tool '' @ [SQ] @ toolName @ [SQ] @ '' was cancelled'')),
                   st1\<lparr>cancelledRequests := cancelledRequests st1 - {requestId}\<rparr>)
                else (case outcome of
                    TimedOut \<Rightarrow> (Inr (tool_error (''Script tool '' @ [SQ] @ toolName @ [SQ] @ '' timed out after ''
                                    @ int_str kTimeoutSeconds @ ''s'')), st1)
                  | SubprocessFailed msg \<Rightarrow> (Inr (tool_error (''Script subprocess failed: '' @ msg)), st1)
                  | Output output \<Rightarrow>
                      if output = [] then (Inr (tool_error (''Script returned no output for tool: '' @ toolName)), st1)
                      else (script_result (se_json E) output, st1))))"

definition script_metadata :: "script_tool_info \<Rightarrow> tool_metadata" where
  "script_metadata info =
     \<lparr>m_Name = si_Name info, m_Description = si_Description info,
      m_InputSchema = (if j_empty (si_InputSchema info)
                       then JObj [(''type'', JStr ''object''), (''properties'', JObj [])] else si_InputSchema info),
      m_DefaultModel = [], m_DefaultParameters = JNull, m_Source = ScriptPlugin, m_Hidden = False\<rparr>"

section \<open>The contract of a cancellable tool\<close>

text \<open>
  What \<^verbatim>\<open>HandleCancelNotification\<close> relies on: a tool remembers the ids it was told to cancel,
  and the next call with such an id is reported as cancelled, once.
\<close>

locale cancellable =
  fixes mark :: "string \<Rightarrow> 's \<Rightarrow> 's" and pending :: "string \<Rightarrow> 's \<Rightarrow> bool" and run :: "string \<Rightarrow> 's \<Rightarrow> bool \<times> 's"
  assumes mark_pending: "pending i (mark j s) \<longleftrightarrow> i = j \<or> pending i s"
    and run_observes: "i \<noteq> [] \<Longrightarrow> fst (run i s) \<longleftrightarrow> pending i s"
    and run_consumes: "pending i (snd (run j s)) \<longleftrightarrow> pending i s \<and> (i \<noteq> j \<or> j = [])"
    and run_anonymous: "\<not> fst (run [] s)"
begin

lemma cancel_observed_once:
  assumes "i \<noteq> []"
  shows "fst (run i (mark i s))" and "\<not> fst (run i (snd (run i (mark i s))))"
  using assms by (simp_all add: run_observes run_consumes mark_pending)

lemma cancel_of_others: "i \<noteq> [] \<Longrightarrow> i \<noteq> j \<Longrightarrow> fst (run i (mark j s)) \<longleftrightarrow> fst (run i s)"
  by (simp add: run_observes mark_pending)

text \<open>An id that no call carries is never forgotten.\<close>

lemma cancel_leaks: "\<forall>j\<in>set js. j \<noteq> i \<Longrightarrow> pending i (fold (\<lambda>j s. snd (run j s)) js (mark i s))"
proof -
  have "\<forall>j\<in>set js. j \<noteq> i \<Longrightarrow> pending i s \<Longrightarrow> pending i (fold (\<lambda>j s. snd (run j s)) js s)" for s
    by (induction js arbitrary: s) (auto simp: run_consumes)
  then show "\<forall>j\<in>set js. j \<noteq> i \<Longrightarrow> pending i (fold (\<lambda>j s. snd (run j s)) js (mark i s))"
    by (simp add: mark_pending)
qed

end

text \<open>A native call that returns, and a script call whose output has arrived.\<close>

definition native_run :: "string \<Rightarrow> native_state \<Rightarrow> bool \<times> native_state" where
  "native_run i st =
     (case native_leave [] kDefaultTimeoutSeconds i (Returned JNull) False (native_enter st) of
        (reply, st') \<Rightarrow> (reply \<noteq> JNull, st'))"

definition quiet_script :: script_env where
  "quiet_script = \<lparr>se_json = \<lparr>jparse = \<lambda>s. Some (JObj []), jdump = \<lambda>j. Inr []\<rparr>, se_tmp = [], se_pid = 1,
     se_windows = False, se_write = \<lambda>p d. True, se_run = \<lambda>c. Output ''{}''\<rparr>"

definition script_run :: "string \<Rightarrow> script_state \<Rightarrow> bool \<times> script_state" where
  "script_run i st =
     (case ScriptPluginAdapter quiet_script ''node'' ''e'' ''t'' (JObj [(''_requestId'', JStr i)]) st of
        (reply, st') \<Rightarrow> (reply \<noteq> Inr (JObj []), st'))"

interpretation native_cancel: cancellable NativeCancel "\<lambda>i st. i \<in> m_CancelledRequests st" native_run
  by unfold_locales
     (auto simp: NativeCancel_def native_run_def native_leave_def native_enter_def Let_def plugin_msg_def tool_error_def)

interpretation script_cancel: cancellable ScriptCancel "\<lambda>i st. i \<in> cancelledRequests st" script_run
  by unfold_locales
     (auto simp: ScriptCancel_def script_run_def ScriptPluginAdapter_def quiet_script_def script_args_def script_result_def
        value_defs Let_def tool_error_def)

end
