(* ===== verification/PluginFacts.thy ===== *)
theory PluginFacts
  imports PluginAdapters
begin

text \<open>
  What the plugin adapters guarantee: the circuit breaker of the native adapter, its count
  of running calls under any interleaving, the command line of the script adapter, and how
  both meet the cancellation the transport sends.
\<close>

section \<open>The circuit breaker\<close>

text \<open>A call that carries no request id, as it reaches the adapter.\<close>

type_synonym native_call = "plugin_outcome \<times> bool"

definition is_fault :: "native_call \<Rightarrow> bool" where
  "is_fault c = (case fst c of Returned j \<Rightarrow> snd c | _ \<Rightarrow> True)"

definition anonymous :: json where
  "anonymous = JObj [(''command'', JStr ''t''), (''payload'', JObj [])]"

fun native_calls :: "string \<Rightarrow> int \<Rightarrow> native_call list \<Rightarrow> native_state \<Rightarrow> native_state" where
  "native_calls tool timeout [] st = st"
| "native_calls tool timeout (c # cs) st =
     native_calls tool timeout cs (snd (NativePluginAdapter tool timeout (\<lambda>q. c) anonymous st))"

text \<open>The breaker has tripped once three faults came in a row.\<close>

definition tripped :: "native_call list \<Rightarrow> bool" where
  "tripped cs \<longleftrightarrow> sublist [True, True, True] (map is_fault cs)"

definition trailing :: "native_call list \<Rightarrow> nat" where
  "trailing cs = length (takeWhile is_fault (rev cs))"

lemma native_calls_append: "native_calls tool timeout (cs @ ds) st = native_calls tool timeout ds (native_calls tool timeout cs st)"
  by (induction cs arbitrary: st) auto

lemma tripped_snoc: "tripped (cs @ [c]) \<longleftrightarrow> tripped cs \<or> is_fault c \<and> 2 \<le> trailing cs"
proof -
  have "suffix [True, True, True] (map is_fault cs @ [is_fault c]) \<longleftrightarrow> is_fault c \<and> 2 \<le> trailing cs"
  proof (cases "rev cs")
    case Nil
    then show ?thesis by (simp add: trailing_def suffix_def)
  next
    case (Cons a as)
    then have cs: "cs = rev as @ [a]" by (metis rev_rev_ident rev.simps(2))
    show ?thesis
    proof (cases as)
      case Nil
      then show ?thesis by (auto simp: cs trailing_def suffix_to_prefix)
    next
      case (Cons b bs)
      then show ?thesis by (auto simp: cs trailing_def suffix_to_prefix)
    qed
  qed
  then show ?thesis by (auto simp: tripped_def sublist_snoc)
qed

lemma trailing_snoc: "trailing (cs @ [c]) = (if is_fault c then Suc (trailing cs) else 0)"
  by (simp add: trailing_def)

text \<open>One call, as the adapter treats it when it was not shut down and no other call runs.\<close>

lemma native_one:
  assumes "\<not> m_ShutdownRequested st" "m_ActiveThreads st = 0"
  shows "snd (NativePluginAdapter tool timeout (\<lambda>q. c) anonymous st) =
     (if kMaxFaults \<le> m_FaultCount st then st
      else if is_fault c then st\<lparr>m_FaultCount := m_FaultCount st + 1\<rparr> else st\<lparr>m_FaultCount := 0\<rparr>)"
  using assms
  by (cases c; cases "fst c")
     (auto simp: NativePluginAdapter_def anonymous_def value_defs native_check_def IsDisabled_def native_enter_def
        native_leave_def Let_def is_fault_def kMaxConcurrentCalls_def)

lemma breaker_state:
  "m_FaultCount (native_calls tool timeout cs native_fresh) = (if tripped cs then 3 else int (trailing cs))
   \<and> (\<not> tripped cs \<longrightarrow> trailing cs \<le> 2)
   \<and> \<not> m_ShutdownRequested (native_calls tool timeout cs native_fresh)
   \<and> m_ActiveThreads (native_calls tool timeout cs native_fresh) = 0"
proof (induction cs rule: rev_induct)
  case Nil
  then show ?case by (simp add: native_fresh_def tripped_def trailing_def)
next
  case (snoc c cs)
  then show ?case
    using native_one [of "native_calls tool timeout cs native_fresh" tool timeout c]
    by (auto simp: native_calls_append tripped_snoc trailing_snoc kMaxFaults_def)
qed

text \<open>
  C17: The circuit breaker of a native tool: calls made one after another reach the plugin
  exactly as long as no three consecutive calls before have thrown or overrun the timeout;
  a single good call resets the count, and once tripped nothing resets it.
\<close>

theorem breaker_trips_exactly:
  "native_check tool (native_calls tool timeout cs native_fresh) = None \<longleftrightarrow> \<not> tripped cs"
  using breaker_state [of tool timeout cs]
  by (auto simp: native_check_def IsDisabled_def kMaxFaults_def kMaxConcurrentCalls_def)

section \<open>Concurrent calls\<close>

text \<open>
  Calls of the same native tool in several threads: \<open>n_passed\<close> calls have loaded the counter
  and passed the check, \<open>n_running\<close> have incremented it and run the plugin.
\<close>

record native_sys =
  n_state :: native_state
  n_passed :: nat
  n_running :: nat

inductive native_step :: "string \<Rightarrow> int \<Rightarrow> native_sys \<Rightarrow> native_sys \<Rightarrow> bool" for tool timeout where
  pass: "native_check tool (n_state y) = None \<Longrightarrow>
     native_step tool timeout y (y\<lparr>n_passed := n_passed y + 1\<rparr>)"
| enter: "n_passed y = Suc p \<Longrightarrow>
     native_step tool timeout y (y\<lparr>n_passed := p, n_running := n_running y + 1, n_state := native_enter (n_state y)\<rparr>)"
| leave: "n_running y = Suc r \<Longrightarrow> native_leave tool timeout requestId outcome late (n_state y) = (reply, st') \<Longrightarrow>
     native_step tool timeout y (y\<lparr>n_running := r, n_state := st'\<rparr>)"
| cancel: "native_step tool timeout y (y\<lparr>n_state := NativeCancel requestId (n_state y)\<rparr>)"
| shutdown: "native_step tool timeout y (y\<lparr>n_state := NativeShutdown (n_state y)\<rparr>)"

definition native_start :: native_sys where
  "native_start = \<lparr>n_state = native_fresh, n_passed = 0, n_running = 0\<rparr>"

definition native_reach :: "string \<Rightarrow> int \<Rightarrow> native_sys \<Rightarrow> bool" where
  "native_reach tool timeout y \<longleftrightarrow> (native_step tool timeout)\<^sup>*\<^sup>* native_start y"

lemma leave_active: "native_leave tool timeout i out late st = (reply, st') \<Longrightarrow> m_ActiveThreads st' = m_ActiveThreads st - 1"
  by (auto simp: native_leave_def Let_def split: plugin_outcome.splits if_splits)

lemma native_active_inv: "native_reach tool timeout y \<Longrightarrow> m_ActiveThreads (n_state y) = int (n_running y)"
  unfolding native_reach_def
proof (induction rule: rtranclp_induct)
  case base
  then show ?case by (simp add: native_start_def native_fresh_def)
next
  case (step y y')
  from step.hyps(2) step.IH show ?case
    by (cases rule: native_step.cases)
       (auto simp: native_enter_def NativeCancel_def NativeShutdown_def dest: leave_active)
qed

lemma native_reach_step: "native_reach tool timeout y \<Longrightarrow> native_step tool timeout y y' \<Longrightarrow> native_reach tool timeout y'"
  unfolding native_reach_def by (rule rtranclp.rtrancl_into_rtrancl)

lemma native_pass_reach: "\<exists>y. native_reach tool timeout y \<and> n_state y = native_fresh \<and> n_passed y = k \<and> n_running y = 0"
proof (induction k)
  case 0
  show ?case by (rule exI [of _ native_start]) (simp add: native_reach_def native_start_def)
next
  case (Suc k)
  then obtain y where y: "native_reach tool timeout y" "n_state y = native_fresh" "n_passed y = k" "n_running y = 0"
    by blast
  have "native_check tool (n_state y) = None"
    by (simp add: y native_check_def native_fresh_def IsDisabled_def kMaxFaults_def kMaxConcurrentCalls_def)
  then show ?case using native_reach_step [OF y(1) pass] y by (intro exI [of _ "y\<lparr>n_passed := n_passed y + 1\<rparr>"]) simp
qed

lemma native_enter_reach: "native_reach tool timeout y \<Longrightarrow> n_passed y = k \<Longrightarrow>
    \<exists>y'. native_reach tool timeout y' \<and> n_running y' = n_running y + k"
proof (induction k arbitrary: y)
  case (Suc k)
  have "native_reach tool timeout (y\<lparr>n_passed := k, n_running := n_running y + 1, n_state := native_enter (n_state y)\<rparr>)"
    using native_reach_step [OF Suc.prems(1) enter [OF Suc.prems(2)]] .
  from Suc.IH [OF this] show ?case by simp
qed auto

text \<open>
  C18: The counter of running calls is exact under every interleaving of calls, cancellations
  and shutdown, so it never leaks; but because it is loaded before it is incremented, the
  limit of eight concurrent calls binds only calls made one after another: any number of
  simultaneous calls can run at once.
\<close>

theorem native_active_exact:
  "(\<forall>y. native_reach tool timeout y \<longrightarrow> m_ActiveThreads (n_state y) = int (n_running y))
   \<and> (\<exists>y. native_reach tool timeout y \<and> n_running y = k)"
proof (intro conjI allI impI)
  show "m_ActiveThreads (n_state y) = int (n_running y)" if "native_reach tool timeout y" for y
    using native_active_inv [OF that] .
  obtain y where y: "native_reach tool timeout y" "n_passed y = k" "n_running y = 0"
    using native_pass_reach [of tool timeout k] by blast
  show "\<exists>y. native_reach tool timeout y \<and> n_running y = k" using native_enter_reach [OF y(1,2)] y(3) by simp
qed

theorem native_active_exact_witness:
  "\<exists>y. native_reach ''t'' 30 y \<and> m_ActiveThreads (n_state y) = 9 \<and> kMaxConcurrentCalls < 9"
proof -
  obtain y where "native_reach ''t'' 30 y" "n_running y = 9" using native_active_exact [of "''t''" 30 9] by blast
  then show ?thesis using native_active_exact [of "''t''" 30 9] by (intro exI [of _ y]) (simp add: kMaxConcurrentCalls_def)
qed

section \<open>Cancellation through the transport\<close>

lemma call_begin_request:
  "call_begin E params mid (st, r) = Inr (Started k, st') \<Longrightarrow>
     \<exists>a. k_request k = JObj [(''command'', JStr (k_tool k)), (''payload'', a)] \<and> j_lookup a ''_requestId'' = Some (JStr (k_request_id k))"
  by (auto simp: call_begin_def bindE_eq_Inr j_lookup_set split: option.splits)

text \<open>
  C21: The transport puts the request id into the payload of a tool call, where the native
  and the script adapter do not look for it: their reply to a call of the transport is the
  same whatever requests were cancelled, and a cancellation is never consumed.
\<close>

theorem cancellation_unobserved:
  assumes "call_begin E params mid (st, r) = Inr (Started k, st')"
  shows "fst (NativePluginAdapter tool timeout execute (k_request k) (ns\<lparr>m_CancelledRequests := cs\<rparr>))
           = fst (NativePluginAdapter tool timeout execute (k_request k) ns)
     \<and> m_CancelledRequests (snd (NativePluginAdapter tool timeout execute (k_request k) ns)) = m_CancelledRequests ns
     \<and> fst (ScriptPluginAdapter SE runtime entry tool (k_request k) (ss\<lparr>cancelledRequests := cs\<rparr>))
           = fst (ScriptPluginAdapter SE runtime entry tool (k_request k) ss)
     \<and> cancelledRequests (snd (ScriptPluginAdapter SE runtime entry tool (k_request k) ss)) = cancelledRequests ss"
proof -
  obtain a where a: "k_request k = JObj [(''command'', JStr (k_tool k)), (''payload'', a)]"
    using call_begin_request [OF assms] by blast
  then have i: "value_str (k_request k) ''_requestId'' [] = Inr []" by (simp add: value_defs)
  have c: "native_check tool (ns\<lparr>m_CancelledRequests := cs\<rparr>) = native_check tool ns"
    by (simp add: native_check_def IsDisabled_def)
  have l: "fst (native_leave tool timeout [] out late (native_enter (ns\<lparr>m_CancelledRequests := cs\<rparr>)))
      = fst (native_leave tool timeout [] out late (native_enter ns))"
    "m_CancelledRequests (snd (native_leave tool timeout [] out late (native_enter ns))) = m_CancelledRequests ns" for out late
    by (auto simp: native_leave_def native_enter_def Let_def split: plugin_outcome.split)
  have n: "fst (NativePluginAdapter tool timeout execute (k_request k) (ns\<lparr>m_CancelledRequests := cs\<rparr>))
           = fst (NativePluginAdapter tool timeout execute (k_request k) ns)
     \<and> m_CancelledRequests (snd (NativePluginAdapter tool timeout execute (k_request k) ns)) = m_CancelledRequests ns"
    using l by (simp add: NativePluginAdapter_def i c split: option.split prod.split)
       (metis fst_conv snd_conv)
  have s: "fst (ScriptPluginAdapter SE runtime entry tool (k_request k) (ss\<lparr>cancelledRequests := cs\<rparr>))
           = fst (ScriptPluginAdapter SE runtime entry tool (k_request k) ss)
     \<and> cancelledRequests (snd (ScriptPluginAdapter SE runtime entry tool (k_request k) ss)) = cancelledRequests ss"
    by (simp add: ScriptPluginAdapter_def i Let_def bindE_def split: sum.split run_outcome.split)
  show ?thesis using n s by blast
qed

theorem cancellation_unobserved_witness:
  "\<exists>k st'. call_begin (ex_stdio JNull) (JObj [(''name'', JStr ''echo'')]) (JStr ''7'') (start_stdio, ex_tools) = Inr (Started k, st')
     \<and> fst (NativePluginAdapter ''t'' 30 (\<lambda>q. (Returned JNull, False)) (k_request k) (NativeCancel ''7'' native_fresh))
       = Inr JNull"
proof -
  obtain k st' where k: "call_begin (ex_stdio JNull) (JObj [(''name'', JStr ''echo'')]) (JStr ''7'') (start_stdio, ex_tools)
      = Inr (Started k, st')"
    by (simp add: call_begin_def string_param_def value_defs ex_tools_def empty_registry_def CommandRegistry.Resolve_def
        inject_defaults_def ex_stdio_def id_text_def)
  have "fst (NativePluginAdapter ''t'' 30 (\<lambda>q. (Returned JNull, False)) (k_request k) native_fresh) = Inr JNull"
    using call_begin_request [OF k]
    by (auto simp: NativePluginAdapter_def value_defs native_check_def native_fresh_def IsDisabled_def kMaxFaults_def
        kMaxConcurrentCalls_def native_leave_def native_enter_def Let_def)
  moreover have "NativeCancel ''7'' native_fresh = native_fresh\<lparr>m_CancelledRequests := {''7''}\<rparr>"
    by (simp add: NativeCancel_def native_fresh_def)
  ultimately show ?thesis
    using k cancellation_unobserved [OF k, of "''t''" 30 "\<lambda>q. (Returned JNull, False)" "{''7''}" native_fresh] by auto
qed

end
