(* ===== verification/ScriptCommands.thy ===== *)
theory ScriptCommands
  imports PluginAdapters
begin

text \<open>
  The command lines of \<^verbatim>\<open>ScriptPluginAdapter\<close>, as the shell splits them, and the tools a script
  may announce.
\<close>

section \<open>How the shell splits a simple command\<close>

text \<open>
  Words are separated by spaces; inside double quotes every byte but the quote, dollar,
  backquote and backslash stands for itself; an unquoted byte must be one the shell leaves
  alone.  \<open>None\<close> is any other input: an open quote, an expansion, an operator.
\<close>

definition plain_char :: "char \<Rightarrow> bool" where
  "plain_char c \<longleftrightarrow> islower c \<or> isupper c \<or> isdigit c \<or> c \<in> {CHR ''_'', CHR ''-'', CHR ''.'', CHR ''/''}"

definition dq_char :: "char \<Rightarrow> bool" where
  "dq_char c \<longleftrightarrow> c \<notin> {DQ, CHR ''$'', CHR 0x60, BSL}"

fun sh_split :: "string \<Rightarrow> bool \<Rightarrow> string \<Rightarrow> string list option" where
  "sh_split cur False [] = Some (if cur = [] then [] else [cur])"
| "sh_split cur True [] = None"
| "sh_split cur True (c # cs) =
     (if c = DQ then sh_split cur False cs else if dq_char c then sh_split (cur @ [c]) True cs else None)"
| "sh_split cur False (c # cs) =
     (if c = CHR '' '' then (if cur = [] then sh_split [] False cs else map_option ((#) cur) (sh_split [] False cs))
      else if c = DQ then sh_split cur True cs
      else if plain_char c then sh_split (cur @ [c]) False cs else None)"

lemma plain_char_simps: "plain_char c \<Longrightarrow> c \<noteq> CHR '' ''" "plain_char c \<Longrightarrow> c \<noteq> DQ"
  by (auto simp: plain_char_def islower_def isupper_def isdigit_def uchar_def)

lemma split_plain: "list_all plain_char w \<Longrightarrow> sh_split cur False (w @ r) = sh_split (cur @ w) False r"
  by (induction w arbitrary: cur) (auto dest: plain_char_simps)

lemma split_inside: "list_all dq_char w \<Longrightarrow> sh_split cur True (w @ r) = sh_split (cur @ w) True r"
  by (induction w arbitrary: cur) (auto simp: dq_char_def)

lemma split_quoted: "list_all dq_char w \<Longrightarrow> sh_split cur False (DQ # w @ DQ # r) = sh_split (cur @ w) False r"
  using split_inside [of w cur "DQ # r"] by simp

lemma split_word: "list_all plain_char w \<Longrightarrow> w \<noteq> [] \<Longrightarrow> sh_split [] False (w @ CHR '' '' # r) = map_option ((#) w) (sh_split [] False r)"
  by (simp add: split_plain)

lemma split_quoted_word:
  "list_all dq_char w \<Longrightarrow> w \<noteq> [] \<Longrightarrow> sh_split [] False (DQ # w @ DQ # CHR '' '' # r) = map_option ((#) w) (sh_split [] False r)"
  using split_quoted [of w "[]" "CHR '' '' # r"] by simp

lemma split_last: "list_all dq_char w \<Longrightarrow> w \<noteq> [] \<Longrightarrow> sh_split [] False (DQ # w @ [DQ]) = Some [w]"
  using split_quoted [of w "[]" "[]"] by simp

lemma tool_char_plain: "tool_name_char c \<Longrightarrow> plain_char c"
  by (auto simp: tool_name_char_def plain_char_def)

lemma valid_name_word: "IsValidToolName name \<Longrightarrow> name \<noteq> [] \<and> list_all plain_char name"
  by (auto simp: IsValidToolName_def list_all_iff tool_char_plain split: if_splits)

lemma split_call_tail:
  assumes "IsValidToolName tool" "list_all dq_char argsFile" "argsFile \<noteq> []"
  shows "sh_split [] False (''--mcp-call '' @ tool @ '' --mcp-args-file '' @ [DQ] @ argsFile @ [DQ])
     = Some [''--mcp-call'', tool, ''--mcp-args-file'', argsFile]"
proof -
  have p: "list_all plain_char ''--mcp-call''" "list_all plain_char ''--mcp-args-file''"
    by (simp_all add: plain_char_def islower_def uchar_def)
  have t: "list_all plain_char tool" "tool \<noteq> []" using valid_name_word [OF assms(1)] by simp_all
  have "sh_split [] False (''--mcp-call'' @ CHR '' '' # tool @ CHR '' '' # ''--mcp-args-file'' @ CHR '' '' # DQ # argsFile @ [DQ])
     = Some [''--mcp-call'', tool, ''--mcp-args-file'', argsFile]"
    by (simp only: split_word [OF p(1)] split_word [OF t] split_word [OF p(2)] split_last [OF assms(2,3)] list.distinct
        not_False_eq_True option.map list.simps)
  then show ?thesis by simp
qed

section \<open>Properties\<close>



end
