(* ===== verification/DlPlugin.thy ===== *)
theory DlPlugin
  imports PluginAdapters
begin

text \<open>
  \<^verbatim>\<open>src/plugins/DlPlugin.cpp\<close>: opening a shared library, checking its exports and its API
  version, reading its manifest and its list of tools, and running a tool.  What is in a
  library is a record of type \<open>dl_image\<close>; \<^verbatim>\<open>PlatformOpen\<close> is the parameter \<open>opn\<close>, which says what image
  lies at a path.  The world records the paths opened so far and how many libraries and
  plugin instances are alive.
\<close>

record dl_image =
  di_exports :: "string list"
  di_api_version :: "32 word"
  di_manifest :: "string option"
  di_create :: bool
  di_list_tools :: "string option"
  di_execute :: "string \<Rightarrow> string \<Rightarrow> string option"

record dl_world =
  dw_opens :: "string list"
  dw_libs :: nat
  dw_handles :: nat

record dl_plugin =
  dp_image :: dl_image
  dp_Name :: string
  dp_Description :: string
  dp_Version :: string
  dp_Path :: string

record plugin_tool =
  pt_Name :: string
  pt_Description :: string
  pt_InputSchema :: json

definition MCP_PLUGIN_API_VERSION :: "32 word" where "MCP_PLUGIN_API_VERSION = 0x00010000"

definition required_symbols :: "string list" where
  "required_symbols =
     [''mcp_plugin_api_version'', ''mcp_plugin_manifest'', ''mcp_plugin_create'', ''mcp_plugin_destroy'',
      ''mcp_plugin_list_tools'', ''mcp_plugin_execute'', ''mcp_plugin_free_string'']"

definition major :: "32 word \<Rightarrow> 16 word" where "major v = ucast (drop_bit 16 v)"
definition minor :: "32 word \<Rightarrow> 16 word" where "minor v = ucast (and v 0xFFFF)"

definition PlatformClose :: "dl_world \<Rightarrow> dl_world" where
  "PlatformClose w = w\<lparr>dw_libs := dw_libs w - 1\<rparr>"

text \<open>The destructor.\<close>

definition Destroy :: "dl_world \<Rightarrow> dl_world" where
  "Destroy w = PlatformClose (w\<lparr>dw_handles := dw_handles w - 1\<rparr>)"

definition dl_manifest :: "jlib \<Rightarrow> dl_image \<Rightarrow> (string \<times> string \<times> string) res" where
  "dl_manifest J img =
     (case jparse J (case di_manifest img of None \<Rightarrow> ''{}'' | Some raw \<Rightarrow> raw) of
        None \<Rightarrow> Inl JsonParseError
      | Some m \<Rightarrow>
          bindE (value_str m ''name'' []) (\<lambda>n.
          bindE (value_str m ''description'' []) (\<lambda>d.
          bindE (value_str m ''version'' ''0.0.0'') (\<lambda>v. Inr (n, d, v)))))"

definition Load :: "jlib \<Rightarrow> (string \<Rightarrow> dl_image option) \<Rightarrow> string \<Rightarrow> dl_world \<Rightarrow> dl_plugin option \<times> dl_world" where
  "Load J opn file w0 =
     (let w1 = w0\<lparr>dw_opens := dw_opens w0 @ [file]\<rparr> in
      case opn file of
        None \<Rightarrow> (None, w1)
      | Some img \<Rightarrow>
          let w = w1\<lparr>dw_libs := dw_libs w1 + 1\<rparr> in
          (case find (\<lambda>s. s \<notin> set (di_exports img)) required_symbols of
             Some missing \<Rightarrow> (None, PlatformClose w)
           | None \<Rightarrow>
               if major (di_api_version img) \<noteq> major MCP_PLUGIN_API_VERSION then (None, PlatformClose w)
               else (case dl_manifest J img of
                   Inl e \<Rightarrow> (None, PlatformClose w)
                 | Inr (n, d, v) \<Rightarrow>
                     if n = [] then (None, PlatformClose w)
                     else if \<not> di_create img then (None, PlatformClose w)
                     else (Some \<lparr>dp_image = img, dp_Name = n, dp_Description = d, dp_Version = v, dp_Path = file\<rparr>,
                           w\<lparr>dw_handles := dw_handles w + 1\<rparr>))))"

definition dl_tool :: "json \<Rightarrow> plugin_tool res" where
  "dl_tool item =
     bindE (value_str item ''name'' []) (\<lambda>n.
     bindE (value_str item ''description'' []) (\<lambda>d.
     bindE (value_json item ''inputSchema'' (JObj [])) (\<lambda>s.
       Inr \<lparr>pt_Name = n, pt_Description = d, pt_InputSchema = s\<rparr>)))"

text \<open>A malformed item ends the loop; the tools before it stay.\<close>

fun dl_tools :: "json list \<Rightarrow> plugin_tool list" where
  "dl_tools [] = []"
| "dl_tools (item # items) =
     (case dl_tool item of
        Inl e \<Rightarrow> []
      | Inr t \<Rightarrow> if pt_Name t = [] then dl_tools items else t # dl_tools items)"

definition ListTools :: "jlib \<Rightarrow> dl_plugin \<Rightarrow> plugin_tool list" where
  "ListTools J p =
     (case di_list_tools (dp_image p) of
        None \<Rightarrow> []
      | Some raw \<Rightarrow> (case jparse J raw of Some (JArr items) \<Rightarrow> dl_tools items | _ \<Rightarrow> []))"

definition DlExecute :: "jlib \<Rightarrow> dl_plugin \<Rightarrow> string \<Rightarrow> json \<Rightarrow> json res" where
  "DlExecute J p toolName request =
     bindE (jdump J request) (\<lambda>reqStr.
       Inr (case di_execute (dp_image p) toolName reqStr of
          None \<Rightarrow> tool_error ''Plugin returned null response''
        | Some raw \<Rightarrow>
            (case jparse J raw of
               None \<Rightarrow> tool_error (''Plugin returned malformed JSON: '' @ what JsonParseError)
             | Some result \<Rightarrow> result)))"

text \<open>What the native adapter sees of a call.\<close>

definition dl_outcome :: "jlib \<Rightarrow> dl_plugin \<Rightarrow> string \<Rightarrow> json \<Rightarrow> plugin_outcome" where
  "dl_outcome J p toolName request =
     (case DlExecute J p toolName request of
        Inr j \<Rightarrow> Returned j
      | Inl e \<Rightarrow> if is_std_exception e then Threw (what e) else ThrewUnknown)"

section \<open>What is loaded\<close>

lemma find_None: "find P xs = None \<longleftrightarrow> list_all (\<lambda>x. \<not> P x) xs"
  by (induction xs) auto

lemma major_host: "major MCP_PLUGIN_API_VERSION = 1"
  by (simp add: major_def MCP_PLUGIN_API_VERSION_def)

text \<open>The plugin an image makes, when it is accepted.\<close>

definition accepts :: "jlib \<Rightarrow> string \<Rightarrow> dl_image \<Rightarrow> dl_plugin option" where
  "accepts J file img =
     (if set required_symbols \<subseteq> set (di_exports img) \<and> major (di_api_version img) = 1 \<and> di_create img then
        (case dl_manifest J img of
           Inl e \<Rightarrow> None
         | Inr (n, d, v) \<Rightarrow> if n = [] then None
             else Some \<lparr>dp_image = img, dp_Name = n, dp_Description = d, dp_Version = v, dp_Path = file\<rparr>)
      else None)"

lemma Load_eq:
  "Load J opn file w =
     (let w' = w\<lparr>dw_opens := dw_opens w @ [file]\<rparr> in
      case Option.bind (opn file) (accepts J file) of
        None \<Rightarrow> (None, w')
      | Some p \<Rightarrow> (Some p, w'\<lparr>dw_libs := dw_libs w + 1, dw_handles := dw_handles w + 1\<rparr>))"
proof (cases "opn file")
  case None
  then show ?thesis by (simp add: Load_def)
next
  case (Some img)
  have sym: "find (\<lambda>s. s \<notin> set (di_exports img)) required_symbols = None
      \<longleftrightarrow> set required_symbols \<subseteq> set (di_exports img)"
    by (auto simp: find_None list_all_iff)
  show ?thesis
  proof (cases "find (\<lambda>s. s \<notin> set (di_exports img)) required_symbols")
    case None
    with sym have s: "set required_symbols \<subseteq> set (di_exports img)" by blast
    show ?thesis
      using Some None s
      by (cases "dl_manifest J img") (auto simp: Load_def accepts_def major_host PlatformClose_def Let_def split: prod.split)
  next
    case (Some m)
    with sym have s: "\<not> set required_symbols \<subseteq> set (di_exports img)" by simp
    show ?thesis
      using Some s \<open>opn file = Some img\<close> by (simp add: Load_def accepts_def PlatformClose_def)
  qed
qed

lemma Load_opens: "dw_opens (snd (Load J opn file w)) = dw_opens w @ [file]"
  by (simp add: Load_eq Let_def split: option.split)

lemma ListTools_named: "t \<in> set (ListTools J p) \<Longrightarrow> pt_Name t \<noteq> []"
proof -
  have "t \<in> set (dl_tools items) \<Longrightarrow> pt_Name t \<noteq> []" for items
    by (induction items) (auto split: sum.splits if_splits)
  then show "t \<in> set (ListTools J p) \<Longrightarrow> pt_Name t \<noteq> []"
    by (auto simp: ListTools_def split: option.splits json.splits)
qed

text \<open>
  A shared library is accepted exactly when it has all seven exports, its API version has
  the host's major number (whatever its minor number), its manifest parses to an object with
  a non-empty name, and it creates an instance; every refusal closes the library again, and
  only an accepted plugin leaves one library and one instance open.
\<close>

theorem plugin_accepted_exactly:
  "Load J opn file w =
     (let w' = w\<lparr>dw_opens := dw_opens w @ [file]\<rparr> in
      case Option.bind (opn file) (accepts J file) of
        None \<Rightarrow> (None, w')
      | Some p \<Rightarrow> (Some p, w'\<lparr>dw_libs := dw_libs w + 1, dw_handles := dw_handles w + 1\<rparr>))"
  by (rule Load_eq)

end
