(* ===== verification/NativeLoader.thy ===== *)
theory NativeLoader
  imports DlPlugin PluginSkills WorkspaceJail
begin

text \<open>
  \<^verbatim>\<open>src/plugins/NativePluginLoader.cpp\<close>: loading shared libraries at startup and by the
  watcher.  A watcher is the set of paths it has loaded; one round of its loop is
  \<open>native_tick\<close>, on the file system as it is then.  The registry's tools are handles made
  by \<open>ne_mk\<close>.  \<^verbatim>\<open>canonical\<close> is the parameter \<open>ne_cn\<close>; a plugins directory that is not
  absolute is taken from \<open>ne_cwd\<close>.
\<close>

record 'c native_env =
  ne_json :: jlib
  ne_rd :: "string \<Rightarrow> json option"
  ne_pf :: platform
  ne_cn :: "path \<Rightarrow> path option"
  ne_cwd :: path
  ne_open :: "string \<Rightarrow> dl_image option"
  ne_mk :: "dl_plugin \<Rightarrow> plugin_tool \<Rightarrow> 'c"

record native_loader =
  nl_ActivePacks :: "string set"
  nl_GatePacks :: bool
  nl_NotifyCallback :: bool

record 'c load_state =
  ls_reg :: "'c registry"
  ls_notes :: "json list"
  ls_dl :: dl_world

definition native_idle :: native_loader where
  "native_idle = \<lparr>nl_ActivePacks = {}, nl_GatePacks = False, nl_NotifyCallback = False\<rparr>"

definition SetActivePacks :: "string set \<Rightarrow> native_loader \<Rightarrow> native_loader" where
  "SetActivePacks packs L = L\<lparr>nl_ActivePacks := packs, nl_GatePacks := True\<rparr>"

definition SetNotifyCallback :: "native_loader \<Rightarrow> native_loader" where
  "SetNotifyCallback L = L\<lparr>nl_NotifyCallback := True\<rparr>"

definition IsPluginBinary :: "platform \<Rightarrow> path \<Rightarrow> bool" where
  "IsPluginBinary pf p =
     (let ext = extension (filename p) in
      case pf of Windows \<Rightarrow> ext = ''.dll'' | Apple \<Rightarrow> ext = ''.dylib'' \<or> ext = ''.so'' | Linux \<Rightarrow> ext = ''.so'')"

section \<open>One library\<close>

text \<open>The callback's own exceptions are swallowed; \<^verbatim>\<open>dump\<close> for the log comes before it.\<close>

definition FireNotification :: "'c native_env \<Rightarrow> native_loader \<Rightarrow> json \<Rightarrow> 'c load_state \<Rightarrow> unit res \<times> 'c load_state" where
  "FireNotification E L payload st =
     (case jdump (ne_json E) payload of
        Inl e \<Rightarrow> (Inl e, st)
      | Inr d \<Rightarrow> (Inr (), if nl_NotifyCallback L then st\<lparr>ls_notes := ls_notes st @ [payload]\<rparr> else st))"

fun register_tools ::
    "(plugin_tool \<Rightarrow> 'c) \<Rightarrow> plugin_tool list \<Rightarrow> string list \<Rightarrow> 'c registry \<Rightarrow> exn option \<times> string list \<times> 'c registry" where
  "register_tools mk [] names r = (None, names, r)"
| "register_tools mk (t # ts) names r =
     (if pt_Name t = [] then register_tools mk ts names r
      else (case RegisterCommand (pt_Name t) (mk t) r of
          Inl e \<Rightarrow> (Some e, names, r)
        | Inr r' \<Rightarrow> register_tools mk ts (names @ [pt_Name t]) r'))"

definition loaded_note :: "dl_plugin \<Rightarrow> string list \<Rightarrow> string \<Rightarrow> json" where
  "loaded_note p names source = JObj
     [(''event'', JStr ''plugin_loaded''),
      (''plugin'', JObj [(''name'', JStr (dp_Name p)), (''description'', JStr (dp_Description p)),
                        (''version'', JStr (dp_Version p))]),
      (''tools'', JArr (map JStr names)), (''source'', JStr source)]"

text \<open>The plugin object lives as long as one tool of it is registered.\<close>

definition LoadOne ::
    "'c native_env \<Rightarrow> native_loader \<Rightarrow> string \<Rightarrow> string \<Rightarrow> 'c load_state \<Rightarrow> bool res \<times> 'c load_state" where
  "LoadOne E L dlPath source st =
     (case Load (ne_json E) (ne_open E) dlPath (ls_dl st) of
        (None, w) \<Rightarrow> (Inr False, st\<lparr>ls_dl := w\<rparr>)
      | (Some p, w) \<Rightarrow>
          let tools = ListTools (ne_json E) p in
          if tools = [] then (Inr False, st\<lparr>ls_dl := Destroy w\<rparr>)
          else (case register_tools (ne_mk E p) tools [] (ls_reg st) of
              (Some e, names, r) \<Rightarrow>
                (Inl e, st\<lparr>ls_reg := r, ls_dl := if names = [] then Destroy w else w\<rparr>)
            | (None, names, r) \<Rightarrow>
                if names = [] then (Inr False, st\<lparr>ls_dl := Destroy w\<rparr>)
                else (case FireNotification E L (loaded_note p names source) (st\<lparr>ls_reg := r, ls_dl := w\<rparr>) of
                    (Inl e, st') \<Rightarrow> (Inl e, st') | (Inr u, st') \<Rightarrow> (Inr True, st'))))"

section \<open>LoadAll\<close>

definition bin_files :: "platform \<Rightarrow> filesys \<Rightarrow> path \<Rightarrow> path list" where
  "bin_files pf fs binDir =
     filter (IsPluginBinary pf) (map fst (filter (\<lambda>(p, n). n \<noteq> Directory) (fs_children fs binDir)))"

definition below_root :: "path \<Rightarrow> path \<Rightarrow> bool" where
  "below_root canonRoot p \<longleftrightarrow> prefix (path_str canonRoot) (path_str p)"

definition pack_bins :: "'c native_env \<Rightarrow> native_loader \<Rightarrow> filesys \<Rightarrow> path \<Rightarrow> path list" where
  "pack_bins E L fs dir =
     (let manifest = FromDirectory (ne_rd E) fs dir; binDir = dir @ [''bin''] in
      if nl_GatePacks L \<and> \<not> Allowed (ne_pf E) manifest (nl_ActivePacks L) True then []
      else if \<not> OsMatches (ne_pf E) manifest then []
      else if \<not> fs_exists fs binDir \<or> \<not> fs_is_dir fs binDir then []
      else bin_files (ne_pf E) fs binDir)"

text \<open>The canonical path of a binary, unless it lies outside the root.\<close>

definition jailed_bin :: "'c native_env \<Rightarrow> path \<Rightarrow> path \<Rightarrow> path option" where
  "jailed_bin E canonRoot p =
     (case ne_cn E p of None \<Rightarrow> None | Some c \<Rightarrow> if below_root canonRoot c then Some c else None)"

text \<open>An exception of \<^verbatim>\<open>LoadOne\<close> leaves both loops.\<close>

fun load_bins ::
    "'c native_env \<Rightarrow> native_loader \<Rightarrow> path \<Rightarrow> path list \<Rightarrow> 'c load_state \<Rightarrow> unit res \<times> 'c load_state" where
  "load_bins E L canonRoot [] st = (Inr (), st)"
| "load_bins E L canonRoot (p # ps) st =
     (case jailed_bin E canonRoot p of
        None \<Rightarrow> load_bins E L canonRoot ps st
      | Some c \<Rightarrow>
          (case LoadOne E L (path_str c) ''startup'' st of
             (Inl e, st') \<Rightarrow> (Inl e, st')
           | (Inr b, st') \<Rightarrow> load_bins E L canonRoot ps st'))"

definition LoadAll ::
    "'c native_env \<Rightarrow> native_loader \<Rightarrow> filesys \<Rightarrow> string \<Rightarrow> 'c load_state \<Rightarrow> unit res \<times> 'c load_state" where
  "LoadAll E L fs pluginsDir st =
     (let root = abs_path (ne_cwd E) pluginsDir in
      if \<not> fs_exists fs root \<or> \<not> fs_is_dir fs root then (Inr (), st)
      else (case ne_cn E root of
          None \<Rightarrow> (Inr (), st)
        | Some canonRoot \<Rightarrow> load_bins E L canonRoot (concat (map (pack_bins E L fs) (child_dirs fs root))) st))"

section \<open>The watcher\<close>

text \<open>
  The entries a round visits: the path string \<^verbatim>\<open>directory_iterator\<close> gives, which starts
  with the plugins directory as it was passed, and the path it denotes.
\<close>

definition p_join :: "string \<Rightarrow> string \<Rightarrow> string" where
  "p_join s x = (if s = [] \<or> last s = CHR ''/'' then s @ x else s @ ''/'' @ x)"

definition watch_bins :: "'c native_env \<Rightarrow> filesys \<Rightarrow> string \<Rightarrow> (string \<times> path) list" where
  "watch_bins E fs pluginsDir = concat (map (\<lambda>dir.
     map (\<lambda>p. (p_join (p_join (p_join pluginsDir (filename dir)) ''bin'') (filename p), p))
         (bin_files (ne_pf E) fs (dir @ [''bin''])))
     (child_dirs fs (abs_path (ne_cwd E) pluginsDir)))"

text \<open>The start of the thread: the canonical root and the first set, or the end of the thread.\<close>

definition native_watch_init :: "'c native_env \<Rightarrow> filesys \<Rightarrow> string \<Rightarrow> (path \<times> string set) option" where
  "native_watch_init E fs pluginsDir =
     (case ne_cn E (abs_path (ne_cwd E) pluginsDir) of
        None \<Rightarrow> None
      | Some canonRoot \<Rightarrow> Some (canonRoot, set (map fst (watch_bins E fs pluginsDir))))"

definition watch_bin ::
    "'c native_env \<Rightarrow> native_loader \<Rightarrow> path \<Rightarrow> string \<times> path \<Rightarrow> string set \<times> 'c load_state \<Rightarrow> string set \<times> 'c load_state" where
  "watch_bin E L canonRoot = (\<lambda>(s, p) (loaded, st).
     case jailed_bin E canonRoot p of
       None \<Rightarrow> (loaded, st)
     | Some c \<Rightarrow>
         if path_str c \<in> loaded then (loaded, st)
         else (case LoadOne E L (path_str c) ''runtime'' st of
             (Inr True, st') \<Rightarrow> (insert (path_str c) loaded, st')
           | (r, st') \<Rightarrow> (loaded, st')))"

definition native_tick ::
    "'c native_env \<Rightarrow> native_loader \<Rightarrow> filesys \<Rightarrow> string \<Rightarrow> path \<Rightarrow> string set \<times> 'c load_state \<Rightarrow> string set \<times> 'c load_state" where
  "native_tick E L fs pluginsDir canonRoot s =
     (let root = abs_path (ne_cwd E) pluginsDir in
      if \<not> fs_exists fs root \<or> \<not> fs_is_dir fs root then s
      else fold (watch_bin E L canonRoot) (watch_bins E fs pluginsDir) s)"

section \<open>What LoadAll registers\<close>

text \<open>The tools a library offers, and all those of the binaries \<^verbatim>\<open>LoadAll\<close> loads, in order.\<close>

definition offers :: "'c native_env \<Rightarrow> string \<Rightarrow> (string \<times> 'c) list" where
  "offers E c =
     (case Option.bind (ne_open E c) (accepts (ne_json E) c) of
        None \<Rightarrow> []
      | Some p \<Rightarrow> map (\<lambda>t. (pt_Name t, ne_mk E p t)) (ListTools (ne_json E) p))"

fun eligible :: "'c native_env \<Rightarrow> path \<Rightarrow> path list \<Rightarrow> string list" where
  "eligible E canonRoot [] = []"
| "eligible E canonRoot (p # ps) =
     (case jailed_bin E canonRoot p of None \<Rightarrow> eligible E canonRoot ps
      | Some c \<Rightarrow> path_str c # eligible E canonRoot ps)"

definition all_offers :: "'c native_env \<Rightarrow> string list \<Rightarrow> (string \<times> 'c) list" where
  "all_offers E cs = concat (map (offers E) cs)"

definition dumps :: "jlib \<Rightarrow> bool" where
  "dumps J \<longleftrightarrow> (\<forall>j. \<not> isl (jdump J j))"

lemma dumps_ok: "dumps J \<Longrightarrow> \<exists>d. jdump J j = Inr d"
  by (metis dumps_def isl_def sum.exhaust)

lemma add_all_append: "add_all add (xs @ ys) r = bindE (add_all add xs r) (add_all add ys)"
proof (induction xs arbitrary: r)
  case (Cons x xs)
  show ?case by (cases x; cases "add (fst x) (snd x) r") (simp_all add: Cons.IH)
qed simp

lemma register_tools_add_all:
  assumes "\<And>t. t \<in> set ts \<Longrightarrow> pt_Name t \<noteq> []"
  shows "case add_all RegisterCommand (map (\<lambda>t. (pt_Name t, mk t)) ts) r of
      Inr r' \<Rightarrow> register_tools mk ts names r = (None, names @ map pt_Name ts, r')
    | Inl e \<Rightarrow> \<exists>ns r'. register_tools mk ts names r = (Some e, names @ ns, r')"
  using assms
proof (induction ts arbitrary: names r)
  case (Cons t ts)
  show ?case
  proof (cases "RegisterCommand (pt_Name t) (mk t) r")
    case (Inl e)
    then show ?thesis using Cons.prems by (auto intro: exI [of _ "[]"])
  next
    case (Inr r1)
    then show ?thesis
      using Cons.IH [of "names @ [pt_Name t]" r1] Cons.prems by (auto split: sum.splits)
  qed
qed simp

lemma LoadOne_add_all:
  assumes "dumps (ne_json E)"
  shows "case add_all RegisterCommand (offers E c) (ls_reg st) of
      Inr r \<Rightarrow> \<exists>b st'. LoadOne E L c src st = (Inr b, st') \<and> ls_reg st' = r \<and> (b \<longleftrightarrow> offers E c \<noteq> [])
    | Inl e \<Rightarrow> \<exists>st'. LoadOne E L c src st = (Inl e, st')"
proof (cases "Option.bind (ne_open E c) (accepts (ne_json E) c)")
  case None
  then show ?thesis by (auto simp: LoadOne_def Load_eq offers_def Let_def)
next
  case (Some p)
  let ?ts = "ListTools (ne_json E) p"
  have named: "\<And>t. t \<in> set ?ts \<Longrightarrow> pt_Name t \<noteq> []" by (rule ListTools_named)
  have o: "offers E c = map (\<lambda>t. (pt_Name t, ne_mk E p t)) ?ts" by (simp add: offers_def Some)
  obtain d where d: "jdump (ne_json E) (loaded_note p (map pt_Name ?ts) src) = Inr d"
    using dumps_ok [OF assms] by blast
  show ?thesis
  proof (cases "?ts = []")
    case True
    then show ?thesis using Some by (auto simp: LoadOne_def Load_eq o Let_def)
  next
    case False
    note reg = register_tools_add_all [where ts = ?ts and mk = "ne_mk E p" and r = "ls_reg st" and names = "[]", OF named]
    show ?thesis
    proof (cases "add_all RegisterCommand (offers E c) (ls_reg st)")
      case (Inl e)
      then obtain ns r where "register_tools (ne_mk E p) ?ts [] (ls_reg st) = (Some e, ns, r)" using reg o by auto
      then show ?thesis using False Some Inl by (simp add: LoadOne_def Load_eq Let_def)
    next
      case (Inr r)
      then have "register_tools (ne_mk E p) ?ts [] (ls_reg st) = (None, map pt_Name ?ts, r)" using reg o by simp
      then show ?thesis
        using False Some Inr d by (auto simp: LoadOne_def Load_eq Let_def FireNotification_def o)
    qed
  qed
qed

lemma load_bins_add_all:
  assumes "dumps (ne_json E)"
  shows "case add_all RegisterCommand (all_offers E (eligible E canonRoot ps)) (ls_reg st) of
      Inr r \<Rightarrow> \<exists>st'. load_bins E L canonRoot ps st = (Inr (), st') \<and> ls_reg st' = r
    | Inl e \<Rightarrow> \<exists>st'. load_bins E L canonRoot ps st = (Inl e, st')"
proof (induction ps arbitrary: st)
  case Nil
  then show ?case by (simp add: all_offers_def)
next
  case (Cons p ps)
  show ?case
  proof (cases "jailed_bin E canonRoot p")
    case None
    then show ?thesis using Cons [of st] by (auto split: sum.splits)
  next
    case (Some c)
    note one = LoadOne_add_all [OF assms, where c = "path_str c" and st = st and L = L and src = "''startup''"]
    show ?thesis
    proof (cases "add_all RegisterCommand (offers E (path_str c)) (ls_reg st)")
      case (Inl e)
      then show ?thesis using one Some by (auto simp: all_offers_def add_all_append)
    next
      case (Inr r)
      then obtain b st1 where "LoadOne E L (path_str c) ''startup'' st = (Inr b, st1)" "ls_reg st1 = r"
        using one by auto
      then show ?thesis using Some Inr Cons [of st1] by (auto simp: all_offers_def add_all_append split: sum.splits)
    qed
  qed
qed

text \<open>The binaries \<^verbatim>\<open>LoadAll\<close> loads, by their canonical paths.\<close>

definition startup_binaries :: "'c native_env \<Rightarrow> native_loader \<Rightarrow> filesys \<Rightarrow> string \<Rightarrow> string list" where
  "startup_binaries E L fs pluginsDir =
     (let root = abs_path (ne_cwd E) pluginsDir in
      case (if fs_is_dir fs root then ne_cn E root else None) of
        None \<Rightarrow> []
      | Some canonRoot \<Rightarrow> eligible E canonRoot (concat (map (pack_bins E L fs) (child_dirs fs root))))"

lemma LoadAll_add_all:
  assumes "dumps (ne_json E)"
  shows "case add_all RegisterCommand (all_offers E (startup_binaries E L fs dir)) (ls_reg st) of
      Inr r \<Rightarrow> \<exists>st'. LoadAll E L fs dir st = (Inr (), st') \<and> ls_reg st' = r
    | Inl e \<Rightarrow> \<exists>st'. LoadAll E L fs dir st = (Inl e, st')"
proof (cases "fs_is_dir fs (abs_path (ne_cwd E) dir)")
  case False
  then show ?thesis by (simp add: LoadAll_def startup_binaries_def all_offers_def)
next
  case True
  then have x: "fs_exists fs (abs_path (ne_cwd E) dir)" by (simp add: fs_is_dir_def fs_exists_def)
  show ?thesis
  proof (cases "ne_cn E (abs_path (ne_cwd E) dir)")
    case None
    then show ?thesis using True x by (simp add: LoadAll_def startup_binaries_def all_offers_def)
  next
    case (Some canonRoot)
    show ?thesis
      using load_bins_add_all [OF assms, where canonRoot = canonRoot and st = st and L = L
          and ps = "concat (map (pack_bins E L fs) (child_dirs fs (abs_path (ne_cwd E) dir)))"]
        True x Some
      by (auto simp: LoadAll_def startup_binaries_def split: sum.splits)
  qed
qed

text \<open>A binary is loaded only from a directory whose manifest admits it.\<close>

lemma startup_binaries_admitted:
  assumes "c \<in> set (startup_binaries E L fs dir)"
  shows "\<exists>d p q canonRoot. d \<in> set (child_dirs fs (abs_path (ne_cwd E) dir))
     \<and> OsMatches (ne_pf E) (FromDirectory (ne_rd E) fs d)
     \<and> (nl_GatePacks L \<longrightarrow> Allowed (ne_pf E) (FromDirectory (ne_rd E) fs d) (nl_ActivePacks L) True)
     \<and> p \<in> set (bin_files (ne_pf E) fs (d @ [''bin''])) \<and> ne_cn E p = Some q \<and> c = path_str q
     \<and> ne_cn E (abs_path (ne_cwd E) dir) = Some canonRoot \<and> prefix (path_str canonRoot) c"
proof -
  have el: "c \<in> set (eligible E r ps) \<Longrightarrow> \<exists>p q. p \<in> set ps \<and> ne_cn E p = Some q \<and> c = path_str q \<and> prefix (path_str r) c"
    for r ps
    by (induction ps) (auto simp: jailed_bin_def below_root_def split: option.splits if_splits)
  from assms obtain r where r: "ne_cn E (abs_path (ne_cwd E) dir) = Some r"
    "c \<in> set (eligible E r (concat (map (pack_bins E L fs) (child_dirs fs (abs_path (ne_cwd E) dir)))))"
    by (cases "ne_cn E (abs_path (ne_cwd E) dir)") (auto simp: startup_binaries_def Let_def split: if_splits)
  from el [OF r(2)] obtain p q d where
    "d \<in> set (child_dirs fs (abs_path (ne_cwd E) dir))" "p \<in> set (pack_bins E L fs d)"
    "ne_cn E p = Some q" "c = path_str q" "prefix (path_str r) c" by auto
  then show ?thesis using r(1) by (auto simp: pack_bins_def Let_def split: if_splits)
qed


text \<open>Two packs, of which one is active.\<close>

definition ex_dl_json :: jlib where
  "ex_dl_json = \<lparr>jparse = \<lambda>s. if s = ''m'' then Some (JObj [(''name'', JStr ''x'')])
       else if s = ''t'' then Some (JArr [JObj [(''name'', JStr ''hi'')]]) else None,
     jdump = \<lambda>j. Inr ''d''\<rparr>"

definition ex_image :: dl_image where
  "ex_image = \<lparr>di_exports = required_symbols, di_api_version = 0x00010007, di_manifest = Some ''m'', di_create = True,
     di_list_tools = Some ''t'', di_execute = \<lambda>t q. None\<rparr>"

definition ex_plugins :: filesys where
  "ex_plugins = [([''p''], Directory), ([''p'', ''a''], Directory), ([''p'', ''b''], Directory),
     ([''p'', ''a'', ''plugin.json''], RegFile ''on''), ([''p'', ''b'', ''plugin.json''], RegFile ''off''),
     ([''p'', ''a'', ''bin''], Directory), ([''p'', ''b'', ''bin''], Directory),
     ([''p'', ''a'', ''bin'', ''x.so''], RegFile []), ([''p'', ''b'', ''bin'', ''y.so''], RegFile [])]"

definition ex_native :: "string native_env" where
  "ex_native = \<lparr>ne_json = ex_dl_json,
     ne_rd = \<lambda>s. Some (JObj [(''packs'', JStr (if s = ''on'' then ''cpp'' else ''web''))]),
     ne_pf = Linux, ne_cn = Some, ne_cwd = [],
     ne_open = \<lambda>s. Some ex_image, ne_mk = \<lambda>p t. pt_Name t\<rparr>"

definition ex_load :: "string load_state" where
  "ex_load = \<lparr>ls_reg = empty_registry, ls_notes = [], ls_dl = \<lparr>dw_opens = [], dw_libs = 0, dw_handles = 0\<rparr>\<rparr>"

lemma ex_startup:
  "startup_binaries ex_native (SetActivePacks {''cpp''} native_idle) ex_plugins ''/p'' = [''/p/a/bin/x.so'']"
  "startup_binaries ex_native (SetActivePacks {''cpp''} native_idle) ex_plugins ''p'' = [''/p/a/bin/x.so'']"
  by (simp_all add: startup_binaries_def ex_native_def ex_plugins_def SetActivePacks_def native_idle_def abs_path_def
      is_absolute_def path_parts_def fs_is_dir_def fs_exists_def fs_node_def child_dirs_def fs_children_def pack_bins_def bin_files_def
      FromDirectory_def fs_read_def manifest_of_def takeList_def or_key_def string_key_def filename_def Allowed_def OsMatches_def
      IsPluginBinary_def extension_def last_dot_def jailed_bin_def below_root_def path_str_def)

lemma ex_native_paths: "ne_cn ex_native p = Some p" "ne_cwd ex_native = []"
  by (simp_all add: ex_native_def)

lemma ex_offers: "offers ex_native c = [(''hi'', ''hi'')]"
  by (simp add: offers_def ex_native_def accepts_def ex_image_def dl_manifest_def ex_dl_json_def value_defs major_def
      ListTools_def dl_tool_def)


section \<open>What the watcher does\<close>

lemma LoadOne_opens: "dw_opens (ls_dl (snd (LoadOne E L c src st))) = dw_opens (ls_dl st) @ [c]"
proof -
  have w: "Load J opn c (ls_dl st) = (x, w) \<Longrightarrow> dw_opens w = dw_opens (ls_dl st) @ [c]" for J opn x w
    using Load_opens [of J opn c "ls_dl st"] by simp
  show ?thesis
    by (auto simp: LoadOne_def Let_def Destroy_def PlatformClose_def FireNotification_def dest!: w
        split: prod.split option.split sum.split)
qed

definition has :: "string \<Rightarrow> 'c load_state \<Rightarrow> bool" where
  "has n st \<longleftrightarrow> HasCommand (ls_reg st) n"

lemma register_tools_keeps: "HasCommand r n \<Longrightarrow> HasCommand (snd (snd (register_tools mk ts names r))) n"
  by (induction ts arbitrary: names r) (auto simp: RegisterCommand_def HasCommand_def split: sum.split)

lemma LoadOne_keeps:
  assumes "has n st" shows "has n (snd (LoadOne E L c src st))"
proof -
  obtain x w where ld: "Load (ne_json E) (ne_open E) c (ls_dl st) = (x, w)" by (cases "Load (ne_json E) (ne_open E) c (ls_dl st)")
  show ?thesis
  proof (cases x)
    case None
    then show ?thesis using assms ld by (simp add: LoadOne_def has_def)
  next
    case (Some p)
    let ?ts = "ListTools (ne_json E) p"
    obtain e ns r where reg: "register_tools (ne_mk E p) ?ts [] (ls_reg st) = (e, ns, r)"
      by (cases "register_tools (ne_mk E p) ?ts [] (ls_reg st)")
    then have "HasCommand r n"
      using register_tools_keeps [of "ls_reg st" n "ne_mk E p" ?ts "[]"] assms by (simp add: has_def)
    note h = this
    have f: "has n (snd (FireNotification E L j (st\<lparr>ls_reg := r, ls_dl := w\<rparr>)))" for j
      using h by (cases "jdump (ne_json E) j") (simp_all add: FireNotification_def has_def)
    have one: "LoadOne E L c src st =
       (if ?ts = [] then (Inr False, st\<lparr>ls_dl := Destroy w\<rparr>)
        else case e of
          Some e \<Rightarrow> (Inl e, st\<lparr>ls_reg := r, ls_dl := if ns = [] then Destroy w else w\<rparr>)
        | None \<Rightarrow> if ns = [] then (Inr False, st\<lparr>ls_dl := Destroy w\<rparr>)
            else (case FireNotification E L (loaded_note p ns src) (st\<lparr>ls_reg := r, ls_dl := w\<rparr>) of
                (Inl e, st') \<Rightarrow> (Inl e, st') | (Inr u, st') \<Rightarrow> (Inr True, st')))"
      by (simp only: LoadOne_def ld Some reg prod.case option.case Let_def)
    obtain y st2 where fire: "FireNotification E L (loaded_note p ns src) (st\<lparr>ls_reg := r, ls_dl := w\<rparr>) = (y, st2)"
      by (cases "FireNotification E L (loaded_note p ns src) (st\<lparr>ls_reg := r, ls_dl := w\<rparr>)")
    then have "has n st2" using f [of "loaded_note p ns src"] by simp
    moreover have "has n (st\<lparr>ls_dl := v\<rparr>)" "has n (st\<lparr>ls_reg := r, ls_dl := v\<rparr>)" for v
      using assms h by (simp_all add: has_def)
    ultimately show ?thesis
      unfolding one fire by (cases e; cases y) simp_all
  qed
qed

text \<open>A library whose first tool is in the table is refused again.\<close>

lemma LoadOne_collides:
  assumes "offers E c = (n, k) # os" "has n st"
  shows "\<exists>e st'. LoadOne E L c src st = (Inl e, st')"
proof -
  obtain p where p: "Option.bind (ne_open E c) (accepts (ne_json E) c) = Some p"
    using assms(1) by (auto simp: offers_def split: option.splits)
  let ?ts = "ListTools (ne_json E) p"
  obtain t ts where t: "?ts = t # ts" "pt_Name t = n" using assms(1) p by (auto simp: offers_def)
  have "n \<noteq> []" using ListTools_named [of t "ne_json E" p] t by simp
  then have "\<exists>e. register_tools (ne_mk E p) ?ts [] (ls_reg st) = (Some e, [], ls_reg st)"
    using assms(2) t by (simp add: RegisterCommand_def has_def)
  then show ?thesis using p t by (auto simp: LoadOne_def Load_eq Let_def)
qed

lemma p_join_head: "s \<noteq> [] \<Longrightarrow> p_join s x \<noteq> [] \<and> hd (p_join s x) = hd s"
  by (simp add: p_join_def)

lemma watch_bins_head:
  assumes "dir \<noteq> []" "(s, p) \<in> set (watch_bins E fs dir)"
  shows "s \<noteq> [] \<and> hd s = hd dir"
proof -
  from assms(2) obtain x y where "s = p_join (p_join (p_join dir x) ''bin'') y" by (auto simp: watch_bins_def)
  then show ?thesis using assms(1) p_join_head by simp
qed

lemma path_str_head: "path_str p \<noteq> [] \<and> hd (path_str p) = CHR ''/''"
  by (cases p) (simp_all add: path_str_def)

text \<open>The rounds of the watcher over a file system that stays as it is.\<close>

definition native_rounds ::
    "'c native_env \<Rightarrow> native_loader \<Rightarrow> filesys \<Rightarrow> string \<Rightarrow> nat \<Rightarrow> 'c load_state \<Rightarrow> string set \<times> 'c load_state" where
  "native_rounds E L fs dir n st =
     (case native_watch_init E fs dir of
        None \<Rightarrow> ({}, st)
      | Some (canonRoot, loaded) \<Rightarrow> (native_tick E L fs dir canonRoot ^^ n) (loaded, st))"

lemma watch_bin_other:
  assumes "offers E c = (n, k) # os" "has n st" "c \<notin> loaded"
    and "watch_bin E L r sp (loaded, st) = (loaded', st')"
  shows "c \<notin> loaded' \<and> has n st' \<and> count_list (dw_opens (ls_dl st)) c \<le> count_list (dw_opens (ls_dl st')) c"
proof (cases "jailed_bin E r (snd sp)")
  case None
  then show ?thesis using assms by (cases sp) (simp add: watch_bin_def)
next
  case (Some q)
  obtain x st1 where one: "LoadOne E L (path_str q) ''runtime'' st = (x, st1)" by (cases "LoadOne E L (path_str q) ''runtime'' st")
  have k: "has n st1" "dw_opens (ls_dl st1) = dw_opens (ls_dl st) @ [path_str q]"
    using LoadOne_keeps [OF assms(2), of E L "path_str q" "''runtime''"] LoadOne_opens [of E L "path_str q" "''runtime''" st] one by simp_all
  have c: "path_str q = c \<Longrightarrow> isl x"
    using LoadOne_collides [OF assms(1,2), of L "''runtime''"] one by auto
  show ?thesis
    using assms Some one k c by (cases sp) (auto simp: watch_bin_def split: if_splits sum.splits bool.splits)
qed

lemma watch_bin_self:
  assumes "offers E c = (n, k) # os" "has n st" "c \<notin> loaded" "jailed_bin E r p = Some q" "path_str q = c"
    and "watch_bin E L r (s, p) (loaded, st) = (loaded', st')"
  shows "Suc (count_list (dw_opens (ls_dl st)) c) \<le> count_list (dw_opens (ls_dl st')) c"
proof -
  obtain e st1 where one: "LoadOne E L c ''runtime'' st = (Inl e, st1)"
    using LoadOne_collides [OF assms(1,2)] by blast
  then have "dw_opens (ls_dl st1) = dw_opens (ls_dl st) @ [c]"
    using LoadOne_opens [of E L c "''runtime''" st] by simp
  then show ?thesis using assms one by (simp add: watch_bin_def)
qed

lemma watch_fold:
  assumes "offers E c = (n, k) # os" "has n st" "c \<notin> loaded"
    and "fold (watch_bin E L r) sps (loaded, st) = (loaded', st')"
  shows "c \<notin> loaded' \<and> has n st' \<and>
    count_list (dw_opens (ls_dl st)) c
      + (if \<exists>(s, p)\<in>set sps. map_option path_str (jailed_bin E r p) = Some c then 1 else 0)
    \<le> count_list (dw_opens (ls_dl st')) c"
  using assms(2-4)
proof (induction sps arbitrary: loaded st)
  case (Cons sp sps)
  obtain s p where sp: "sp = (s, p)" by (cases sp)
  obtain l1 st1 where one: "watch_bin E L r sp (loaded, st) = (l1, st1)" by (cases "watch_bin E L r sp (loaded, st)")
  note o = watch_bin_other [OF assms(1) Cons.prems(1,2) one]
  have rest: "fold (watch_bin E L r) sps (l1, st1) = (loaded', st')" using Cons.prems(3) one by simp
  from o have "c \<notin> l1" "has n st1" by simp_all
  note ih = Cons.IH [OF this(2,1) rest]
  show ?case
  proof (cases "map_option path_str (jailed_bin E r p) = Some c")
    case True
    then obtain q where q: "jailed_bin E r p = Some q" "path_str q = c" by auto
    have "Suc (count_list (dw_opens (ls_dl st)) c) \<le> count_list (dw_opens (ls_dl st1)) c"
      by (rule watch_bin_self [OF assms(1) Cons.prems(1,2) q]) (use one sp in simp)
    then show ?thesis using ih True sp by (auto split: if_splits)
  next
    case False
    then show ?thesis using ih o sp by (auto split: if_splits)
  qed
qed simp

lemma rounds_reopen:
  assumes "offers E c = (n, k) # os" "has n st" "c \<notin> loaded"
    and "fs_is_dir fs (abs_path (ne_cwd E) dir)"
    and "(s, p) \<in> set (watch_bins E fs dir)" "map_option path_str (jailed_bin E r p) = Some c"
  shows "count_list (dw_opens (ls_dl st)) c + m \<le> count_list (dw_opens (ls_dl (snd ((native_tick E L fs dir r ^^ m) (loaded, st))))) c"
  using assms(2,3)
proof (induction m arbitrary: loaded st)
  case (Suc m)
  obtain l1 st1 where one: "native_tick E L fs dir r (loaded, st) = (l1, st1)" by (cases "native_tick E L fs dir r (loaded, st)")
  have x: "fs_exists fs (abs_path (ne_cwd E) dir)" using assms(4) by (simp add: fs_is_dir_def fs_exists_def)
  have f: "fold (watch_bin E L r) (watch_bins E fs dir) (loaded, st) = (l1, st1)"
    using one assms(4) x by (simp add: native_tick_def Let_def)
  have "\<exists>(s, p)\<in>set (watch_bins E fs dir). map_option path_str (jailed_bin E r p) = Some c"
    using assms(5,6) by blast
  with watch_fold [OF assms(1) Suc.prems f]
  have "c \<notin> l1" "has n st1" "Suc (count_list (dw_opens (ls_dl st)) c) \<le> count_list (dw_opens (ls_dl st1)) c" by simp_all
  then show ?case using Suc.IH [of st1 l1] one by (simp add: funpow_Suc_right del: funpow.simps)
qed simp

lemma watch_init_relative:
  assumes "dir \<noteq> []" "\<not> is_absolute dir" "native_watch_init E fs dir = Some (r, loaded)"
  shows "path_str q \<notin> loaded"
proof
  assume "path_str q \<in> loaded"
  then obtain p where "(path_str q, p) \<in> set (watch_bins E fs dir)"
    using assms(3) by (auto simp: native_watch_init_def split: option.splits)
  from watch_bins_head [OF assms(1) this] show False
    using assms(1,2) path_str_head [of q] by (simp add: is_absolute_def)
qed

text \<open>
  C30: When the plugins directory is not an absolute path (the default is \<^verbatim>\<open>plugins\<close>), the
  watcher opens every library that was loaded at startup again in every one of its rounds,
  for as long as the server runs: it first records the paths of the binaries as the directory
  iterator spells them and then looks canonical paths up.
\<close>

theorem relative_root_reopens:
  assumes "dir \<noteq> []" "\<not> is_absolute dir" "fs_is_dir fs (abs_path (ne_cwd E) dir)"
    and "native_watch_init E fs dir = Some (canonRoot, loaded)"
    and "(s, p) \<in> set (watch_bins E fs dir)" "jailed_bin E canonRoot p = Some q"
    and "offers E (path_str q) = (n, k) # os" "HasCommand (ls_reg st) n"
  shows "count_list (dw_opens (ls_dl st)) (path_str q) + m
      \<le> count_list (dw_opens (ls_dl (snd (native_rounds E L fs dir m st)))) (path_str q)"
proof -
  have "path_str q \<notin> loaded" by (rule watch_init_relative [OF assms(1,2,4)])
  moreover have "map_option path_str (jailed_bin E canonRoot p) = Some (path_str q)" using assms(6) by simp
  moreover have "has n st" using assms(8) by (simp add: has_def)
  ultimately show ?thesis
    using rounds_reopen [OF assms(7) _ _ assms(3,5)] assms(4) by (simp add: native_rounds_def)
qed

theorem relative_root_reopens_witness:
  "5 \<le> count_list (dw_opens (ls_dl (snd (native_rounds ex_native native_idle ex_plugins ''p'' 5
       (snd (LoadAll ex_native (SetActivePacks {''cpp''} native_idle) ex_plugins ''p'' ex_load)))))) ''/p/a/bin/x.so''"
proof -
  let ?res = "LoadAll ex_native (SetActivePacks {''cpp''} native_idle) ex_plugins ''p'' ex_load"
  have d: "dumps (ne_json ex_native)" by (simp add: dumps_def ex_native_def ex_dl_json_def)
  have o: "all_offers ex_native (startup_binaries ex_native (SetActivePacks {''cpp''} native_idle) ex_plugins ''p'') = [(''hi'', ''hi'')]"
    by (simp add: ex_startup all_offers_def ex_offers)
  have reg: "RegisterCommand ''hi'' ''hi'' (ls_reg ex_load) = Inr (empty_registry\<lparr>m_Commands := [(''hi'', ''hi'')]\<rparr>)"
    by (simp add: RegisterCommand_def ex_load_def HasCommand_def CommandRegistry.Resolve_def empty_registry_def)
  have has: "HasCommand (ls_reg (snd ?res)) ''hi''"
    using LoadAll_add_all [OF d, of "SetActivePacks {''cpp''} native_idle" ex_plugins "''p''" ex_load]
    by (auto simp: o reg HasCommand_def CommandRegistry.Resolve_def)
  have bins: "watch_bins ex_native ex_plugins ''p'' =
      [(''p/a/bin/x.so'', [''p'', ''a'', ''bin'', ''x.so'']), (''p/b/bin/y.so'', [''p'', ''b'', ''bin'', ''y.so''])]"
    by (simp add: watch_bins_def ex_plugins_def ex_native_def child_dirs_def fs_children_def abs_path_def is_absolute_def
        path_parts_def bin_files_def filename_def IsPluginBinary_def extension_def last_dot_def p_join_def)
  have "native_watch_init ex_native ex_plugins ''p'' = Some ([''p''], {''p/a/bin/x.so'', ''p/b/bin/y.so''})"
    by (simp add: native_watch_init_def bins ex_native_paths abs_path_def is_absolute_def path_parts_def)
  moreover have "fs_is_dir ex_plugins (abs_path (ne_cwd ex_native) ''p'')"
    by (simp add: ex_plugins_def ex_native_def abs_path_def is_absolute_def path_parts_def fs_is_dir_def fs_node_def)
  moreover have "jailed_bin ex_native [''p''] [''p'', ''a'', ''bin'', ''x.so''] = Some [''p'', ''a'', ''bin'', ''x.so'']"
    by (simp add: jailed_bin_def ex_native_def below_root_def path_str_def)
  moreover have "path_str [''p'', ''a'', ''bin'', ''x.so''] = ''/p/a/bin/x.so''" by (simp add: path_str_def)
  ultimately show ?thesis
    using relative_root_reopens [where dir = "''p''" and fs = ex_plugins and E = ex_native and canonRoot = "[''p'']"
        and s = "''p/a/bin/x.so''" and p = "[''p'', ''a'', ''bin'', ''x.so'']" and q = "[''p'', ''a'', ''bin'', ''x.so'']"
        and n = "''hi''" and k = "''hi''" and os = "[]" and st = "snd ?res" and m = 5 and L = native_idle] has
    by (simp add: is_absolute_def bins ex_offers)
qed

text \<open>
  When the plugins directory is absolute and canonical, and so are the paths below it,
  the watcher's rounds do nothing at all while the directory stays as it was when the watcher
  started: no library is opened and the table of tools does not change.
\<close>

theorem canonical_root_quiet:
  assumes "native_watch_init E fs dir = Some (canonRoot, loaded)"
    and "\<forall>(s, p)\<in>set (watch_bins E fs dir). \<forall>q. ne_cn E p = Some q \<longrightarrow> path_str q = s"
  shows "native_rounds E L fs dir m st = (loaded, st)"
proof -
  have l: "loaded = set (map fst (watch_bins E fs dir))"
    using assms(1) by (auto simp: native_watch_init_def split: option.splits)
  have "set sps \<subseteq> set (watch_bins E fs dir) \<Longrightarrow> fold (watch_bin E L canonRoot) sps (loaded, st) = (loaded, st)" for sps
  proof (induction sps)
    case (Cons sp sps)
    obtain s p where sp: "sp = (s, p)" by (cases sp)
    have "watch_bin E L canonRoot sp (loaded, st) = (loaded, st)"
    proof (cases "jailed_bin E canonRoot p")
      case None
      then show ?thesis by (simp add: watch_bin_def sp)
    next
      case (Some q)
      then have "ne_cn E p = Some q" by (auto simp: jailed_bin_def split: option.splits if_splits)
      moreover have "(s, p) \<in> set (watch_bins E fs dir)" using Cons.prems sp by auto
      ultimately have "path_str q = s" using assms(2) by blast
      moreover have "s \<in> loaded" unfolding l using \<open>(s, p) \<in> set (watch_bins E fs dir)\<close> by force
      ultimately show ?thesis using Some by (simp add: watch_bin_def sp)
    qed
    then show ?case using Cons by simp
  qed simp
  then have tick: "native_tick E L fs dir canonRoot (loaded, st) = (loaded, st)"
    by (simp add: native_tick_def Let_def)
  have "(native_tick E L fs dir canonRoot ^^ m) (loaded, st) = (loaded, st)" by (induction m) (simp_all add: tick)
  then show ?thesis using assms(1) by (simp add: native_rounds_def)
qed

theorem canonical_root_quiet_witness:
  "native_rounds ex_native native_idle ex_plugins ''/p'' 7 ex_load = ({''/p/a/bin/x.so'', ''/p/b/bin/y.so''}, ex_load)"
proof -
  have bins: "watch_bins ex_native ex_plugins ''/p'' =
      [(''/p/a/bin/x.so'', [''p'', ''a'', ''bin'', ''x.so'']), (''/p/b/bin/y.so'', [''p'', ''b'', ''bin'', ''y.so''])]"
    by (simp add: watch_bins_def ex_plugins_def ex_native_def child_dirs_def fs_children_def abs_path_def is_absolute_def
        path_parts_def bin_files_def filename_def IsPluginBinary_def extension_def last_dot_def p_join_def)
  have "native_watch_init ex_native ex_plugins ''/p'' = Some ([''p''], {''/p/a/bin/x.so'', ''/p/b/bin/y.so''})"
    by (simp add: native_watch_init_def bins ex_native_paths abs_path_def is_absolute_def path_parts_def)
  then show ?thesis
    by (rule canonical_root_quiet) (simp add: bins ex_native_paths path_str_def)
qed

end
