(* ===== verification/Subprocess.thy ===== *)
theory Subprocess
  imports Prelude
begin

text \<open>
  \<^verbatim>\<open>src/plugins/SubprocessPipe.cpp\<close>: reading lines from a child process.  The child is given
  by what its successive reads deliver: a chunk of bytes, and for an empty chunk whether the
  child is still alive; \<open>p_drain\<close> is what the blocking drain after its exit delivers.  The
  deadline of a call is the number of rounds of the polling loop before it expires.
\<close>

record pipe =
  m_readBuffer :: string
  p_reads :: "(string \<times> bool) list"
  p_drain :: "string list"

definition takeLine :: "string \<Rightarrow> (string \<times> string) option" where
  "takeLine buf =
     (case find_sub [NL] buf of None \<Rightarrow> None | Some pos \<Rightarrow> Some (strip_cr (take pos buf), drop (pos + 1) buf))"

definition takeRemainder :: "string \<Rightarrow> (string \<times> string) option" where
  "takeRemainder buf = (if buf = [] then None else Some (strip_cr buf, []))"

text \<open>\<^verbatim>\<open>while (appendStdout() > 0) {}\<close>\<close>

definition drained :: "string list \<Rightarrow> string" where
  "drained chunks = concat (takeWhile (\<lambda>c. c \<noteq> []) chunks)"

definition read_after_exit :: "pipe \<Rightarrow> string option \<times> pipe" where
  "read_after_exit p =
     (let buf = m_readBuffer p @ drained (p_drain p);
          p' = p\<lparr>p_drain := []\<rparr>
      in case takeLine buf of
           Some (line, rest) \<Rightarrow> (Some line, p'\<lparr>m_readBuffer := rest\<rparr>)
         | None \<Rightarrow> (case takeRemainder buf of
               Some (line, rest) \<Rightarrow> (Some line, p'\<lparr>m_readBuffer := rest\<rparr>)
             | None \<Rightarrow> (None, p'\<lparr>m_readBuffer := []\<rparr>)))"

fun ReadLine :: "nat \<Rightarrow> pipe \<Rightarrow> string option \<times> pipe" where
  "ReadLine 0 p = (None, p)"
| "ReadLine (Suc n) p =
     (case takeLine (m_readBuffer p) of
        Some (line, rest) \<Rightarrow> (Some line, p\<lparr>m_readBuffer := rest\<rparr>)
      | None \<Rightarrow>
          (case p_reads p of
             [] \<Rightarrow> read_after_exit p
           | (chunk, alive) # rs \<Rightarrow>
               if chunk \<noteq> [] then ReadLine n (p\<lparr>m_readBuffer := m_readBuffer p @ chunk, p_reads := rs\<rparr>)
               else if \<not> alive then read_after_exit p
               else ReadLine n (p\<lparr>p_reads := rs\<rparr>)))"

text \<open>\<^verbatim>\<open>WriteLine\<close>: the bytes handed to \<^verbatim>\<open>fwrite\<close>, and whether all of them were taken.\<close>

definition WriteLine :: "(string \<Rightarrow> nat) option \<Rightarrow> string \<Rightarrow> bool" where
  "WriteLine fwrite line =
     (case fwrite of None \<Rightarrow> False | Some w \<Rightarrow> w (line @ [NL]) = length (line @ [NL]))"

section \<open>The life of a child\<close>

text \<open>
  What the subprocess library is asked for when a child is created, and the child as the library
  knows it: whether it runs, how often it was terminated and its handles released; the flag
  \<^verbatim>\<open>destroyed\<close> is the pipe's own.
\<close>

datatype spawn_option =
    search_user_path | enable_async | enable_async_no_wait | inherit_environment | combined_stdout_stderr | no_window

record child =
  ch_alive :: bool
  ch_terminated :: nat
  ch_released :: nat
  ch_destroyed :: bool

definition spawn_options :: "bool \<Rightarrow> bool \<Rightarrow> spawn_option set" where
  "spawn_options windows combineStderr =
     {search_user_path, enable_async, enable_async_no_wait, inherit_environment}
     \<union> (if combineStderr then {combined_stdout_stderr} else {}) \<union> (if windows then {no_window} else {})"

definition Spawn ::
    "(string list \<Rightarrow> spawn_option set \<Rightarrow> string option \<Rightarrow> child option) \<Rightarrow> bool \<Rightarrow> string \<Rightarrow> string list \<Rightarrow> bool \<Rightarrow> string \<Rightarrow> child res" where
  "Spawn create windows command args combineStderr cwd =
     (case create (command # args) (spawn_options windows combineStderr) (if cwd = [] then None else Some cwd) of
        None \<Rightarrow> Inl (RuntimeError (''SubprocessPipe: failed to create process: '' @ command))
      | Some c \<Rightarrow> Inr c)"

definition subprocess_terminate :: "child \<Rightarrow> child" where
  "subprocess_terminate c = c\<lparr>ch_alive := False, ch_terminated := ch_terminated c + 1\<rparr>"

definition IsRunning :: "child \<Rightarrow> bool" where
  "IsRunning c \<longleftrightarrow> \<not> ch_destroyed c \<and> ch_alive c"

definition Kill :: "child \<Rightarrow> child" where
  "Kill c = (if \<not> ch_destroyed c \<and> ch_alive c then subprocess_terminate c else c)"

definition drop_pipe :: "child \<Rightarrow> child" where
  "drop_pipe c =
     (if ch_destroyed c then c
      else (let c1 = (if ch_alive c then subprocess_terminate c else c)
            in c1\<lparr>ch_released := ch_released c1 + 1, ch_destroyed := True\<rparr>))"

text \<open>A child is not left running, and its handles are released once, whatever was done to it before.\<close>

lemma drop_pipe_final: "\<not> IsRunning (drop_pipe c) \<and> drop_pipe (drop_pipe c) = drop_pipe c \<and> Kill (drop_pipe c) = drop_pipe c"
  by (simp add: drop_pipe_def IsRunning_def Kill_def Let_def)

lemma Kill_once: "Kill (Kill c) = Kill c \<and> ch_terminated (Kill c) \<le> ch_terminated c + 1"
  by (simp add: Kill_def subprocess_terminate_def)

section \<open>Lines of the whole stream\<close>

fun reads_bytes :: "(string \<times> bool) list \<Rightarrow> string" where
  "reads_bytes [] = []"
| "reads_bytes ((chunk, alive) # rs) = (if chunk = [] \<and> \<not> alive then [] else chunk @ reads_bytes rs)"

text \<open>Every byte the child has still to deliver.\<close>

definition pending_bytes :: "pipe \<Rightarrow> string" where
  "pending_bytes p = m_readBuffer p @ reads_bytes (p_reads p) @ drained (p_drain p)"

lemma getlines_append: "NL \<notin> set a \<Longrightarrow> getlines (a @ NL # b) = a # getlines b"
  by (simp add: getlines_def lines_loop_skip)

lemma getlines_single: "NL \<notin> set a \<Longrightarrow> getlines a = (if a = [] then [] else [a])"
  using lines_loop_skip [of a "[]" "[]"] by (simp add: getlines_def)

lemma find_NL: "find_sub [NL] s = (if NL \<in> set s then Some (length (takeWhile (\<lambda>c. c \<noteq> NL) s)) else None)"
  by (induction s) auto

lemma NL_split: "NL \<in> set s \<Longrightarrow> s = takeWhile (\<lambda>c. c \<noteq> NL) s @ NL # drop (length (takeWhile (\<lambda>c. c \<noteq> NL) s) + 1) s"
  by (induction s) auto

lemma takeLine_None: "takeLine s = None \<longleftrightarrow> NL \<notin> set s"
  by (simp add: takeLine_def find_NL)

lemma takeLine_Some:
  assumes "takeLine s = Some (l, rest)"
  shows "\<exists>a. s = a @ NL # rest \<and> NL \<notin> set a \<and> l = strip_cr a"
proof -
  let ?a = "takeWhile (\<lambda>c. c \<noteq> NL) s"
  have n: "NL \<in> set s" using assms takeLine_None [of s] by auto
  have "NL \<notin> set ?a" by (auto dest: set_takeWhileD)
  moreover have "take (length ?a) s = ?a" by (rule takeWhile_eq_take [symmetric])
  ultimately show ?thesis
    using assms NL_split [OF n] n by (intro exI [of _ ?a]) (auto simp: takeLine_def find_NL)
qed

text \<open>What one call delivers: the first line of all that is pending, and it leaves the others.\<close>

definition reads_line :: "pipe \<Rightarrow> string option \<times> pipe \<Rightarrow> bool" where
  "reads_line p r \<longleftrightarrow>
     (case getlines (pending_bytes p) of
        [] \<Rightarrow> fst r = None \<and> getlines (pending_bytes (snd r)) = []
      | l # ls \<Rightarrow> fst r = Some (strip_cr l) \<and> getlines (pending_bytes (snd r)) = ls)
     \<and> length (p_reads (snd r)) \<le> length (p_reads p)"

lemma reads_line_exit:
  assumes "reads_bytes (p_reads p) = []"
  shows "reads_line p (read_after_exit p)"
proof (cases "takeLine (m_readBuffer p @ drained (p_drain p))")
  case None
  note nl = None [unfolded takeLine_None]
  from getlines_single [OF nl] show ?thesis
    using None assms
    by (auto simp: reads_line_def read_after_exit_def pending_bytes_def takeRemainder_def drained_def getlines_def Let_def)
next
  case (Some lr)
  then obtain l rest where lr: "takeLine (m_readBuffer p @ drained (p_drain p)) = Some (l, rest)" by (cases lr) auto
  from takeLine_Some [OF this] obtain a where
    a: "m_readBuffer p @ drained (p_drain p) = a @ NL # rest" "NL \<notin> set a" "l = strip_cr a" by blast
  show ?thesis
    using lr a assms by (simp add: reads_line_def read_after_exit_def pending_bytes_def getlines_append drained_def)
qed

lemma ReadLine_reads: "length (p_reads p) < n \<Longrightarrow> reads_line p (ReadLine n p)"
proof (induction n arbitrary: p)
  case (Suc n)
  show ?case
  proof (cases "takeLine (m_readBuffer p)")
    case (Some lr)
    then obtain l rest where lr: "takeLine (m_readBuffer p) = Some (l, rest)" by (cases lr) auto
    from takeLine_Some [OF this] obtain a where "m_readBuffer p = a @ NL # rest" "NL \<notin> set a" "l = strip_cr a" by blast
    then show ?thesis using lr by (simp add: reads_line_def pending_bytes_def getlines_append)
  next
    case None
    show ?thesis
    proof (cases "p_reads p")
      case Nil
      then show ?thesis using None reads_line_exit by simp
    next
      case (Cons ca rs)
      obtain chunk alive where ca: "ca = (chunk, alive)" by (cases ca)
      consider "chunk \<noteq> []" | "chunk = []" "\<not> alive" | "chunk = []" "alive" by blast
      then show ?thesis
      proof cases
        case 1
        have "reads_line (p\<lparr>m_readBuffer := m_readBuffer p @ chunk, p_reads := rs\<rparr>)
            (ReadLine n (p\<lparr>m_readBuffer := m_readBuffer p @ chunk, p_reads := rs\<rparr>))"
          using Suc Cons by simp
        then show ?thesis using 1 None Cons ca by (simp add: reads_line_def pending_bytes_def split: list.splits)
      next
        case 2
        then have "reads_bytes (p_reads p) = []" using Cons ca by simp
        from reads_line_exit [OF this] show ?thesis using 2 None Cons ca by simp
      next
        case 3
        have "reads_line (p\<lparr>p_reads := rs\<rparr>) (ReadLine n (p\<lparr>p_reads := rs\<rparr>))" using Suc Cons by simp
        then show ?thesis using 3 None Cons ca by (simp add: reads_line_def pending_bytes_def split: list.splits)
      qed
    qed
  qed
qed simp

text \<open>A reader that calls \<^verbatim>\<open>ReadLine\<close> a number of times.\<close>

fun read_times :: "nat \<Rightarrow> nat \<Rightarrow> pipe \<Rightarrow> string option list" where
  "read_times n 0 p = []"
| "read_times n (Suc k) p = (case ReadLine n p of (l, p') \<Rightarrow> l # read_times n k p')"

text \<open>
  C28: However the child's output is cut into chunks, and whatever part of it arrives before
  or after its exit, the successive calls of ReadLine deliver exactly the lines of the whole
  output, without their carriage returns, and then nothing: no byte is lost, repeated or
  split across lines, as long as no call runs into its deadline.
\<close>

theorem lines_of_stream:
  assumes "length (p_reads p) < n"
  shows "read_times n (length (getlines (pending_bytes p)) + k) p
     = map (\<lambda>l. Some (strip_cr l)) (getlines (pending_bytes p)) @ replicate k None"
  using assms
proof (induction "length (getlines (pending_bytes p)) + k" arbitrary: p k)
  case (Suc m)
  obtain l p' where r: "ReadLine n p = (l, p')" by (cases "ReadLine n p")
  have reads: "reads_line p (l, p')" using ReadLine_reads [OF Suc.prems] r by simp
  then have len: "length (p_reads p') < n" using Suc.prems by (simp add: reads_line_def)
  show ?case
  proof (cases "getlines (pending_bytes p)")
    case Nil
    then obtain j where j: "k = Suc j" using Suc.hyps(2) by (cases k) auto
    have "getlines (pending_bytes p') = []" "l = None" using reads Nil by (simp_all add: reads_line_def)
    then show ?thesis using Suc.hyps(1) [of p' j] Suc.hyps(2) Nil j r len by simp
  next
    case (Cons x xs)
    have "getlines (pending_bytes p') = xs" "l = Some (strip_cr x)" using reads Cons by (simp_all add: reads_line_def)
    then show ?thesis using Suc.hyps(1) [of p' k] Suc.hyps(2) Cons r len by simp
  qed
qed simp

definition ex_pipe :: pipe where
  "ex_pipe = \<lparr>m_readBuffer = [], p_reads = [(''a'', True), ([], True), (''b'' @ [CR, NL] @ ''c'', True), ([], False)],
              p_drain = [''d'']\<rparr>"

theorem lines_of_stream_witness: "read_times 9 3 ex_pipe = [Some ''ab'', Some ''cd'', None]"
proof -
  have g: "getlines (pending_bytes ex_pipe) = [''ab'' @ [CR], ''cd'']" "length (p_reads ex_pipe) < 9"
    by (simp_all add: ex_pipe_def pending_bytes_def drained_def getlines_def)
  have "read_times 9 (length (getlines (pending_bytes ex_pipe)) + 1) ex_pipe
     = map (\<lambda>l. Some (strip_cr l)) (getlines (pending_bytes ex_pipe)) @ replicate 1 None"
    by (rule lines_of_stream [OF g(2)])
  then show ?thesis unfolding g(1) by (simp add: strip_cr_def numeral_3_eq_3 del: read_times.simps)
qed

end
