(* ===== verification/McpAdapter.thy ===== *)
theory McpAdapter
  imports PluginAdapters Subprocess
begin

text \<open>
  \<^verbatim>\<open>src/plugins/StdioMCPAdapter.cpp\<close>: a tool served by a child process that speaks MCP over
  its standard streams.  The process is behind the record \<open>pipe_ops\<close>: spawning (or the
  exception it throws), writing and reading a line, and whether it runs, all on a state \<open>'w\<close>
  of the outside world.  \<^verbatim>\<open>m_NextId\<close> is an unbounded integer here.
\<close>

section \<open>State and requests\<close>

definition kMaxRespawnRetries :: int where "kMaxRespawnRetries = 3"

record 'w pipe_ops =
  po_spawn :: "'w \<Rightarrow> bool \<times> 'w"
  po_write :: "string \<Rightarrow> 'w \<Rightarrow> bool \<times> 'w"
  po_read :: "'w \<Rightarrow> string option \<times> 'w"
  po_running :: "'w \<Rightarrow> bool"

record mcp_conf =
  mcf_json :: jlib
  mcf_plugin :: string
  mcf_tool :: string
  mcf_version :: string

record mcp_state =
  mc_Pipe :: bool
  mc_NextId :: int
  mc_RespawnCount :: int
  mc_Initialized :: bool
  mc_ShutdownRequested :: bool
  mc_InFlight :: "(string \<times> int) list"

definition mcp_fresh :: mcp_state where
  "mcp_fresh = \<lparr>mc_Pipe = False, mc_NextId = 1, mc_RespawnCount = 0, mc_Initialized = False,
     mc_ShutdownRequested = False, mc_InFlight = []\<rparr>"

definition rpc_request :: "int \<Rightarrow> string \<Rightarrow> json \<Rightarrow> json" where
  "rpc_request i m params =
     JObj [(''jsonrpc'', JStr ''2.0''), (''id'', JInt i), (''method'', JStr m), (''params'', params)]"

definition init_params :: "string \<Rightarrow> json" where
  "init_params version = JObj
     [(''protocolVersion'', JStr ''2024-11-05''), (''capabilities'', JObj []),
      (''clientInfo'', JObj [(''name'', JStr ''toolsmith''), (''version'', JStr version)])]"

definition initialized_note :: json where
  "initialized_note = JObj [(''jsonrpc'', JStr ''2.0''), (''method'', JStr ''notifications/initialized'')]"

text \<open>Writing a message: \<^verbatim>\<open>dump\<close> may throw.\<close>

definition write_msg :: "jlib \<Rightarrow> 'w pipe_ops \<Rightarrow> json \<Rightarrow> 'w \<Rightarrow> bool res \<times> 'w" where
  "write_msg J P msg w =
     (case jdump J msg of Inl e \<Rightarrow> (Inl e, w) | Inr d \<Rightarrow> (case po_write P d w of (ok, w') \<Rightarrow> (Inr ok, w')))"

section \<open>EnsureRunning\<close>

text \<open>The handshake with a process just spawned; an exception counts as a failure.\<close>

definition handshake :: "mcp_conf \<Rightarrow> 'w pipe_ops \<Rightarrow> mcp_state \<times> 'w \<Rightarrow> bool \<times> mcp_state \<times> 'w" where
  "handshake C P = (\<lambda>(st0, w0).
     let st = st0\<lparr>mc_NextId := mc_NextId st0 + 1\<rparr> in
     case write_msg (mcf_json C) P (rpc_request (mc_NextId st0) ''initialize'' (init_params (mcf_version C))) w0 of
       (Inr True, w1) \<Rightarrow>
         (case po_read P w1 of
            (None, w2) \<Rightarrow> (False, st, w2)
          | (Some response, w2) \<Rightarrow>
              (case jparse (mcf_json C) response of
                 None \<Rightarrow> (False, st, w2)
               | Some initResp \<Rightarrow>
                   if j_contains initResp ''error'' then (False, st, w2)
                   else (case write_msg (mcf_json C) P initialized_note w2 of
                       (Inl e, w3) \<Rightarrow> (False, st, w3)
                     | (Inr ok, w3) \<Rightarrow> (True, st\<lparr>mc_Initialized := True\<rparr>, w3))))
     | (r, w1) \<Rightarrow> (False, st, w1))"

definition EnsureRunning :: "mcp_conf \<Rightarrow> 'w pipe_ops \<Rightarrow> mcp_state \<times> 'w \<Rightarrow> bool \<times> mcp_state \<times> 'w" where
  "EnsureRunning C P = (\<lambda>(st, w).
     if mc_Pipe st \<and> po_running P w \<and> mc_Initialized st then (True, st, w)
     else if kMaxRespawnRetries \<le> mc_RespawnCount st then (False, st, w)
     else (case po_spawn P w of
         (False, w1) \<Rightarrow> (False, st, w1)
       | (True, w1) \<Rightarrow>
           handshake C P (st\<lparr>mc_Pipe := True, mc_RespawnCount := mc_RespawnCount st + 1\<rparr>, w1)))"

section \<open>SendRequest\<close>

text \<open>The reply made of a line the process wrote.\<close>

definition mcp_reply :: "jlib \<Rightarrow> string \<Rightarrow> json res" where
  "mcp_reply J response =
     (case jparse J response of
        None \<Rightarrow> Inr (tool_error (''Invalid JSON from MCP server: '' @ what JsonParseError))
      | Some result \<Rightarrow>
          if j_contains result ''error'' then
            bindE (value_str (j_at result ''error'') ''message'' ''Unknown error'') (\<lambda>msg. Inr (tool_error msg))
          else if j_contains result ''result'' then Inr (j_at result ''result'')
          else Inr result)"

definition mcp_msg :: "mcp_conf \<Rightarrow> string \<Rightarrow> string \<Rightarrow> json" where
  "mcp_msg C before after = tool_error (before @ [SQ] @ mcf_plugin C @ [SQ] @ after)"

definition mcp_forget :: "string \<Rightarrow> mcp_state \<Rightarrow> mcp_state" where
  "mcp_forget i st = (if i = [] then st else st\<lparr>mc_InFlight := AList.delete i (mc_InFlight st)\<rparr>)"

definition external_id :: "json \<Rightarrow> string res" where
  "external_id params = (case j_lookup params ''_requestId'' of None \<Rightarrow> Inr [] | Some i \<Rightarrow> get_string i)"

definition SendRequest ::
    "mcp_conf \<Rightarrow> 'w pipe_ops \<Rightarrow> string \<Rightarrow> json \<Rightarrow> mcp_state \<times> 'w \<Rightarrow> json res \<times> mcp_state \<times> 'w" where
  "SendRequest C P m params s =
     (case EnsureRunning C P s of
        (False, st, w) \<Rightarrow> (Inr (mcp_msg C ''MCP server '' '' is not running''), st, w)
      | (True, st, w) \<Rightarrow>
          let i = mc_NextId st; st1 = st\<lparr>mc_NextId := i + 1\<rparr> in
          (case external_id params of
             Inl e \<Rightarrow> (Inl e, st1, w)
           | Inr ext \<Rightarrow>
               let st2 = (if ext = [] then st1 else st1\<lparr>mc_InFlight := AList.update ext i (mc_InFlight st1)\<rparr>) in
               (case write_msg (mcf_json C) P (rpc_request i m params) w of
                  (Inl e, w1) \<Rightarrow> (Inl e, st2, w1)
                | (Inr False, w1) \<Rightarrow>
                    (Inr (mcp_msg C ''Failed to send request to '' []), (mcp_forget ext st2)\<lparr>mc_Initialized := False\<rparr>, w1)
                | (Inr True, w1) \<Rightarrow>
                    (case po_read P w1 of
                       (None, w2) \<Rightarrow>
                         (Inr (mcp_msg C ''Timeout waiting for response from '' []),
                          (mcp_forget ext st2)\<lparr>mc_Initialized := False\<rparr>, w2)
                     | (Some response, w2) \<Rightarrow> (mcp_reply (mcf_json C) response, mcp_forget ext st2, w2)))))"

section \<open>The tool\<close>

definition McpExecute :: "mcp_conf \<Rightarrow> 'w pipe_ops \<Rightarrow> json \<Rightarrow> mcp_state \<times> 'w \<Rightarrow> json res \<times> mcp_state \<times> 'w" where
  "McpExecute C P request s =
     (case value_str request ''_requestId'' [] of
        Inl e \<Rightarrow> (Inl e, s)
      | Inr requestId \<Rightarrow>
          if mc_ShutdownRequested (fst s)
          then (Inr (mcp_msg C ''MCP server '' '' is shutting down''), s)
          else (case script_args request of
              Inl e \<Rightarrow> (Inl e, s)
            | Inr args \<Rightarrow>
                SendRequest C P ''tools/call'' (JObj [(''name'', JStr (mcf_tool C)), (''arguments'', args)]) s))"

definition McpCancel :: "mcp_conf \<Rightarrow> 'w pipe_ops \<Rightarrow> string \<Rightarrow> mcp_state \<times> 'w \<Rightarrow> 'w" where
  "McpCancel C P requestId = (\<lambda>(st, w).
     if requestId = [] then w
     else (case map_of (mc_InFlight st) requestId of
         None \<Rightarrow> w
       | Some i \<Rightarrow>
           if mc_Pipe st \<and> po_running P w
           then snd (write_msg (mcf_json C) P (JObj [(''jsonrpc'', JStr ''2.0''), (''method'', JStr ''notifications/cancelled''),
                  (''params'', JObj [(''requestId'', JInt i)])]) w)
           else w))"

definition McpShutdown :: "mcp_state \<Rightarrow> mcp_state" where
  "McpShutdown st = st\<lparr>mc_ShutdownRequested := True, mc_Initialized := False, mc_Pipe := False\<rparr>"

definition mcp_metadata :: "mcp_conf \<Rightarrow> string \<Rightarrow> json \<Rightarrow> tool_metadata" where
  "mcp_metadata C description schema =
     script_metadata \<lparr>si_Name = mcf_tool C, si_Description = description, si_InputSchema = schema\<rparr>"

section \<open>Discovery\<close>

definition mcp_tool_item :: "json \<Rightarrow> script_tool_info list res" where
  "mcp_tool_item item =
     (case string_param item ''name'' of
        None \<Rightarrow> Inr []
      | Some name \<Rightarrow> bindE (value_str item ''description'' []) (\<lambda>desc.
          Inr [\<lparr>si_Name = name, si_Description = desc,
                si_InputSchema = (if is_object (j_at item ''inputSchema'') then j_at item ''inputSchema'' else JNull)\<rparr>]))"

definition mcp_listed :: "json \<Rightarrow> script_tool_info list" where
  "mcp_listed listResp =
     (if j_contains listResp ''error'' then []
      else (case bindE (value_json listResp ''result'' (JObj [])) (\<lambda>r.
                 bindE (value_json r ''tools'' (JArr [])) (\<lambda>ts. mapE mcp_tool_item (j_elems ts))) of
          Inr ts \<Rightarrow> concat ts | Inl e \<Rightarrow> []))"

definition McpDiscoverTools :: "jlib \<Rightarrow> 'w pipe_ops \<Rightarrow> string \<Rightarrow> 'w \<Rightarrow> script_tool_info list res" where
  "McpDiscoverTools J P version w0 =
     (case po_spawn P w0 of (False, w1) \<Rightarrow> Inr []
      | (True, w1) \<Rightarrow>
        (case write_msg J P (rpc_request 1 ''initialize'' (init_params version)) w1 of
           (Inl e, w2) \<Rightarrow> Inl e
         | (Inr False, w2) \<Rightarrow> Inr []
         | (Inr True, w2) \<Rightarrow>
             (case po_read P w2 of
                (None, w3) \<Rightarrow> Inr []
              | (Some response, w3) \<Rightarrow>
                  (case jparse J response of
                     None \<Rightarrow> Inr []
                   | Some initResp \<Rightarrow>
                       if j_contains initResp ''error'' then Inr []
                       else (case write_msg J P initialized_note w3 of
                           (Inl e, w4) \<Rightarrow> Inl e
                         | (Inr noted, w4) \<Rightarrow>
                             (case write_msg J P (rpc_request 2 ''tools/list'' (JObj [])) w4 of
                                (Inl e, w5) \<Rightarrow> Inl e
                              | (Inr False, w5) \<Rightarrow> Inr []
                              | (Inr True, w5) \<Rightarrow>
                                  (case po_read P w5 of
                                     (None, w6) \<Rightarrow> Inr []
                                   | (Some listing, w6) \<Rightarrow>
                                       (case jparse J listing of None \<Rightarrow> Inr [] | Some j \<Rightarrow> Inr (mcp_listed j)))))))))"

section \<open>How often a process is spawned\<close>

text \<open>The operations on a world that counts successful spawns.\<close>

definition counting :: "'w pipe_ops \<Rightarrow> (nat \<times> 'w) pipe_ops" where
  "counting P = \<lparr>po_spawn = \<lambda>(n, w). (case po_spawn P w of (ok, w') \<Rightarrow> (ok, (if ok then Suc n else n, w'))),
     po_write = \<lambda>d (n, w). (case po_write P d w of (ok, w') \<Rightarrow> (ok, (n, w'))),
     po_read = \<lambda>(n, w). (case po_read P w of (l, w') \<Rightarrow> (l, (n, w'))),
     po_running = \<lambda>(n, w). po_running P w\<rparr>"

definition spawns_ok :: "mcp_state \<times> nat \<times> 'w \<Rightarrow> bool" where
  "spawns_ok s \<longleftrightarrow> (case s of (st, n, w) \<Rightarrow> mc_RespawnCount st = int n \<and> n \<le> 3)"

lemma counting_write: "write_msg J (counting P) msg (n, w) = (r, n', w') \<Longrightarrow> n' = n"
  by (auto simp: write_msg_def counting_def split: sum.splits prod.splits)

lemma counting_read: "po_read (counting P) (n, w) = (r, n', w') \<Longrightarrow> n' = n"
  by (auto simp: counting_def split: prod.splits)

lemma spawns_handshake: "handshake C (counting P) (st, n, w) = (r, st', n', w') \<Longrightarrow> n' = n \<and> mc_RespawnCount st' = mc_RespawnCount st"
  by (auto simp: handshake_def Let_def dest!: counting_write counting_read
      split: prod.splits sum.splits option.splits bool.splits if_splits)

lemma spawns_ensure:
  assumes "spawns_ok (st, n, w)" "EnsureRunning C (counting P) (st, n, w) = (r, st', n', w')"
  shows "spawns_ok (st', n', w')"
proof (cases "mc_Pipe st \<and> po_running (counting P) (n, w) \<and> mc_Initialized st \<or> kMaxRespawnRetries \<le> mc_RespawnCount st")
  case True
  then show ?thesis using assms by (auto simp: EnsureRunning_def split: if_splits)
next
  case False
  then have n: "n < 3" using assms(1) by (auto simp: spawns_ok_def kMaxRespawnRetries_def)
  obtain ok w1 where p: "po_spawn P w = (ok, w1)" by (cases "po_spawn P w")
  then have "po_spawn (counting P) (n, w) = (ok, (if ok then Suc n else n, w1))" by (simp add: counting_def)
  then show ?thesis
    using assms False n by (cases ok) (auto simp: EnsureRunning_def spawns_ok_def dest!: spawns_handshake)
qed

lemma spawns_send:
  assumes "spawns_ok s" "SendRequest C (counting P) m params s = (r, s')"
  shows "spawns_ok s'"
proof -
  obtain st n w where s: "s = (st, n, w)" by (cases s)
  obtain up st1 n1 w1 where e: "EnsureRunning C (counting P) s = (up, st1, n1, w1)" by (cases "EnsureRunning C (counting P) s") auto
  have ok: "spawns_ok (st1, n1, w1)" using spawns_ensure [of st n w C P up st1 n1 w1] assms(1) e s by simp
  have f: "mc_RespawnCount (mcp_forget i x) = mc_RespawnCount x" for i x by (simp add: mcp_forget_def)
  show ?thesis
    using assms(2) ok e
    by (cases up) (auto simp: SendRequest_def spawns_ok_def Let_def f dest!: counting_write counting_read
        split: prod.splits sum.splits option.splits bool.splits if_splits)
qed

lemma spawns_execute:
  assumes "spawns_ok s" shows "spawns_ok (snd (McpExecute C (counting P) request s))"
proof -
  have "spawns_ok (snd (SendRequest C (counting P) m params s))" for m params
    using spawns_send [OF assms] by (metis prod.collapse)
  then show ?thesis using assms by (auto simp: McpExecute_def split: sum.split)
qed

text \<open>
  Over its whole life an adapter starts at most three processes, whatever is asked of it
  and however the processes behave.
\<close>

theorem mcp_spawn_bound:
  "spawns_ok (fold (\<lambda>q s. snd (McpExecute C (counting P) q s)) qs (mcp_fresh, 0, w))"
proof -
  have "spawns_ok s \<Longrightarrow> spawns_ok (fold (\<lambda>q s. snd (McpExecute C (counting P) q s)) qs s)" for s
    by (induction qs arbitrary: s) (simp_all add: spawns_execute)
  then show ?thesis by (simp add: spawns_ok_def mcp_fresh_def)
qed

section \<open>Cancelling\<close>

lemma in_flight_handshake: "handshake C P (st, w) = (r, st', w') \<Longrightarrow> mc_InFlight st' = mc_InFlight st"
  by (auto simp: handshake_def Let_def split: prod.splits sum.splits option.splits bool.splits if_splits)

lemma in_flight_ensure: "EnsureRunning C P (st, w) = (r, st', w') \<Longrightarrow> mc_InFlight st' = mc_InFlight st"
  by (auto simp: EnsureRunning_def dest!: in_flight_handshake split: if_splits prod.splits bool.splits)

text \<open>The parameters a tool call sends have no member \<^verbatim>\<open>_requestId\<close>.\<close>

lemma call_external: "external_id (JObj [(''name'', JStr n), (''arguments'', args)]) = Inr []"
  by (simp add: external_id_def)

lemma in_flight_call:
  "mc_InFlight (fst (snd (SendRequest C P m (JObj [(''name'', JStr n), (''arguments'', args)]) (st, w)))) = mc_InFlight st"
proof -
  obtain up st1 w1 where e: "EnsureRunning C P (st, w) = (up, st1, w1)" by (cases "EnsureRunning C P (st, w)")
  show ?thesis
    using in_flight_ensure [OF e]
    by (cases up) (auto simp: SendRequest_def e call_external Let_def mcp_forget_def
        split: prod.split sum.split option.split bool.split)
qed

lemma in_flight_execute: "mc_InFlight (fst (snd (McpExecute C P q s))) = mc_InFlight (fst s)"
  by (cases s) (simp add: McpExecute_def in_flight_call split: sum.split)

text \<open>
  A cancel notification never reaches an MCP child: whatever calls the adapter has made,
  it remembers none of them as in flight, so that cancelling any id writes nothing.  (A call
  passes only its name and arguments on, and not the id that \<^verbatim>\<open>SendRequest\<close> looks for.)
\<close>

theorem mcp_cancel_writes_nothing:
  "McpCancel C P requestId (fold (\<lambda>q s. snd (McpExecute C P q s)) qs (mcp_fresh, w))
   = snd (fold (\<lambda>q s. snd (McpExecute C P q s)) qs (mcp_fresh, w))"
proof -
  have "mc_InFlight (fst (fold (\<lambda>q s. snd (McpExecute C P q s)) qs s)) = mc_InFlight (fst s)" for s
    by (induction qs arbitrary: s) (simp_all add: in_flight_execute)
  from this [of "(mcp_fresh, w)"]
  have none: "mc_InFlight (fst (fold (\<lambda>q s. snd (McpExecute C P q s)) qs (mcp_fresh, w))) = []"
    by (simp add: mcp_fresh_def)
  have "mc_InFlight (fst s) = [] \<Longrightarrow> McpCancel C P requestId s = snd s" for s :: "mcp_state \<times> 'a"
    by (cases s) (simp add: McpCancel_def)
  then show ?thesis using none by simp
qed

section \<open>Replies and ids\<close>

text \<open>A child that runs on and whose output is a list of lines.\<close>

definition lines_pipe :: "string list pipe_ops" where
  "lines_pipe = \<lparr>po_spawn = \<lambda>w. (False, w), po_write = \<lambda>d w. (True, w),
     po_read = \<lambda>w. (case w of [] \<Rightarrow> (None, []) | l # ls \<Rightarrow> (Some l, ls)), po_running = \<lambda>w. True\<rparr>"

fun mcp_calls :: "mcp_conf \<Rightarrow> 'w pipe_ops \<Rightarrow> json list \<Rightarrow> mcp_state \<times> 'w \<Rightarrow> json res list" where
  "mcp_calls C P [] s = []"
| "mcp_calls C P (q # qs) s = (case McpExecute C P q s of (r, s') \<Rightarrow> r # mcp_calls C P qs s')"

definition mcp_up :: "mcp_state \<Rightarrow> bool" where
  "mcp_up st \<longleftrightarrow> mc_Pipe st \<and> mc_Initialized st \<and> \<not> mc_ShutdownRequested st"

definition well_typed_call :: "json \<Rightarrow> bool" where
  "well_typed_call q \<longleftrightarrow> \<not> isl (value_str q ''_requestId'' []) \<and> \<not> isl (script_args q)"

lemma call_reply:
  assumes "mcp_up st" "well_typed_call q" "\<And>j. jdump (mcf_json C) j = Inr (d j)"
  shows "\<exists>st'. mcp_up st' \<and> McpExecute C lines_pipe q (st, l # ls) = (mcp_reply (mcf_json C) l, st', ls)"
proof -
  obtain i args where q: "value_str q ''_requestId'' [] = Inr i" "script_args q = Inr args"
    using assms(2) by (cases "value_str q ''_requestId'' []"; cases "script_args q") (auto simp: well_typed_call_def)
  have "EnsureRunning C lines_pipe (st, l # ls) = (True, st, l # ls)"
    using assms(1) by (simp add: EnsureRunning_def mcp_up_def lines_pipe_def)
  then show ?thesis
    using assms(1) q by (simp add: McpExecute_def SendRequest_def call_external write_msg_def assms(3) mcp_forget_def
        lines_pipe_def mcp_up_def Let_def)
qed

text \<open>
  The replies of an MCP child are matched with the calls by their order alone: the k-th
  call is answered by the k-th line the child writes, whatever id that line carries.  A child
  that writes one notification shifts every later answer by one call.
\<close>

theorem mcp_replies_by_order:
  assumes "mcp_up st" "list_all well_typed_call qs" "\<And>j. jdump (mcf_json C) j = Inr (d j)"
    and "length qs = length rs"
  shows "mcp_calls C lines_pipe qs (st, rs @ ls) = map (mcp_reply (mcf_json C)) rs"
  using assms(4,1,2)
proof (induction arbitrary: st rule: list_induct2)
  case (Cons q qs r rs)
  from Cons.prems have q: "mcp_up st" "well_typed_call q" by simp_all
  from call_reply [OF q assms(3), of r "rs @ ls"] obtain st' where
    "mcp_up st'" "McpExecute C lines_pipe q (st, r # rs @ ls) = (mcp_reply (mcf_json C) r, st', rs @ ls)"
    by blast
  then show ?case using Cons by simp
qed simp

text \<open>A library whose parser knows three lines.\<close>

definition ex_mcp_json :: jlib where
  "ex_mcp_json = \<lparr>jparse = \<lambda>s. if s = ''note'' then Some (JObj [(''method'', JStr ''notifications/progress'')])
       else if s = ''r1'' then Some (JObj [(''id'', JInt 1), (''result'', JStr ''one'')]) else None,
     jdump = \<lambda>j. Inr ''d''\<rparr>"

definition ex_mcp :: mcp_conf where
  "ex_mcp = \<lparr>mcf_json = ex_mcp_json, mcf_plugin = ''p'', mcf_tool = ''t'', mcf_version = ''1''\<rparr>"

theorem mcp_replies_by_order_witness:
  "mcp_calls ex_mcp lines_pipe [JObj [], JObj []]
     (mcp_fresh\<lparr>mc_Pipe := True, mc_Initialized := True\<rparr>, [''note'', ''r1''])
   = [Inr (JObj [(''method'', JStr ''notifications/progress'')]), Inr (JStr ''one'')]"
proof -
  let ?st = "mcp_fresh\<lparr>mc_Pipe := True, mc_Initialized := True\<rparr>"
  have up: "mcp_up ?st" by (simp add: mcp_up_def mcp_fresh_def)
  have qs: "list_all well_typed_call [JObj [], JObj []]"
    by (simp add: well_typed_call_def script_args_def value_defs)
  have d: "jdump (mcf_json ex_mcp) j = Inr ''d''" for j by (simp add: ex_mcp_def ex_mcp_json_def)
  have "mcp_calls ex_mcp lines_pipe [JObj [], JObj []] (?st, [''note'', ''r1''] @ [])
      = map (mcp_reply (mcf_json ex_mcp)) [''note'', ''r1'']"
    by (rule mcp_replies_by_order [OF up qs d]) simp
  then show ?thesis by (simp add: mcp_reply_def ex_mcp_def ex_mcp_json_def j_contains_def j_at_def)
qed

end
