(* ===== verification/Discovery.thy ===== *)
theory Discovery
  imports SkillTools
begin

text \<open>
  \<^verbatim>\<open>src/http/HttplibClient.cpp\<close>, \<^verbatim>\<open>src/discovery/McpServerRegistry.cpp\<close>,
  \<^verbatim>\<open>src/discovery/CompositeCommand.cpp\<close> and \<^verbatim>\<open>src/commands/EchoCommand.cpp\<close>: the HTTP client,
  the list of remote servers, and the tools remote and echo.  The \<^verbatim>\<open>httplib\<close> library is
  the parameter \<open>hl\<close>; \<^verbatim>\<open>std::sort\<close>, which need not be stable, is the parameter \<open>srt\<close>.  The regular
  expressions of URLs are written out: their classes leave no choice to the matcher.
\<close>

section \<open>URLs\<close>

record url_parts =
  u_Scheme :: string
  u_Host :: string
  u_Port :: int
  u_Path :: string

text \<open>\<^verbatim>\<open>^(https?)://\<close>\<close>

definition url_scheme :: "string \<Rightarrow> (string \<times> string) option" where
  "url_scheme s =
     (if prefix ''https://'' s then Some (''https'', drop 8 s)
      else if prefix ''http://'' s then Some (''http'', drop 7 s) else None)"

text \<open>\<^verbatim>\<open>(/.*)?$\<close>: a dot matches no line terminator.\<close>

definition url_path :: "string \<Rightarrow> string option option" where
  "url_path s =
     (if s = [] then Some None
      else if hd s = CHR ''/'' \<and> NL \<notin> set s \<and> CR \<notin> set s then Some (Some s) else None)"

text \<open>\<^verbatim>\<open>(:\d+)?(/.*)?$\<close>\<close>

definition url_rest :: "string \<Rightarrow> (string option \<times> string option) option" where
  "url_rest s =
     (if s \<noteq> [] \<and> hd s = CHR '':'' then
        let ds = takeWhile isdigit (tl s) in
        if ds = [] then None else map_option (\<lambda>p. (Some ds, p)) (url_path (dropWhile isdigit (tl s)))
      else map_option (\<lambda>p. (None, p)) (url_path s))"

definition parse_host :: "(char \<Rightarrow> bool) \<Rightarrow> string \<Rightarrow> (string \<times> string \<times> string option \<times> string option) option" where
  "parse_host hostchar url =
     (case url_scheme url of None \<Rightarrow> None
      | Some (scheme, s) \<Rightarrow>
          let host = takeWhile hostchar s in
          if host = [] then None
          else map_option (\<lambda>(port, p). (scheme, host, port, p)) (url_rest (dropWhile hostchar s)))"

definition ParseUrl :: "string \<Rightarrow> url_parts res" where
  "ParseUrl url =
     (case parse_host (\<lambda>c. c \<noteq> CHR ''/'' \<and> c \<noteq> CHR '':'') url of
        None \<Rightarrow> Inl (InvalidArgument (''Invalid URL: '' @ url))
      | Some (scheme, host, port, p) \<Rightarrow>
          bindE (case port of
              Some ds \<Rightarrow> (case stoi ds of None \<Rightarrow> Inl (ForeignError ''stoi'') | Some n \<Rightarrow> Inr n)
            | None \<Rightarrow> Inr (if scheme = ''https'' then 443 else 80)) (\<lambda>n.
          Inr \<lparr>u_Scheme = scheme, u_Host = host, u_Port = n,
               u_Path = (case p of None \<Rightarrow> ''/'' | Some q \<Rightarrow> q)\<rparr>))"

definition base_url :: "url_parts \<Rightarrow> string" where
  "base_url u = u_Scheme u @ ''://'' @ u_Host u @ '':'' @ int_str (u_Port u)"

text \<open>The library: base URL, path, body (none for a GET) and timeout to a response, if there is one.\<close>

type_synonym httplib = "string \<Rightarrow> string \<Rightarrow> string option \<Rightarrow> int \<Rightarrow> http_response option"

definition http_call :: "httplib \<Rightarrow> string \<Rightarrow> string option \<Rightarrow> int \<Rightarrow> http_response res" where
  "http_call hl url body timeoutSeconds =
     bindE (ParseUrl url) (\<lambda>u.
       Inr (case hl (base_url u) (u_Path u) body timeoutSeconds of
          Some r \<Rightarrow> r
        | None \<Rightarrow> \<lparr>h_StatusCode = 0, h_Body = ''Connection failed''\<rparr>))"

definition Post :: "httplib \<Rightarrow> string \<Rightarrow> string \<Rightarrow> int \<Rightarrow> http_response res" where
  "Post hl url body = http_call hl url (Some body)"

definition Get :: "httplib \<Rightarrow> string \<Rightarrow> int \<Rightarrow> http_response res" where
  "Get hl url = http_call hl url None"

section \<open>The registry of servers\<close>

record server_entry =
  e_Name :: string
  e_Url :: string
  e_Capabilities :: "string list"
  e_Priority :: int
  e_TimeoutSeconds :: int

definition url_host_char :: "char \<Rightarrow> bool" where
  "url_host_char c \<longleftrightarrow> islower c \<or> isupper c \<or> isdigit c \<or> c = CHR ''.'' \<or> c = CHR ''-''"

definition IsValidUrl :: "string \<Rightarrow> bool" where
  "IsValidUrl url \<longleftrightarrow> parse_host url_host_char url \<noteq> None"

text \<open>One element of the array; \<open>Inr []\<close> is a server skipped for its URL.\<close>

definition parse_server :: "json \<Rightarrow> server_entry list res" where
  "parse_server s =
     bindE (value_str s ''name'' []) (\<lambda>nm.
     bindE (value_str s ''url'' []) (\<lambda>url.
     bindE (value_int s ''priority'' 1) (\<lambda>prio.
     bindE (value_int s ''timeout_seconds'' 30) (\<lambda>t.
       if \<not> IsValidUrl url then Inr []
       else bindE (case j_lookup s ''capabilities'' of
               Some (JArr cs) \<Rightarrow> mapE get_string cs | _ \<Rightarrow> Inr []) (\<lambda>caps.
         Inr [\<lparr>e_Name = nm, e_Url = url, e_Capabilities = caps, e_Priority = prio, e_TimeoutSeconds = t\<rparr>])))))"

definition LoadFromFile :: "jlib \<Rightarrow> string option \<Rightarrow> server_entry list res" where
  "LoadFromFile J file =
     (case file of
        None \<Rightarrow> Inr []
      | Some s \<Rightarrow>
          (case jparse J s of
             None \<Rightarrow> Inl JsonParseError
           | Some j \<Rightarrow>
               (case j_lookup j ''servers'' of
                  Some (JArr ss) \<Rightarrow> bindE (mapE parse_server ss) (\<lambda>es. Inr (concat es))
                | _ \<Rightarrow> Inl (RuntimeError (''Invalid mcp_servers.json: missing '' @ [SQ] @ ''servers'' @ [SQ] @ '' array'')))))"

definition AddServer :: "server_entry \<Rightarrow> server_entry list \<Rightarrow> server_entry list res" where
  "AddServer e servers =
     (if \<not> IsValidUrl (e_Url e) then Inl (InvalidArgument (''Invalid server URL: '' @ e_Url e))
      else Inr (servers @ [e]))"

definition GetServersForCapability ::
    "(server_entry list \<Rightarrow> server_entry list) \<Rightarrow> server_entry list \<Rightarrow> string \<Rightarrow> server_entry list" where
  "GetServersForCapability srt servers capability =
     srt (filter (\<lambda>s. list_ex (\<lambda>c. c = capability) (e_Capabilities s)) servers)"

definition GetBestServerFor ::
    "(server_entry list \<Rightarrow> server_entry list) \<Rightarrow> server_entry list \<Rightarrow> string \<Rightarrow> server_entry option" where
  "GetBestServerFor srt servers capability =
     (case GetServersForCapability srt servers capability of [] \<Rightarrow> None | s # ss \<Rightarrow> Some s)"

definition HealthCheck :: "(string \<Rightarrow> int \<Rightarrow> http_response res) \<Rightarrow> server_entry \<Rightarrow> bool" where
  "HealthCheck get server =
     (case get (e_Url server @ ''/health'') 5 of Inl e \<Rightarrow> False | Inr r \<Rightarrow> h_StatusCode r = 200)"

definition ServersJson :: "server_entry list \<Rightarrow> json" where
  "ServersJson servers = JArr (map (\<lambda>s. JObj [(''name'', JStr (e_Name s)), (''url'', JStr (e_Url s)),
     (''capabilities'', JArr (map JStr (e_Capabilities s))), (''priority'', JInt (e_Priority s))]) servers)"

section \<open>The tools remote and echo\<close>

definition forward_request :: "json \<Rightarrow> string \<Rightarrow> json res" where
  "forward_request payload capability =
     bindE (value_json payload ''request'' (JObj [])) (\<lambda>q.
       if j_contains q ''command'' then Inr q else j_set q ''command'' (JStr capability))"

definition routed_reply :: "jlib \<Rightarrow> server_entry \<Rightarrow> http_response \<Rightarrow> json" where
  "routed_reply J server resp =
     (if h_StatusCode resp \<noteq> 200 then
        JObj [(''status'', JStr ''error''), (''error'', JStr (''Remote server returned '' @ int_str (h_StatusCode resp))),
              (''server'', JStr (e_Name server))]
      else (case jparse J (h_Body resp) of
          None \<Rightarrow> fail_reply ''Invalid response from remote server''
        | Some parsed \<Rightarrow>
            (case j_set parsed ''_routed_to'' (JStr (e_Name server)) of
               Inl e \<Rightarrow> fail_reply ''Invalid response from remote server'' | Inr j \<Rightarrow> j)))"

definition CompositeCommand ::
    "jlib \<Rightarrow> (server_entry list \<Rightarrow> server_entry list) \<Rightarrow> (string \<Rightarrow> string \<Rightarrow> int \<Rightarrow> http_response res)
     \<Rightarrow> server_entry list \<Rightarrow> json \<Rightarrow> json res" where
  "CompositeCommand J srt post servers request =
     (if \<not> j_contains request ''payload'' \<or> \<not> j_contains (j_at request ''payload'') ''capability''
      then Inr (fail_reply (''Missing '' @ [SQ] @ ''capability'' @ [SQ] @ '' in payload''))
      else bindE (get_string (j_at (j_at request ''payload'') ''capability'')) (\<lambda>capability.
        case GetBestServerFor srt servers capability of
          None \<Rightarrow> Inr (fail_reply (''No server found for capability: '' @ capability))
        | Some server \<Rightarrow>
            bindE (forward_request (j_at request ''payload'') capability) (\<lambda>q.
            bindE (jdump J q) (\<lambda>body.
            bindE (post (e_Url server @ ''/mcp'') body (e_TimeoutSeconds server)) (\<lambda>resp.
              Inr (routed_reply J server resp))))))"

definition remote_metadata :: tool_metadata where
  "remote_metadata = \<lparr>m_Name = ''remote'', m_Description = ''Forward request to a remote MCP server by capability'',
     m_InputSchema = JObj [(''type'', JStr ''object''),
       (''properties'', JObj [
          (''capability'', JObj [(''type'', JStr ''string''), (''description'', JStr ''The capability to route to'')]),
          (''request'', JObj [(''type'', JStr ''object''), (''description'', JStr ''The request payload to forward'')])]),
       (''required'', JArr [JStr ''capability''])],
     m_DefaultModel = [], m_DefaultParameters = JNull, m_Source = BuiltIn, m_Hidden = False\<rparr>"

definition EchoCommand :: "json \<Rightarrow> json res" where
  "EchoCommand request = Inr (JObj [(''status'', JStr ''ok''), (''echo'', request)])"

definition echo_metadata :: "bool \<Rightarrow> tool_metadata" where
  "echo_metadata hidden = \<lparr>m_Name = ''echo'', m_Description = ''Echo back the input message'',
     m_InputSchema = JObj [(''type'', JStr ''object''),
       (''properties'', JObj [(''message'', JObj [(''type'', JStr ''string''), (''description'', JStr ''The message to echo back'')])]),
       (''required'', JArr [JStr ''message''])],
     m_DefaultModel = [], m_DefaultParameters = JNull, m_Source = BuiltIn, m_Hidden = hidden\<rparr>"

section \<open>URLs, rendered and parsed\<close>

definition render_url :: "url_parts \<Rightarrow> string" where
  "render_url u = base_url u @ u_Path u"

definition wf_url :: "url_parts \<Rightarrow> bool" where
  "wf_url u \<longleftrightarrow> u_Scheme u \<in> {''http'', ''https''} \<and> u_Host u \<noteq> []
     \<and> CHR ''/'' \<notin> set (u_Host u) \<and> CHR '':'' \<notin> set (u_Host u)
     \<and> 0 \<le> u_Port u \<and> u_Port u \<le> int_max
     \<and> u_Path u \<noteq> [] \<and> hd (u_Path u) = CHR ''/'' \<and> NL \<notin> set (u_Path u) \<and> CR \<notin> set (u_Path u)"

lemma takeWhile_stop: "\<forall>c\<in>set a. P c \<Longrightarrow> b \<noteq> [] \<Longrightarrow> \<not> P (hd b) \<Longrightarrow> takeWhile P (a @ b) = a \<and> dropWhile P (a @ b) = b"
  by (induction a) (auto simp: neq_Nil_conv)

lemma int_str_nat: "0 \<le> i \<Longrightarrow> int_str i = nat_str (nat i)"
  by (simp add: int_str_def)

lemma url_rest_port:
  assumes "0 \<le> n" "q \<noteq> []" "hd q = CHR ''/''" "NL \<notin> set q" "CR \<notin> set q"
  shows "url_rest ('':'' @ int_str n @ q) = Some (Some (int_str n), Some q)"
proof -
  have d: "\<forall>c\<in>set (int_str n). isdigit c" "int_str n \<noteq> []"
    using assms(1) nat_str_digits [of "nat n"] nat_str_nonempty [of "nat n"] by (auto simp: int_str_nat list_all_iff)
  have "\<not> isdigit (hd q)" by (simp add: assms(3) isdigit_def uchar_def)
  with takeWhile_stop [OF d(1) assms(2)] show ?thesis
    using d(2) assms by (simp add: url_rest_def url_path_def Let_def)
qed

lemma url_scheme_render: "s \<in> {''http'', ''https''} \<Longrightarrow> url_scheme (s @ ''://'' @ r) = Some (s, r)"
  by (auto simp: url_scheme_def)

text \<open>
  A URL written from its parts (scheme, host, port and path) is parsed back to the same
  parts, and the base URL and path that are handed to the HTTP library put together give the
  URL again.
\<close>

theorem url_roundtrip:
  assumes "wf_url u"
  shows "ParseUrl (render_url u) = Inr u"
proof -
  have h: "\<forall>c\<in>set (u_Host u). c \<noteq> CHR ''/'' \<and> c \<noteq> CHR '':''" using assms by (auto simp: wf_url_def)
  let ?r = "'':'' @ int_str (u_Port u) @ u_Path u"
  have tw: "takeWhile (\<lambda>c. c \<noteq> CHR ''/'' \<and> c \<noteq> CHR '':'') (u_Host u @ ?r) = u_Host u
      \<and> dropWhile (\<lambda>c. c \<noteq> CHR ''/'' \<and> c \<noteq> CHR '':'') (u_Host u @ ?r) = ?r"
    by (rule takeWhile_stop [OF h]) simp_all
  have rest: "url_rest ?r = Some (Some (int_str (u_Port u)), Some (u_Path u))"
    using assms by (intro url_rest_port) (auto simp: wf_url_def)
  have st: "stoi (int_str (u_Port u)) = Some (u_Port u)"
    using assms stoi_nat_str [of "nat (u_Port u)"] by (simp add: wf_url_def int_str_nat)
  have "parse_host (\<lambda>c. c \<noteq> CHR ''/'' \<and> c \<noteq> CHR '':'') (u_Scheme u @ ''://'' @ u_Host u @ ?r)
      = Some (u_Scheme u, u_Host u, Some (int_str (u_Port u)), Some (u_Path u))"
    using assms tw rest url_scheme_render [of "u_Scheme u" "u_Host u @ ?r"] by (simp add: parse_host_def wf_url_def Let_def)
  then show ?thesis using st by (simp add: ParseUrl_def render_url_def base_url_def)
qed

theorem url_roundtrip_witness:
  "ParseUrl ''https://h.x:8443/mcp'' = Inr \<lparr>u_Scheme = ''https'', u_Host = ''h.x'', u_Port = 8443, u_Path = ''/mcp''\<rparr>"
proof -
  let ?u = "\<lparr>u_Scheme = ''https'', u_Host = ''h.x'', u_Port = 8443, u_Path = ''/mcp''\<rparr>"
  have "wf_url ?u" by (simp add: wf_url_def int_max_def)
  moreover have "render_url ?u = ''https://h.x:8443/mcp''"
    by (simp add: render_url_def base_url_def int_str_def nat_str.simps digit_char_def char_of_def bit_Suc_0_iff)
  ultimately show ?thesis using url_roundtrip [of ?u] by simp
qed

section \<open>The best server\<close>

text \<open>What \<^verbatim>\<open>std::sort\<close> promises for the comparison of priorities.\<close>

definition sorts_by_priority :: "(server_entry list \<Rightarrow> server_entry list) \<Rightarrow> bool" where
  "sorts_by_priority srt \<longleftrightarrow> (\<forall>es. mset (srt es) = mset es \<and> sorted (map e_Priority (srt es)))"

definition capable :: "server_entry list \<Rightarrow> string \<Rightarrow> server_entry set" where
  "capable servers capability = {s \<in> set servers. capability \<in> set (e_Capabilities s)}"

definition best_servers :: "server_entry list \<Rightarrow> string \<Rightarrow> server_entry set" where
  "best_servers servers capability =
     {s \<in> capable servers capability. \<forall>t\<in>capable servers capability. e_Priority s \<le> e_Priority t}"

lemma capable_filter: "set (filter (\<lambda>s. list_ex (\<lambda>c. c = capability) (e_Capabilities s)) servers) = capable servers capability"
  by (auto simp: capable_def list_ex_iff)

lemma best_server:
  assumes "sorts_by_priority srt"
  shows "case GetBestServerFor srt servers capability of
      None \<Rightarrow> capable servers capability = {} | Some s \<Rightarrow> s \<in> best_servers servers capability"
proof -
  let ?fs = "filter (\<lambda>s. list_ex (\<lambda>c. c = capability) (e_Capabilities s)) servers"
  have m: "set (srt ?fs) = capable servers capability"
    using assms capable_filter by (metis sorts_by_priority_def set_mset_mset)
  have s: "sorted (map e_Priority (srt ?fs))" using assms by (simp add: sorts_by_priority_def)
  show ?thesis
  proof (cases "srt ?fs")
    case Nil
    then show ?thesis using m by (simp add: GetBestServerFor_def GetServersForCapability_def)
  next
    case (Cons x xs)
    then show ?thesis using m s by (auto simp: GetBestServerFor_def GetServersForCapability_def best_servers_def)
  qed
qed

text \<open>
  The remote tool contacts, for a request, at most one server, which offers the capability
  and has the least priority number of those that do: two networks that agree on the \<^verbatim>\<open>/mcp\<close>
  addresses of those servers cannot be told apart by its reply.
\<close>

theorem remote_contacts_best_only:
  assumes "sorts_by_priority srt"
    and "\<And>capability s body t. s \<in> best_servers servers capability \<Longrightarrow> post (e_Url s @ ''/mcp'') body t = post' (e_Url s @ ''/mcp'') body t"
  shows "CompositeCommand J srt post servers request = CompositeCommand J srt post' servers request"
proof -
  have "(case GetBestServerFor srt servers cap of None \<Rightarrow> Inr (fail_reply (''No server found for capability: '' @ cap))
      | Some server \<Rightarrow> bindE (forward_request p cap) (\<lambda>q. bindE (jdump J q) (\<lambda>body.
            bindE (post (e_Url server @ ''/mcp'') body (e_TimeoutSeconds server)) (\<lambda>resp. Inr (routed_reply J server resp)))))
    = (case GetBestServerFor srt servers cap of None \<Rightarrow> Inr (fail_reply (''No server found for capability: '' @ cap))
      | Some server \<Rightarrow> bindE (forward_request p cap) (\<lambda>q. bindE (jdump J q) (\<lambda>body.
            bindE (post' (e_Url server @ ''/mcp'') body (e_TimeoutSeconds server)) (\<lambda>resp. Inr (routed_reply J server resp)))))"
    for cap p
    using best_server [OF assms(1), of servers cap] assms(2)
    by (cases "GetBestServerFor srt servers cap") simp_all
  then show ?thesis by (simp add: CompositeCommand_def)
qed

lemma sort_key_priority: "sorts_by_priority (sort_key e_Priority)"
  by (simp add: sorts_by_priority_def)

definition ex_slow :: server_entry where
  "ex_slow = \<lparr>e_Name = ''slow'', e_Url = ''http://b'', e_Capabilities = [''x''], e_Priority = 5, e_TimeoutSeconds = 9\<rparr>"

definition ex_fast :: server_entry where
  "ex_fast = \<lparr>e_Name = ''fast'', e_Url = ''http://a'', e_Capabilities = [''x''], e_Priority = 1, e_TimeoutSeconds = 9\<rparr>"

lemma ex_best: "s \<in> best_servers [ex_slow, ex_fast] capability \<Longrightarrow> e_Url s = ''http://a''"
proof -
  assume b: "s \<in> best_servers [ex_slow, ex_fast] capability"
  then have c: "capability \<in> set (e_Capabilities s)" and "s = ex_slow \<or> s = ex_fast"
    by (simp_all add: best_servers_def capable_def)
  then consider "s = ex_fast" | "s = ex_slow" "capability = ''x''" by (auto simp: ex_slow_def [THEN arg_cong, of e_Capabilities])
  then show ?thesis
  proof cases
    case 1
    then show ?thesis by (simp add: ex_fast_def)
  next
    case 2
    then have "ex_fast \<in> capable [ex_slow, ex_fast] capability" by (simp add: capable_def ex_fast_def [THEN arg_cong, of e_Capabilities])
    then have "e_Priority s \<le> e_Priority ex_fast" using b by (simp add: best_servers_def)
    then show ?thesis using 2 by (simp add: ex_slow_def ex_fast_def)
  qed
qed

definition ex_request :: json where
  "ex_request = JObj [(''payload'', JObj [(''capability'', JStr ''x'')])]"

theorem remote_contacts_best_only_witness:
  "CompositeCommand ex_dump (sort_key e_Priority) (\<lambda>u b t. Inr \<lparr>h_StatusCode = 503, h_Body = []\<rparr>) [ex_slow, ex_fast] ex_request
   = CompositeCommand ex_dump (sort_key e_Priority)
       (\<lambda>u b t. if u = ''http://b/mcp'' then Inl UnknownException else Inr \<lparr>h_StatusCode = 503, h_Body = []\<rparr>) [ex_slow, ex_fast] ex_request"
proof (rule remote_contacts_best_only [OF sort_key_priority])
  fix capability s and body :: string and t :: int
  assume "s \<in> best_servers [ex_slow, ex_fast] capability"
  then have "e_Url s = ''http://a''" by (rule ex_best)
  then show "Inr \<lparr>h_StatusCode = 503, h_Body = []\<rparr>
      = (if e_Url s @ ''/mcp'' = ''http://b/mcp'' then Inl UnknownException else Inr \<lparr>h_StatusCode = 503, h_Body = []\<rparr>)" by simp
qed

end
