(* ===== verification/ServerTools.thy ===== *)
theory ServerTools
  imports CoreToolsFacts Discovery ScriptLoader ProtocolHandler
begin

text \<open>
  Every tool a server can hold, put together: the table's handles are the values of
  \<open>server_tool\<close>, one constructor per class that implements \<^verbatim>\<open>ICommandStrategy\<close>
  (\<^verbatim>\<open>include/commands/ICommandStrategy.h\<close>), and \<open>server_strategy\<close> sends each call to the model of
  that class.  The world has the state of the core tools and that of the plugin adapters: a
  native adapter's and an MCP adapter's by tool name, and the call counter that all script
  adapters share.
\<close>

datatype server_tool =
    CoreT core_tool
  | EchoT bool
  | LlmT
  | RemoteT
  | SkillT skill_def ToolSource
  | NativeT dl_plugin plugin_tool
  | ScriptT string string string script_tool_info
  | McpT string string "string list" script_tool_info

record 'w plugin_states =
  ps_native :: "string \<Rightarrow> native_state"
  ps_counter :: nat
  ps_cancelled :: "string \<Rightarrow> string set"
  ps_mcp :: "string \<Rightarrow> mcp_state \<times> 'w"

type_synonym 'w world = "core_world \<times> 'w plugin_states"

record 'w tool_env =
  te_core :: env
  te_json :: jlib
  te_provider :: "llm_request \<Rightarrow> llm_response res"
  te_post :: "string \<Rightarrow> string \<Rightarrow> int \<Rightarrow> http_response res"
  te_servers :: "server_entry list"
  te_sort :: "server_entry list \<Rightarrow> server_entry list"
  te_popen :: "string \<Rightarrow> (string list \<times> int) option"
  te_late :: "dl_plugin \<Rightarrow> string \<Rightarrow> json \<Rightarrow> bool"
  te_script :: script_env
  te_pipe :: "'w pipe_ops"
  te_version :: string

definition native_call :: "'w tool_env \<Rightarrow> dl_plugin \<Rightarrow> plugin_tool \<Rightarrow> json \<Rightarrow> 'w plugin_states \<Rightarrow> json res \<times> 'w plugin_states" where
  "native_call X p t request ps =
     (case NativePluginAdapter (pt_Name t) kDefaultTimeoutSeconds
             (\<lambda>q. (dl_outcome (te_json X) p (pt_Name t) q, te_late X p (pt_Name t) q)) request (ps_native ps (pt_Name t)) of
        (reply, st) \<Rightarrow> (reply, ps\<lparr>ps_native := (ps_native ps)(pt_Name t := st)\<rparr>))"

definition script_call ::
    "'w tool_env \<Rightarrow> string \<Rightarrow> string \<Rightarrow> script_tool_info \<Rightarrow> json \<Rightarrow> 'w plugin_states \<Rightarrow> json res \<times> 'w plugin_states" where
  "script_call X runtime entrypoint t request ps =
     (case ScriptPluginAdapter (te_script X) runtime entrypoint (si_Name t) request
             \<lparr>s_Counter = ps_counter ps, cancelledRequests = ps_cancelled ps (si_Name t)\<rparr> of
        (reply, st) \<Rightarrow> (reply, ps\<lparr>ps_counter := s_Counter st,
                               ps_cancelled := (ps_cancelled ps)(si_Name t := cancelledRequests st)\<rparr>))"

definition mcp_call :: "'w tool_env \<Rightarrow> string \<Rightarrow> script_tool_info \<Rightarrow> json \<Rightarrow> 'w plugin_states \<Rightarrow> json res \<times> 'w plugin_states" where
  "mcp_call X plugin t request ps =
     (case McpExecute \<lparr>mcf_json = te_json X, mcf_plugin = plugin, mcf_tool = si_Name t, mcf_version = te_version X\<rparr>
             (te_pipe X) request (ps_mcp ps (si_Name t)) of
        (reply, st, w) \<Rightarrow> (reply, ps\<lparr>ps_mcp := (ps_mcp ps)(si_Name t := (st, w))\<rparr>))"

definition stateless :: "json res \<Rightarrow> 's \<Rightarrow> json res \<times> 's" where
  "stateless reply s = (reply, s)"

definition on_plugins ::
    "('w plugin_states \<Rightarrow> json res \<times> 'w plugin_states) \<Rightarrow> 'c registry \<times> 'w world \<Rightarrow> json res \<times> 'c registry \<times> 'w world" where
  "on_plugins f = (\<lambda>(r, core, ps). case f ps of (reply, ps') \<Rightarrow> (reply, r, core, ps'))"

definition on_core ::
    "('c registry \<times> core_world \<Rightarrow> json res \<times> 'c registry \<times> core_world)
     \<Rightarrow> 'c registry \<times> 'w world \<Rightarrow> json res \<times> 'c registry \<times> 'w world" where
  "on_core f = (\<lambda>(r, core, ps). case f (r, core) of (reply, r', core') \<Rightarrow> (reply, r', core', ps))"

fun server_exec :: "'w tool_env \<Rightarrow> server_tool \<Rightarrow> json \<Rightarrow> 'c registry \<times> 'w world \<Rightarrow> json res \<times> 'c registry \<times> 'w world" where
  "server_exec X (CoreT t) q = on_core (core_exec (te_core X) t q)"
| "server_exec X (EchoT hidden) q = stateless (EchoCommand q)"
| "server_exec X LlmT q = stateless (LLMCommand (te_provider X) q)"
| "server_exec X RemoteT q = stateless (CompositeCommand (te_json X) (te_sort X) (te_post X) (te_servers X) q)"
| "server_exec X (SkillT d src) q = stateless (SkillToolAdapter (te_json X) (te_provider X) (te_popen X) d q)"
| "server_exec X (NativeT p t) q = on_plugins (native_call X p t q)"
| "server_exec X (ScriptT nm rt ep t) q = on_plugins (script_call X rt ep t q)"
| "server_exec X (McpT nm cmd as t) q = on_plugins (mcp_call X nm t q)"

definition llm_metadata :: tool_metadata where
  "llm_metadata = \<lparr>m_Name = ''llm'', m_Description = ''Send a prompt to an LLM via LiteLLM proxy'',
     m_InputSchema = JObj [(''type'', JStr ''object''),
       (''properties'', JObj [
         (''model'', JObj [(''type'', JStr ''string''), (''description'', JStr ''Model name (e.g. claude-sonnet, gpt-4o)'')]),
         (''prompt'', JObj [(''type'', JStr ''string''), (''description'', JStr ''Simple text prompt (convenience alternative to messages)'')]),
         (''messages'', JObj [(''type'', JStr ''array''), (''description'', JStr ''Chat messages array [{role, content}]''),
            (''items'', JObj [(''type'', JStr ''object'')])]),
         (''parameters'', JObj [(''type'', JStr ''object''), (''description'', JStr ''Model parameters (temperature, max_tokens, etc.)'')])])],
     m_DefaultModel = [], m_DefaultParameters = JNull, m_Source = BuiltIn, m_Hidden = False\<rparr>"

fun server_meta :: "server_tool \<Rightarrow> tool_metadata" where
  "server_meta (CoreT t) = core_metadata t"
| "server_meta (EchoT hidden) = echo_metadata hidden"
| "server_meta LlmT = llm_metadata"
| "server_meta RemoteT = remote_metadata"
| "server_meta (SkillT d src) = skill_metadata d src"
| "server_meta (NativeT p t) = native_metadata (pt_Name t) (pt_Description t) (pt_InputSchema t)"
| "server_meta (ScriptT nm rt ep t) = script_metadata t"
| "server_meta (McpT nm cmd as t) = script_metadata t"

text \<open>\<^verbatim>\<open>Shutdown\<close> of a tool that is replaced; most classes inherit the empty one.\<close>

fun server_shutdown :: "server_tool \<Rightarrow> 'w world \<Rightarrow> 'w world" where
  "server_shutdown (NativeT p t) (core, ps) =
     (core, ps\<lparr>ps_native := (ps_native ps)(pt_Name t := NativeShutdown (ps_native ps (pt_Name t)))\<rparr>)"
| "server_shutdown (McpT nm cmd as t) (core, ps) =
     (core, ps\<lparr>ps_mcp := (ps_mcp ps)(si_Name t := (McpShutdown (fst (ps_mcp ps (si_Name t))), snd (ps_mcp ps (si_Name t))))\<rparr>)"
| "server_shutdown c s = s"

definition server_strategy :: "'w tool_env \<Rightarrow> (server_tool, 'w world) strategy" where
  "server_strategy X = \<lparr>ExecuteAsync = server_exec X, GetMetadata = server_meta, Shutdown = server_shutdown\<rparr>"

section \<open>What no tool does\<close>

text \<open>
  The part of the world that confinement is about: the jail, and one path outside it.
\<close>

definition confined :: "jail \<Rightarrow> path \<Rightarrow> node option \<Rightarrow> 'c registry \<times> 'w world \<Rightarrow> bool" where
  "confined j q n s \<longleftrightarrow> w_jail (fst (snd s)) = j \<and> fs_node (w_files (fst (snd s))) q = n"

lemma jail_sync:
  "w_jail (snd (snd (advertise_sync ns m s))) = w_jail (snd s)"
  "w_jail (snd (snd (withdraw_sync ns m s))) = w_jail (snd s)"
  by (simp_all add: advertise_sync_def withdraw_sync_def SyncAdvertised_def Let_def split: prod.split)

lemma jail_ActivateCommand: "w_jail (snd (snd (ActivateCommand q s))) = w_jail (snd s)"
  by (simp add: ActivateCommand_def jail_sync split: sum.split)

lemma jail_DeactivateCommand: "w_jail (snd (snd (DeactivateCommand q s))) = w_jail (snd s)"
  by (simp add: DeactivateCommand_def jail_sync split: sum.split)

lemma core_confined:
  assumes "\<not> Contains (w_jail w) q" "q \<noteq> []" "core_exec E t req (r, w) = (x, r', w')"
  shows "w_jail w' = w_jail w \<and> fs_node (w_files w') q = fs_node (w_files w) q"
proof (cases "t = Edit")
  case True
  then have e: "EditCommand E req w = (x, w')" using assms(3) by (auto split: prod.splits)
  from EditCommand_cases [OF e] show ?thesis
  proof (elim disjE conjE)
    assume "edit_wrote E req w w'"
    then obtain upath p out where g: "grant_write (env_wc E) (w_jail w) upath = Some p"
        "w' = w\<lparr>w_files := fs_write (w_files w) p out\<rparr>" by (auto simp: edit_wrote_def)
    from jailed.write_frame [OF g(1) assms(1)] g(2) show ?thesis by simp
  qed simp
next
  case False
  then have "w_files w' = w_files w" using only_edit_writes [of t E req "(r, w)"] assms(3) by simp
  moreover have "w_jail w' = w_jail w"
    using assms(3) False jail_ActivateCommand [of req "(r, w)"] jail_DeactivateCommand [of req "(r, w)"]
    by (cases t) (auto simp: pure_tool_def)
  ultimately show ?thesis by simp
qed

lemma server_confined:
  assumes "\<not> Contains j q" "q \<noteq> []"
  shows "keeps (server_strategy X) (confined j q n)"
  unfolding keeps_def
proof (intro allI impI)
  fix c req and s :: "server_tool registry \<times> 'a world"
  assume s: "confined j q n s"
  obtain r core ps where st: "s = (r, core, ps)" by (cases s)
  have pl: "confined j q n (snd (on_plugins f s))" for f
    using s by (simp add: st on_plugins_def confined_def split: prod.split)
  show "confined j q n (snd (ExecuteAsync (server_strategy X) c req s))"
  proof (cases c)
    case (CoreT t)
    obtain x r' core' where e: "core_exec (te_core X) t req (r, core) = (x, r', core')"
      by (cases "core_exec (te_core X) t req (r, core)")
    have "w_jail core = j" using s by (simp add: confined_def st)
    then show ?thesis
      using core_confined [OF _ assms(2) e] assms(1) s e by (simp add: CoreT server_strategy_def on_core_def st confined_def)
  qed (use s pl in \<open>simp_all add: server_strategy_def stateless_def\<close>)
qed

text \<open>Requests one after the other, as the HTTP server hands them in.\<close>

fun serve ::
    "jlib \<Rightarrow> (json \<Rightarrow> json \<Rightarrow> bool) \<Rightarrow> ('c, 'v) strategy \<Rightarrow> handler \<Rightarrow> (int \<times> string \<times> string \<times> string) list
     \<Rightarrow> ('c, 'v) server_state \<Rightarrow> ('c, 'v) server_state" where
  "serve J V S h [] st = st"
| "serve J V S h ((now, body, ip, auth) # qs) st = serve J V S h qs (snd (HandleRequest J V S h now body ip auth st))"

lemma Handle_keeps:
  assumes "keeps S I" "I s" shows "I (snd (Handle V S req s))"
  using chain_keeps [OF assms, of _ req 0] assms(2)
  by (auto simp: Handle_def split: sum.split option.split prod.split) (metis snd_conv)+

lemma serve_keeps:
  assumes "keeps S I" "I (snd st)" shows "I (snd (serve J V S h qs st))"
  using assms(2)
proof (induction qs arbitrary: st)
  case (Cons q qs)
  obtain now body ip auth where q: "q = (now, body, ip, auth)" by (cases q)
  obtain lo s where st: "st = (lo, s)" by (cases st)
  have "I (snd (snd (HandleRequest J V S h now body ip auth st)))"
    using Cons.prems Handle_keeps [OF assms(1), of s V]
    by (auto simp: st HandleRequest_def split: prod.split option.split sum.split) (metis snd_conv)+
  then show ?case using Cons.IH q by simp
qed simp

lemma serve_confined:
  assumes "wf_jail (w_jail core)" "q \<noteq> []" "[] \<notin> set q" "''..'' \<notin> set q"
    and "\<not> list_ex (\<lambda>root. prefix root q) (jail_roots (w_jail core))"
  shows "confined (w_jail core) q (fs_node (w_files core) q) (snd (serve J V (server_strategy X) h qs (lo, r, core, ps)))"
proof -
  have "\<not> Contains (w_jail core) q" using Contains_iff [OF assms(1,3,4)] assms(5) by simp
  from serve_keeps [OF server_confined [OF this assms(2), of X "fs_node (w_files core) q"], where st = "(lo, r, core, ps)"
        and J = J and V = V and h = h and qs = qs]
  show ?thesis by (simp add: confined_def)
qed

text \<open>A world in which a server can run.\<close>

definition ex_tools :: "string list tool_env" where
  "ex_tools = \<lparr>te_core = ex_env, te_json = ex_lib, te_provider = \<lambda>q. Inl UnknownException, te_post = \<lambda>u b t. Inl UnknownException,
     te_servers = [], te_sort = sort_key e_Priority, te_popen = \<lambda>c. None, te_late = \<lambda>p t q. False, te_script = quiet_script,
     te_pipe = lines_pipe, te_version = ''1''\<rparr>"

definition ex_plugin_states :: "string list plugin_states" where
  "ex_plugin_states = \<lparr>ps_native = \<lambda>n. native_fresh, ps_counter = 0, ps_cancelled = \<lambda>n. {}, ps_mcp = \<lambda>n. (mcp_fresh, [])\<rparr>"

definition ex_edit_json :: jlib where
  "ex_edit_json = \<lparr>jparse = \<lambda>s. Some (JObj [(''command'', JStr ''edit''), (''payload'', j_at ex_edit ''payload'')]), jdump = \<lambda>j. Inr ''d''\<rparr>"

end
