(* ===== verification/Config.thy ===== *)
theory Config
  imports Json
begin

text \<open>
  \<^verbatim>\<open>src/core/Config.cpp\<close>: the configuration, a JSON document read from a file or built from
  environment variables, and its accessors.  An accessor throws when a value that is there
  has the wrong type, except for those that test the type.  The environment is a function
  (\<^verbatim>\<open>GetEnvVar\<close> gives the empty string for a variable that is not set), and
  \<^verbatim>\<open>std::stoi\<close>'s exceptions are an \<^verbatim>\<open>invalid_argument\<close>.
\<close>

section \<open>Splitting lists\<close>

definition blank :: "char \<Rightarrow> bool" where
  "blank c \<longleftrightarrow> c = CHR '' '' \<or> c = TAB"

text \<open>\<^verbatim>\<open>flush\<close>: what the current piece adds.\<close>

definition flush_piece :: "string \<Rightarrow> string list" where
  "flush_piece cur = (if list_all blank cur then [] else [trim_by blank cur])"

fun split_csv :: "string \<Rightarrow> string \<Rightarrow> string list" where
  "split_csv cur [] = (if cur = [] then [] else flush_piece cur)"
| "split_csv cur (c # cs) = (if c = CHR '','' then flush_piece cur @ split_csv [] cs else split_csv (cur @ [c]) cs)"

definition SplitCsv :: "string \<Rightarrow> string list" where
  "SplitCsv s = split_csv [] s"

section \<open>Loading\<close>

definition LoadFromFile :: "jlib \<Rightarrow> string option \<Rightarrow> string \<Rightarrow> json res" where
  "LoadFromFile J file name =
     (case file of
        None \<Rightarrow> Inl (RuntimeError (''Cannot open config file: '' @ name))
      | Some s \<Rightarrow> (case jparse J s of None \<Rightarrow> Inl JsonParseError | Some j \<Rightarrow> Inr j))"

text \<open>\<^verbatim>\<open>m_Data[a][b] = v\<close>\<close>

definition set2 :: "string \<Rightarrow> string \<Rightarrow> json \<Rightarrow> json \<Rightarrow> json res" where
  "set2 a b v j = bindE (j_set (j_at j a) b v) (\<lambda>inner. j_set j a inner)"

definition set_when :: "bool \<Rightarrow> (json \<Rightarrow> json res) \<Rightarrow> json \<Rightarrow> json res" where
  "set_when c f j = (if c then f j else Inr j)"

definition LoadFromEnv :: "(string \<Rightarrow> string) \<Rightarrow> json res" where
  "LoadFromEnv env =
     bindE (if env ''MCP_SERVER_PORT'' = [] then Inr (JObj [])
            else (case stoi (env ''MCP_SERVER_PORT'') of
                None \<Rightarrow> Inl (InvalidArgument ''stoi'')
              | Some n \<Rightarrow> set2 ''server'' ''port'' (JInt n) (JObj []))) (\<lambda>j.
     bindE (set_when (env ''MCP_LITELLM_URL'' \<noteq> []) (set2 ''litellm'' ''base_url'' (JStr (env ''MCP_LITELLM_URL''))) j) (\<lambda>j.
     bindE (set_when (env ''MCP_DEFAULT_MODEL'' \<noteq> []) (set2 ''litellm'' ''default_model'' (JStr (env ''MCP_DEFAULT_MODEL''))) j) (\<lambda>j.
     bindE (set_when (env ''MCP_AUTH_API_KEY'' \<noteq> []) (\<lambda>j.
       bindE (set2 ''auth'' ''enabled'' (JBool True) j) (set2 ''auth'' ''api_key'' (JStr (env ''MCP_AUTH_API_KEY'')))) j) (\<lambda>j.
     bindE (set_when (env ''TOOLSMITH_PROFILE'' \<noteq> []) (set2 ''tools'' ''profile'' (JStr (env ''TOOLSMITH_PROFILE''))) j) (\<lambda>j.
     bindE (set_when (env ''TOOLSMITH_TOOLS'' \<noteq> [])
       (set2 ''tools'' ''pin'' (JArr (map JStr (SplitCsv (env ''TOOLSMITH_TOOLS''))))) j) (\<lambda>j.
     set_when (env ''TOOLSMITH_WORKSPACE'' \<noteq> []) (set2 ''workspace'' ''root'' (JStr (env ''TOOLSMITH_WORKSPACE''))) j))))))"

section \<open>Accessors\<close>

text \<open>\<^verbatim>\<open>m_Data.contains(a) && m_Data[a].contains(b) ? m_Data[a][b].get<T>() : dflt\<close>\<close>

definition get2 :: "(json \<Rightarrow> 'a res) \<Rightarrow> string \<Rightarrow> string \<Rightarrow> 'a \<Rightarrow> json \<Rightarrow> 'a res" where
  "get2 get a b dflt j =
     (case j_lookup j a of None \<Rightarrow> Inr dflt
      | Some inner \<Rightarrow> (case j_lookup inner b of None \<Rightarrow> Inr dflt | Some v \<Rightarrow> get v))"

definition GetServerPort :: "json \<Rightarrow> int res" where
  "GetServerPort = get2 get_int ''server'' ''port'' 9001"

definition GetLiteLlmBaseUrl :: "json \<Rightarrow> string res" where
  "GetLiteLlmBaseUrl = get2 get_string ''litellm'' ''base_url'' ''http://localhost:4000''"

definition GetDefaultModel :: "json \<Rightarrow> string res" where
  "GetDefaultModel = get2 get_string ''litellm'' ''default_model'' ''gpt-3.5-turbo''"

definition GetThreadPoolSize :: "nat \<Rightarrow> json \<Rightarrow> nat res" where
  "GetThreadPoolSize hardware j =
     bindE (get2 get_size_t ''thread_pool'' ''size'' hardware j) (\<lambda>n.
       let n1 = (if n = 0 then 1 else n) in Inr (if 8 < n1 then 8 else n1))"

definition GetMaxRequestBodySize :: "json \<Rightarrow> nat res" where
  "GetMaxRequestBodySize = get2 get_size_t ''server'' ''max_request_body_bytes'' 1048576"

definition GetRateLimitRequestsPerMinute :: "json \<Rightarrow> nat res" where
  "GetRateLimitRequestsPerMinute = get2 get_size_t ''rate_limit'' ''requests_per_minute'' 60"

definition IsAuthEnabled :: "json \<Rightarrow> bool res" where
  "IsAuthEnabled = get2 get_bool ''auth'' ''enabled'' False"

definition GetAuthApiKey :: "json \<Rightarrow> string res" where
  "GetAuthApiKey = get2 get_string ''auth'' ''api_key'' []"

definition GetSkillsDirectory :: "json \<Rightarrow> string res" where
  "GetSkillsDirectory = get2 get_string ''skills'' ''directory'' ''skills''"

definition GetPluginsDirectory :: "json \<Rightarrow> string res" where
  "GetPluginsDirectory = get2 get_string ''plugins'' ''directory'' ''plugins''"

definition GetMcpServersConfigPath :: "json \<Rightarrow> string res" where
  "GetMcpServersConfigPath = get2 get_string ''discovery'' ''servers_config'' ''config/mcp_servers.json''"

definition cfg_string :: "string \<Rightarrow> string \<Rightarrow> string \<Rightarrow> json \<Rightarrow> string" where
  "cfg_string a b dflt j =
     (case j_lookup j a of None \<Rightarrow> dflt
      | Some inner \<Rightarrow> (case j_lookup inner b of Some (JStr s) \<Rightarrow> s | _ \<Rightarrow> dflt))"

definition GetToolsProfile :: "json \<Rightarrow> string" where
  "GetToolsProfile = cfg_string ''tools'' ''profile'' ''auto''"

definition JsonStringList :: "json \<Rightarrow> string \<Rightarrow> string \<Rightarrow> string list" where
  "JsonStringList j a b =
     (case j_lookup j a of None \<Rightarrow> []
      | Some inner \<Rightarrow> (case j_lookup inner b of Some (JArr vs) \<Rightarrow> strings_of vs | _ \<Rightarrow> []))"

definition GetToolsEnable :: "json \<Rightarrow> string list" where "GetToolsEnable j = JsonStringList j ''tools'' ''enable''"
definition GetToolsDisable :: "json \<Rightarrow> string list" where "GetToolsDisable j = JsonStringList j ''tools'' ''disable''"
definition GetToolsPin :: "json \<Rightarrow> string list" where "GetToolsPin j = JsonStringList j ''tools'' ''pin''"

definition ConfigChaining :: "json \<Rightarrow> bool res" where
  "ConfigChaining = get2 get_bool ''tools'' ''chaining'' False"

definition AllowCommandSkills :: "json \<Rightarrow> bool res" where
  "AllowCommandSkills = get2 get_bool ''tools'' ''allow_command_skills'' False"

definition GetWorkspaceRoot :: "json \<Rightarrow> string" where
  "GetWorkspaceRoot = cfg_string ''workspace'' ''root'' ''auto''"

definition GetWorkspaceAllow :: "json \<Rightarrow> string list" where
  "GetWorkspaceAllow j = JsonStringList j ''workspace'' ''allow''"

section \<open>Facts\<close>

text \<open>A document whose sections are objects: what \<^verbatim>\<open>LoadFromEnv\<close> builds.\<close>

definition sectioned :: "json \<Rightarrow> bool" where
  "sectioned j \<longleftrightarrow> is_object j \<and> (\<forall>a v. j_lookup j a = Some v \<longrightarrow> is_object v)"

definition at2 :: "json \<Rightarrow> string \<Rightarrow> string \<Rightarrow> json option" where
  "at2 j a b = Option.bind (j_lookup j a) (\<lambda>i. j_lookup i b)"

lemma set2_ok:
  assumes "sectioned j"
  shows "\<exists>j'. set2 a b v j = Inr j' \<and> sectioned j' \<and> (\<forall>c d. at2 j' c d = (if c = a \<and> d = b then Some v else at2 j c d))"
proof -
  obtain kvs where j: "j = JObj kvs" using assms by (auto simp: sectioned_def is_object_iff)
  have "j_at j a = JNull \<or> is_object (j_at j a)"
    using assms by (auto simp: sectioned_def j_at_def split: option.split)
  then obtain inner where i: "j_set (j_at j a) b v = Inr (JObj inner)"
      "\<And>d. map_of inner d = (if d = b then Some v else j_lookup (j_at j a) d)"
    by (auto simp: is_object_iff update_conv')
  have "\<And>d. j_lookup (j_at j a) d = at2 j a d"
    by (auto simp: at2_def j_at_def split: option.split)
  then show ?thesis
    using i assms by (auto simp: set2_def j sectioned_def update_conv' at2_def split: if_splits)
qed

lemma put_ok:
  assumes "sectioned j"
  shows "\<exists>j'. set_when c (set2 a b v) j = Inr j' \<and> sectioned j'
     \<and> (\<forall>x y. at2 j' x y = (if c \<and> x = a \<and> y = b then Some v else at2 j x y))"
  using set2_ok [OF assms, of a b v] assms by (cases c) (auto simp: set_when_def)

lemma get2_at2: "get2 get a b dflt j = (case at2 j a b of None \<Rightarrow> Inr dflt | Some v \<Rightarrow> get v)"
  by (auto simp: get2_def at2_def split: option.split)

lemma cfg_string_at2: "cfg_string a b dflt j = (case at2 j a b of Some (JStr s) \<Rightarrow> s | _ \<Rightarrow> dflt)"
  by (auto simp: cfg_string_def at2_def split: option.split json.split)

lemma JsonStringList_at2: "JsonStringList j a b = (case at2 j a b of Some (JArr vs) \<Rightarrow> strings_of vs | _ \<Rightarrow> [])"
  by (auto simp: JsonStringList_def at2_def split: option.split json.split)

lemma strings_of_map [simp]: "strings_of (map JStr xs) = xs"
  by (induction xs) simp_all

lemma stoi_range: "stoi s = Some v \<Longrightarrow> to_int32 v = v"
  by (auto simp: stoi_def Let_def to_int32_def int_min_def int_max_def split: if_splits)

text \<open>What the document of an environment holds.\<close>

definition env_doc :: "(string \<Rightarrow> string) \<Rightarrow> string \<Rightarrow> string \<Rightarrow> json option" where
  "env_doc env a b =
     (let str = (\<lambda>v. if env v = [] then None else Some (JStr (env v))) in
      if a = ''server'' \<and> b = ''port'' then
        (if env ''MCP_SERVER_PORT'' = [] then None else map_option JInt (stoi (env ''MCP_SERVER_PORT'')))
      else if a = ''litellm'' \<and> b = ''base_url'' then str ''MCP_LITELLM_URL''
      else if a = ''litellm'' \<and> b = ''default_model'' then str ''MCP_DEFAULT_MODEL''
      else if a = ''auth'' \<and> b = ''enabled'' then (if env ''MCP_AUTH_API_KEY'' = [] then None else Some (JBool True))
      else if a = ''auth'' \<and> b = ''api_key'' then str ''MCP_AUTH_API_KEY''
      else if a = ''tools'' \<and> b = ''profile'' then str ''TOOLSMITH_PROFILE''
      else if a = ''tools'' \<and> b = ''pin'' then
        (if env ''TOOLSMITH_TOOLS'' = [] then None else Some (JArr (map JStr (SplitCsv (env ''TOOLSMITH_TOOLS'')))))
      else if a = ''workspace'' \<and> b = ''root'' then str ''TOOLSMITH_WORKSPACE''
      else None)"

lemma env_port:
  "(\<exists>e. (if p = [] then Inr (JObj []) else case stoi p of None \<Rightarrow> Inl (InvalidArgument ''stoi'')
        | Some n \<Rightarrow> set2 ''server'' ''port'' (JInt n) (JObj [])) = Inl e \<and> p \<noteq> [] \<and> stoi p = None)
   \<or> (\<exists>j. (if p = [] then Inr (JObj []) else case stoi p of None \<Rightarrow> Inl (InvalidArgument ''stoi'')
        | Some n \<Rightarrow> set2 ''server'' ''port'' (JInt n) (JObj [])) = Inr j \<and> sectioned j
      \<and> (p = [] \<or> stoi p \<noteq> None)
      \<and> (\<forall>a b. at2 j a b = (if a = ''server'' \<and> b = ''port'' \<and> p \<noteq> [] then map_option JInt (stoi p) else None)))"
proof -
  have s: "sectioned (JObj [])" "\<And>a b. at2 (JObj []) a b = None" by (simp_all add: sectioned_def at2_def)
  show ?thesis
  proof (cases "p = []")
    case True
    then show ?thesis using s by simp
  next
    case False
    then show ?thesis using set2_ok [OF s(1), of "''server''" "''port''" "JInt (the (stoi p))"] s(2) by (cases "stoi p") auto
  qed
qed

lemma env_rest:
  assumes "sectioned j"
  shows "\<exists>j'. bindE (set_when (env ''MCP_LITELLM_URL'' \<noteq> []) (set2 ''litellm'' ''base_url'' (JStr (env ''MCP_LITELLM_URL''))) j) (\<lambda>j.
     bindE (set_when (env ''MCP_DEFAULT_MODEL'' \<noteq> []) (set2 ''litellm'' ''default_model'' (JStr (env ''MCP_DEFAULT_MODEL''))) j) (\<lambda>j.
     bindE (set_when (env ''MCP_AUTH_API_KEY'' \<noteq> []) (\<lambda>j.
       bindE (set2 ''auth'' ''enabled'' (JBool True) j) (set2 ''auth'' ''api_key'' (JStr (env ''MCP_AUTH_API_KEY'')))) j) (\<lambda>j.
     bindE (set_when (env ''TOOLSMITH_PROFILE'' \<noteq> []) (set2 ''tools'' ''profile'' (JStr (env ''TOOLSMITH_PROFILE''))) j) (\<lambda>j.
     bindE (set_when (env ''TOOLSMITH_TOOLS'' \<noteq> [])
       (set2 ''tools'' ''pin'' (JArr (map JStr (SplitCsv (env ''TOOLSMITH_TOOLS''))))) j) (\<lambda>j.
     set_when (env ''TOOLSMITH_WORKSPACE'' \<noteq> []) (set2 ''workspace'' ''root'' (JStr (env ''TOOLSMITH_WORKSPACE''))) j))))) = Inr j'
    \<and> (\<forall>a b. at2 j' a b = (if a = ''server'' \<and> b = ''port'' then at2 j a b
          else case env_doc env a b of None \<Rightarrow> at2 j a b | Some v \<Rightarrow> Some v))"
proof -
  obtain j1 where 1: "set_when (env ''MCP_LITELLM_URL'' \<noteq> []) (set2 ''litellm'' ''base_url'' (JStr (env ''MCP_LITELLM_URL''))) j = Inr j1"
      "sectioned j1" "\<forall>x y. at2 j1 x y = (if env ''MCP_LITELLM_URL'' \<noteq> [] \<and> x = ''litellm'' \<and> y = ''base_url'' then Some (JStr (env ''MCP_LITELLM_URL'')) else at2 j x y)"
    using put_ok [OF assms] by blast
  obtain j2 where 2: "set_when (env ''MCP_DEFAULT_MODEL'' \<noteq> []) (set2 ''litellm'' ''default_model'' (JStr (env ''MCP_DEFAULT_MODEL''))) j1 = Inr j2"
      "sectioned j2" "\<forall>x y. at2 j2 x y = (if env ''MCP_DEFAULT_MODEL'' \<noteq> [] \<and> x = ''litellm'' \<and> y = ''default_model'' then Some (JStr (env ''MCP_DEFAULT_MODEL'')) else at2 j1 x y)"
    using put_ok [OF 1(2)] by blast
  let ?auth = "\<lambda>j. bindE (set2 ''auth'' ''enabled'' (JBool True) j) (set2 ''auth'' ''api_key'' (JStr (env ''MCP_AUTH_API_KEY'')))"
  obtain j3 where 3: "set_when (env ''MCP_AUTH_API_KEY'' \<noteq> []) ?auth j2 = Inr j3" "sectioned j3"
      "\<forall>x y. at2 j3 x y = (if env ''MCP_AUTH_API_KEY'' \<noteq> [] \<and> x = ''auth'' \<and> y = ''enabled'' then Some (JBool True)
         else if env ''MCP_AUTH_API_KEY'' \<noteq> [] \<and> x = ''auth'' \<and> y = ''api_key'' then Some (JStr (env ''MCP_AUTH_API_KEY'')) else at2 j2 x y)"
  proof (cases "env ''MCP_AUTH_API_KEY'' = []")
    case True
    then show ?thesis using that [of j2] 2(2) by (simp add: set_when_def)
  next
    case False
    obtain k where k: "set2 ''auth'' ''enabled'' (JBool True) j2 = Inr k" "sectioned k"
      "\<forall>c d. at2 k c d = (if c = ''auth'' \<and> d = ''enabled'' then Some (JBool True) else at2 j2 c d)"
      using set2_ok [OF 2(2)] by blast
    obtain l where l: "set2 ''auth'' ''api_key'' (JStr (env ''MCP_AUTH_API_KEY'')) k = Inr l" "sectioned l"
      "\<forall>c d. at2 l c d = (if c = ''auth'' \<and> d = ''api_key'' then Some (JStr (env ''MCP_AUTH_API_KEY'')) else at2 k c d)"
      using set2_ok [OF k(2)] by blast
    show ?thesis using that [of l] False k l by (simp add: set_when_def)
  qed
  obtain j4 where 4: "set_when (env ''TOOLSMITH_PROFILE'' \<noteq> []) (set2 ''tools'' ''profile'' (JStr (env ''TOOLSMITH_PROFILE''))) j3 = Inr j4"
      "sectioned j4" "\<forall>x y. at2 j4 x y = (if env ''TOOLSMITH_PROFILE'' \<noteq> [] \<and> x = ''tools'' \<and> y = ''profile'' then Some (JStr (env ''TOOLSMITH_PROFILE'')) else at2 j3 x y)"
    using put_ok [OF 3(2)] by blast
  let ?pin = "JArr (map JStr (SplitCsv (env ''TOOLSMITH_TOOLS'')))"
  obtain j5 where 5: "set_when (env ''TOOLSMITH_TOOLS'' \<noteq> []) (set2 ''tools'' ''pin'' ?pin) j4 = Inr j5"
      "sectioned j5" "\<forall>x y. at2 j5 x y = (if env ''TOOLSMITH_TOOLS'' \<noteq> [] \<and> x = ''tools'' \<and> y = ''pin'' then Some ?pin else at2 j4 x y)"
    using put_ok [OF 4(2)] by blast
  obtain j6 where 6: "set_when (env ''TOOLSMITH_WORKSPACE'' \<noteq> []) (set2 ''workspace'' ''root'' (JStr (env ''TOOLSMITH_WORKSPACE''))) j5 = Inr j6"
      "\<forall>x y. at2 j6 x y = (if env ''TOOLSMITH_WORKSPACE'' \<noteq> [] \<and> x = ''workspace'' \<and> y = ''root'' then Some (JStr (env ''TOOLSMITH_WORKSPACE'')) else at2 j5 x y)"
    using put_ok [OF 5(2)] by blast
  show ?thesis
    using 1(3) 2(3) 3(3) 4(3) 5(3) 6(2)
    by (intro exI [of _ j6] conjI allI) (simp_all add: 1(1) 2(1) 3(1) 4(1) 5(1) 6(1) env_doc_def Let_def)
qed

lemma env_at2:
  "(\<exists>e. LoadFromEnv env = Inl e \<and> env ''MCP_SERVER_PORT'' \<noteq> [] \<and> stoi (env ''MCP_SERVER_PORT'') = None)
   \<or> (\<exists>j. LoadFromEnv env = Inr j \<and> (env ''MCP_SERVER_PORT'' = [] \<or> stoi (env ''MCP_SERVER_PORT'') \<noteq> None)
        \<and> (\<forall>a b. at2 j a b = env_doc env a b))"
proof -
  let ?port = "if env ''MCP_SERVER_PORT'' = [] then Inr (JObj []) else case stoi (env ''MCP_SERVER_PORT'') of None \<Rightarrow> Inl (InvalidArgument ''stoi'')
        | Some n \<Rightarrow> set2 ''server'' ''port'' (JInt n) (JObj [])"
  consider (err) e where "?port = Inl e" "env ''MCP_SERVER_PORT'' \<noteq> []" "stoi (env ''MCP_SERVER_PORT'') = None"
    | (ok) j where "?port = Inr j" "sectioned j" "env ''MCP_SERVER_PORT'' = [] \<or> stoi (env ''MCP_SERVER_PORT'') \<noteq> None"
        "\<forall>a b. at2 j a b = (if a = ''server'' \<and> b = ''port'' \<and> env ''MCP_SERVER_PORT'' \<noteq> [] then map_option JInt (stoi (env ''MCP_SERVER_PORT'')) else None)"
    using env_port [of "env ''MCP_SERVER_PORT''"] by blast
  then show ?thesis
  proof cases
    case err
    then show ?thesis by (simp add: LoadFromEnv_def)
  next
    case ok
    from env_rest [OF ok(2), of env] obtain j' where "LoadFromEnv env = Inr j'"
      "\<forall>a b. at2 j' a b = (if a = ''server'' \<and> b = ''port'' then at2 j a b else case env_doc env a b of None \<Rightarrow> at2 j a b | Some v \<Rightarrow> Some v)"
      unfolding LoadFromEnv_def ok(1) bindE_simps by blast
    moreover have "env_doc env ''server'' ''port'' = at2 j ''server'' ''port''" using ok(4) by (simp add: env_doc_def)
    ultimately show ?thesis using ok(3,4) by (auto split: option.split)
  qed
qed

text \<open>
  A configuration built from the environment reads back as the environment says: every
  accessor gives the value of its variable, or its default when the variable is empty;
  authentication is on exactly when a key is set; and building it fails only for a port that
  is not a number in the range of an \<^verbatim>\<open>int\<close>.
\<close>

theorem env_config_reads_back:
  "case LoadFromEnv env of
     Inl e \<Rightarrow> env ''MCP_SERVER_PORT'' \<noteq> [] \<and> stoi (env ''MCP_SERVER_PORT'') = None
   | Inr j \<Rightarrow>
       GetServerPort j = Inr (if env ''MCP_SERVER_PORT'' = [] then 9001 else the (stoi (env ''MCP_SERVER_PORT'')))
       \<and> GetLiteLlmBaseUrl j = Inr (if env ''MCP_LITELLM_URL'' = [] then ''http://localhost:4000'' else env ''MCP_LITELLM_URL'')
       \<and> GetDefaultModel j = Inr (if env ''MCP_DEFAULT_MODEL'' = [] then ''gpt-3.5-turbo'' else env ''MCP_DEFAULT_MODEL'')
       \<and> IsAuthEnabled j = Inr (env ''MCP_AUTH_API_KEY'' \<noteq> []) \<and> GetAuthApiKey j = Inr (env ''MCP_AUTH_API_KEY'')
       \<and> GetToolsProfile j = (if env ''TOOLSMITH_PROFILE'' = [] then ''auto'' else env ''TOOLSMITH_PROFILE'')
       \<and> GetToolsPin j = SplitCsv (env ''TOOLSMITH_TOOLS'') \<and> GetToolsEnable j = [] \<and> GetToolsDisable j = []
       \<and> GetWorkspaceRoot j = (if env ''TOOLSMITH_WORKSPACE'' = [] then ''auto'' else env ''TOOLSMITH_WORKSPACE'')
       \<and> GetPluginsDirectory j = Inr ''plugins'' \<and> ConfigChaining j = Inr False"
proof -
  consider (err) e where "LoadFromEnv env = Inl e" "env ''MCP_SERVER_PORT'' \<noteq> []" "stoi (env ''MCP_SERVER_PORT'') = None"
    | (ok) j where "LoadFromEnv env = Inr j" "\<forall>a b. at2 j a b = env_doc env a b"
        "env ''MCP_SERVER_PORT'' = [] \<or> stoi (env ''MCP_SERVER_PORT'') \<noteq> None"
    using env_at2 [of env] by blast
  then show ?thesis
  proof cases
    case err
    then show ?thesis by simp
  next
    case ok
    have "GetServerPort j = Inr (if env ''MCP_SERVER_PORT'' = [] then 9001 else the (stoi (env ''MCP_SERVER_PORT'')))"
      using ok(3) by (auto simp: GetServerPort_def get2_at2 ok(2) env_doc_def stoi_range)
    moreover have "GetToolsPin j = SplitCsv (env ''TOOLSMITH_TOOLS'')"
      by (simp add: GetToolsPin_def JsonStringList_at2 ok(2) env_doc_def SplitCsv_def)
    ultimately show ?thesis
      using ok by (simp add: GetLiteLlmBaseUrl_def GetDefaultModel_def IsAuthEnabled_def GetAuthApiKey_def GetToolsProfile_def
          GetToolsEnable_def GetToolsDisable_def GetWorkspaceRoot_def GetPluginsDirectory_def ConfigChaining_def
          get2_at2 cfg_string_at2 JsonStringList_at2 env_doc_def)
  qed
qed

end
