(* ===== verification/ServerEntry.thy ===== *)
theory ServerEntry
  imports ServerTools Config StdioTransport
begin

text \<open>
  \<^verbatim>\<open>src/server_entry.cpp\<close>: command line, configuration, the set-up of the tools, and the HTTP
  routes.  What the process finds outside (environment variables, files, libraries, child
  processes) is the record \<open>host\<close>.  A set-up that loads plugin skills may not return (the
  expansion loop of \<open>PluginSkills\<close>), so it is an option; an exception that leaves \<^verbatim>\<open>main\<close>
  is the outcome \<open>Crash\<close>.
\<close>

section \<open>The command line\<close>

definition Trim :: "string \<Rightarrow> string" where
  "Trim s = (if list_all blank s then [] else trim_by blank s)"

definition push_trimmed :: "string \<Rightarrow> string list" where
  "push_trimmed cur = (let t = Trim cur in if t = [] then [] else [t])"

fun csv_loop :: "string \<Rightarrow> string \<Rightarrow> string list" where
  "csv_loop cur [] = push_trimmed cur"
| "csv_loop cur (c # cs) = (if c = CHR '','' then push_trimmed cur @ csv_loop [] cs else csv_loop (cur @ [c]) cs)"

definition SplitCsv :: "string \<Rightarrow> string list" where
  "SplitCsv s = csv_loop [] s"

record cli =
  configPath :: string
  stdioMode :: bool
  cliProfile :: string
  cliWorkspace :: string
  cliPinTools :: "string list"

definition cli_default :: cli where
  "cli_default = \<lparr>configPath = ''config/mcp_config.json'', stdioMode = False, cliProfile = [], cliWorkspace = [],
     cliPinTools = []\<rparr>"

text \<open>\<open>Inl\<close> is the exit code of a process that ends here.\<close>

fun parse_args :: "string list \<Rightarrow> cli \<Rightarrow> int + cli" where
  "parse_args [] c = Inr c"
| "parse_args [a] c =
     (if a = ''--stdio'' then Inr (c\<lparr>stdioMode := True\<rparr>)
      else if a = ''--help'' \<or> a = ''-h'' then Inl 0
      else Inl 1)"
| "parse_args (a # v # vs) c =
     (if a = ''--config'' then parse_args vs (c\<lparr>configPath := v\<rparr>)
      else if a = ''--stdio'' then parse_args (v # vs) (c\<lparr>stdioMode := True\<rparr>)
      else if a = ''--profile'' then parse_args vs (c\<lparr>cliProfile := v\<rparr>)
      else if a = ''--tools'' then parse_args vs (c\<lparr>cliPinTools := SplitCsv v\<rparr>)
      else if a = ''--workspace'' then parse_args vs (c\<lparr>cliWorkspace := v\<rparr>)
      else if a = ''--help'' \<or> a = ''-h'' then Inl 0
      else Inl 1)"

section \<open>Configuration and choices\<close>

record 'w host =
  ho_env :: "string \<Rightarrow> string"
  ho_fs :: filesys
  ho_cwd :: path
  ho_cn :: "path \<Rightarrow> path option"
  ho_wc :: "path \<Rightarrow> path option"
  ho_json :: jlib
  ho_rd :: "string \<Rightarrow> json option"
  ho_pf :: platform
  ho_dl :: "string \<Rightarrow> dl_image option"
  ho_popen :: "string \<Rightarrow> string list option"
  ho_pipe :: "'w pipe_ops"
  ho_child :: "string \<Rightarrow> string list \<Rightarrow> 'w"
  ho_version :: string

definition ho_read :: "'w host \<Rightarrow> string \<Rightarrow> string option" where
  "ho_read H name = fs_read (ho_fs H) (abs_path (ho_cwd H) name)"

definition load_config :: "'w host \<Rightarrow> cli \<Rightarrow> json res" where
  "load_config H c =
     (case Config.LoadFromFile (ho_json H) (ho_read H (configPath c)) (configPath c) of
        Inr j \<Rightarrow> Inr j | Inl e \<Rightarrow> LoadFromEnv (ho_env H))"

definition choose_workspace :: "'w host \<Rightarrow> cli \<Rightarrow> json \<Rightarrow> string" where
  "choose_workspace H c cfg =
     (let w1 = (if cliWorkspace c = [] then ho_env H ''TOOLSMITH_WORKSPACE'' else cliWorkspace c);
          w2 = (if w1 = [] \<or> w1 = ''auto'' then GetWorkspaceRoot cfg else w1)
      in if w2 = [] \<or> w2 = ''auto''
         then (case DetectRoot (ho_cn H) (ho_wc H) (ho_fs H) (ho_cwd H) (path_str (ho_cwd H)) of
                 None \<Rightarrow> [] | Some p \<Rightarrow> path_str p)
         else w2)"

definition choose_profile :: "'w host \<Rightarrow> cli \<Rightarrow> json \<Rightarrow> string" where
  "choose_profile H c cfg =
     (let p1 = (if cliProfile c = [] then ho_env H ''TOOLSMITH_PROFILE'' else cliProfile c)
      in if p1 = [] then GetToolsProfile cfg else p1)"

definition choose_pins :: "'w host \<Rightarrow> cli \<Rightarrow> json \<Rightarrow> string list" where
  "choose_pins H c cfg =
     (if cliPinTools c \<noteq> [] then cliPinTools c
      else if ho_env H ''TOOLSMITH_TOOLS'' \<noteq> [] then SplitCsv (ho_env H ''TOOLSMITH_TOOLS'')
      else GetToolsPin cfg)"

definition HomeDir :: "'w host \<Rightarrow> string" where
  "HomeDir H =
     (if ho_pf H = Windows \<and> ho_env H ''USERPROFILE'' \<noteq> [] then ho_env H ''USERPROFILE'' else ho_env H ''HOME'')"

section \<open>Setting the tools up\<close>

record 'w server =
  sv_reg :: "server_tool registry"
  sv_core :: core_world
  sv_engine :: engine
  sv_servers :: "server_entry list"
  sv_all :: bool
  sv_pins :: "string list"
  sv_config :: json
  sv_stdio :: bool
  sv_notes :: "json list"

datatype 'a outcome = ExitCode int | Crash exn | Up 'a

definition runtime_world :: "'w host \<Rightarrow> jail \<Rightarrow> resolve_output \<Rightarrow> core_world" where
  "runtime_world H j resolved =
     \<lparr>w_jail = j, w_profile = out_profile resolved, w_advertised = out_advertised resolved, w_locked = {},
      w_skills = DiscoverAgentSkills (ho_json H) (ho_wc H) (ho_fs H) (Some (m_Root j))
        (if HomeDir H = [] then None else Some (abs_path (ho_cwd H) (HomeDir H))) None,
      w_files = ho_fs H\<rparr>"

text \<open>The constructor of \<^verbatim>\<open>src/llm/LiteLLMProvider.cpp\<close>: the base address and the default model.\<close>

definition LiteLLMProvider :: "json \<Rightarrow> (string \<times> string) res" where
  "LiteLLMProvider cfg =
     bindE (GetLiteLlmBaseUrl cfg) (\<lambda>baseUrl. bindE (GetDefaultModel cfg) (\<lambda>model. Inr (baseUrl, model)))"

definition load_servers :: "'w host \<Rightarrow> json \<Rightarrow> server_entry list" where
  "load_servers H cfg =
     (case bindE (GetMcpServersConfigPath cfg) (\<lambda>p. Discovery.LoadFromFile (ho_json H) (ho_read H p)) of
        Inl e \<Rightarrow> [] | Inr es \<Rightarrow> es)"

definition install_builtins :: "server_tool registry \<times> core_world \<Rightarrow> (server_tool registry \<times> core_world) res" where
  "install_builtins s =
     bindE (RegisterCoreTools CoreT s) (\<lambda>(r, w).
     bindE (add_all RegisterCommand [(''echo'', EchoT True), (''llm'', LlmT), (''remote'', RemoteT)] r) (\<lambda>r'.
       Inr (r', w)))"

fun install_skills :: "engine \<Rightarrow> string set \<Rightarrow> string list \<Rightarrow> server_tool registry \<Rightarrow> server_tool registry res" where
  "install_skills eng plugin [] r = Inr r"
| "install_skills eng plugin (n # ns) r =
     (case SkillEngine.Resolve eng n of
        None \<Rightarrow> install_skills eng plugin ns r
      | Some d \<Rightarrow>
          if HasCommand r n then
            Inl (RuntimeError (''Tool name collision: '' @ [SQ] @ n @ [SQ] @ '' is already registered''))
          else bindE (RegisterCommand n (SkillT d (if n \<in> plugin then Plugin else JsonSkill)) r)
                 (install_skills eng plugin ns))"

text \<open>The skills of profile all; \<open>None\<close> when the expansion loop does not end.\<close>

definition install_all ::
    "'w host \<Rightarrow> json \<Rightarrow> server_tool registry \<Rightarrow> (server_tool registry \<times> engine) res option" where
  "install_all H cfg r =
     (case GetSkillsDirectory cfg of
        Inl e \<Rightarrow> Some (Inl e)
      | Inr sd \<Rightarrow>
          (case GetPluginsDirectory cfg of
             Inl e \<Rightarrow> Some (Inl e)
           | Inr pd \<Rightarrow>
               map_option (\<lambda>(names, eng).
                   bindE (install_skills eng (set names) (ListSkills eng) r) (\<lambda>r'. Inr (r', eng)))
                 (LoadIntoEngine (ho_json H) (ho_rd H) (ho_fs H) (abs_path (ho_cwd H) pd)
                    (LoadFromDirectory (ho_json H) (ho_fs H) (abs_path (ho_cwd H) sd) []))))"

definition native_env_of :: "'w host \<Rightarrow> server_tool native_env" where
  "native_env_of H = \<lparr>ne_json = ho_json H, ne_rd = ho_rd H, ne_pf = ho_pf H, ne_cn = ho_cn H, ne_cwd = ho_cwd H,
     ne_open = ho_dl H, ne_mk = NativeT\<rparr>"

definition script_env_of :: "'w host \<Rightarrow> (server_tool, 'w) script_loader_env" where
  "script_env_of H = \<lparr>sl_json = ho_json H, sl_rd = ho_rd H, sl_pf = ho_pf H, sl_cn = ho_cn H, sl_cwd = ho_cwd H,
     sl_popen = ho_popen H, sl_version = ho_version H, sl_pipe = ho_pipe H, sl_child = ho_child H,
     sl_script = ScriptT, sl_mcp = McpT\<rparr>"

definition loader_packs :: "resolve_output \<Rightarrow> json \<Rightarrow> native_loader" where
  "loader_packs resolved cfg =
     (if out_loadAllPlugins resolved then native_idle
      else SetActivePacks ({out_profile resolved, ''core''} \<union> set (GetToolsEnable cfg)) native_idle)"

definition load_plugins ::
    "'w host \<Rightarrow> json \<Rightarrow> resolve_output \<Rightarrow> server_tool registry \<Rightarrow> server_tool registry res" where
  "load_plugins H cfg resolved r =
     bindE (GetPluginsDirectory cfg) (\<lambda>pd.
     case NativeLoader.LoadAll (native_env_of H) (loader_packs resolved cfg) (ho_fs H) pd
            \<lparr>ls_reg = r, ls_notes = [], ls_dl = \<lparr>dw_opens = [], dw_libs = 0, dw_handles = 0\<rparr>\<rparr> of
       (Inl e, st) \<Rightarrow> Inl e
     | (Inr u, st) \<Rightarrow>
         Inr (if out_loadAllPlugins resolved \<or> GetToolsEnable cfg \<noteq> []
              then ScriptLoader.LoadAll (script_env_of H) (loader_packs resolved cfg) (ho_fs H) pd (ls_reg st)
              else ls_reg st))"

text \<open>The last step: pinned tools must exist and are then the advertised ones.\<close>

definition apply_pins ::
    "string list \<Rightarrow> resolve_output \<Rightarrow> server_tool registry \<times> core_world \<Rightarrow> int + server_tool registry \<times> core_world" where
  "apply_pins pins resolved = (\<lambda>(r, w).
     if pins \<noteq> [] then
       (if list_all (HasCommand r) pins
        then Inr (SetAdvertised (set pins) r, w\<lparr>w_advertised := set pins\<rparr>) else Inl 1)
     else if \<not> out_loadAllPlugins resolved then Inr (SetAdvertised (w_advertised w) r, w)
     else Inr (r, w))"

definition setup_tools ::
    "'w host \<Rightarrow> cli \<Rightarrow> json \<Rightarrow> jail \<Rightarrow> resolve_output \<Rightarrow> string list \<Rightarrow> 'w server outcome option" where
  "setup_tools H c cfg j resolved pins =
     (case bindE (LiteLLMProvider cfg) (\<lambda>provider. ConfigChaining cfg) of
        Inl e \<Rightarrow> Some (Crash e)
      | Inr chaining \<Rightarrow>
          (case install_builtins (SetChainingEnabled chaining empty_registry, runtime_world H j resolved) of
             Inl e \<Rightarrow> Some (ExitCode 1)
           | Inr (r, w) \<Rightarrow>
               (case (if out_loadAllPlugins resolved then install_all H cfg r else Some (Inr (r, []))) of
                  None \<Rightarrow> None
                | Some (Inl e) \<Rightarrow> Some (ExitCode 1)
                | Some (Inr (r1, eng)) \<Rightarrow>
                    (case load_plugins H cfg resolved r1 of
                       Inl e \<Rightarrow> Some (ExitCode 1)
                     | Inr r2 \<Rightarrow>
                         (case apply_pins pins resolved (r2, w) of
                            Inl code \<Rightarrow> Some (ExitCode code)
                          | Inr (r3, w3) \<Rightarrow> Some (Up \<lparr>sv_reg = r3, sv_core = w3, sv_engine = eng,
                                sv_servers = load_servers H cfg, sv_all = out_loadAllPlugins resolved, sv_pins = pins,
                                sv_config = cfg, sv_stdio = stdioMode c, sv_notes = []\<rparr>))))))"

definition startup :: "'w host \<Rightarrow> string list \<Rightarrow> 'w server outcome option" where
  "startup H args =
     (case parse_args args cli_default of
        Inl code \<Rightarrow> Some (ExitCode code)
      | Inr c \<Rightarrow>
          (case load_config H c of
             Inl e \<Rightarrow> Some (Crash e)
           | Inr cfg \<Rightarrow>
               (case Open (ho_cn H) (ho_wc H) (ho_fs H) (ho_cwd H) (choose_workspace H c cfg) (GetWorkspaceAllow cfg) of
                  Inl e \<Rightarrow> Some (ExitCode 1)
                | Inr j \<Rightarrow>
                    (case ToolProfile.Resolve (ho_fs H) (ho_cwd H)
                            \<lparr>in_profile = choose_profile H c cfg, in_enable = GetToolsEnable cfg, in_disable = GetToolsDisable cfg,
                             in_pinTools = choose_pins H c cfg, in_workspaceRoot = Some (m_Root j)\<rparr> of
                       Inl e \<Rightarrow> Some (ExitCode 1)
                     | Inr resolved \<Rightarrow> setup_tools H c cfg j resolved (choose_pins H c cfg)))))"

section \<open>The stdio server\<close>

text \<open>
  \<^verbatim>\<open>Cancel\<close> of a tool; most classes inherit the empty one.  What the shell tool's \<^verbatim>\<open>Cancel\<close>
  does to a running process is in the traces of \<open>te_core\<close>.
\<close>

fun server_cancel :: "'w tool_env \<Rightarrow> server_tool \<Rightarrow> string \<Rightarrow> 'w world \<Rightarrow> 'w world" where
  "server_cancel X (NativeT p t) requestId (core, ps) =
     (core, ps\<lparr>ps_native := (ps_native ps)(pt_Name t := NativeCancel requestId (ps_native ps (pt_Name t)))\<rparr>)"
| "server_cancel X (ScriptT nm rt ep t) requestId (core, ps) =
     (core, ps\<lparr>ps_cancelled := (ps_cancelled ps)(si_Name t := cancelledRequests
        (ScriptCancel requestId \<lparr>s_Counter = ps_counter ps, cancelledRequests = ps_cancelled ps (si_Name t)\<rparr>))\<rparr>)"
| "server_cancel X (McpT nm cmd as t) requestId (core, ps) =
     (core, ps\<lparr>ps_mcp := (ps_mcp ps)(si_Name t := (fst (ps_mcp ps (si_Name t)),
        McpCancel \<lparr>mcf_json = te_json X, mcf_plugin = nm, mcf_tool = si_Name t, mcf_version = te_version X\<rparr>
          (te_pipe X) requestId (ps_mcp ps (si_Name t))))\<rparr>)"
| "server_cancel X c requestId s = s"

text \<open>\<^verbatim>\<open>src/server/StdioTransport.cpp\<close>: the constructor, and \<^verbatim>\<open>SetCoreRuntime\<close>.\<close>

definition SetCoreRuntime ::
    "core_world \<Rightarrow> ('c, 'w world) stdio_env \<Rightarrow> ('c, 'w world) stdio_env" where
  "SetCoreRuntime runtime E =
     E\<lparr>c_catalog := \<lambda>(core, ps). Some (w_skills core), m_ResourceRoot := path_str (m_Root (w_jail runtime))\<rparr>"

definition stdio_server ::
    "'w host \<Rightarrow> 'w tool_env \<Rightarrow> (path \<Rightarrow> int option) \<Rightarrow> (path \<Rightarrow> bool) \<Rightarrow> 'w server \<Rightarrow> (server_tool, 'w world) stdio_env" where
  "stdio_server H X mtime noread sv = SetCoreRuntime (sv_core sv)
     \<lparr>c_json = ho_json H, c_tools = server_strategy X, c_cancel = server_cancel X, c_engine = Some (sv_engine sv),
      c_catalog = \<lambda>w. None, c_files = \<lambda>(core, ps). w_files core, c_mtime = \<lambda>w. mtime, c_canonical = \<lambda>w. ho_cn H,
      c_weakly = \<lambda>w. ho_wc H, c_noread = noread, m_ResourceRoot = path_str (ho_cwd H),
      m_ServerName = ''toolsmith'', m_ServerVersion = ho_version H\<rparr>"

section \<open>The HTTP server\<close>

text \<open>The handler of the HTTP mode; its settings are read after the set-up, outside any \<^verbatim>\<open>try\<close>.\<close>

definition http_handler :: "json \<Rightarrow> (handler \<times> limiter) res" where
  "http_handler cfg =
     bindE (GetRateLimitRequestsPerMinute cfg) (\<lambda>rpm.
     bindE (GetAuthApiKey cfg) (\<lambda>key.
     bindE (IsAuthEnabled cfg) (\<lambda>enabled.
     bindE (GetMaxRequestBodySize cfg) (\<lambda>size.
       Inr (\<lparr>m_ApiKeyValidator = Some \<lparr>m_ExpectedKey = key, m_Enabled = enabled\<rparr>, m_MaxBodySize = size\<rparr>,
            RateLimiter (of_nat rpm))))))"

definition mcp_route ::
    "jlib \<Rightarrow> (json \<Rightarrow> json \<Rightarrow> bool) \<Rightarrow> ('c, 'v) strategy \<Rightarrow> handler \<Rightarrow> int \<Rightarrow> string \<Rightarrow> string \<Rightarrow> string
     \<Rightarrow> ('c, 'v) server_state \<Rightarrow> (nat \<times> string) res \<times> ('c, 'v) server_state" where
  "mcp_route J V S h now body clientIp authHeader st =
     (case HandleRequest J V S h now body clientIp authHeader st of
        (r, st') \<Rightarrow> (bindE r (\<lambda>result. Inr (mcp_status J result, result)), st'))"

definition skill_row :: "tool_metadata \<Rightarrow> json" where
  "skill_row meta = JObj [(''name'', JStr (m_Name meta)), (''description'', JStr (m_Description meta)),
                          (''inputSchema'', m_InputSchema meta)]"

definition get_route ::
    "jlib \<Rightarrow> ('c, 'v) strategy \<Rightarrow> server_entry list \<Rightarrow> 'c registry \<Rightarrow> string \<Rightarrow> (nat \<times> string) res option" where
  "get_route J S servers r p =
     (let answer = (\<lambda>j. Some (bindE (jdump J j) (\<lambda>s. Inr (200, s)))) in
      if p = ''/health'' then Some (Inr (200, ''{'' @ [DQ] @ ''status'' @ [DQ] @ '':'' @ [DQ] @ ''ok'' @ [DQ] @ ''}''))
      else if p = ''/skills'' then
        answer (JArr (map skill_row (filter (\<lambda>m. m_Source m \<noteq> BuiltIn) (ListToolMetadata S r))))
      else if p = ''/servers'' then answer (ServersJson servers)
      else if p = ''/commands'' then answer (JArr (map (\<lambda>m. JStr (m_Name m)) (ListToolMetadata S r)))
      else None)"

end
