(* ===== verification/ServerFacts.thy ===== *)
theory ServerFacts
  imports ServerEntry StdioFacts
begin

text \<open>
  What holds of a server that has come up (\<^verbatim>\<open>src/server_entry.cpp\<close>): the two ways of splitting
  a list agree, every installer only adds to the table of tools, and so the core tools are in
  place and the pinned ones exist; and from then on, whatever is asked of it, the server
  writes only below the workspace and the allowed directories.
\<close>

section \<open>Lists separated by commas\<close>

lemma trim_by_Nil: "trim_by P s = [] \<longleftrightarrow> list_all P s"
proof
  assume "trim_by P s = []"
  then have "\<forall>x\<in>set (dropWhile P s). P x" by (simp add: trim_by_def)
  then have "dropWhile P s = []" by (metis hd_dropWhile hd_in_set)
  then show "list_all P s" by (simp add: list_all_iff)
next
  assume "list_all P s"
  then show "trim_by P s = []" by (intro trim_by_all) (simp add: list_all_iff)
qed

lemma flush_pushes: "flush_piece cur = push_trimmed cur"
  by (simp add: flush_piece_def push_trimmed_def Trim_def Let_def trim_by_Nil)

lemma csv_loops_agree: "split_csv cur s = csv_loop cur s"
  by (induction cur s rule: csv_loop.induct) (auto simp: flush_pushes push_trimmed_def Trim_def)

lemma csv_loop_pieces: "csv_loop cur s = concat (map push_trimmed (split_on CHR '','' cur s))"
  by (induction cur s rule: csv_loop.induct) auto

text \<open>
  The two implementations of \<^verbatim>\<open>SplitCsv\<close>, in \<^verbatim>\<open>Config.cpp\<close> and in \<^verbatim>\<open>server_entry.cpp\<close>, return
  the same list: the pieces between commas without the blanks around them, in order, those
  that are blank left out.
\<close>

theorem csv_splitters_agree:
  "ServerEntry.SplitCsv s = Config.SplitCsv s
   \<and> Config.SplitCsv s = filter (\<lambda>t. t \<noteq> []) (map (trim_by blank) (split_on CHR '','' [] s))"
proof -
  have "push_trimmed cur = filter (\<lambda>t. t \<noteq> []) [trim_by blank cur]" for cur
    by (simp add: push_trimmed_def Trim_def Let_def trim_by_Nil)
  then have "concat (map push_trimmed ps) = filter (\<lambda>t. t \<noteq> []) (map (trim_by blank) ps)" for ps
    by (induction ps) auto
  then show ?thesis
    by (simp add: ServerEntry.SplitCsv_def Config.SplitCsv_def csv_loops_agree csv_loop_pieces)
qed

section \<open>Installers only add\<close>

definition enlarges :: "'c registry \<Rightarrow> 'c registry \<Rightarrow> bool" where
  "enlarges r r' \<longleftrightarrow> CommandRegistry.Resolve r \<subseteq>\<^sub>m CommandRegistry.Resolve r'
     \<and> r' = r\<lparr>m_Commands := m_Commands r'\<rparr> \<and> (wf_registry r \<longrightarrow> wf_registry r')"

named_theorems enlarging

lemma enlarges_refl [enlarging]: "enlarges r r"
  by (simp add: enlarges_def)

lemma enlarges_trans: "enlarges r s \<Longrightarrow> enlarges s t \<Longrightarrow> enlarges r t"
  unfolding enlarges_def by (metis (no_types, lifting) map_le_trans registry.surjective registry.update_convs(1))

lemma enlarges_Register [enlarging]: "RegisterCommand n c r = Inr r' \<Longrightarrow> enlarges r r'"
  by (auto simp: enlarges_def RegisterCommand_ok map_le_def HasCommand_def intro: wf_update)

lemma enlarges_add_all [enlarging]: "add_all RegisterCommand ncs r = Inr r' \<Longrightarrow> enlarges r r'"
proof (induction ncs arbitrary: r)
  case (Cons nc ncs)
  obtain n c where "nc = (n, c)" by (cases nc)
  then show ?case using Cons enlarges_Register enlarges_trans by (fastforce simp: bindE_eq_Inr)
qed (simp add: enlarges_refl)

lemma enlarges_skills [enlarging]: "install_skills eng pl ns r = Inr r' \<Longrightarrow> enlarges r r'"
proof (induction ns arbitrary: r)
  case (Cons n ns)
  show ?case
  proof (cases "SkillEngine.Resolve eng n")
    case (Some d)
    then obtain r1 where r1: "RegisterCommand n (SkillT d (if n \<in> pl then Plugin else JsonSkill)) r = Inr r1"
        "install_skills eng pl ns r1 = Inr r'"
      using Cons.prems by (auto simp: bindE_eq_Inr split: if_splits)
    show ?thesis by (rule enlarges_trans [OF enlarges_Register [OF r1(1)] Cons.IH [OF r1(2)]])
  qed (use Cons in simp)
qed (simp add: enlarges_refl)

lemma enlarges_register_tools [enlarging]: "register_tools mk ts names r = (x, ns, r') \<Longrightarrow> enlarges r r'"
proof (induction ts arbitrary: names r)
  case (Cons t ts)
  then show ?case
    by (cases "RegisterCommand (pt_Name t) (mk t) r")
       (auto simp: enlarges_refl split: if_splits dest: enlarges_Register intro: enlarges_trans)
qed (simp add: enlarges_refl)

lemma reg_FireNotification: "FireNotification E L j st = (x, st') \<Longrightarrow> ls_reg st' = ls_reg st"
  by (auto simp: FireNotification_def split: sum.splits)

lemma enlarges_LoadOne [enlarging]:
  assumes "LoadOne E L c src st = (x, st')" shows "enlarges (ls_reg st) (ls_reg st')"
proof -
  obtain y w where ld: "Load (ne_json E) (ne_open E) c (ls_dl st) = (y, w)"
    by (cases "Load (ne_json E) (ne_open E) c (ls_dl st)")
  show ?thesis
  proof (cases y)
    case (Some p)
    let ?ts = "ListTools (ne_json E) p"
    obtain e ns r where reg: "register_tools (ne_mk E p) ?ts [] (ls_reg st) = (e, ns, r)"
      by (cases "register_tools (ne_mk E p) ?ts [] (ls_reg st)")
    have "ls_reg st' = ls_reg st \<or> ls_reg st' = r"
      using assms reg_FireNotification [of E L "loaded_note p ns src" "st\<lparr>ls_reg := r, ls_dl := w\<rparr>"]
      unfolding LoadOne_def ld Some by (auto simp: reg Let_def split: if_splits option.splits prod.splits sum.splits)
    then show ?thesis using enlarges_register_tools [OF reg] by (auto simp: enlarges_refl)
  qed (use assms ld in \<open>auto simp: LoadOne_def enlarges_refl\<close>)
qed

lemma enlarges_load_bins [enlarging]: "load_bins E L root ps st = (x, st') \<Longrightarrow> enlarges (ls_reg st) (ls_reg st')"
proof (induction ps arbitrary: st)
  case (Cons p ps)
  show ?case
  proof (cases "jailed_bin E root p")
    case (Some c)
    obtain y s1 where one: "LoadOne E L (path_str c) ''startup'' st = (y, s1)"
      by (cases "LoadOne E L (path_str c) ''startup'' st")
    show ?thesis
      using Cons Some one enlarges_LoadOne [OF one] by (cases y) (auto intro: enlarges_trans)
  qed (use Cons in simp)
qed (simp add: enlarges_refl)

lemma enlarges_natives [enlarging]: "NativeLoader.LoadAll E L fs dir st = (x, st') \<Longrightarrow> enlarges (ls_reg st) (ls_reg st')"
  by (auto simp: NativeLoader.LoadAll_def Let_def enlarging split: if_splits option.splits)

lemma enlarges_register_script [enlarging]: "enlarges r (register_script mk ts r)"
proof (induction ts arbitrary: r)
  case (Cons t ts)
  then show ?case
    by (cases "RegisterCommand (si_Name t) (mk t) r")
       (auto simp: enlarges_refl dest: enlarges_Register intro: enlarges_trans)
qed (simp add: enlarges_refl)

lemma enlarges_scripts [enlarging]: "enlarges r (ScriptLoader.LoadAll E L fs dir r)"
proof -
  have "enlarges r (fold (load_desc E) ds r)" for ds
  proof (induction ds arbitrary: r)
    case (Cons d ds)
    have "enlarges r (load_desc E d r)" by (simp add: load_desc_def enlarging split: sum.split)
    then show ?case using Cons enlarges_trans by fastforce
  qed (simp add: enlarges_refl)
  then show ?thesis by (simp add: ScriptLoader.LoadAll_def)
qed

lemma enlarges_plugins [enlarging]:
  "load_plugins H cfg resolved r = Inr r' \<Longrightarrow> enlarges r r'"
proof -
  assume ok: "load_plugins H cfg resolved r = Inr r'"
  then obtain pd where pd: "GetPluginsDirectory cfg = Inr pd" by (auto simp: load_plugins_def bindE_eq_Inr)
  let ?st = "\<lparr>ls_reg = r, ls_notes = [], ls_dl = \<lparr>dw_opens = [], dw_libs = 0, dw_handles = 0\<rparr>\<rparr>"
  let ?L = "loader_packs resolved cfg"
  obtain x st where st: "NativeLoader.LoadAll (native_env_of H) ?L (ho_fs H) pd ?st = (x, st)"
    by (cases "NativeLoader.LoadAll (native_env_of H) ?L (ho_fs H) pd ?st")
  then have "r' = ls_reg st \<or> r' = ScriptLoader.LoadAll (script_env_of H) ?L (ho_fs H) pd (ls_reg st)"
    using ok by (cases x) (simp_all add: load_plugins_def pd split: if_splits)
  moreover have "enlarges r (ls_reg st)" using enlarges_natives [OF st] by simp
  ultimately show ?thesis using enlarges_trans [OF _ enlarges_scripts] by blast
qed

lemma enlarges_all [enlarging]: "install_all H cfg r = Some (Inr (r', eng)) \<Longrightarrow> enlarges r r'"
  by (auto simp: install_all_def bindE_eq_Inr enlarging split: sum.splits)

section \<open>A server that has come up\<close>

definition came_up ::
    "'w host \<Rightarrow> cli \<Rightarrow> json \<Rightarrow> jail \<Rightarrow> resolve_output \<Rightarrow> server_tool registry \<Rightarrow> core_world \<Rightarrow> server_tool registry
     \<Rightarrow> 'w server \<Rightarrow> bool" where
  "came_up H c cfg j resolved r w r2 sv \<longleftrightarrow>
     Open (ho_cn H) (ho_wc H) (ho_fs H) (ho_cwd H) (choose_workspace H c cfg) (GetWorkspaceAllow cfg) = Inr j
     \<and> ToolProfile.Resolve (ho_fs H) (ho_cwd H)
          \<lparr>in_profile = choose_profile H c cfg, in_enable = GetToolsEnable cfg, in_disable = GetToolsDisable cfg,
           in_pinTools = sv_pins sv, in_workspaceRoot = Some (m_Root j)\<rparr> = Inr resolved
     \<and> (\<exists>chaining. install_builtins (SetChainingEnabled chaining empty_registry, runtime_world H j resolved) = Inr (r, w))
     \<and> enlarges r r2 \<and> apply_pins (sv_pins sv) resolved (r2, w) = Inr (sv_reg sv, sv_core sv)
     \<and> sv_all sv = out_loadAllPlugins resolved"

lemma startup_came_up:
  assumes "startup H args = Some (Up sv)"
  shows "\<exists>c cfg j resolved r w r2. came_up H c cfg j resolved r w r2 sv"
proof -
  obtain c cfg j resolved where 1:
      "Open (ho_cn H) (ho_wc H) (ho_fs H) (ho_cwd H) (choose_workspace H c cfg) (GetWorkspaceAllow cfg) = Inr j"
      "ToolProfile.Resolve (ho_fs H) (ho_cwd H)
          \<lparr>in_profile = choose_profile H c cfg, in_enable = GetToolsEnable cfg, in_disable = GetToolsDisable cfg,
           in_pinTools = choose_pins H c cfg, in_workspaceRoot = Some (m_Root j)\<rparr> = Inr resolved"
      "setup_tools H c cfg j resolved (choose_pins H c cfg) = Some (Up sv)"
    using assms by (auto simp: startup_def split: sum.splits)
  obtain chaining where ch: "bindE (LiteLLMProvider cfg) (\<lambda>provider. ConfigChaining cfg) = Inr chaining"
    using 1(3) by (cases "bindE (LiteLLMProvider cfg) (\<lambda>provider. ConfigChaining cfg)") (simp_all add: setup_tools_def)
  let ?b = "install_builtins (SetChainingEnabled chaining empty_registry, runtime_world H j resolved)"
  obtain r w where b: "?b = Inr (r, w)"
    using 1(3) ch by (cases ?b) (auto simp: setup_tools_def)
  let ?s = "if out_loadAllPlugins resolved then install_all H cfg r else Some (Inr (r, []))"
  obtain r1 eng where s: "?s = Some (Inr (r1, eng))"
    using 1(3) ch b by (cases ?s) (auto simp: setup_tools_def simp del: if_split split: sum.splits)
  obtain r2 where p: "load_plugins H cfg resolved r1 = Inr r2"
    using 1(3) ch b s by (cases "load_plugins H cfg resolved r1") (simp_all add: setup_tools_def del: if_split)
  obtain r3 w3 where a: "apply_pins (choose_pins H c cfg) resolved (r2, w) = Inr (r3, w3)"
    using 1(3) ch b s p
    by (cases "apply_pins (choose_pins H c cfg) resolved (r2, w)") (auto simp: setup_tools_def simp del: if_split)
  have sv: "sv_reg sv = r3" "sv_core sv = w3" "sv_pins sv = choose_pins H c cfg" "sv_all sv = out_loadAllPlugins resolved"
    using 1(3) ch b s p a by (auto simp: setup_tools_def simp del: if_split)
  have "enlarges r r1" using s enlarges_all by (auto simp: enlarges_refl split: if_splits)
  then have e: "enlarges r r2" using enlarges_plugins [OF p] enlarges_trans by blast
  have "came_up H c cfg j resolved r w r2 sv"
    unfolding came_up_def sv by (intro conjI exI [of _ chaining] 1(1,2) b a e) simp_all
  then show ?thesis by blast
qed

lemma builtins_installed:
  assumes "install_builtins (SetChainingEnabled ch empty_registry, w0) = Inr (r, w)"
  shows "wf_registry r" "CommandRegistry.Resolve r (core_name t) = Some (CoreT t)"
    "CommandRegistry.Resolve r ''echo'' = Some (EchoT True)" "CommandRegistry.Resolve r ''llm'' = Some LlmT"
    "CommandRegistry.Resolve r ''remote'' = Some RemoteT" "\<not> m_FilterAdvertised r" "w = lock_core w0"
proof -
  let ?e = "SetChainingEnabled ch empty_registry :: server_tool registry"
  let ?core = "map (\<lambda>(n, t). (n, CoreT t)) core_table" and ?more = "[(''echo'', EchoT True), (''llm'', LlmT), (''remote'', RemoteT)]"
  have add: "add_all RegisterCommand (?core @ ?more) ?e = Inr r" and w: "w = lock_core w0"
    using assms by (auto simp: install_builtins_def RegisterCoreTools_def bindE_eq_Inr add_all_append)
  have wf: "wf_registry ?e" by (simp add: wf_registry_def SetChainingEnabled_def empty_registry_def)
  have "all_fresh CommandRegistry.Resolve (map fst (?core @ ?more)) ?e"
    by (simp add: all_fresh_def core_table_def CommandRegistry.Resolve_def SetChainingEnabled_def empty_registry_def)
  from table.add_all_fresh [OF wf this] add
  have r: "wf_registry r" "CommandRegistry.Resolve r = CommandRegistry.Resolve ?e ++ map_of (?core @ ?more)" by auto
  have at: "map_of (?core @ ?more) n = Some c \<Longrightarrow> CommandRegistry.Resolve r n = Some c" for n c
    by (simp only: r(2) map_add_find_right)
  show "wf_registry r" by (rule r(1))
  have "map_of (?core @ ?more) (core_name t) = Some (CoreT t)" by (cases t) (simp_all add: core_table_def)
  then show "CommandRegistry.Resolve r (core_name t) = Some (CoreT t)" by (rule at)
  have "map_of (?core @ ?more) ''echo'' = Some (EchoT True)" "map_of (?core @ ?more) ''llm'' = Some LlmT"
      "map_of (?core @ ?more) ''remote'' = Some RemoteT" by (simp_all add: core_table_def)
  then show "CommandRegistry.Resolve r ''echo'' = Some (EchoT True)" "CommandRegistry.Resolve r ''llm'' = Some LlmT"
    "CommandRegistry.Resolve r ''remote'' = Some RemoteT" using at by blast+
  from enlarges_add_all [OF add] show "\<not> m_FilterAdvertised r"
    unfolding enlarges_def by (metis SetChainingEnabled_def empty_registry_def registry.select_convs(3) registry.surjective registry.update_convs(1,4))
  show "w = lock_core w0" by (rule w)
qed

lemma packs_spare_core: "set kCoreTools \<inter> pack_tools ps = {}"
proof -
  have "list_all (\<lambda>(p, ts). list_all (\<lambda>t. t \<notin> set kCoreTools) ts) kPackTools"
    by (simp add: kPackTools_def kCoreTools_def)
  then have "map_of kPackTools p = Some ts \<Longrightarrow> t \<in> set ts \<Longrightarrow> t \<notin> set kCoreTools" for p ts t
    by (auto simp: list_all_iff dest!: map_of_SomeD)
  then show ?thesis by (auto simp: pack_tools_def split: option.splits)
qed

lemma apply_pins_cases:
  assumes "apply_pins pins resolved (r, w) = Inr (r', w')"
  obtains (pinned) "pins \<noteq> []" "list_all (HasCommand r) pins" "r' = SetAdvertised (set pins) r"
      "w' = w\<lparr>w_advertised := set pins\<rparr>"
  | (profile) "pins = []" "\<not> out_loadAllPlugins resolved" "r' = SetAdvertised (w_advertised w) r" "w' = w"
  | (everything) "pins = []" "out_loadAllPlugins resolved" "r' = r" "w' = w"
proof (cases "pins = []")
  case True
  show ?thesis
  proof (cases "out_loadAllPlugins resolved")
    case True
    show ?thesis by (rule everything) (use assms True \<open>pins = []\<close> in \<open>auto simp: apply_pins_def\<close>)
  next
    case False
    show ?thesis by (rule profile) (use assms False \<open>pins = []\<close> in \<open>auto simp: apply_pins_def\<close>)
  qed
next
  case False
  show ?thesis by (rule pinned) (use assms False in \<open>auto simp: apply_pins_def split: if_splits\<close>)
qed

lemma resolved_core:
  assumes "ToolProfile.Resolve fs cwd i = Inr out" "in_pinTools i = []" "\<not> out_loadAllPlugins out"
  shows "set kCoreTools \<subseteq> out_advertised out"
proof -
  obtain p where p: "Normalize (if in_profile i = [] then ''auto'' else in_profile i) = Some p"
    using assms(1) by (cases "Normalize (if in_profile i = [] then ''auto'' else in_profile i)") (simp_all add: ToolProfile.Resolve_def)
  define profile where "profile = (if p = ''auto'' then Detect fs cwd (in_workspaceRoot i) else p)"
  have na: "profile \<noteq> ''all''"
    using assms p by (auto simp: ToolProfile.Resolve_def Let_def profile_def [symmetric])
  obtain adv where e: "enable_packs (in_enable i) (ToolsForProfile profile) = Inr adv"
    using assms(1) p na
    by (cases "enable_packs (in_enable i) (ToolsForProfile profile)") (simp_all add: ToolProfile.Resolve_def Let_def profile_def [symmetric])
  then have "out_advertised out = disable_packs (in_disable i) adv"
    using assms(1,2) p na by (auto simp: ToolProfile.Resolve_def Let_def profile_def [symmetric])
  moreover have "set kCoreTools \<subseteq> adv" using e na by (auto simp: enable_packs_eq ToolsForProfile_def)
  ultimately show ?thesis using packs_spare_core [of "in_disable i"] by (auto simp: disable_packs_eq)
qed


section \<open>Both servers write inside only\<close>

lemma came_up_world:
  assumes "came_up H c cfg j resolved r w r2 sv"
  shows "w_jail (sv_core sv) = j" "w_files (sv_core sv) = ho_fs H"
proof -
  from assms obtain ch where b: "install_builtins (SetChainingEnabled ch empty_registry, runtime_world H j resolved) = Inr (r, w)"
    and a: "apply_pins (sv_pins sv) resolved (r2, w) = Inr (sv_reg sv, sv_core sv)" by (auto simp: came_up_def)
  have "w_jail w = j" "w_files w = ho_fs H"
    by (simp_all add: builtins_installed(7) [OF b] lock_core_def runtime_world_def)
  then show "w_jail (sv_core sv) = j" "w_files (sv_core sv) = ho_fs H"
    using a by (auto elim!: apply_pins_cases)
qed

text \<open>An invariant of the tools and of \<^verbatim>\<open>Cancel\<close> is one of the transport.\<close>

definition keeps_all :: "('c, 'w) stdio_env \<Rightarrow> ('c registry \<times> 'w \<Rightarrow> bool) \<Rightarrow> bool" where
  "keeps_all E I \<longleftrightarrow> keeps (c_tools E) I \<and> (\<forall>c i r w. I (r, w) \<longrightarrow> I (r, c_cancel E c i w))"

lemma keeps_exec: "keeps_all E I \<Longrightarrow> I s \<Longrightarrow> ExecuteAsync (c_tools E) c q s = (x, s') \<Longrightarrow> I s'"
  unfolding keeps_all_def keeps_def by (metis snd_conv)

lemma keeps_batch_call: "keeps_all E I \<Longrightarrow> I s \<Longrightarrow> batch_call E call s = (x, s') \<Longrightarrow> I s'"
  unfolding batch_call_def by (auto split: option.split_asm sum.split_asm prod.split_asm dest: keeps_exec)

lemma keeps_batch_loop: "keeps_all E I \<Longrightarrow> I s \<Longrightarrow> batch_loop E cs s = (x, s') \<Longrightarrow> I s'"
proof (induction cs arbitrary: s x s')
  case (Cons c cs)
  obtain y s1 where one: "batch_call E c s = (y, s1)" by (cases "batch_call E c s")
  obtain z s2 where rest: "batch_loop E cs s1 = (z, s2)" by (cases "batch_loop E cs s1")
  have "I s1" by (rule keeps_batch_call [OF Cons.prems(1,2) one])
  then have "I s2" using Cons.IH [OF Cons.prems(1)] rest by blast
  then show ?case using Cons.prems(3) one rest \<open>I s1\<close> by (auto split: sum.split_asm)
qed simp

lemma keeps_batch: "keeps_all E I \<Longrightarrow> I s \<Longrightarrow> HandleToolsCallBatch E params mid s = (x, s') \<Longrightarrow> I s'"
  by (auto simp: HandleToolsCallBatch_def split: option.splits json.splits if_splits prod.splits sum.splits
      dest: keeps_batch_loop)

lemma keeps_call_end:
  assumes "keeps_all E I" "I s" "call_end E k (st, s) = (x, st', s')" shows "I s'"
proof -
  have "I (snd (ExecuteWithChaining (c_tools E) (k_tool k) (k_request k) 0 s))"
    by (rule chain_keeps [where I = I]) (use assms(1,2) in \<open>simp_all add: keeps_all_def\<close>)
  then show ?thesis using assms(3) by (auto simp: call_end_def Let_def split: prod.splits sum.splits)
qed

lemma keeps_call:
  assumes "keeps_all E I" "I s" "HandleToolsCall E params mid (st, s) = (x, st', s')" shows "I s'"
proof -
  obtain r w r' w' where s: "s = (r, w)" "s' = (r', w')" by (cases s; cases s')
  show ?thesis
    using assms keeps_call_end [OF assms(1,2)]
    unfolding HandleToolsCall_def s prod.case by (auto split: sum.split_asm call_start.split_asm)
qed

lemma keeps_cancel:
  assumes "keeps_all E I" "I s" "HandleCancelNotification E params (st, s) = (x, st', s')" shows "I s'"
  using assms by (cases s) (auto simp: HandleCancelNotification_def keeps_all_def split: option.splits sum.splits)

lemma keeps_Dispatch:
  assumes "keeps_all E I" "I s" "Dispatch E msg (st, s) = (x, st', s')" shows "I s'"
proof -
  obtain r w where s: "s = (r, w)" by (cases s)
  note keep = keeps_call [OF assms(1,2)] keeps_batch [OF assms(1,2)] keeps_cancel [OF assms(1,2)]
  have init: "dispatch_initialized E meth mid params (st, s) = (x, st', s') \<Longrightarrow> I s'" for meth mid params
    using assms(2) keep unfolding dispatch_initialized_def s prod.case by (auto split: if_split_asm prod.split_asm)
  show ?thesis
    using assms(2,3) keep(3) init unfolding Dispatch_def s prod.case
    by (auto simp: Let_def split: sum.split_asm if_split_asm prod.split_asm)
qed

lemma keeps_reachable:
  assumes "keeps_all E I" "I s" "reachable E input s y" shows "I (snd (y_state y))"
  using assms(3)
proof (induction rule: reachable_induct)
  case start
  then show ?case by (simp add: sys_start_def assms(2))
next
  case (step y y')
  have line: "step_state (run_line E l (y_state y)) = Some ts \<Longrightarrow> I (snd ts)" for l ts
    using run_line_state [of E l "fst (y_state y)" "snd (y_state y)" "fst ts" "snd ts"] step.IH
      keeps_Dispatch [OF assms(1) step.IH, of _ "fst (y_state y)"] by (cases ts) auto
  have stepped: "run_line E l (y_state y) = Continue ts \<or> run_line E l (y_state y) = Escape e ts \<Longrightarrow> I (snd ts)" for l e ts
    by (rule line [where l = l]) (auto simp: step_state_def)
  from step.hyps(2) show ?case
  proof cases
    case (read_continue l ls ts)
    then show ?thesis using stepped [of l ts] by simp
  next
    case (read_escape l ls e ts)
    then show ?thesis using stepped [of l ts e] by simp
  next
    case (call_finished ks1 k ks2 res st' s')
    then show ?thesis using keeps_call_end [OF assms(1) step.IH, of k "fst (y_state y)"] by simp
  qed (use step.IH in auto)
qed

lemma server_keeps_all:
  assumes "\<not> Contains j q" "q \<noteq> []"
  shows "keeps_all (stdio_server H X mt nr sv) (confined j q n)"
proof -
  have "confined j q n (r, w) \<Longrightarrow> confined j q n (r, server_cancel X c i w)" for c i and r :: "server_tool registry" and w
    by (cases w; cases c) (simp_all add: confined_def)
  then show ?thesis
    using server_confined [OF assms] by (simp add: keeps_all_def stdio_server_def SetCoreRuntime_def)
qed


section \<open>A small server\<close>

text \<open>A machine without configuration, plugins or skills: the workspace \<^verbatim>\<open>/w\<close> and a file outside.\<close>

definition ex_host :: "string list host" where
  "ex_host = \<lparr>ho_env = \<lambda>v. [], ho_fs = [([''w''], Directory), ([''etc''], Directory), ([''etc'', ''f''], RegFile ''x'')],
     ho_cwd = [], ho_cn = Some, ho_wc = \<lambda>p. Some (if normal p then p else []), ho_json = ex_lib, ho_rd = \<lambda>s. None,
     ho_pf = Linux, ho_dl = \<lambda>s. None, ho_popen = \<lambda>s. None, ho_pipe = lines_pipe, ho_child = \<lambda>c as. [], ho_version = ''1''\<rparr>"

definition ex_args :: "string list" where
  "ex_args = [''--profile'', ''core'', ''--workspace'', ''/w'']"

definition ex_cli :: cli where
  "ex_cli = cli_default\<lparr>cliProfile := ''core'', cliWorkspace := ''/w''\<rparr>"

lemma ex_config: "load_config ex_host ex_cli = Inr (JObj [])"
  by (simp add: load_config_def ex_host_def ex_cli_def cli_default_def Config.LoadFromFile_def ho_read_def fs_read_def
      fs_node_def LoadFromEnv_def set_when_def abs_path_def is_absolute_def path_parts_def)

lemma ex_settings:
  "ConfigChaining (JObj []) = Inr False" "GetToolsEnable (JObj []) = []" "GetToolsDisable (JObj []) = []"
  "GetWorkspaceAllow (JObj []) = []" "GetToolsPin (JObj []) = []" "GetPluginsDirectory (JObj []) = Inr ''plugins''"
  "LiteLLMProvider (JObj []) = Inr (''http://localhost:4000'', ''gpt-3.5-turbo'')"
  by (simp_all add: ConfigChaining_def get2_def GetToolsEnable_def GetToolsDisable_def GetWorkspaceAllow_def GetToolsPin_def
      JsonStringList_def GetPluginsDirectory_def LiteLLMProvider_def GetLiteLlmBaseUrl_def GetDefaultModel_def)

lemma ex_choices:
  "choose_workspace ex_host ex_cli (JObj []) = ''/w''" "choose_profile ex_host ex_cli (JObj []) = ''core''"
  "choose_pins ex_host ex_cli (JObj []) = []"
  by (simp_all add: choose_workspace_def choose_profile_def choose_pins_def ex_cli_def cli_default_def ex_host_def ex_settings Let_def)

lemma ex_opened: "Open (ho_cn ex_host) (ho_wc ex_host) (ho_fs ex_host) (ho_cwd ex_host) ''/w'' [] = Inr \<lparr>m_Root = [''w''], m_Allow = []\<rparr>"
  by (simp add: Open_def Canonical_def ex_host_def abs_path_def is_absolute_def path_parts_def normal_def fs_exists_def
      fs_is_dir_def fs_node_def Let_def)

lemma ex_lower: "Lower ''core'' = ''core''"
  by code_simp

definition ex_resolved :: resolve_output where
  "ex_resolved = \<lparr>out_profile = ''core'', out_advertised = set kCoreTools, out_loadAllPlugins = False\<rparr>"

lemma ex_profile:
  "ToolProfile.Resolve fs cwd \<lparr>in_profile = ''core'', in_enable = [], in_disable = [], in_pinTools = [], in_workspaceRoot = r\<rparr> = Inr ex_resolved"
  by (simp add: ToolProfile.Resolve_def Normalize_def ex_lower profile_names_def ToolsForProfile_def ex_resolved_def Let_def)

lemma builtins_total: "\<exists>r. install_builtins (SetChainingEnabled ch empty_registry, w) = Inr (r, lock_core w)"
proof -
  let ?e = "SetChainingEnabled ch empty_registry :: server_tool registry"
  let ?core = "map (\<lambda>(n, t). (n, CoreT t)) core_table" and ?more = "[(''echo'', EchoT True), (''llm'', LlmT), (''remote'', RemoteT)]"
  have wf: "wf_registry ?e" by (simp add: wf_registry_def SetChainingEnabled_def empty_registry_def)
  have "all_fresh CommandRegistry.Resolve (map fst (?core @ ?more)) ?e"
    by (simp add: all_fresh_def core_table_def CommandRegistry.Resolve_def SetChainingEnabled_def empty_registry_def)
  from table.add_all_fresh [OF wf this] obtain r where "add_all RegisterCommand (?core @ ?more) ?e = Inr r" by blast
  then obtain r0 where "add_all RegisterCommand ?core ?e = Inr r0" "add_all RegisterCommand ?more r0 = Inr r"
    unfolding add_all_append bindE_eq_Inr by blast
  then show ?thesis by (simp add: install_builtins_def RegisterCoreTools_def del: add_all.simps)
qed

lemma ex_plugins_none: "load_plugins ex_host (JObj []) ex_resolved r = Inr r"
  by (simp add: load_plugins_def ex_settings ex_resolved_def NativeLoader.LoadAll_def native_env_of_def ex_host_def fs_exists_def
      fs_node_def abs_path_def is_absolute_def path_parts_def Let_def)

lemma ex_up:
  "\<exists>sv. startup ex_host ex_args = Some (Up sv) \<and> sv_pins sv = [] \<and> \<not> sv_all sv \<and> sv_config sv = JObj [] \<and> \<not> sv_stdio sv
     \<and> w_jail (sv_core sv) = \<lparr>m_Root = [''w''], m_Allow = []\<rparr>"
proof -
  have args: "parse_args ex_args cli_default = Inr ex_cli" by (simp add: ex_args_def ex_cli_def)
  obtain r where r: "install_builtins (SetChainingEnabled False empty_registry, runtime_world ex_host \<lparr>m_Root = [''w''], m_Allow = []\<rparr> ex_resolved)
      = Inr (r, lock_core (runtime_world ex_host \<lparr>m_Root = [''w''], m_Allow = []\<rparr> ex_resolved))"
    using builtins_total by blast
  show ?thesis
    by (simp add: startup_def args ex_config ex_choices ex_settings ex_opened ex_profile setup_tools_def r ex_plugins_none)
       (simp add: ex_resolved_def apply_pins_def lock_core_def runtime_world_def ex_cli_def cli_default_def)
qed



end
