(* ===== verification/CoreReplies.thy ===== *)
theory CoreReplies
  imports CoreToolsFacts
begin

text \<open>
  The type of the core tools' replies (\<^verbatim>\<open>src/commands/CoreTools.cpp\<close>): which fields a reply
  has, and of what kind their values are.
\<close>

section \<open>The type\<close>

definition text_fields :: "string list" where
  "text_fields = [''status'', ''error'', ''content'', ''error_note'', ''root'', ''allowed_tools'']"

definition flag_fields :: "string list" where "flag_fields = [''truncated'', ''outside_workspace'']"

definition number_fields :: "string list" where
  "number_fields = [''next_line'', ''hits'', ''exit_code'', ''count'']"

fun field_ok :: "string \<times> json \<Rightarrow> bool" where
  "field_ok (k, JStr s) \<longleftrightarrow> k \<in> set text_fields"
| "field_ok (k, JBool b) \<longleftrightarrow> k \<in> set flag_fields"
| "field_ok (k, JInt i) \<longleftrightarrow> k \<in> set number_fields"
| "field_ok (k, v) \<longleftrightarrow> False"

fun typed_reply :: "json \<Rightarrow> bool" where
  "typed_reply (JObj kvs) \<longleftrightarrow> distinct (map fst kvs) \<and> list_all field_ok kvs
     \<and> (map_of kvs ''status'' = Some (JStr ''ok'') \<and> map_of kvs ''content'' \<noteq> None \<and> map_of kvs ''truncated'' \<noteq> None
          \<and> map_of kvs ''error'' = None
        \<or> map_of kvs ''status'' = Some (JStr ''error'') \<and> map_of kvs ''error'' \<noteq> None)"
| "typed_reply j \<longleftrightarrow> False"

lemmas field_lists = text_fields_def flag_fields_def number_fields_def

named_theorems replying "how replies are built"

lemma typed_Ok [replying]: "typed_reply (Ok content truncated)"
  by (simp add: Ok_def field_lists split: prod.split)

lemma typed_Err [replying]: "typed_reply (Err message)"
  by (simp add: Err_def field_lists)

lemma list_all_update: "list_all P kvs \<Longrightarrow> P (k, v) \<Longrightarrow> list_all P (AList.update k v kvs)"
  by (induction kvs) auto

lemma typed_put [replying]:
  assumes "typed_reply j" "field_ok (k, v)" "k \<noteq> ''status''" "k \<noteq> ''error''"
  shows "typed_reply (put j k v)"
proof -
  obtain kvs where j: "j = JObj kvs" using assms(1) by (cases j) simp_all
  have "map_of (AList.update k v kvs) ''status'' = map_of kvs ''status''"
    "map_of (AList.update k v kvs) ''error'' = map_of kvs ''error''"
    "map_of kvs x \<noteq> None \<Longrightarrow> map_of (AList.update k v kvs) x \<noteq> None" for x
    using assms(3,4) by (auto simp: update_conv')
  then show ?thesis
    using assms(1) list_all_update [of field_ok kvs k v] assms(2)
    unfolding j put.simps typed_reply.simps by (metis distinct_update)
qed

lemma field_ok_simps [simp]:
  "field_ok (''hits'', JInt i)" "field_ok (''exit_code'', JInt i)" "field_ok (''next_line'', JInt i)" "field_ok (''count'', JInt i)"
  "field_ok (''content'', JStr s)" "field_ok (''error_note'', JStr s)" "field_ok (''root'', JStr s)"
  "field_ok (''allowed_tools'', JStr s)" "field_ok (''truncated'', JBool b)" "field_ok (''outside_workspace'', JBool b)"
  by (simp_all add: field_lists)

declare field_ok.simps [simp del]

section \<open>The tools\<close>

text \<open>A result that, unless it is an exception, is of the type.\<close>

definition typed_res :: "json res \<Rightarrow> bool" where
  "typed_res m \<longleftrightarrow> (case m of Inl e \<Rightarrow> True | Inr j \<Rightarrow> typed_reply j)"

lemma typed_res_simps [simp]: "typed_res (Inl e)" "typed_res (Inr j) \<longleftrightarrow> typed_reply j"
  by (simp_all add: typed_res_def)

lemma typed_bind [replying]: "(\<And>x. m = Inr x \<Longrightarrow> typed_res (f x)) \<Longrightarrow> typed_res (bindE m f)"
  by (cases m) simp_all

lemma typed_if: "(c \<Longrightarrow> typed_res a) \<Longrightarrow> (\<not> c \<Longrightarrow> typed_res b) \<Longrightarrow> typed_res (if c then a else b)"
  by simp

lemma typed_skills_refused [replying]: "typed_reply skills_refused"
  by (simp add: skills_refused_def typed_Err)

lemma typed_read: "typed_res (ReadCommand E q w)"
  by (auto simp: ReadCommand_def Let_def split: sum.split prod.split intro!: replying)

lemma typed_edit: "typed_res (fst (EditCommand E q w))"
  by (auto simp: EditCommand_def edit_file_def Let_def replying
      split: sum.split option.split json.split hunk_parse.split apply_result.split)

lemma typed_search: "typed_res (SearchCommand E q w)"
  by (auto simp: SearchCommand_def Let_def split: prod.split intro!: replying)

lemma typed_shell_reply [replying]: "typed_reply (shell_reply timeout proc)"
  by (auto simp: shell_reply_def split: prod.split intro!: replying)

lemma typed_shell: "typed_res (ShellCommand E q w)"
  by (auto simp: ShellCommand_def Let_def intro!: replying)

lemma typed_git_ok [replying]: "typed_reply (git_ok proc post)"
  by (auto simp: git_ok_def replying split: prod.split)

lemma typed_git: "typed_res (GitCommand E q w)"
  unfolding GitCommand_def Let_def by (intro typed_bind typed_if) (simp_all add: replying)

lemma typed_ok_tail [replying]: "typed_reply (ok_tail proc)"
  by (auto simp: ok_tail_def replying split: prod.split)

lemma typed_build_loop [replying]: "typed_reply (build_loop E es)"
  by (induction es rule: build_loop.induct) (simp_all add: Let_def replying)

lemma typed_test_loop [replying]: "typed_reply (test_loop E es)"
  by (induction es rule: test_loop.induct) (simp_all add: Let_def replying)

lemma typed_build: "typed_res (BuildCommand E q w)"
  by (auto simp: BuildCommand_def Let_def split: prod.split intro!: replying)

lemma typed_test: "typed_res (TestCommand E q w)"
  by (simp add: TestCommand_def Let_def replying)

lemma typed_diagnose: "typed_res (DiagnoseCommand E q w)"
  by (auto simp: DiagnoseCommand_def Let_def split: prod.split intro!: replying)

lemma typed_activate: "typed_res (fst (ActivateCommand q s))"
  by (cases s) (simp add: ActivateCommand_def advertise_sync_def replying split: sum.split)

lemma typed_deactivate: "typed_res (fst (DeactivateCommand q s))"
  by (cases s) (simp add: DeactivateCommand_def withdraw_sync_def replying split: sum.split)

lemma typed_skill: "typed_res (SkillLoadCommand q w)"
  by (auto simp: SkillLoadCommand_def split: sum.split prod.split intro!: replying)

text \<open>
  C31: Whatever it is asked, a core tool either throws or replies with an object whose status is
  \<^verbatim>\<open>ok\<close>, with a text \<^verbatim>\<open>content\<close>, the flag \<^verbatim>\<open>truncated\<close> and no \<^verbatim>\<open>error\<close>, or \<^verbatim>\<open>error\<close>, with a text
  \<^verbatim>\<open>error\<close>; every other field is a known one, of its kind, and none occurs twice.
\<close>

theorem core_replies_typed:
  "case fst (core_exec E t q s) of Inl e \<Rightarrow> True | Inr j \<Rightarrow> typed_reply j"
proof -
  have "typed_res (fst (core_exec E t q s))"
  proof (cases t)
    case Edit
    then show ?thesis using typed_edit [of E q "snd s"] by (cases "EditCommand E q (snd s)") simp
  next
    case Catalog
    then show ?thesis by (auto simp: pure_tool_def CatalogCommand_def intro!: replying)
  next
    case Skills
    then show ?thesis by (auto simp: pure_tool_def SkillsCatalogCommand_def intro!: replying)
  next
    case Project
    then show ?thesis by (simp add: pure_tool_def ProjectCommand_def replying Let_def)
  qed (simp_all add: pure_tool_def typed_read typed_search typed_shell typed_git typed_build typed_test typed_diagnose
      typed_activate typed_deactivate typed_skill)
  then show ?thesis by (simp add: typed_res_def)
qed

end
