(* ===== verification/ThreadPool.thy ===== *)
theory ThreadPool
  imports Prelude
begin

text \<open>
  \<^verbatim>\<open>src/core/ThreadPool.cpp\<close> and \<^verbatim>\<open>include/core/ThreadPool.h\<close>: a queue of tasks and a fixed
  number of workers.  A task is a number, and it always ends (its exceptions go into its
  future).  Each critical section of the code is one step; a worker that waits on the
  condition variable is an idle worker, whose step is enabled when the predicate of the wait
  holds.  Three logs record what was submitted, started and finished.
\<close>

datatype worker = Idle | Busy nat | Exited

record pool =
  p_tasks :: "nat list"
  p_stopping :: bool
  p_workers :: "worker list"
  p_submitted :: "nat list"
  p_started :: "nat list"
  p_finished :: "nat list"

definition ThreadPool :: "nat \<Rightarrow> pool" where
  "ThreadPool n = \<lparr>p_tasks = [], p_stopping = False, p_workers = replicate (if n = 0 then 1 else n) Idle,
     p_submitted = [], p_started = [], p_finished = []\<rparr>"

definition Submit :: "nat \<Rightarrow> pool \<Rightarrow> pool res" where
  "Submit task p =
     (if p_stopping p then Inl (RuntimeError ''submit on stopped ThreadPool'')
      else Inr (p\<lparr>p_tasks := p_tasks p @ [task], p_submitted := p_submitted p @ [task]\<rparr>))"

text \<open>The first part of \<^verbatim>\<open>Shutdown\<close>; the second waits for all workers to have exited.\<close>

definition stop_pool :: "pool \<Rightarrow> pool" where
  "stop_pool p = p\<lparr>p_stopping := True\<rparr>"

text \<open>A worker's next step, if it has one: it takes a task or leaves, or finishes its task.\<close>

definition worker_next :: "nat \<Rightarrow> pool \<Rightarrow> pool option" where
  "worker_next i p =
     (if length (p_workers p) \<le> i then None
      else (case p_workers p ! i of
          Exited \<Rightarrow> None
        | Busy t \<Rightarrow> Some (p\<lparr>p_workers := (p_workers p)[i := Idle], p_finished := p_finished p @ [t]\<rparr>)
        | Idle \<Rightarrow>
            (case p_tasks p of
               [] \<Rightarrow> if p_stopping p then Some (p\<lparr>p_workers := (p_workers p)[i := Exited]\<rparr>) else None
             | t # ts \<Rightarrow> Some (p\<lparr>p_tasks := ts, p_workers := (p_workers p)[i := Busy t], p_started := p_started p @ [t]\<rparr>))))"

inductive worker_step :: "pool \<Rightarrow> pool \<Rightarrow> bool" where
  "worker_next i p = Some q \<Longrightarrow> worker_step p q"

inductive pool_step :: "pool \<Rightarrow> pool \<Rightarrow> bool" where
  submit: "Submit t p = Inr q \<Longrightarrow> pool_step p q"
| stop: "pool_step p (stop_pool p)"
| work: "worker_step p q \<Longrightarrow> pool_step p q"

inductive_cases worker_stepE: "worker_step p q"
inductive_cases pool_stepE: "pool_step p q"

section \<open>The invariant\<close>

fun worker_tasks :: "worker \<Rightarrow> nat multiset" where
  "worker_tasks (Busy t) = {#t#}"
| "worker_tasks w = {#}"

definition running :: "worker list \<Rightarrow> nat multiset" where
  "running ws = sum_list (map worker_tasks ws)"

definition pool_inv :: "pool \<Rightarrow> bool" where
  "pool_inv p \<longleftrightarrow> p_submitted p = p_started p @ p_tasks p
     \<and> mset (p_started p) = mset (p_finished p) + running (p_workers p)
     \<and> p_workers p \<noteq> [] \<and> (Exited \<in> set (p_workers p) \<longrightarrow> p_stopping p \<and> p_tasks p = [])"

lemma running_update:
  "i < length ws \<Longrightarrow> running (ws[i := w]) + worker_tasks (ws ! i) = running ws + worker_tasks w"
  by (induction ws arbitrary: i) (auto simp: running_def less_Suc_eq_0_disj)

lemma running_update_nil:
  assumes "i < length ws" "worker_tasks (ws ! i) = {#}"
  shows "running (ws[i := w]) = running ws + worker_tasks w"
  using running_update [OF assms(1), of w] assms(2) by simp

lemma worker_inv: "pool_inv p \<Longrightarrow> worker_step p q \<Longrightarrow> pool_inv q"
proof (elim worker_stepE)
  fix i assume inv: "pool_inv p" and next_p: "worker_next i p = Some q"
  then have i: "i < length (p_workers p)" by (auto simp: worker_next_def split: if_splits)
  have ex: "Exited \<in> set ((p_workers p)[i := w]) \<Longrightarrow> w = Exited \<or> Exited \<in> set (p_workers p)" for w
    by (metis insert_iff set_update_subset_insert subsetD)
  show "pool_inv q"
  proof (cases "p_workers p ! i")
    case Idle
    have r: "running ((p_workers p)[i := w]) = running (p_workers p) + worker_tasks w" for w
      by (rule running_update_nil [OF i]) (simp add: Idle)
    show ?thesis
      using inv next_p i Idle r [of Exited] r [of "Busy (hd (p_tasks p))"] ex [of Exited] ex [of "Busy (hd (p_tasks p))"]
      by (cases "p_tasks p") (auto simp: worker_next_def pool_inv_def split: if_splits)
  next
    case (Busy t)
    have "running (p_workers p) = running ((p_workers p)[i := Idle]) + {#t#}"
      using running_update [OF i, of Idle] Busy by simp
    then show ?thesis
      using inv next_p i Busy ex [of Idle] by (auto simp: worker_next_def pool_inv_def)
  next
    case Exited
    then show ?thesis using next_p i by (simp add: worker_next_def)
  qed
qed

lemma pool_inv_reachable:
  assumes "pool_step\<^sup>*\<^sup>* (ThreadPool n) p" shows "pool_inv p"
  using assms
proof (induction rule: rtranclp_induct)
  case base
  have "running (replicate k Idle) = {#}" for k by (induction k) (auto simp: running_def)
  then show ?case by (auto simp: pool_inv_def ThreadPool_def)
next
  case (step q r)
  from step.hyps(2) show ?case
  proof (cases rule: pool_step.cases)
    case (submit t)
    then show ?thesis using step.IH by (auto simp: Submit_def pool_inv_def split: if_splits)
  next
    case stop
    then show ?thesis using step.IH by (auto simp: stop_pool_def pool_inv_def)
  next
    case work
    then show ?thesis using step.IH worker_inv by blast
  qed
qed

text \<open>
  Under every interleaving of submitters, workers and a shutdown, tasks are started in
  the order in which they were submitted, each exactly once: what was submitted is what was
  started followed by what is queued, and what was started is what has finished or is in the
  hands of a worker.
\<close>

theorem pool_is_fifo:
  assumes "pool_step\<^sup>*\<^sup>* (ThreadPool n) p"
  shows "p_submitted p = p_started p @ p_tasks p \<and> mset (p_started p) = mset (p_finished p) + running (p_workers p)"
  using pool_inv_reachable [OF assms] by (simp add: pool_inv_def)

section \<open>Shutdown\<close>

fun worker_weight :: "worker \<Rightarrow> nat" where
  "worker_weight Idle = 1" | "worker_weight (Busy t) = 2" | "worker_weight Exited = 0"

definition pool_measure :: "pool \<Rightarrow> nat" where
  "pool_measure p = 2 * length (p_tasks p) + sum_list (map worker_weight (p_workers p))"

lemma weight_update:
  "i < length ws \<Longrightarrow> sum_list (map worker_weight (ws[i := w])) + worker_weight (ws ! i)
     = sum_list (map worker_weight ws) + worker_weight w"
  by (induction ws arbitrary: i) (auto simp: less_Suc_eq_0_disj)

lemma worker_step_measure: "worker_step p q \<Longrightarrow> pool_measure p = Suc (pool_measure q)"
proof (elim worker_stepE)
  fix i assume n: "worker_next i p = Some q"
  then have i: "i < length (p_workers p)" by (auto simp: worker_next_def split: if_splits)
  note wu = weight_update [OF i]
  show ?thesis
    using n i wu [of Idle] wu [of Exited] wu [of "Busy (hd (p_tasks p))"]
    by (cases "p_workers p ! i"; cases "p_tasks p") (auto simp: worker_next_def pool_measure_def split: if_splits)
qed

lemma worker_steps_measure: "(worker_step ^^ k) p q \<Longrightarrow> k + pool_measure q = pool_measure p"
proof (induction k arbitrary: q)
  case (Suc k)
  then obtain r where "(worker_step ^^ k) p r" "worker_step r q" by auto
  then show ?case using Suc.IH worker_step_measure by fastforce
qed simp

lemma worker_keeps: "worker_step\<^sup>*\<^sup>* p q \<Longrightarrow> pool_inv p \<Longrightarrow>
    pool_inv q \<and> p_submitted q = p_submitted p \<and> p_stopping q = p_stopping p"
proof (induction rule: rtranclp_induct)
  case (step q r)
  then have "pool_inv r" using worker_inv by blast
  moreover have "p_submitted r = p_submitted q \<and> p_stopping r = p_stopping q"
    using step.hyps(2) by (auto elim!: worker_stepE simp: worker_next_def split: if_splits worker.splits list.splits)
  ultimately show ?case using step by simp
qed simp

text \<open>A stopping pool in which no worker can move has finished.\<close>

lemma stuck_done:
  assumes "pool_inv q" "p_stopping q" "\<not> (\<exists>r. worker_step q r)"
  shows "set (p_workers q) = {Exited} \<and> mset (p_finished q) = mset (p_submitted q)"
proof -
  have w: "p_workers q ! i = Exited" if i: "i < length (p_workers q)" for i
  proof -
    have none: "worker_next i q = None"
      using assms(3) worker_step.intros [of i q] by (cases "worker_next i q") auto
    show ?thesis
      using none i assms(2) by (auto simp: worker_next_def split: worker.splits list.splits)
  qed
  have ne: "p_workers q \<noteq> []" using assms(1) by (simp add: pool_inv_def)
  have "set (p_workers q) \<subseteq> {Exited}" using w by (auto simp: in_set_conv_nth)
  with ne have all: "set (p_workers q) = {Exited}" by (cases "p_workers q") auto
  have "\<forall>w\<in>set ws. w = Exited \<Longrightarrow> running ws = {#}" for ws by (induction ws) (auto simp: running_def)
  then have "running (p_workers q) = {#}" using all by simp
  then show ?thesis using assms(1) all by (simp add: pool_inv_def)
qed

text \<open>
  C4: A shutdown ends: from any reachable state in which the pool is stopping, every sequence
  of worker steps is at most as long as twice the queue plus two per worker, and wherever
  no step is left all workers have exited and every task that was submitted has been run.
\<close>

theorem shutdown_runs_everything:
  assumes "pool_step\<^sup>*\<^sup>* (ThreadPool n) p" "p_stopping p"
  shows "(\<forall>k q. (worker_step ^^ k) p q \<longrightarrow> k \<le> pool_measure p)
     \<and> (\<forall>q. worker_step\<^sup>*\<^sup>* p q \<and> \<not> (\<exists>r. worker_step q r) \<longrightarrow>
          set (p_workers q) = {Exited} \<and> mset (p_finished q) = mset (p_submitted p))"
proof (intro conjI allI impI; (elim conjE)?)
  fix k q assume "(worker_step ^^ k) p q"
  then show "k \<le> pool_measure p" using worker_steps_measure by fastforce
next
  fix q assume q: "worker_step\<^sup>*\<^sup>* p q" "\<not> (\<exists>r. worker_step q r)"
  note keep = worker_keeps [OF q(1) pool_inv_reachable [OF assms(1)]]
  with stuck_done [of q] q(2) assms(2)
  show "set (p_workers q) = {Exited}" "mset (p_finished q) = mset (p_submitted p)" by auto
qed

text \<open>One task in a pool of one worker, and a shutdown before it starts.\<close>

definition ex_pool :: pool where
  "ex_pool = (ThreadPool 0)\<lparr>p_tasks := [7], p_submitted := [7], p_stopping := True\<rparr>"

lemma ex_pool_reachable: "pool_step\<^sup>*\<^sup>* (ThreadPool 0) ex_pool"
proof -
  have "pool_step (ThreadPool 0) ((ThreadPool 0)\<lparr>p_tasks := [7], p_submitted := [7]\<rparr>)"
    by (rule pool_step.submit [of 7]) (simp add: Submit_def ThreadPool_def)
  moreover have "pool_step ((ThreadPool 0)\<lparr>p_tasks := [7], p_submitted := [7]\<rparr>) ex_pool"
    using pool_step.stop [of "(ThreadPool 0)\<lparr>p_tasks := [7], p_submitted := [7]\<rparr>"]
    by (simp add: stop_pool_def ex_pool_def)
  ultimately show ?thesis by (rule converse_rtranclp_into_rtranclp [OF _ r_into_rtranclp])
qed

theorem pool_is_fifo_witness: "p_submitted ex_pool = p_started ex_pool @ [7]"
  using pool_is_fifo [OF ex_pool_reachable] by (simp add: ex_pool_def)

definition ex_done :: pool where
  "ex_done = ex_pool\<lparr>p_tasks := [], p_started := [7], p_finished := [7], p_workers := [Exited]\<rparr>"

lemma ex_pool_done: "worker_step\<^sup>*\<^sup>* ex_pool ex_done"
proof -
  have "worker_step ex_pool (ex_pool\<lparr>p_tasks := [], p_started := [7], p_workers := [Busy 7]\<rparr>)"
    by (rule worker_step.intros [of 0]) (simp add: worker_next_def ex_pool_def ThreadPool_def)
  moreover have "worker_step (ex_pool\<lparr>p_tasks := [], p_started := [7], p_workers := [Busy 7]\<rparr>)
      (ex_pool\<lparr>p_tasks := [], p_started := [7], p_finished := [7], p_workers := [Idle]\<rparr>)"
    by (rule worker_step.intros [of 0]) (simp add: worker_next_def ex_pool_def ThreadPool_def)
  moreover have "worker_step (ex_pool\<lparr>p_tasks := [], p_started := [7], p_finished := [7], p_workers := [Idle]\<rparr>) ex_done"
    by (rule worker_step.intros [of 0]) (simp add: worker_next_def ex_pool_def ThreadPool_def ex_done_def)
  ultimately show ?thesis by (meson converse_rtranclp_into_rtranclp r_into_rtranclp)
qed

theorem shutdown_runs_everything_witness: "set (p_workers ex_done) = {Exited} \<and> mset (p_finished ex_done) = {#7#}"
proof -
  have s: "p_stopping ex_pool" "p_submitted ex_pool = [7]" by (simp_all add: ex_pool_def)
  have "worker_next i ex_done = None" for i by (cases i) (simp_all add: worker_next_def ex_done_def)
  then have "\<not> (\<exists>r. worker_step ex_done r)" by (auto elim!: worker_stepE)
  then show ?thesis using shutdown_runs_everything [OF ex_pool_reachable s(1)] ex_pool_done s(2) by simp
qed

end
