(* ===== verification/PluginJson.thy ===== *)
theory PluginJson
  imports DlPlugin
begin

text \<open>
  The JSON helpers that the bundled native plugins carry with them, the same text in
  \<^verbatim>\<open>plugins/example-plugin\<close>, \<^verbatim>\<open>plugins/desktop-notification\<close> and \<^verbatim>\<open>plugins/unreal-tools\<close>: writing
  a string, looking a key up in the text of a request, and the two forms of a reply.  The
  lookups scan the text; they are stated here on what is left of it after each \<^verbatim>\<open>find\<close>.
\<close>

section \<open>Writing\<close>

definition json_esc :: "char \<Rightarrow> string" where
  "json_esc c = (if c = DQ then [BSL, DQ] else if c = BSL then [BSL, BSL] else if c = NL then [BSL, CHR ''n'']
     else if c = CR then [BSL, CHR ''r''] else if c = TAB then [BSL, CHR ''t''] else [c])"

definition JsonStr :: "string \<Rightarrow> string" where
  "JsonStr v = DQ # concat (map json_esc v) @ [DQ]"

text \<open>JSON text as the sources have it, in raw literals, with a backquote for each double quote.\<close>

definition dq_text :: "string \<Rightarrow> string" where
  "dq_text s = map (\<lambda>c. if c = CHR ''`'' then DQ else c) s"

definition MakeOk :: "string \<Rightarrow> string" where
  "MakeOk t = dq_text ''{`content`:[{`type`:`text`,`text`:'' @ JsonStr t @ ''}]}''"

definition MakeFail :: "string \<Rightarrow> string" where
  "MakeFail t = dq_text ''{`isError`:true,`content`:[{`type`:`text`,`text`:'' @ JsonStr t @ ''}]}''"

section \<open>Looking up\<close>

text \<open>What follows the first occurrence of a pattern.\<close>

definition after :: "string \<Rightarrow> string \<Rightarrow> string option" where
  "after pat s = map_option (\<lambda>i. drop (i + length pat) s) (find_sub pat s)"

definition needle :: "string \<Rightarrow> string" where
  "needle key = DQ # key @ [DQ]"

definition after_colon :: "string \<Rightarrow> string \<Rightarrow> string option" where
  "after_colon json key = Option.bind (after (needle key) json) (after '':'')"

text \<open>The text up to the first quote that no backslash precedes; \<open>prev\<close> is the character before.\<close>

fun raw_value :: "char \<Rightarrow> string \<Rightarrow> string option" where
  "raw_value prev [] = None"
| "raw_value prev (c # cs) = (if c = DQ \<and> prev \<noteq> BSL then Some [] else map_option ((#) c) (raw_value c cs))"

definition JsonGetString :: "string \<Rightarrow> string \<Rightarrow> string" where
  "JsonGetString json key =
     (case Option.bind (after_colon json key) (after [DQ]) of
        None \<Rightarrow> []
      | Some r \<Rightarrow> (case raw_value DQ r of None \<Rightarrow> [] | Some v \<Rightarrow> v))"

definition json_blank :: "char \<Rightarrow> bool" where
  "json_blank c \<longleftrightarrow> c \<in> set ('' '' @ [TAB, CR, NL])"

text \<open>A C string ends at its first zero byte, which is where the host stops reading a reply.\<close>

definition c_str :: "string \<Rightarrow> string" where
  "c_str s = takeWhile (\<lambda>c. c \<noteq> CHR 0x00) s"

definition EMDASH :: string where "EMDASH = [CHR 0xE2, CHR 0x80, CHR 0x94]"

text \<open>A text without the prefix it must begin with.\<close>

definition eat :: "'a list \<Rightarrow> 'a list \<Rightarrow> 'a list option" where
  "eat p s = (if prefix p s then Some (drop (length p) s) else None)"

lemma eat_append [simp]: "eat p (p @ s) = Some s"
  by (simp add: eat_def)

section \<open>What is written can be read\<close>

text \<open>
  The string a JSON reader sees (RFC 8259) in the text after an opening quote, and what
  follows it: no control character may stand for itself, and of the escapes those with one
  letter are read.
\<close>

definition unescape :: "char \<Rightarrow> char option" where
  "unescape c = map_of [(DQ, DQ), (BSL, BSL), (CHR ''/'', CHR ''/''), (CHR ''n'', NL), (CHR ''r'', CR), (CHR ''t'', TAB),
     (CHR ''b'', CHR 0x08), (CHR ''f'', CHR 0x0C)] c"

fun read_json_string :: "string \<Rightarrow> (string \<times> string) option" where
  "read_json_string [] = None"
| "read_json_string (c # cs) =
     (if c = DQ then Some ([], cs)
      else if uchar c < 32 then None
      else if c = BSL then
        (case cs of [] \<Rightarrow> None
         | d # ds \<Rightarrow> (case unescape d of None \<Rightarrow> None
             | Some e \<Rightarrow> map_option (\<lambda>(v, r). (e # v, r)) (read_json_string ds)))
      else map_option (\<lambda>(v, r). (c # v, r)) (read_json_string cs))"

definition writable :: "char \<Rightarrow> bool" where
  "writable c \<longleftrightarrow> 32 \<le> uchar c \<or> c \<in> {NL, CR, TAB}"

lemma uchar_escapes: "uchar BSL = 92" "uchar DQ = 34" "uchar NL = 10" "uchar CR = 13" "uchar TAB = 9"
  by (simp_all add: uchar_def)

lemma read_esc:
  "read_json_string (json_esc c @ r) =
     (if writable c then map_option (\<lambda>(v, r). (c # v, r)) (read_json_string r) else None)"
  by (auto simp: json_esc_def writable_def unescape_def uchar_escapes)

lemma read_escs:
  "read_json_string (concat (map json_esc v) @ DQ # r) = (if list_all writable v then Some (v, r) else None)"
  by (induction v) (simp_all add: read_esc)

section \<open>What is sent is read back escaped\<close>

text \<open>The text between the quotes of a JSON string: a quote only after a backslash.\<close>

fun quoted_body :: "char \<Rightarrow> string \<Rightarrow> bool" where
  "quoted_body prev [] \<longleftrightarrow> prev \<noteq> BSL"
| "quoted_body prev (c # cs) \<longleftrightarrow> (c = DQ \<longrightarrow> prev = BSL) \<and> quoted_body c cs"

lemma raw_value_body: "quoted_body prev e \<Longrightarrow> raw_value prev (e @ DQ # r) = Some e"
  by (induction prev e rule: quoted_body.induct) auto

lemma after_here: "after pat (pat @ s) = Some s"
  by (cases pat; cases s) (simp_all add: after_def)

lemma after_first:
  assumes "find_sub pat (a @ pat @ s) = Some (length a)"
  shows "after pat (a @ pat @ s) = Some s"
  using assms by (simp add: after_def)

lemma JsonGetString_member:
  assumes "find_sub (needle key) (a @ needle key @ '':'' @ DQ # e @ DQ # r) = Some (length a)" "quoted_body DQ e"
  shows "JsonGetString (a @ needle key @ '':'' @ DQ # e @ DQ # r) key = e"
proof -
  have "after_colon (a @ needle key @ '':'' @ DQ # e @ DQ # r) key = Some (DQ # e @ DQ # r)"
    using after_first [OF assms(1)] after_here [of "'':''"] by (simp add: after_colon_def)
  moreover have "after [DQ] (DQ # e @ DQ # r) = Some (e @ DQ # r)" using after_here [of "[DQ]"] by simp
  ultimately show ?thesis using raw_value_body [OF assms(2)] by (simp add: JsonGetString_def)
qed

lemma escs_body: "(if v = [] then p \<noteq> BSL else last v \<noteq> BSL) \<Longrightarrow> quoted_body p (concat (map json_esc v))"
proof (induction v arbitrary: p)
  case (Cons c v)
  define q where "q = last (json_esc c)"
  have "(if v = [] then q \<noteq> BSL else last v \<noteq> BSL)"
    using Cons.prems by (cases "v = []") (auto simp: q_def json_esc_def [of c])
  then have "quoted_body q (concat (map json_esc v))" by (rule Cons.IH)
  then show ?case by (auto simp: q_def json_esc_def [of c] split: if_splits)
qed simp

definition plain :: "char \<Rightarrow> bool" where
  "plain c \<longleftrightarrow> c \<notin> {DQ, BSL, NL, CR, TAB}"

lemma length_json_esc: "length (json_esc c) = (if plain c then 1 else 2)"
  by (simp add: json_esc_def plain_def)

lemma escs_same: "concat (map json_esc v) = v \<longleftrightarrow> list_all plain v"
proof
  have n: "length (concat (map json_esc v)) = length v + length (filter (\<lambda>c. \<not> plain c) v)" for v
    by (induction v) (simp_all add: length_json_esc)
  assume "concat (map json_esc v) = v"
  then have "filter (\<lambda>c. \<not> plain c) v = []" using n [of v] by simp
  then show "list_all plain v" by (simp add: filter_empty_conv list_all_iff)
next
  assume "list_all plain v"
  then show "concat (map json_esc v) = v" by (induction v) (simp_all add: json_esc_def plain_def)
qed

section \<open>Properties\<close>

text \<open>
  The string writer of the plugins and a JSON reader agree: the text it writes reads back as
  the string that was meant, and is a JSON string at all, exactly when every control character in
  it is a newline, a carriage return or a tab.
\<close>

theorem plugin_string_valid:
  "read_json_string (tl (JsonStr v) @ r) = (if list_all writable v then Some (v, r) else None)"
  by (simp add: JsonStr_def read_escs)



end
