(* ===== verification/ExamplePlugin.thy ===== *)
theory ExamplePlugin
  imports PluginJson
begin

unbundle bit_operations_syntax

text \<open>
  \<^verbatim>\<open>plugins/example-plugin/src/example-plugin.cpp\<close>: the tools ping and base64_encode, and the
  library as the loader sees it.  The bytes of a string are words of eight bits.
\<close>

section \<open>Base64\<close>

definition kB64Table :: string where
  "kB64Table = ''ABCDEFGHIJKLMNOPQRSTUVWXYZabcdefghijklmnopqrstuvwxyz0123456789+/''"

definition byte :: "char \<Rightarrow> 8 word" where
  "byte c = word_of_nat (uchar c)"

definition b64_char :: "8 word \<Rightarrow> char" where
  "b64_char i = kB64Table ! unat i"

text \<open>One round of the loop: the bytes from the index on, of which there is at least one.\<close>

definition b64_group :: "string \<Rightarrow> string" where
  "b64_group s =
     (let b0 = byte (s ! 0);
          b1 = (if 1 < length s then byte (s ! 1) else 0);
          b2 = (if 2 < length s then byte (s ! 2) else 0)
      in [b64_char (drop_bit 2 b0 AND 0x3F),
          b64_char (push_bit 4 (b0 AND 0x03) OR (drop_bit 4 b1 AND 0x0F)),
          if 1 < length s then b64_char (push_bit 2 (b1 AND 0x0F) OR (drop_bit 6 b2 AND 0x03)) else CHR ''='',
          if 2 < length s then b64_char (b2 AND 0x3F) else CHR ''=''])"

function Base64Encode :: "string \<Rightarrow> string" where
  "Base64Encode s = (if s = [] then [] else b64_group s @ Base64Encode (drop 3 s))"
  by auto
termination by (relation "measure length") simp_all

declare Base64Encode.simps [simp del]

section \<open>The plugin\<close>

definition example_execute :: "string \<Rightarrow> string \<Rightarrow> string option" where
  "example_execute tool req =
     Some (if tool = ''ping'' then
             (let msg = JsonGetString req ''message''
              in MakeOk (''pong'' @ (if msg = [] then [] else '' '' @ EMDASH @ '' '' @ msg)))
           else if tool = ''base64_encode'' then MakeOk (Base64Encode (JsonGetString req ''input''))
           else MakeFail (''Unknown tool: '' @ tool))"

definition example_manifest :: string where
  "example_manifest = dq_text (''{`name`:`example-plugin`,`description`:`Example MCP native plugin: ping and base64_encode`,''
     @ ''`version`:`1.0.0`}'')"

definition kToolList :: string where
  "kToolList = dq_text (join_nl [
      ''['',
      ''  {'',
      ''    `name`: `ping`,'',
      ''    `description`: `Returns 'pong' with the input echoed back. Useful for connectivity checks.`,'',
      ''    `inputSchema`: {'',
      ''      `type`: `object`,'',
      ''      `properties`: {'',
      ''        `message`: {'',
      ''          `type`: `string`,'',
      ''          `description`: `Optional message to echo back`'',
      ''        }'',
      ''      }'',
      ''    }'',
      ''  },'',
      ''  {'',
      ''    `name`: `base64_encode`,'',
      ''    `description`: `Base64-encodes an arbitrary string (RFC 4648).`,'',
      ''    `inputSchema`: {'',
      ''      `type`: `object`,'',
      ''      `properties`: {'',
      ''        `input`: {'',
      ''          `type`: `string`,'',
      ''          `description`: `The string to encode`'',
      ''        }'',
      ''      },'',
      ''      `required`: [`input`]'',
      ''    }'',
      ''  }'',
      '']''])"

definition example_image :: dl_image where
  "example_image = \<lparr>di_exports = required_symbols, di_api_version = MCP_PLUGIN_API_VERSION,
     di_manifest = Some example_manifest, di_create = True, di_list_tools = Some kToolList, di_execute = example_execute\<rparr>"

section \<open>Base64 is what RFC 4648 says\<close>

text \<open>A decoder, group by group: the value of a letter, and the bytes of four letters.\<close>

definition b64_val :: "char \<Rightarrow> 8 word option" where
  "b64_val c = map_option word_of_nat (map_of (zip kB64Table [0..<64]) c)"

definition unbyte :: "8 word \<Rightarrow> char" where
  "unbyte w = char_of (unat w)"

definition b64_bytes :: "8 word \<Rightarrow> 8 word \<Rightarrow> 8 word \<Rightarrow> 8 word \<Rightarrow> string" where
  "b64_bytes a b c d = [unbyte (push_bit 2 a OR drop_bit 4 b), unbyte (push_bit 4 b OR drop_bit 2 c), unbyte (push_bit 6 c OR d)]"

fun Base64Decode :: "string \<Rightarrow> string option" where
  "Base64Decode [] = Some []"
| "Base64Decode (a # b # c # d # r) =
     (case (b64_val a, b64_val b) of
        (Some va, Some vb) \<Rightarrow>
          if d = CHR ''='' then
            (if r \<noteq> [] then None
             else if c = CHR ''='' then Some (take 1 (b64_bytes va vb 0 0))
             else map_option (\<lambda>vc. take 2 (b64_bytes va vb vc 0)) (b64_val c))
          else (case (b64_val c, b64_val d, Base64Decode r) of
              (Some vc, Some vd, Some s) \<Rightarrow> Some (b64_bytes va vb vc vd @ s) | _ \<Rightarrow> None)
      | _ \<Rightarrow> None)"
| "Base64Decode s = None"

lemma table: "length kB64Table = 64" "distinct kB64Table" "CHR ''='' \<notin> set kB64Table"
  by (simp_all add: kB64Table_def)

lemma b64_val_char: "unat i < 64 \<Longrightarrow> b64_val (b64_char i) = Some i"
  using map_of_zip_nth [of kB64Table "[0..<64]" "unat i"] table by (simp add: b64_val_def b64_char_def)

lemma b64_char_pad: "unat i < 64 \<Longrightarrow> b64_char i \<noteq> CHR ''=''"
  unfolding b64_char_def by (metis nth_mem table(1,3))

text \<open>The four sextets of a group, and what they put together.\<close>

lemma bits8: "(\<And>n. n \<in> {0, 1, 2, 3, 4, 5, 6, 7} \<Longrightarrow> bit v n = bit w n) \<Longrightarrow> (v :: 8 word) = w"
proof (rule bit_word_eqI)
  fix n assume e: "\<And>n. n \<in> {0, 1, 2, 3, 4, 5, 6, 7} \<Longrightarrow> bit v n = bit w n" and "n < LENGTH(8)"
  then have "n = 0 \<or> n = 1 \<or> n = 2 \<or> n = 3 \<or> n = 4 \<or> n = 5 \<or> n = 6 \<or> n = 7" by (simp, arith)
  then have "n \<in> {0, 1, 2, 3, 4, 5, 6, 7}" by simp
  then show "bit v n = bit w n" by (rule e)
qed

lemma sextets:
  fixes b0 b1 b2 :: "8 word"
  shows "(push_bit 4 (b0 AND 0x03) OR (drop_bit 4 b1 AND 0x0F)) AND 0x3F = push_bit 4 (b0 AND 0x03) OR (drop_bit 4 b1 AND 0x0F)"
    and "(push_bit 2 (b1 AND 0x0F) OR (drop_bit 6 b2 AND 0x03)) AND 0x3F = push_bit 2 (b1 AND 0x0F) OR (drop_bit 6 b2 AND 0x03)"
  by (rule bits8, auto simp: bit_simps)+

lemma together:
  fixes b0 b1 b2 :: "8 word"
  shows "push_bit 2 (drop_bit 2 b0 AND 0x3F) OR drop_bit 4 (push_bit 4 (b0 AND 0x03) OR (drop_bit 4 b1 AND 0x0F)) = b0" (is ?A)
    and "push_bit 4 (push_bit 4 (b0 AND 0x03) OR (drop_bit 4 b1 AND 0x0F)) OR drop_bit 2 (push_bit 2 (b1 AND 0x0F) OR (drop_bit 6 b2 AND 0x03)) = b1" (is ?B)
    and "push_bit 6 (push_bit 2 (b1 AND 0x0F) OR (drop_bit 6 b2 AND 0x03)) OR (b2 AND 0x3F) = b2" (is ?C)
proof -
  show ?A by (rule bits8, auto simp: bit_simps) ((simp add: numeral_2_eq_2 numeral_3_eq_3)+)?
  show ?B by (rule bits8, auto simp: bit_simps) ((simp add: numeral_2_eq_2 numeral_3_eq_3)+)?
  show ?C by (rule bits8, auto simp: bit_simps) ((simp add: numeral_2_eq_2 numeral_3_eq_3)+)?
qed

lemma unat_sextet: "unat ((w :: 8 word) AND 0x3F) < 64"
proof -
  have "w AND 0x3F \<le> 0x3F" by (rule word_and_le1)
  then show ?thesis by (simp add: word_le_nat_alt)
qed

lemma unbyte_byte [simp]: "unbyte (byte c) = c"
  using uchar_lt [of c] by (simp add: unbyte_def byte_def uchar_def unat_of_nat)

text \<open>The sextets by name.\<close>

definition sx0 :: "8 word \<Rightarrow> 8 word" where "sx0 b0 = drop_bit 2 b0 AND 0x3F"
definition sx1 :: "8 word \<Rightarrow> 8 word \<Rightarrow> 8 word" where "sx1 b0 b1 = push_bit 4 (b0 AND 0x03) OR (drop_bit 4 b1 AND 0x0F)"
definition sx2 :: "8 word \<Rightarrow> 8 word \<Rightarrow> 8 word" where "sx2 b1 b2 = push_bit 2 (b1 AND 0x0F) OR (drop_bit 6 b2 AND 0x03)"
definition sx3 :: "8 word \<Rightarrow> 8 word" where "sx3 b2 = b2 AND 0x3F"

lemma sx_mask: "sx1 b0 b1 = sx1 b0 b1 AND 0x3F" "sx2 b1 b2 = sx2 b1 b2 AND 0x3F"
  unfolding sx1_def sx2_def by (rule sextets [symmetric])+

lemma sx_small: "unat (sx0 b0) < 64" "unat (sx1 b0 b1) < 64" "unat (sx2 b1 b2) < 64" "unat (sx3 b2) < 64"
proof -
  show "unat (sx0 b0) < 64" "unat (sx3 b2) < 64" unfolding sx0_def sx3_def by (rule unat_sextet)+
  show "unat (sx1 b0 b1) < 64" by (subst sx_mask) (rule unat_sextet)
  show "unat (sx2 b1 b2) < 64" by (subst sx_mask) (rule unat_sextet)
qed

lemma sx_val [simp]: "b64_val (b64_char (sx0 b0)) = Some (sx0 b0)" "b64_val (b64_char (sx1 b0 b1)) = Some (sx1 b0 b1)"
  "b64_val (b64_char (sx2 b1 b2)) = Some (sx2 b1 b2)" "b64_val (b64_char (sx3 b2)) = Some (sx3 b2)"
  by (simp_all add: b64_val_char sx_small)

lemma sx_pad [simp]: "b64_char (sx2 b1 b2) \<noteq> CHR ''=''" "b64_char (sx3 b2) \<noteq> CHR ''=''"
  by (simp_all add: b64_char_pad sx_small)

lemma b64_group_sx:
  "b64_group [c0] = [b64_char (sx0 (byte c0)), b64_char (sx1 (byte c0) 0), CHR ''='', CHR ''='']"
  "b64_group [c0, c1] = [b64_char (sx0 (byte c0)), b64_char (sx1 (byte c0) (byte c1)), b64_char (sx2 (byte c1) 0), CHR ''='']"
  "b64_group (c0 # c1 # c2 # r) = [b64_char (sx0 (byte c0)), b64_char (sx1 (byte c0) (byte c1)),
     b64_char (sx2 (byte c1) (byte c2)), b64_char (sx3 (byte c2))]"
  by (simp_all add: b64_group_def Let_def sx0_def sx1_def sx2_def sx3_def)

lemma sx_bytes: "push_bit 2 (sx0 b0) OR drop_bit 4 (sx1 b0 b1) = b0" "push_bit 4 (sx1 b0 b1) OR drop_bit 2 (sx2 b1 b2) = b1"
  "push_bit 6 (sx2 b1 b2) OR sx3 b2 = b2"
  unfolding sx0_def sx1_def sx2_def sx3_def by (rule together)+

lemma decode_group:
  "Base64Decode (b64_group [c0]) = Some [c0]"
  "Base64Decode (b64_group [c0, c1]) = Some [c0, c1]"
  "Base64Decode (b64_group (c0 # c1 # c2 # r) @ e) = map_option (\<lambda>s. c0 # c1 # c2 # s) (Base64Decode e)"
  by (simp_all add: b64_group_sx b64_bytes_def sx_bytes split: option.split)

lemma Base64Encode_simps:
  "Base64Encode [] = []" "Base64Encode [c0] = b64_group [c0]" "Base64Encode [c0, c1] = b64_group [c0, c1]"
  "Base64Encode (c0 # c1 # c2 # r) = b64_group (c0 # c1 # c2 # r) @ Base64Encode r"
  by (simp_all add: Base64Encode.simps)

text \<open>
  C32: The text that base64_encode returns decodes to exactly the bytes it was given, whatever they
  are, and has four letters for every three bytes begun.
\<close>

theorem base64_roundtrip:
  "Base64Decode (Base64Encode s) = Some s \<and> length (Base64Encode s) = 4 * ((length s + 2) div 3)"
proof (induction s rule: length_induct)
  case (1 s)
  consider "s = []" | c0 where "s = [c0]" | c0 c1 where "s = [c0, c1]" | c0 c1 c2 r where "s = c0 # c1 # c2 # r"
    by (metis list.exhaust)
  then show ?case
  proof cases
    case 4
    then have "Base64Decode (Base64Encode r) = Some r" "length (Base64Encode r) = 4 * ((length r + 2) div 3)" using 1 by simp_all
    moreover have "(length s + 2) div 3 = Suc ((length r + 2) div 3)" using 4 by simp
    ultimately show ?thesis using 4 by (simp add: Base64Encode_simps decode_group del: length_Cons) ((simp add: b64_group_sx)+)?
  qed (simp_all add: Base64Encode_simps decode_group, simp_all add: b64_group_sx)
qed

text \<open>
  A loader whose JSON library reads the manifest accepts the example plugin.
\<close>

lemma example_accepted:
  assumes "jparse J example_manifest = Some (JObj kvs)" "map_of kvs ''name'' = Some (JStr ''example-plugin'')"
    and "map_of kvs ''description'' = Some (JStr d)" "map_of kvs ''version'' = Some (JStr v)"
  shows "accepts J file (example_image) = Some \<lparr>dp_image = example_image, dp_Name = ''example-plugin'',
     dp_Description = d, dp_Version = v, dp_Path = file\<rparr>"
  using assms by (simp add: accepts_def example_image_def dl_manifest_def value_defs major_host)

end
