(* ===== verification/NotifyPlugin.thy ===== *)
theory NotifyPlugin
  imports PluginJson
begin

text \<open>
  \<^verbatim>\<open>plugins/desktop-notification/src/\<close>: the tools desktop_notify and desktop_notify_flash over an
  interface of notification back ends, and the back ends of the four platforms.  What the
  operating system is asked to do is a list of effects, in order; what it answers is a record
  of functions of that list.  A signed overflow, which C++ leaves undefined, is \<open>None\<close>.
\<close>

section \<open>The interface\<close>

datatype NotificationType = Info | Success | Warning | Error

record NotificationRequest =
  nr_title :: string
  nr_message :: string
  nr_type :: NotificationType
  nr_duration_ms :: int
  nr_flash_count :: int

text \<open>\<^verbatim>\<open>INotificationBackend\<close>, over the state \<open>'d\<close> of what it drives.\<close>

record 'd INotificationBackend =
  be_Send :: "NotificationRequest \<Rightarrow> 'd \<Rightarrow> bool \<times> 'd"
  be_Flash :: "int \<Rightarrow> 'd \<Rightarrow> bool \<times> 'd"
  be_GetBackendName :: string

section \<open>The tool\<close>

fun digits_int :: "int \<Rightarrow> string \<Rightarrow> int option" where
  "digits_int acc [] = Some acc"
| "digits_int acc (c # cs) =
     (if isdigit c then
        (let v = acc * 10 + int (digit_val c) in if int_max < v then None else digits_int v cs)
      else Some acc)"

definition JsonGetInt :: "string \<Rightarrow> string \<Rightarrow> int \<Rightarrow> int option" where
  "JsonGetInt json key defaultVal =
     (case after_colon json key of
        None \<Rightarrow> Some defaultVal
      | Some r \<Rightarrow>
          let s = dropWhile json_blank r;
              neg = (s \<noteq> [] \<and> hd s = CHR ''-'');
              u = (if neg then tl s else s)
          in if s = [] then Some defaultVal
             else if u = [] \<or> \<not> isdigit (hd u) then Some defaultVal
             else map_option (\<lambda>v. if neg then - v else v) (digits_int 0 u))"

definition ParseType :: "string \<Rightarrow> NotificationType" where
  "ParseType s = (if s = ''success'' then Success else if s = ''warning'' then Warning
     else if s = ''error'' then Error else Info)"

definition ErrorResult :: "string \<Rightarrow> string" where "ErrorResult msg = MakeFail msg"
definition OkResult :: "string \<Rightarrow> string" where "OkResult msg = MakeOk msg"

definition clamp :: "int \<Rightarrow> int \<Rightarrow> int \<Rightarrow> int" where
  "clamp lo hi v = (let v1 = (if v < lo then lo else v) in if hi < v1 then hi else v1)"

definition is_notify :: "string \<Rightarrow> bool" where
  "is_notify tool \<longleftrightarrow> tool = ''desktop_notify'' \<or> tool = ''desktop_notify_flash''"

definition is_flash :: "string \<Rightarrow> bool" where
  "is_flash tool \<longleftrightarrow> tool = ''desktop_notify_flash''"

text \<open>The request for a duration, and the flash after it.\<close>

definition notify_request :: "string \<Rightarrow> int \<Rightarrow> NotificationRequest" where
  "notify_request req dur =
     \<lparr>nr_title = JsonGetString req ''title'', nr_message = JsonGetString req ''message'',
      nr_type = ParseType (JsonGetString req ''type''), nr_duration_ms = clamp 1000 30000 dur, nr_flash_count = 0\<rparr>"

definition notify_flash :: "'d INotificationBackend \<Rightarrow> string \<Rightarrow> string \<Rightarrow> 'd \<Rightarrow> 'd option" where
  "notify_flash B tool req d =
     (if is_flash tool then
        map_option (\<lambda>f. let flash = clamp 0 20 f in if 0 < flash then snd (be_Flash B flash d) else d) (JsonGetInt req ''flash_count'' 3)
      else Some d)"

definition notify_send :: "'d INotificationBackend \<Rightarrow> string \<Rightarrow> string \<Rightarrow> 'd \<Rightarrow> (string \<times> 'd) option" where
  "notify_send B tool req d =
     Option.bind (JsonGetInt req ''duration_ms'' 5000) (\<lambda>dur.
       let (ok, d1) = be_Send B (notify_request req dur) d
       in map_option
            (Pair (if ok then OkResult (''Notification sent via '' @ be_GetBackendName B @ '' backend'')
                   else ErrorResult ''Notification backend returned failure''))
            (notify_flash B tool req d1))"

definition notify_execute :: "'d INotificationBackend \<Rightarrow> string \<Rightarrow> string \<Rightarrow> 'd \<Rightarrow> (string \<times> 'd) option" where
  "notify_execute B tool req d =
     (if is_notify tool then
        (if JsonGetString req ''title'' = [] \<or> JsonGetString req ''message'' = [] then
           Some (ErrorResult (SQ # ''title'' @ SQ # '' and '' @ SQ # ''message'' @ SQ # '' are required''), d)
         else notify_send B tool req d)
      else Some (ErrorResult (''Unknown tool: '' @ tool), d))"

definition notify_manifest :: string where
  "notify_manifest = dq_text ''{`name`:`desktop-notification`,`description`:`Cross-platform desktop notifications via WinRT Toast (Windows), notify-send (Linux), or osascript (macOS). LLM-agnostic MCP tool.`,`version`:`1.0.0`}''"

definition notify_tools :: string where
  "notify_tools = dq_text (join_nl [
      ''['',
      ''  {'',
      ''    `name`: `desktop_notify`,'',
      ''    `description`: `Show a desktop notification. Windows: WinRT Toast. Linux: notify-send. macOS: Notification Center. Works with any LLM that speaks MCP.`,'',
      ''    `inputSchema`: {'',
      ''      `type`: `object`,'',
      ''      `properties`: {'',
      ''        `title`: {'',
      ''          `type`: `string`,'',
      ''          `description`: `Notification heading (required)`'',
      ''        },'',
      ''        `message`: {'',
      ''          `type`: `string`,'',
      ''          `description`: `Body text (required)`'',
      ''        },'',
      ''        `type`: {'',
      ''          `type`: `string`,'',
      ''          `enum`: [`info`, `success`, `warning`, `error`],'',
      ''          `description`: `Visual style and audio cue. Default: info`'',
      ''        },'',
      ''        `duration_ms`: {'',
      ''          `type`: `integer`,'',
      ''          `minimum`: 1000,'',
      ''          `maximum`: 30000,'',
      ''          `description`: `Display duration in milliseconds (1000-30000, Windows/Linux only). Default: 5000`'',
      ''        }'',
      ''      },'',
      ''      `required`: [`title`, `message`]'',
      ''    }'',
      ''  },'',
      ''  {'',
      ''    `name`: `desktop_notify_flash`,'',
      ''    `description`: `Show a desktop notification AND flash/beep to attract attention. Use for alerts that must not be missed.`,'',
      ''    `inputSchema`: {'',
      ''      `type`: `object`,'',
      ''      `properties`: {'',
      ''        `title`: {'',
      ''          `type`: `string`,'',
      ''          `description`: `Notification heading (required)`'',
      ''        },'',
      ''        `message`: {'',
      ''          `type`: `string`,'',
      ''          `description`: `Body text (required)`'',
      ''        },'',
      ''        `type`: {'',
      ''          `type`: `string`,'',
      ''          `enum`: [`info`, `success`, `warning`, `error`],'',
      ''          `description`: `Visual style and audio cue. Default: info`'',
      ''        },'',
      ''        `duration_ms`: {'',
      ''          `type`: `integer`,'',
      ''          `minimum`: 1000,'',
      ''          `maximum`: 30000,'',
      ''          `description`: `Display duration in milliseconds (1000-30000, Windows/Linux only). Default: 5000`'',
      ''        },'',
      ''        `flash_count`: {'',
      ''          `type`: `integer`,'',
      ''          `minimum`: 0,'',
      ''          `maximum`: 20,'',
      ''          `description`: `Windows: taskbar flash cycles. Linux/macOS: terminal bell repetitions. Default: 3`'',
      ''        }'',
      ''      },'',
      ''      `required`: [`title`, `message`]'',
      ''    }'',
      ''  }'',
      '']''])"

section \<open>The platforms\<close>

text \<open>
  What the back ends ask of the system.  An argument vector is the list of its strings; a
  program is started and not waited for.
\<close>

type_synonym wstring = "16 word list"

datatype effect =
    Exec string "string list"
  | Bell
  | MessageBeep "32 word"
  | FlashWindowEx "32 word"
  | RoInitialize
  | RoUninitialize
  | ShowToast wstring

text \<open>
  The answers: whether \<^verbatim>\<open>fork\<close> succeeds, which files may be executed, whether there is a
  console window, the results of \<^verbatim>\<open>FlashWindowEx\<close>, \<^verbatim>\<open>RoInitialize\<close> and of the COM calls that show a
  toast, and the conversion \<^verbatim>\<open>MultiByteToWideChar\<close>.
\<close>

record desk_os =
  os_fork :: "effect list \<Rightarrow> bool"
  os_access :: "string \<Rightarrow> bool"
  os_console :: bool
  os_flash :: "effect list \<Rightarrow> bool"
  os_ro_init :: "effect list \<Rightarrow> 32 word"
  os_show :: "wstring \<Rightarrow> bool"
  Utf8ToWide :: "string \<Rightarrow> wstring"

definition NullBackend :: "effect list INotificationBackend" where
  "NullBackend = \<lparr>be_Send = \<lambda>_ d. (False, d), be_Flash = \<lambda>_ d. (False, d), be_GetBackendName = ''Null''\<rparr>"

subsection \<open>Linux\<close>

definition ExecDetached :: "desk_os \<Rightarrow> string \<Rightarrow> string list \<Rightarrow> effect list \<Rightarrow> bool \<times> effect list" where
  "ExecDetached os prog argv d = (if \<not> os_fork os d then (False, d) else (True, d @ [Exec prog argv]))"

definition CommandExists :: "desk_os \<Rightarrow> string \<Rightarrow> bool" where
  "CommandExists os name = list_ex (\<lambda>dir. os_access os (dir @ name)) [''/usr/bin/'', ''/usr/local/bin/'', ''/bin/'']"

definition linux_argv :: "NotificationRequest \<Rightarrow> string list" where
  "linux_argv req =
     [''notify-send'', ''--expire-time'', int_str (nr_duration_ms req),
      ''--urgency'', if nr_type req = Error then ''critical'' else ''normal'',
      ''--'', nr_title req, nr_message req]"

definition LinuxNotifySendBackend :: "desk_os \<Rightarrow> effect list INotificationBackend" where
  "LinuxNotifySendBackend os =
     \<lparr>be_Send = \<lambda>req. ExecDetached os ''notify-send'' (linux_argv req),
      be_Flash = \<lambda>_ d. (True, d @ [Bell]),
      be_GetBackendName = ''LinuxNotifySend''\<rparr>"

subsection \<open>macOS\<close>

definition OsaEscape :: "string \<Rightarrow> string" where
  "OsaEscape s = concat (map (\<lambda>c. if c = DQ then [BSL, DQ] else if c = BSL then [BSL, BSL] else [c]) s)"

definition osa_script :: "NotificationRequest \<Rightarrow> string" where
  "osa_script req = ''display notification '' @ DQ # OsaEscape (nr_message req) @ DQ # '' with title '' @ DQ # OsaEscape (nr_title req) @ [DQ]"

definition MacOsascriptBackend :: "desk_os \<Rightarrow> effect list INotificationBackend" where
  "MacOsascriptBackend os =
     \<lparr>be_Send = \<lambda>req d. if \<not> os_fork os d then (False, d) else (True, d @ [Exec ''osascript'' [''osascript'', ''-e'', osa_script req]]),
      be_Flash = \<lambda>_ d. (True, d @ [Bell]),
      be_GetBackendName = ''MacOsascript''\<rparr>"

subsection \<open>Windows\<close>

definition wide :: "string \<Rightarrow> wstring" where
  "wide s = map (\<lambda>c. word_of_nat (uchar c)) s"

definition xml_esc :: "16 word \<Rightarrow> wstring" where
  "xml_esc c =
     (if c = 0x26 then wide ''&amp;'' else if c = 0x3C then wide ''&lt;'' else if c = 0x3E then wide ''&gt;''
      else if c = 0x22 then wide ''&quot;'' else if c = 0x27 then wide ''&apos;'' else [c])"

definition XmlEscape :: "wstring \<Rightarrow> wstring" where
  "XmlEscape s = concat (map xml_esc s)"

fun type_prefix :: "NotificationType \<Rightarrow> wstring" where
  "type_prefix Success = [0x2713, 0x20]"
| "type_prefix Warning = [0x26A0, 0x20]"
| "type_prefix Error = [0x2717, 0x20]"
| "type_prefix Info = [0x2139, 0x20]"

definition BuildToastXml :: "(string \<Rightarrow> wstring) \<Rightarrow> NotificationRequest \<Rightarrow> wstring" where
  "BuildToastXml to_wide req =
     (let title = XmlEscape (type_prefix (nr_type req) @ to_wide (nr_title req));
          message = XmlEscape (to_wide (nr_message req))
      in wide (dq_text ''<toast duration=`'') @ wide (if 10000 \<le> nr_duration_ms req then ''long'' else ''short'')
         @ wide (dq_text ''`><visual><binding template=`ToastGeneric`>'')
         @ wide ''<text>'' @ title @ wide ''</text>'' @ wide ''<text>'' @ message @ wide ''</text>''
         @ wide ''</binding></visual></toast>'')"

definition FlashTerminalWindow :: "desk_os \<Rightarrow> int \<Rightarrow> effect list \<Rightarrow> bool \<times> effect list" where
  "FlashTerminalWindow os n d =
     (if n \<le> 0 then (True, d)
      else if \<not> os_console os then (False, d)
      else (os_flash os d, d @ [FlashWindowEx (word_of_int n)]))"

definition MB_ICONINFORMATION :: "32 word" where "MB_ICONINFORMATION = 0x40"
definition MB_ICONEXCLAMATION :: "32 word" where "MB_ICONEXCLAMATION = 0x30"
definition MB_ICONHAND :: "32 word" where "MB_ICONHAND = 0x10"

definition Win32Backend :: "desk_os \<Rightarrow> effect list INotificationBackend" where
  "Win32Backend os =
     \<lparr>be_Send = \<lambda>req d. (True, d @ [MessageBeep
        (if nr_type req = Error then MB_ICONHAND else if nr_type req = Warning then MB_ICONEXCLAMATION else MB_ICONINFORMATION)]),
      be_Flash = FlashTerminalWindow os,
      be_GetBackendName = ''Win32''\<rparr>"

text \<open>A COM result is a signed word of 32 bits: success is a value that is not negative.\<close>

definition S_FALSE :: "32 word" where "S_FALSE = 1"
definition CO_E_ALREADYINITIALIZED :: "32 word" where "CO_E_ALREADYINITIALIZED = 0x800401F1"
definition SUCCEEDED :: "32 word \<Rightarrow> bool" where "SUCCEEDED hr \<longleftrightarrow> 0 \<le> sint hr"

definition winrt_send :: "desk_os \<Rightarrow> NotificationRequest \<Rightarrow> effect list \<Rightarrow> bool \<times> effect list" where
  "winrt_send os req d =
     (let hrInit = os_ro_init os d;
          didInit = (SUCCEEDED hrInit \<and> hrInit \<noteq> S_FALSE);
          d1 = d @ [RoInitialize]
      in if \<not> SUCCEEDED hrInit \<and> hrInit \<noteq> S_FALSE \<and> hrInit \<noteq> CO_E_ALREADYINITIALIZED then (False, d1)
         else (let xml = BuildToastXml (Utf8ToWide os) req; d2 = d1 @ [ShowToast xml]
               in (os_show os xml, if didInit then d2 @ [RoUninitialize] else d2)))"

definition WinRtBackend :: "desk_os \<Rightarrow> effect list INotificationBackend" where
  "WinRtBackend os = \<lparr>be_Send = winrt_send os, be_Flash = FlashTerminalWindow os, be_GetBackendName = ''WinRT''\<rparr>"

subsection \<open>The factory\<close>

datatype desk_platform = OnWindows | OnLinux | OnMac | Elsewhere

fun CreateBackend :: "desk_os \<Rightarrow> desk_platform \<Rightarrow> effect list \<Rightarrow> effect list INotificationBackend \<times> effect list" where
  "CreateBackend os OnWindows d =
     (let hr = os_ro_init os d;
          winRtOk = (SUCCEEDED hr \<or> hr = S_FALSE \<or> hr = CO_E_ALREADYINITIALIZED);
          d1 = d @ [RoInitialize];
          d2 = (if SUCCEEDED hr \<and> hr \<noteq> S_FALSE then d1 @ [RoUninitialize] else d1)
      in (if winRtOk then WinRtBackend os else Win32Backend os, d2))"
| "CreateBackend os OnLinux d = (if CommandExists os ''notify-send'' then LinuxNotifySendBackend os else NullBackend, d)"
| "CreateBackend os OnMac d = (MacOsascriptBackend os, d)"
| "CreateBackend os Elsewhere d = (NullBackend, d)"

section \<open>What every back end promises\<close>

locale notification_backend =
  fixes B :: "'e list INotificationBackend"
  assumes send_adds: "\<exists>e. length e \<le> 3 \<and> snd (be_Send B r d) = d @ e"
    and flash_adds: "\<exists>e. length e \<le> 1 \<and> snd (be_Flash B n d) = d @ e"
begin

lemma notify_flash_adds: "notify_flash B tool req d = Some d' \<Longrightarrow> \<exists>e. length e \<le> 1 \<and> d' = d @ e"
  using flash_adds by (auto simp: notify_flash_def Let_def split: if_split_asm)

text \<open>A call only adds to what the system was asked before, and at most four effects.\<close>

lemma notify_adds:
  assumes "notify_execute B tool req d = Some (reply, d')"
  shows "\<exists>e. length e \<le> 4 \<and> d' = d @ e"
proof (cases "notify_send B tool req d = Some (reply, d')")
  case True
  then obtain dur where "JsonGetInt req ''duration_ms'' 5000 = Some dur"
    by (cases "JsonGetInt req ''duration_ms'' 5000") (simp_all add: notify_send_def)
  then have f: "notify_flash B tool req (snd (be_Send B (notify_request req dur) d)) = Some d'"
    using True by (cases "be_Send B (notify_request req dur) d") (auto simp: notify_send_def)
  obtain e where e: "length e \<le> 3" "snd (be_Send B (notify_request req dur) d) = d @ e" using send_adds by blast
  from notify_flash_adds [OF f] obtain e' where "length e' \<le> 1" "d' = (d @ e) @ e'" unfolding e(2) by blast
  then show ?thesis using e by (intro exI [where x = "e @ e'"]) simp
next
  case False
  then have "d' = d" using assms unfolding notify_execute_def
    by (cases "is_notify tool"; cases "JsonGetString req ''title'' = [] \<or> JsonGetString req ''message'' = []") simp_all
  then show ?thesis by (intro exI [where x = "[]"]) simp
qed

end

lemma FlashTerminalWindow_adds: "\<exists>e. length e \<le> 1 \<and> snd (FlashTerminalWindow os n d) = d @ e"
  by (simp add: FlashTerminalWindow_def exI [where x = "[]"])

lemma winrt_adds: "\<exists>e. length e \<le> 3 \<and> snd (winrt_send os r d) = d @ e"
  by (simp add: winrt_send_def Let_def)

interpretation null: notification_backend NullBackend
  by unfold_locales (simp_all add: NullBackend_def exI [where x = "[]"])

interpretation linux: notification_backend "LinuxNotifySendBackend os" for os
  by unfold_locales (simp_all add: LinuxNotifySendBackend_def ExecDetached_def exI [where x = "[]"])

interpretation mac: notification_backend "MacOsascriptBackend os" for os
  by unfold_locales (simp_all add: MacOsascriptBackend_def exI [where x = "[]"])

interpretation win32: notification_backend "Win32Backend os" for os
  by unfold_locales (use FlashTerminalWindow_adds in \<open>simp_all add: Win32Backend_def\<close>)

interpretation winrt: notification_backend "WinRtBackend os" for os
  by unfold_locales (use FlashTerminalWindow_adds winrt_adds in \<open>simp_all add: WinRtBackend_def\<close>)

lemma created_adds:
  assumes "CreateBackend os pf d0 = (B, d1)" "notify_execute B tool req d = Some (reply, d')"
  shows "\<exists>e. length e \<le> 4 \<and> d' = d @ e"
proof -
  have "B = NullBackend \<or> B = LinuxNotifySendBackend os \<or> B = MacOsascriptBackend os \<or> B = Win32Backend os \<or> B = WinRtBackend os"
    using assms(1) by (cases pf) (auto simp: Let_def split: if_split_asm)
  then show ?thesis
    using assms(2) null.notify_adds [of tool req d reply d'] linux.notify_adds [of os tool req d reply d']
      mac.notify_adds [of os tool req d reply d'] win32.notify_adds [of os tool req d reply d'] winrt.notify_adds [of os tool req d reply d']
    by (elim disjE) simp_all
qed

section \<open>What AppleScript and an XML reader see\<close>

text \<open>The rest of an AppleScript string literal, and the command that a script is.\<close>

fun osa_string :: "string \<Rightarrow> (string \<times> string) option" where
  "osa_string [] = None"
| "osa_string (c # cs) =
     (if c = DQ then Some ([], cs)
      else if c = BSL then
        (case cs of [] \<Rightarrow> None
         | d # ds \<Rightarrow> (case map_of [(DQ, DQ), (BSL, BSL), (CHR ''n'', NL), (CHR ''r'', CR), (CHR ''t'', TAB)] d of
               None \<Rightarrow> None
             | Some e \<Rightarrow> map_option (\<lambda>(v, r). (e # v, r)) (osa_string ds)))
      else map_option (\<lambda>(v, r). (c # v, r)) (osa_string cs))"

definition osa_command :: "string \<Rightarrow> (string \<times> string) option" where
  "osa_command s =
     Option.bind (eat (''display notification '' @ [DQ]) s) (\<lambda>s1.
     Option.bind (osa_string s1) (\<lambda>(m, s2).
     Option.bind (eat ('' with title '' @ [DQ]) s2) (\<lambda>s3.
     Option.bind (osa_string s3) (\<lambda>(t, s4). if s4 = [] then Some (m, t) else None))))"

lemma osa_string_esc: "osa_string (OsaEscape v @ DQ # r) = Some (v, r)"
  by (induction v) (simp_all add: OsaEscape_def)

lemma osa_script_split:
  "osa_script req = (''display notification '' @ [DQ]) @ OsaEscape (nr_message req) @ DQ
     # (('' with title '' @ [DQ]) @ OsaEscape (nr_title req) @ DQ # [])"
  by (simp add: osa_script_def)

text \<open>The character data of an XML element, up to the next mark-up.\<close>

definition entities :: "(wstring \<times> 16 word) list" where
  "entities = [(wide ''amp;'', 0x26), (wide ''lt;'', 0x3C), (wide ''gt;'', 0x3E), (wide ''quot;'', 0x22), (wide ''apos;'', 0x27)]"

function xml_text :: "wstring \<Rightarrow> (wstring \<times> wstring) option" where
  "xml_text s =
     (case s of [] \<Rightarrow> None
      | c # cs \<Rightarrow>
          if c = 0x3C then Some ([], s)
          else if c = 0x26 then
            (case find (\<lambda>(e, v). prefix e cs) entities of None \<Rightarrow> None
             | Some (e, v) \<Rightarrow> map_option (\<lambda>(t, r). (v # t, r)) (xml_text (drop (length e) cs)))
          else map_option (\<lambda>(t, r). (c # t, r)) (xml_text cs))"
  by auto
termination by (relation "measure length") simp_all

declare xml_text.simps [simp del]

text \<open>A toast: whether it is a long one, its first text and its second.\<close>

definition toast_head :: "string \<Rightarrow> wstring" where
  "toast_head dur = wide (dq_text ''<toast duration=`'') @ wide dur
     @ wide (dq_text ''`><visual><binding template=`ToastGeneric`>'') @ wide ''<text>''"

definition toast_body :: "wstring \<Rightarrow> (wstring \<times> wstring) option" where
  "toast_body s =
     Option.bind (xml_text s) (\<lambda>(t, s1).
     Option.bind (eat (wide ''</text>'' @ wide ''<text>'') s1) (\<lambda>s2.
     Option.bind (xml_text s2) (\<lambda>(m, s3).
     if s3 = wide ''</text>'' @ wide ''</binding></visual></toast>'' then Some (t, m) else None)))"

definition toast_read :: "wstring \<Rightarrow> (bool \<times> wstring \<times> wstring) option" where
  "toast_read s =
     (case eat (toast_head ''long'') s of
        Some r \<Rightarrow> map_option (Pair True) (toast_body r)
      | None \<Rightarrow> Option.bind (eat (toast_head ''short'') s) (\<lambda>r. map_option (Pair False) (toast_body r)))"

lemma wide_append: "wide (a @ b) = wide a @ wide b"
  by (simp add: wide_def)

lemma find_entity:
  "find (\<lambda>(e, v). prefix e (wide ''amp;'' @ r)) entities = Some (wide ''amp;'', 0x26)"
  "find (\<lambda>(e, v). prefix e (wide ''lt;'' @ r)) entities = Some (wide ''lt;'', 0x3C)"
  "find (\<lambda>(e, v). prefix e (wide ''gt;'' @ r)) entities = Some (wide ''gt;'', 0x3E)"
  "find (\<lambda>(e, v). prefix e (wide ''quot;'' @ r)) entities = Some (wide ''quot;'', 0x22)"
  "find (\<lambda>(e, v). prefix e (wide ''apos;'' @ r)) entities = Some (wide ''apos;'', 0x27)"
  by (simp_all add: entities_def wide_def uchar_def)

lemma xml_text_amp:
  assumes "find (\<lambda>(e, v). prefix e (e' @ r)) entities = Some (e', v')"
  shows "xml_text (0x26 # e' @ r) = map_option (\<lambda>(t, r). (v' # t, r)) (xml_text r)"
  using assms by (subst xml_text.simps) simp

lemma xml_text_esc: "xml_text (xml_esc c @ r) = map_option (\<lambda>(t, r). (c # t, r)) (xml_text r)"
proof -
  have w: "wide (CHR ''&'' # s) = 0x26 # wide s" for s by (simp add: wide_def uchar_def)
  consider "c \<in> {0x26, 0x3C, 0x3E, 0x22, 0x27}" | "c \<notin> {0x26, 0x3C, 0x3E, 0x22, 0x27}" by blast
  then show ?thesis
  proof cases
    case 1
    then show ?thesis using find_entity [of r, THEN xml_text_amp] by (auto simp: xml_esc_def w)
  next
    case 2
    then show ?thesis by (subst xml_text.simps) (simp add: xml_esc_def)
  qed
qed

lemma wide_lt: "wide (CHR ''<'' # s) = 0x3C # wide s"
  by (simp add: wide_def uchar_def)

lemma xml_text_escs: "xml_text (XmlEscape s @ wide (CHR ''<'' # t) @ u) = Some (s, wide (CHR ''<'' # t) @ u)"
proof (induction s)
  case Nil
  show ?case unfolding wide_lt by (subst xml_text.simps) (simp add: XmlEscape_def)
next
  case (Cons c s)
  have "XmlEscape (c # s) @ wide (CHR ''<'' # t) @ u = xml_esc c @ XmlEscape s @ wide (CHR ''<'' # t) @ u" by (simp add: XmlEscape_def)
  then show ?case using Cons by (simp add: xml_text_esc)
qed

lemma toast_split:
  "BuildToastXml w req = toast_head (if 10000 \<le> nr_duration_ms req then ''long'' else ''short'')
     @ XmlEscape (type_prefix (nr_type req) @ w (nr_title req)) @ (wide ''</text>'' @ wide ''<text>'')
     @ XmlEscape (w (nr_message req)) @ wide ''</text>'' @ wide ''</binding></visual></toast>''"
  by (simp add: BuildToastXml_def toast_head_def)

lemma toast_body_read:
  "toast_body (XmlEscape t @ (wide ''</text>'' @ wide ''<text>'') @ XmlEscape m @ wide ''</text>'' @ wide ''</binding></visual></toast>'')
   = Some (t, m)"
proof -
  have "xml_text (XmlEscape t @ wide ''</text>'' @ r) = Some (t, wide ''</text>'' @ r)" for t r by (rule xml_text_escs)
  moreover have "eat (wide ''</text>'' @ wide ''<text>'') (wide ''</text>'' @ wide ''<text>'' @ r) = Some r" for r
    using eat_append [of "wide ''</text>'' @ wide ''<text>''" r] by simp
  ultimately show ?thesis by (simp add: toast_body_def)
qed

lemma long_not_short: "eat (toast_head ''long'') (toast_head ''short'' @ r) = None"
  by (simp add: eat_def toast_head_def wide_def uchar_def dq_text_def)

section \<open>Properties\<close>

lemma clamp_bounds: "lo \<le> hi \<Longrightarrow> lo \<le> clamp lo hi v \<and> clamp lo hi v \<le> hi"
  by (simp add: clamp_def)

lemma notify_flash_bounded:
  assumes "notify_flash B tool req d = Some d'"
  shows "d' = d \<or> is_flash tool \<and> (\<exists>n. 1 \<le> n \<and> n \<le> 20 \<and> d' = snd (be_Flash B n d))"
proof (cases "is_flash tool")
  case True
  then obtain f where d': "d' = (if 0 < clamp 0 20 f then snd (be_Flash B (clamp 0 20 f) d) else d)"
    using assms by (auto simp: notify_flash_def Let_def)
  show ?thesis using True d' clamp_bounds [of 0 20 f] by (cases "0 < clamp 0 20 f") (auto intro!: exI [where x = "clamp 0 20 f"])
next
  case False
  then show ?thesis using assms by (simp add: notify_flash_def)
qed

lemma notify_send_calls:
  assumes "notify_send B tool req d = Some (reply, d')"
  obtains dur where "notify_flash B tool req (snd (be_Send B (notify_request req dur) d)) = Some d'"
proof -
  obtain dur where "JsonGetInt req ''duration_ms'' 5000 = Some dur"
    using assms by (cases "JsonGetInt req ''duration_ms'' 5000") (simp_all add: notify_send_def)
  then show thesis
    using assms that [of dur] by (cases "be_Send B (notify_request req dur) d") (auto simp: notify_send_def)
qed

lemma notify_execute_calls:
  assumes "notify_execute B tool req d = Some (reply, d')" "d' \<noteq> d"
  shows "JsonGetString req ''title'' \<noteq> [] \<and> JsonGetString req ''message'' \<noteq> [] \<and> notify_send B tool req d = Some (reply, d')"
  using assms unfolding notify_execute_def by (cases "is_notify tool";
    cases "JsonGetString req ''title'' = [] \<or> JsonGetString req ''message'' = []") simp_all

text \<open>A back end that records the durations it is asked for, as the unit tests use one.\<close>

definition recording :: "int list INotificationBackend" where
  "recording = \<lparr>be_Send = \<lambda>r d. (True, d @ [nr_duration_ms r]), be_Flash = \<lambda>n d. (True, d @ [n]), be_GetBackendName = ''Mock''\<rparr>"

text \<open>
  C34: Whatever a client asks for and whatever the back end is, a call of the notification plugin
  asks the back end for nothing, or for one notification with a title and a text that are not
  empty, shown for 1 to 30 seconds, and after it, from desktop_notify_flash only, at most one
  flash of 1 to 20 cycles.
\<close>

theorem notify_calls_bounded:
  assumes "notify_execute B tool req d = Some (reply, d')"
  shows "d' = d \<or> (\<exists>r. nr_title r \<noteq> [] \<and> nr_message r \<noteq> [] \<and> 1000 \<le> nr_duration_ms r \<and> nr_duration_ms r \<le> 30000
     \<and> (d' = snd (be_Send B r d)
        \<or> is_flash tool \<and> (\<exists>n. 1 \<le> n \<and> n \<le> 20 \<and> d' = snd (be_Flash B n (snd (be_Send B r d))))))"
proof (cases "d' = d")
  case False
  note c = notify_execute_calls [OF assms False]
  then obtain dur where "notify_flash B tool req (snd (be_Send B (notify_request req dur) d)) = Some d'"
    by (blast elim: notify_send_calls)
  from notify_flash_bounded [OF this] c show ?thesis
    using clamp_bounds [of 1000 30000 dur] by (intro disjI2 exI [where x = "notify_request req dur"]) (simp add: notify_request_def)
qed simp

theorem notify_calls_bounded_witness:
  "\<exists>r. nr_title r \<noteq> [] \<and> 1000 \<le> nr_duration_ms r \<and> [1000] = snd (be_Send recording r [])"
proof -
  have "notify_execute recording ''desktop_notify'' (dq_text ''{`title`:`t`,`message`:`m`,`duration_ms`:99}'') []
      = Some (OkResult ''Notification sent via Mock backend'', [1000])"
    by (simp add: notify_execute_def notify_send_def notify_flash_def is_notify_def is_flash_def notify_request_def recording_def dq_text_def JsonGetString_def JsonGetInt_def after_colon_def after_def
        needle_def clamp_def json_blank_def isdigit_def digit_val_def uchar_def int_max_def ParseType_def)
  from notify_calls_bounded [OF this] show ?thesis by (auto simp: is_flash_def)
qed

text \<open>
  The AppleScript that the macOS back end runs is one display command for exactly the title and the
  message of the request: no text of a request can end its literal and add to the script.
\<close>

theorem osa_script_means: "osa_command (osa_script req) = Some (nr_message req, nr_title req)"
  unfolding osa_command_def osa_script_split by (simp only: eat_append osa_string_esc Option.bind.bind_lunit prod.case if_True simp_thms)

text \<open>
  C35: The XML of a toast reads as one toast with exactly the title, after its mark, and the message of
  the request, and is a long toast exactly from ten seconds on: no text of a request becomes
  mark-up.
\<close>

theorem toast_means:
  "toast_read (BuildToastXml w req)
     = Some (10000 \<le> nr_duration_ms req, type_prefix (nr_type req) @ w (nr_title req), w (nr_message req))"
  unfolding toast_split by (simp add: toast_read_def toast_body_read [simplified] long_not_short)

end
