(* ===== verification/UnrealTools.thy ===== *)
theory UnrealTools
  imports PluginJson Files
begin

text \<open>
  \<^verbatim>\<open>plugins/unreal-tools/src/unreal-tools.cpp\<close>: the six tools of the plugin for Unreal projects.
  The system is a record: the bytes of the files that can be opened, the directories, what a
  recursive iteration of a directory delivers and whether it ends with an exception,
  \<^verbatim>\<open>fs::relative\<close>, and what a shell command writes, with its exit code after reading it to the end or
  leaving early.  The regular expressions of the source match in one way only at a given place; they are
  written as the scanners they are.
\<close>

record ue_entry =
  en_regular :: bool
  en_path :: string
  en_filename :: string
  en_size :: nat

record ue_env =
  ue_file :: "string \<Rightarrow> string option"
  ue_is_dir :: "string \<Rightarrow> bool"
  ue_walk :: "string \<Rightarrow> ue_entry list \<times> bool"
  ue_relative :: "string \<Rightarrow> string \<Rightarrow> string"
  ue_popen :: "string \<Rightarrow> (string \<times> (bool \<Rightarrow> int)) option"

section \<open>Helpers\<close>

definition JsonGetBool :: "string \<Rightarrow> string \<Rightarrow> bool \<Rightarrow> bool" where
  "JsonGetBool json key defaultVal =
     (case after_colon json key of
        None \<Rightarrow> defaultVal
      | Some r \<Rightarrow> let s = dropWhile json_blank r in if s = [] then defaultVal else take 4 s = ''true'')"

definition ue_get_int :: "string \<Rightarrow> string \<Rightarrow> int \<Rightarrow> int" where
  "ue_get_int json key defaultVal =
     (case after_colon json key of
        None \<Rightarrow> defaultVal
      | Some r \<Rightarrow> let s = dropWhile json_blank r in
          if s = [] then defaultVal else (case stoi s of None \<Rightarrow> defaultVal | Some v \<Rightarrow> v))"

text \<open>The text from an opening bracket to the one that balances it, brackets in strings included.\<close>

fun array_text :: "nat \<Rightarrow> string \<Rightarrow> string" where
  "array_text depth [] = []"
| "array_text depth (c # cs) =
     (if c = CHR ''['' then c # array_text (depth + 1) cs
      else if c = CHR '']'' then (if depth - 1 = 0 then [c] else c # array_text (depth - 1) cs)
      else c # array_text depth cs)"

definition JsonGetArray :: "string \<Rightarrow> string \<Rightarrow> string" where
  "JsonGetArray json key =
     (case Option.bind (after (needle key) json) (after ''['') of
        None \<Rightarrow> ''[]''
      | Some r \<Rightarrow> array_text 0 (CHR ''['' # r))"

function read_blocks :: "nat \<Rightarrow> nat \<Rightarrow> string \<Rightarrow> string" where
  "read_blocks maxBytes got s =
     (if got < maxBytes \<and> s \<noteq> [] then take 8192 s @ read_blocks maxBytes (got + length (take 8192 s)) (drop 8192 s) else [])"
  by auto
termination by (relation "measure (\<lambda>(m, t, s). length s)") auto

declare read_blocks.simps [simp del]

definition ue_read_file :: "ue_env \<Rightarrow> string \<Rightarrow> nat \<Rightarrow> string" where
  "ue_read_file E path maxBytes = (case ue_file E path of None \<Rightarrow> [] | Some s \<Rightarrow> read_blocks maxBytes 0 s)"

text \<open>One \<^verbatim>\<open>fgets\<close> into a buffer of 4096: up to a newline, at most 4095 bytes; and the loop around it.\<close>

definition fgets_chunk :: "string \<Rightarrow> string" where
  "fgets_chunk s = take 4095 (takeWhile (\<lambda>c. c \<noteq> NL) s @ take 1 (dropWhile (\<lambda>c. c \<noteq> NL) s))"

lemma fgets_chunk_nonempty: "s \<noteq> [] \<Longrightarrow> fgets_chunk s \<noteq> []"
  by (cases s) (auto simp: fgets_chunk_def)

function read_output :: "string \<Rightarrow> string \<Rightarrow> string \<times> bool" where
  "read_output out s =
     (if s = [] then (out, True)
      else (let out' = out @ c_str (fgets_chunk s)
            in if 500000 < length out' then (out', False) else read_output out' (drop (length (fgets_chunk s)) s)))"
  by auto
termination by (relation "measure (\<lambda>(t, s). length s)") (auto simp: fgets_chunk_nonempty)

declare read_output.simps [simp del]

definition ue_run_command :: "ue_env \<Rightarrow> string \<Rightarrow> string" where
  "ue_run_command E cmd =
     (case ue_popen E cmd of
        None \<Rightarrow> ''[Failed to run command]''
      | Some (written, rc) \<Rightarrow>
          let (out, whole) = read_output [] written in out @ NL # ''Exit code: '' @ int_str (rc whole))"

definition last_5000 :: "string \<Rightarrow> string" where
  "last_5000 s = drop (if 5000 < length s then length s - 5000 else 0) s"

text \<open>\<^verbatim>\<open>operator/\<close> of paths: an absolute right-hand side replaces the left one.\<close>

definition path_join :: "string \<Rightarrow> string \<Rightarrow> string" where
  "path_join a b = (if is_absolute b then b else if a = [] \<or> last a = CHR ''/'' then a @ b else a @ CHR ''/'' # b)"

definition or_default :: "string \<Rightarrow> string \<Rightarrow> string" where
  "or_default s d = (if s = [] then d else s)"

section \<open>Project, build and tests\<close>

definition HandleProjectInfo :: "ue_env \<Rightarrow> string \<Rightarrow> string" where
  "HandleProjectInfo E req =
     (let projectFile = JsonGetString req ''project_file'' in
      if projectFile = [] then MakeFail ''project_file is required''
      else let content = ue_read_file E projectFile 200000 in
        if content = [] then MakeFail (''Cannot read .uproject file: '' @ projectFile)
        else let engineVer = JsonGetString content ''EngineAssociation'';
                 description = JsonGetString content ''Description'';
                 category = JsonGetString content ''Category''
          in MakeOk (''Unreal Project: '' @ projectFile @ [NL]
             @ ''  Engine: '' @ or_default engineVer ''unknown'' @ [NL]
             @ (if description \<noteq> [] then ''  Description: '' @ description @ [NL] else [])
             @ (if category \<noteq> [] then ''  Category: '' @ category @ [NL] else [])
             @ ''  Modules: '' @ JsonGetArray content ''Modules'' @ [NL]
             @ ''  Plugins: '' @ JsonGetArray content ''Plugins'' @ [NL]))"

definition build_command :: "string \<Rightarrow> string \<Rightarrow> string \<Rightarrow> string \<Rightarrow> string \<Rightarrow> bool \<Rightarrow> string" where
  "build_command uatPath projectFile target config plat clean =
     DQ # uatPath @ DQ # '' BuildCookRun'' @ '' -project='' @ DQ # projectFile @ DQ # '' -targetplatform='' @ plat
     @ '' -clientconfig='' @ config @ '' -build''
     @ (if target = ''Editor'' then '' -nocompileEditor'' else []) @ (if clean then '' -clean'' else [])
     @ '' -utf8output 2>&1''"

definition HandleBuild :: "ue_env \<Rightarrow> string \<Rightarrow> string" where
  "HandleBuild E req =
     (let projectFile = JsonGetString req ''project_file''; uatPath = JsonGetString req ''uat_path'' in
      if projectFile = [] then MakeFail ''project_file is required''
      else if uatPath = [] then MakeFail ''uat_path is required''
      else let target = or_default (JsonGetString req ''target'') ''Editor'';
               config = or_default (JsonGetString req ''config'') ''Development'';
               plat = or_default (JsonGetString req ''platform'') ''Win64'';
               cmd = build_command uatPath projectFile target config plat (JsonGetBool req ''clean'' False);
               output = ue_run_command E cmd
        in MakeOk (''Build: '' @ target @ '' | '' @ config @ '' | '' @ plat @ [NL]
             @ ''Command: '' @ cmd @ [NL] @ ''--- output (last 5000 chars) ---'' @ NL # last_5000 output))"

definition tests_command :: "string \<Rightarrow> string \<Rightarrow> string \<Rightarrow> string" where
  "tests_command editorPath projectFile testFilter =
     DQ # editorPath @ DQ # '' '' @ DQ # projectFile @ DQ # '' -ExecCmds='' @ DQ # ''Automation RunTests '' @ testFilter @ '';Quit'' @ DQ
     # '' -Unattended -NullRHI -NoSound -NoSplash'' @ '' -log 2>&1''"

definition lines_with :: "string \<Rightarrow> string \<Rightarrow> nat" where
  "lines_with word output = length (filter (contains_sub word) (getlines output))"

definition HandleRunTests :: "ue_env \<Rightarrow> string \<Rightarrow> string" where
  "HandleRunTests E req =
     (let projectFile = JsonGetString req ''project_file''; editorPath = JsonGetString req ''editor_path'' in
      if projectFile = [] then MakeFail ''project_file is required''
      else if editorPath = [] then MakeFail ''editor_path is required''
      else let testFilter = or_default (JsonGetString req ''test_filter'') ''Project'';
               cmd = tests_command editorPath projectFile testFilter;
               output = ue_run_command E cmd
        in MakeOk (''Test filter: '' @ testFilter @ [NL] @ ''Command: '' @ cmd @ [NL]
             @ ''Summary: ~'' @ nat_str (lines_with ''Success'' output) @ '' passed, ~'' @ nat_str (lines_with ''Fail'' output) @ '' failed''
             @ NL # ''--- output (last 5000 chars) ---'' @ NL # last_5000 output))"

section \<open>Assets\<close>

definition lower :: "string \<Rightarrow> string" where "lower s = map tolower s"

definition STAR :: char where "STAR = CHR ''*''"

text \<open>Whether a file name, in lower case, fits the query, in lower case and not empty.\<close>

definition asset_name_ok :: "string \<Rightarrow> string \<Rightarrow> bool" where
  "asset_name_ok pattern fname =
     (if hd pattern = STAR \<and> last pattern = STAR \<and> 2 < length pattern then contains_sub (substr pattern 1 (length pattern - 2)) fname
      else if hd pattern = STAR then
        (let suf = drop 1 pattern in length suf \<le> length fname \<and> drop (length fname - length suf) fname = suf)
      else if last pattern = STAR then
        (let pre = take (length pattern - 1) pattern in take (length pre) fname = pre)
      else fname = pattern)"

definition asset_ok :: "string \<Rightarrow> string \<Rightarrow> ue_entry \<Rightarrow> bool" where
  "asset_ok query ext e \<longleftrightarrow>
     en_regular e
     \<and> (ext = [] \<or> lower (extension (en_filename e)) = lower ext)
     \<and> (query = [STAR] \<or> asset_name_ok (lower query) (lower (en_filename e)))"

definition size_str :: "nat \<Rightarrow> string" where
  "size_str n = (if 1048576 < n then nat_str (n div 1048576) @ '' MB''
     else if 1024 < n then nat_str (n div 1024) @ '' KB'' else nat_str n @ '' B'')"

definition asset_row :: "ue_env \<Rightarrow> string \<Rightarrow> ue_entry \<Rightarrow> string" where
  "asset_row E projectDir e = ue_relative E (en_path e) projectDir @ ''  ('' @ size_str (en_size e) @ '')''"

text \<open>The iteration: the matches, or the exception of an iteration that was not left before it.\<close>

fun asset_loop :: "ue_env \<Rightarrow> string \<Rightarrow> string \<Rightarrow> string \<Rightarrow> int \<Rightarrow> bool \<Rightarrow> ue_entry list \<Rightarrow> string list \<Rightarrow> string list res" where
  "asset_loop E projectDir query ext limit threw [] acc = (if threw then Inl (ForeignError ''filesystem_error'') else Inr acc)"
| "asset_loop E projectDir query ext limit threw (e # es) acc =
     (if asset_ok query ext e then
        (let acc' = acc @ [asset_row E projectDir e]
         in if limit \<le> int (length acc') then Inr acc' else asset_loop E projectDir query ext limit threw es acc')
      else asset_loop E projectDir query ext limit threw es acc)"

definition list_text :: "string list \<Rightarrow> string" where
  "list_text rows = concat (map (\<lambda>m. ''  '' @ m @ [NL]) rows)"

definition positive_or :: "int \<Rightarrow> int \<Rightarrow> int" where
  "positive_or d v = (if v \<le> 0 then d else v)"

definition HandleAssetSearch :: "ue_env \<Rightarrow> string \<Rightarrow> string res" where
  "HandleAssetSearch E req =
     (let projectDir = JsonGetString req ''project_dir'' in
      if projectDir = [] then Inr (MakeFail ''project_dir is required'')
      else let query = or_default (JsonGetString req ''query'') [STAR];
               ext0 = JsonGetString req ''extension'';
               subdir = JsonGetString req ''content_subdir'';
               limit = positive_or 100 (ue_get_int req ''limit'' 100);
               content = path_join projectDir ''Content''
        in if subdir \<noteq> [] \<and> contains_sub ''..'' subdir then Inr (MakeFail ''Path traversal not allowed'')
           else let contentPath = (if subdir = [] then content else path_join content subdir) in
             if \<not> ue_is_dir E contentPath then Inr (MakeFail (''Content directory not found: '' @ contentPath))
             else let ext = (if ext0 \<noteq> [] \<and> hd ext0 \<noteq> CHR ''.'' then CHR ''.'' # ext0 else ext0);
                      (entries, threw) = ue_walk E contentPath
               in bindE (asset_loop E projectDir query ext limit threw entries []) (\<lambda>matches.
                    Inr (MakeOk (''Found '' @ nat_str (length matches) @ '' assets (query='' @ SQ # query @ SQ # '' ext='' @ SQ # ext @ SQ # '')''
                      @ NL # list_text matches))))"

section \<open>Logs\<close>

text \<open>Scanners run one after the other; each gives what it leaves of the text.\<close>

definition steps :: "(string \<Rightarrow> string option) list \<Rightarrow> string \<Rightarrow> string option" where
  "steps fs s = foldl Option.bind (Some s) fs"

definition digits_n :: "nat \<Rightarrow> string \<Rightarrow> string option" where
  "digits_n n s = (if n \<le> length s \<and> list_all isdigit (take n s) then Some (drop n s) else None)"

definition digits_some :: "string \<Rightarrow> string option" where
  "digits_some s = (if s \<noteq> [] \<and> isdigit (hd s) then Some (dropWhile isdigit s) else None)"

definition word_char :: "char \<Rightarrow> bool" where
  "word_char c \<longleftrightarrow> isdigit c \<or> isupper c \<or> islower c \<or> c = CHR ''_''"

definition word_some :: "string \<Rightarrow> (string \<times> string) option" where
  "word_some s = (let w = takeWhile word_char s in if w = [] then None else Some (w, dropWhile word_char s))"

definition spaces :: "string \<Rightarrow> string option" where
  "spaces s = Some (dropWhile isspace s)"

definition log_stamp :: "string \<Rightarrow> string option" where
  "log_stamp = steps [eat ''['', digits_n 4, eat ''.'', digits_n 2, eat ''.'', digits_n 2, eat ''-'', digits_n 2, eat ''.'', digits_n 2,
     eat ''.'', digits_n 2, eat '':'', digits_n 3, eat '']['', spaces, digits_some, eat '']'']"

definition log_levels :: "string list" where
  "log_levels = [''Display'', ''Verbose'', ''VeryVerbose'', ''Log'', ''Warning'', ''Error'', ''Fatal'']"

text \<open>The pattern at one place of a line: category, level and message.\<close>

definition log_at :: "string \<Rightarrow> (string \<times> string \<times> string) option" where
  "log_at s =
     Option.bind (log_stamp s) (\<lambda>s1.
     Option.bind (word_some s1) (\<lambda>(cat, s2).
     Option.bind (steps [eat '':'', spaces] s2) (\<lambda>s3.
     Option.bind (find (\<lambda>l. prefix (l @ '':'') s3) log_levels) (\<lambda>sev.
     Option.bind (steps [eat (sev @ '':''), spaces] s3) (\<lambda>s4.
     Some (cat, sev, takeWhile (\<lambda>c. c \<noteq> NL \<and> c \<noteq> CR) s4))))))"

text \<open>\<^verbatim>\<open>regex_search\<close>: the first place that matches.\<close>

fun search_at :: "(string \<Rightarrow> 'a option) \<Rightarrow> string \<Rightarrow> 'a option" where
  "search_at m [] = m []"
| "search_at m (c # cs) = (case m (c # cs) of Some r \<Rightarrow> Some r | None \<Rightarrow> search_at m cs)"

definition severity_in :: "string \<Rightarrow> string \<Rightarrow> bool" where
  "severity_in severity sev =
     (if severity = ''All'' then sev = ''Warning'' \<or> sev = ''Error'' \<or> sev = ''Fatal''
      else if severity = ''Error'' then sev = ''Error'' \<or> sev = ''Fatal''
      else if severity = ''Warning'' then sev = ''Warning''
      else if severity = ''Fatal'' then sev = ''Fatal''
      else False)"

definition log_entry :: "string \<Rightarrow> string \<Rightarrow> string \<Rightarrow> string option" where
  "log_entry severity category line =
     (case search_at log_at line of
        None \<Rightarrow> None
      | Some (cat, sev, msg) \<Rightarrow>
          if category \<noteq> [] \<and> cat \<noteq> category then None
          else if \<not> severity_in severity sev then None
          else let entry = ''['' @ sev @ ''] '' @ cat @ '': '' @ msg
               in Some (if 300 < length entry then take 300 entry @ ''...'' else entry))"

fun log_loop :: "string \<Rightarrow> string \<Rightarrow> int \<Rightarrow> string list \<Rightarrow> string list \<Rightarrow> string list" where
  "log_loop severity category limit [] acc = acc"
| "log_loop severity category limit (l # ls) acc =
     (if int (length acc) < limit then
        (case log_entry severity category l of
           None \<Rightarrow> log_loop severity category limit ls acc
         | Some e \<Rightarrow> log_loop severity category limit ls (acc @ [e]))
      else acc)"

definition HandleLogParser :: "ue_env \<Rightarrow> string \<Rightarrow> string" where
  "HandleLogParser E req =
     (let logPath = JsonGetString req ''log_path'' in
      if logPath = [] then MakeFail ''log_path is required''
      else let severity = or_default (JsonGetString req ''severity'') ''Error'';
               category = JsonGetString req ''category'';
               limit = positive_or 50 (ue_get_int req ''limit'' 50);
               content = ue_read_file E logPath 2000000
        in if content = [] then MakeFail (''Cannot read log file: '' @ logPath)
           else let entries = log_loop severity category limit (getlines content) []
             in if entries = [] then MakeOk (''No '' @ severity @ '' entries found in '' @ logPath)
                else MakeOk (''Log: '' @ logPath @ ''  ('' @ nat_str (length entries) @ '' entries, severity='' @ severity @ '')''
                       @ NL # list_text entries))"

section \<open>Modules\<close>

text \<open>The words between two quotes, one after the other.\<close>

definition quoted_word :: "string \<Rightarrow> (string \<times> string) option" where
  "quoted_word s =
     Option.bind (eat [DQ] s) (\<lambda>s1. Option.bind (word_some s1) (\<lambda>(w, s2). map_option (Pair w) (eat [DQ] s2)))"

lemma eat_Some: "eat p s = Some r \<Longrightarrow> s = p @ r"
  by (auto simp: eat_def prefix_def split: if_splits)

lemma word_some_le: "word_some s = Some (w, r) \<Longrightarrow> length r \<le> length s"
  by (auto simp: word_some_def Let_def length_dropWhile_le split: if_splits)

lemma quoted_word_shorter:
  assumes "quoted_word s = Some (w, r)"
  shows "length r < length s"
proof -
  obtain s1 s2 where "eat [DQ] s = Some s1" "word_some s1 = Some (w, s2)" "eat [DQ] s2 = Some r"
    using assms by (auto simp: quoted_word_def bind_eq_Some_conv)
  then show ?thesis using word_some_le [of s1 w s2] by (auto dest!: eat_Some)
qed

function quoted_words :: "string \<Rightarrow> string list" where
  "quoted_words s =
     (case quoted_word s of
        Some (w, r) \<Rightarrow> w # quoted_words r
      | None \<Rightarrow> if s = [] then [] else quoted_words (tl s))"
  by auto
termination by (relation "measure length") (auto dest: quoted_word_shorter)

declare quoted_words.simps [simp del]

definition dependencies :: "string \<Rightarrow> string list" where
  "dependencies content =
     (case find_sub ''PublicDependencyModuleNames'' content of
        None \<Rightarrow> []
      | Some depSection \<Rightarrow> quoted_words (takeWhile (\<lambda>c. c \<noteq> CHR '';'') (drop depSection content)))"

definition type_at :: "string \<Rightarrow> string option" where
  "type_at s = Option.bind (steps [eat ''Type'', spaces, eat ''='', spaces, eat ''TargetType.''] s) (\<lambda>r. map_option fst (word_some r))"

definition ends_in :: "string \<Rightarrow> string \<Rightarrow> bool" where
  "ends_in suf fname \<longleftrightarrow> length suf < length fname \<and> drop (length fname - length suf) fname = suf"

definition build_file :: "ue_entry \<Rightarrow> bool" where
  "build_file e \<longleftrightarrow> en_regular e \<and> ends_in ''.Build.cs'' (en_filename e)"

definition target_file :: "ue_entry \<Rightarrow> bool" where
  "target_file e \<longleftrightarrow> en_regular e \<and> \<not> ends_in ''.Build.cs'' (en_filename e) \<and> ends_in ''.Target.cs'' (en_filename e)"

fun comma_list :: "string list \<Rightarrow> string" where
  "comma_list [] = []"
| "comma_list [d] = d"
| "comma_list (d # ds) = d @ '', '' @ comma_list ds"

definition module_row :: "ue_env \<Rightarrow> string \<Rightarrow> ue_entry \<Rightarrow> string" where
  "module_row E projectDir e =
     (let deps = dependencies (ue_read_file E (en_path e) 50000)
      in ''  '' @ stem (stem (en_filename e)) @ '' ('' @ ue_relative E (en_path e) projectDir @ '')'' @ NL
         # (if deps = [] then [] else ''    Dependencies: '' @ comma_list deps @ [NL]))"

definition target_row :: "ue_env \<Rightarrow> string \<Rightarrow> ue_entry \<Rightarrow> string" where
  "target_row E projectDir e =
     ''  '' @ stem (stem (en_filename e))
     @ (case search_at type_at (ue_read_file E (en_path e) 50000) of None \<Rightarrow> [] | Some ty \<Rightarrow> '' (Type: '' @ ty @ '')'')
     @ '' '' @ EMDASH @ '' '' @ ue_relative E (en_path e) projectDir @ [NL]"

definition HandleModuleInfo :: "ue_env \<Rightarrow> string \<Rightarrow> string res" where
  "HandleModuleInfo E req =
     (let projectDir = JsonGetString req ''project_dir'' in
      if projectDir = [] then Inr (MakeFail ''project_dir is required'')
      else let sourcePath = path_join projectDir ''Source'' in
        if \<not> ue_is_dir E sourcePath then Inr (MakeFail (''Source/ directory not found: '' @ sourcePath))
        else let (entries, threw) = ue_walk E sourcePath;
                 buildFiles = filter build_file entries;
                 targetFiles = filter target_file entries
          in if threw then Inl (ForeignError ''filesystem_error'')
             else Inr (MakeOk (''Modules ('' @ nat_str (length buildFiles) @ '' .Build.cs files):'' @ NL
                    # concat (map (module_row E projectDir) buildFiles)
                    @ NL # ''Targets ('' @ nat_str (length targetFiles) @ '' .Target.cs files):'' @ NL
                    # concat (map (target_row E projectDir) targetFiles))))"

section \<open>The plugin\<close>

definition ue_execute :: "ue_env \<Rightarrow> string \<Rightarrow> string \<Rightarrow> string res" where
  "ue_execute E tool req =
     map_sum id c_str
       (if tool = ''ue_project_info'' then Inr (HandleProjectInfo E req)
        else if tool = ''ue_build'' then Inr (HandleBuild E req)
        else if tool = ''ue_run_tests'' then Inr (HandleRunTests E req)
        else if tool = ''ue_asset_search'' then HandleAssetSearch E req
        else if tool = ''ue_log_parser'' then Inr (HandleLogParser E req)
        else if tool = ''ue_module_info'' then HandleModuleInfo E req
        else Inr (MakeFail (''Unknown tool: '' @ tool)))"

definition ue_manifest :: string where
  "ue_manifest = dq_text (''{`name`:`unreal-tools`,`description`:`Unreal Engine development tools: project info, build, test, asset search, log parsing, ''
     @ ''module info`,`version`:`1.0.0`}'')"

definition ue_tools :: string where
  "ue_tools = dq_text (join_nl [
      ''['',
      ''  {'',
      ''    `name`: `ue_project_info`,'',
      ''    `description`: `Parse an Unreal Engine .uproject file and return project metadata: engine version, modules, enabled plugins, target platforms, and description.`,'',
      ''    `inputSchema`: {'',
      ''      `type`: `object`,'',
      ''      `properties`: {'',
      ''        `project_file`: {'',
      ''          `type`: `string`,'',
      ''          `description`: `Path to the .uproject file`'',
      ''        }'',
      ''      },'',
      ''      `required`: [`project_file`]'',
      ''    }'',
      ''  },'',
      ''  {'',
      ''    `name`: `ue_build`,'',
      ''    `description`: `Invoke Unreal Build Tool (UBT) or RunUAT to build an Unreal project. Supports target, configuration, and platform selection.`,'',
      ''    `inputSchema`: {'',
      ''      `type`: `object`,'',
      ''      `properties`: {'',
      ''        `project_file`: {'',
      ''          `type`: `string`,'',
      ''          `description`: `Path to the .uproject file`'',
      ''        },'',
      ''        `uat_path`: {'',
      ''          `type`: `string`,'',
      ''          `description`: `Path to RunUAT.bat (Win) or RunUAT.sh (Linux/Mac)`'',
      ''        },'',
      ''        `target`: {'',
      ''          `type`: `string`,'',
      ''          `enum`: [`Editor`, `Game`, `Client`, `Server`],'',
      ''          `description`: `Build target (default: Editor)`'',
      ''        },'',
      ''        `config`: {'',
      ''          `type`: `string`,'',
      ''          `enum`: [`Development`, `Shipping`, `Debug`, `DebugGame`, `Test`],'',
      ''          `description`: `Build configuration (default: Development)`'',
      ''        },'',
      ''        `platform`: {'',
      ''          `type`: `string`,'',
      ''          `enum`: [`Win64`, `Linux`, `Mac`, `Android`, `iOS`],'',
      ''          `description`: `Target platform (default: Win64)`'',
      ''        },'',
      ''        `clean`: {'',
      ''          `type`: `boolean`,'',
      ''          `description`: `Clean before building (default: false)`'',
      ''        }'',
      ''      },'',
      ''      `required`: [`project_file`, `uat_path`]'',
      ''    }'',
      ''  },'',
      ''  {'',
      ''    `name`: `ue_run_tests`,'',
      ''    `description`: `Run Unreal Engine automation tests and parse the results. Uses the editor's -ExecCmds for headless test execution.`,'',
      ''    `inputSchema`: {'',
      ''      `type`: `object`,'',
      ''      `properties`: {'',
      ''        `project_file`: {'',
      ''          `type`: `string`,'',
      ''          `description`: `Path to the .uproject file`'',
      ''        },'',
      ''        `editor_path`: {'',
      ''          `type`: `string`,'',
      ''          `description`: `Path to UnrealEditor executable`'',
      ''        },'',
      ''        `test_filter`: {'',
      ''          `type`: `string`,'',
      ''          `description`: `Test name filter (e.g. 'Project.Functional', 'Navigation')`'',
      ''        },'',
      ''        `report_path`: {'',
      ''          `type`: `string`,'',
      ''          `description`: `Path to write JSON test report (default: Saved/Automation/)`'',
      ''        }'',
      ''      },'',
      ''      `required`: [`project_file`, `editor_path`]'',
      ''    }'',
      ''  },'',
      ''  {'',
      ''    `name`: `ue_asset_search`,'',
      ''    `description`: `Search the Content/ directory tree for .uasset, .umap, and other Unreal asset files by name pattern and extension.`,'',
      ''    `inputSchema`: {'',
      ''      `type`: `object`,'',
      ''      `properties`: {'',
      ''        `project_dir`: {'',
      ''          `type`: `string`,'',
      ''          `description`: `Path to the UE project root directory`'',
      ''        },'',
      ''        `query`: {'',
      ''          `type`: `string`,'',
      ''          `description`: `File name pattern (glob, e.g. '*Character*', 'BP_*')`'',
      ''        },'',
      ''        `extension`: {'',
      ''          `type`: `string`,'',
      ''          `description`: `Filter by extension (e.g. .uasset, .umap, .uobject)`'',
      ''        },'',
      ''        `content_subdir`: {'',
      ''          `type`: `string`,'',
      ''          `description`: `Subdirectory under Content/ to search`'',
      ''        },'',
      ''        `limit`: {'',
      ''          `type`: `integer`,'',
      ''          `description`: `Maximum results (default: 100)`'',
      ''        }'',
      ''      },'',
      ''      `required`: [`project_dir`]'',
      ''    }'',
      ''  },'',
      ''  {'',
      ''    `name`: `ue_log_parser`,'',
      ''    `description`: `Parse Unreal Engine log files for errors, warnings, and fatal messages. Supports filtering by severity and log category.`,'',
      ''    `inputSchema`: {'',
      ''      `type`: `object`,'',
      ''      `properties`: {'',
      ''        `log_path`: {'',
      ''          `type`: `string`,'',
      ''          `description`: `Path to the UE log file (e.g. Saved/Logs/MyProject.log)`'',
      ''        },'',
      ''        `severity`: {'',
      ''          `type`: `string`,'',
      ''          `enum`: [`Error`, `Warning`, `Fatal`, `All`],'',
      ''          `description`: `Filter by severity (default: Error)`'',
      ''        },'',
      ''        `category`: {'',
      ''          `type`: `string`,'',
      ''          `description`: `Filter by log category (e.g. LogTemp, LogBlueprintUserMessages)`'',
      ''        },'',
      ''        `limit`: {'',
      ''          `type`: `integer`,'',
      ''          `description`: `Maximum entries (default: 50)`'',
      ''        }'',
      ''      },'',
      ''      `required`: [`log_path`]'',
      ''    }'',
      ''  },'',
      ''  {'',
      ''    `name`: `ue_module_info`,'',
      ''    `description`: `Scan Source/ for .Build.cs and .Target.cs files to list all modules, their dependencies, and target configurations.`,'',
      ''    `inputSchema`: {'',
      ''      `type`: `object`,'',
      ''      `properties`: {'',
      ''        `project_dir`: {'',
      ''          `type`: `string`,'',
      ''          `description`: `Path to the UE project root directory`'',
      ''        }'',
      ''      },'',
      ''      `required`: [`project_dir`]'',
      ''    }'',
      ''  }'',
      '']''])"

section \<open>Bounds of what is read\<close>

lemma read_blocks_take: "read_blocks m g s = take (8192 * ((m - g + 8191) div 8192)) s"
proof (induction m g s rule: read_blocks.induct)
  case (1 m g s)
  show ?case
  proof (cases "g < m \<and> s \<noteq> [] \<and> 8192 \<le> length s")
    case True
    then have "(m - g + 8191) div 8192 = Suc ((m - (g + 8192) + 8191) div 8192)" by (auto simp: le_div_geq)
    then show ?thesis using 1 True by (subst read_blocks.simps) (simp add: take_add min_def)
  next
    case False
    show ?thesis
    proof (cases "g < m \<and> s \<noteq> []")
      case True
      then have "8192 \<le> 8192 * ((m - g + 8191) div 8192)" by (auto simp: Suc_le_eq div_greater_zero_iff)
      then show ?thesis using 1 True False by (subst read_blocks.simps) (simp add: read_blocks.simps [of m _ "[]"])
    qed (subst read_blocks.simps, auto)
  qed
qed

lemma length_c_str: "length (c_str s) \<le> length s"
  by (simp add: c_str_def length_takeWhile_le)

lemma read_output_bound: "length out \<le> 500000 \<Longrightarrow> length (fst (read_output out s)) \<le> 504095"
proof (induction out s rule: read_output.induct)
  case (1 out s)
  have "length (c_str (fgets_chunk s)) \<le> 4095"
    using length_c_str [of "fgets_chunk s"] by (simp add: fgets_chunk_def)
  then show ?case using 1 by (subst read_output.simps) (auto simp: Let_def)
qed

section \<open>Properties\<close>

lemma asset_loop_take:
  assumes "length acc < nat limit"
  shows "asset_loop E d q ext limit threw es acc =
     (let rows = map (asset_row E d) (filter (asset_ok q ext) es)
      in if nat limit \<le> length acc + length rows then Inr (acc @ take (nat limit - length acc) rows)
         else if threw then Inl (ForeignError ''filesystem_error'') else Inr (acc @ rows))"
  using assms
proof (induction es arbitrary: acc)
  case (Cons e es)
  show ?case
  proof (cases "asset_ok q ext e")
    case True
    show ?thesis
    proof (cases "limit \<le> int (length (acc @ [asset_row E d e]))")
      case True
      then have "nat limit = Suc (length acc)" using Cons.prems by auto
      then show ?thesis using \<open>asset_ok q ext e\<close> True by (simp add: Let_def)
    next
      case False
      then have l: "length (acc @ [asset_row E d e]) < nat limit" by simp
      then have "nat limit - length acc = Suc (nat limit - Suc (length acc))" by simp
      then show ?thesis using Cons.IH [OF l] False \<open>asset_ok q ext e\<close> by (simp add: Let_def)
    qed
  qed (use Cons in \<open>simp add: Let_def\<close>)
qed (simp add: Let_def)

text \<open>A glob with stars that stand for any text.\<close>

fun glob :: "string \<Rightarrow> string \<Rightarrow> bool" where
  "glob [] s \<longleftrightarrow> s = []"
| "glob (p # ps) [] \<longleftrightarrow> p = STAR \<and> glob ps []"
| "glob (p # ps) (c # cs) \<longleftrightarrow> (if p = STAR then glob ps (c # cs) \<or> glob (p # ps) cs else c = p \<and> glob ps cs)"

lemma glob_literal: "STAR \<notin> set m \<Longrightarrow> glob (m @ r) s \<longleftrightarrow> prefix m s \<and> glob r (drop (length m) s)"
proof (induction m arbitrary: s)
  case (Cons p m)
  then show ?case by (cases s) auto
qed simp

lemma glob_star: "glob (STAR # r) s \<longleftrightarrow> (\<exists>t. suffix t s \<and> glob r t)"
  by (induction s) (auto simp: suffix_Cons)

lemma glob_all: "glob [STAR] s"
  by (induction s) auto

lemma suffix_tail: "length t \<le> length s \<and> drop (length s - length t) s = t \<longleftrightarrow> suffix t s"
  by (metis append_take_drop_id length_drop suffix_def suffix_drop suffix_length_le append_eq_append_conv diff_diff_cancel length_append add_diff_cancel_right' append_eq_conv_conj)

lemma prefix_take_iff: "take (length m) f = m \<longleftrightarrow> prefix m f"
  by (metis append_eq_conv_conj prefix_def take_is_prefix)

text \<open>
  C36: On the queries the tool describes, a literal text with a star before it, after it, both or
  neither, the hand-written cases of the asset search accept the file names that a glob accepts.
\<close>

theorem asset_glob:
  assumes "mid \<noteq> []" "STAR \<notin> set mid" "pre = [] \<or> pre = [STAR]" "suf = [] \<or> suf = [STAR]"
  shows "asset_name_ok (pre @ mid @ suf) fname = glob (pre @ mid @ suf) fname"
proof -
  have h: "hd mid \<noteq> STAR" "last mid \<noteq> STAR" using assms(1,2) hd_in_set last_in_set by (force simp: hd_append)+
  have lit: "glob mid s = (s = mid)" for s
    using glob_literal [OF assms(2), of "[]" s] by (auto simp: prefix_def)
  have pre: "glob (mid @ [STAR]) s = prefix mid s" for s
    using glob_literal [OF assms(2), of "[STAR]" s] by (simp add: glob_all)
  consider "pre = []" "suf = []" | "pre = []" "suf = [STAR]" | "pre = [STAR]" "suf = []" | "pre = [STAR]" "suf = [STAR]"
    using assms(3,4) by blast
  then show ?thesis
  proof cases
    case 1
    then show ?thesis using h lit by (simp add: asset_name_ok_def)
  next
    case 2
    then show ?thesis using h pre assms(1) by (simp add: asset_name_ok_def Let_def prefix_take_iff)
  next
    case 3
    then show ?thesis using h assms(1) lit suffix_tail [of mid fname] by (simp add: asset_name_ok_def glob_star)
  next
    case 4
    moreover have "2 < length (STAR # mid @ [STAR])" using assms(1) by (cases mid) auto
    ultimately show ?thesis
      using pre by (simp add: asset_name_ok_def glob_star substr_def contains_sub_iff sublist_altdef')
  qed
qed

theorem asset_glob_witness:
  "asset_name_ok (lower ''*Character*'') (lower ''BP_Character.uasset'') = glob (lower ''*Character*'') (lower ''BP_Character.uasset'')"
proof -
  have "lower ''*Character*'' = [STAR] @ lower ''Character'' @ [STAR]" by (simp add: lower_def STAR_def tolower_def isupper_def uchar_def)
  moreover have "STAR \<notin> set (lower ''Character'')" "lower ''Character'' \<noteq> []"
    by (simp_all add: lower_def tolower_def isupper_def uchar_def STAR_def char_of_def bit_Suc_0_iff)
  ultimately show ?thesis using asset_glob [of "lower ''Character''" "[STAR]" "[STAR]"] by simp
qed

lemma log_entry_length: "log_entry severity category l = Some e \<Longrightarrow> length e \<le> 303"
  by (auto simp: log_entry_def Let_def split: option.split_asm prod.split_asm if_split_asm)

lemma log_loop_take:
  "log_loop severity category limit ls acc =
     acc @ take (nat limit - length acc) (List.map_filter (log_entry severity category) ls)"
proof (induction ls arbitrary: acc)
  case (Cons l ls)
  show ?case
  proof (cases "int (length acc) < limit")
    case True
    then have "nat limit - length acc = Suc (nat limit - Suc (length acc))" by simp
    then show ?thesis using True Cons by (cases "log_entry severity category l") simp_all
  qed (simp add: nat_le_iff)
qed simp

text \<open>
  The log parser reports the first entries, up to the limit, of those that its severity and
  category select, in the order of the log, and no entry is longer than 303 bytes.
\<close>

theorem log_entries_selected:
  "log_loop severity category limit ls [] = take (nat limit) (List.map_filter (log_entry severity category) ls)
   \<and> list_all (\<lambda>e. length e \<le> 303) (log_loop severity category limit ls [])"
proof -
  have "list_all (\<lambda>e. length e \<le> 303) (List.map_filter (log_entry severity category) ls)"
  proof (induction ls)
    case (Cons l ls)
    then show ?case using log_entry_length [of severity category l] by (cases "log_entry severity category l") auto
  qed simp
  then show ?thesis by (auto simp: log_loop_take list_all_iff dest: in_set_takeD)
qed

end
