(* ===== verification/CApi.thy ===== *)
theory CApi
  imports ServerTools Config PluginJson
begin

text \<open>
  \<^verbatim>\<open>capi/src/mcp_capi.cpp\<close>: the server as a C library.  A handle is a context or the null pointer
  (\<open>None\<close>), a buffer is the bytes the caller's pointer leads to or the null pointer, and a
  call gives the value it returns with the bytes it leaves in the buffer, the exception it lets
  out, or \<open>CUndefined\<close> where C++ leaves its behaviour open.  \<^verbatim>\<open>g_LastError\<close> is the state of one thread.
\<close>

section \<open>Results in buffers\<close>

datatype c_result = CReturn int "string option" | CThrow exn | CUndefined

definition NUL :: char where "NUL = CHR 0x00"

text \<open>\<^verbatim>\<open>memcpy\<close> to the start of a buffer, and the conversion of a size to \<^verbatim>\<open>int\<close>.\<close>

definition overwrite :: "string \<Rightarrow> string \<Rightarrow> string" where
  "overwrite s b = s @ drop (length s) b"

definition int_of_size :: "nat \<Rightarrow> int" where
  "int_of_size n = sint (word_of_nat n :: 32 word)"

definition CopyToBuffer :: "string \<Rightarrow> string option \<Rightarrow> int \<Rightarrow> string \<Rightarrow> c_result \<times> string" where
  "CopyToBuffer src buffer bufferSize err =
     (case buffer of
        None \<Rightarrow> (CReturn (- 1) None, ''Invalid buffer'')
      | Some b \<Rightarrow>
          if bufferSize \<le> 0 then (CReturn (- 1) (Some b), ''Invalid buffer'')
          else (let needed = int_of_size (length src) in
            if needed = int_max then (CUndefined, err)
            else if bufferSize \<le> needed then
              (CReturn (- 1) (Some (overwrite (take (nat bufferSize - 1) src @ [NUL]) b)),
               ''Buffer too small (need '' @ int_str (needed + 1) @ '' bytes)'')
            else if needed + 1 < 0 then (CUndefined, err)
            else (CReturn needed (Some (overwrite (take (nat (needed + 1)) (src @ [NUL])) b)), err)))"

section \<open>The context\<close>

datatype capi_tool = CEcho | CLlm | CSkill | CRemote

record capi_context =
  cx_config :: json
  cx_provider :: "llm_request \<Rightarrow> llm_response res"
  cx_skillEngine :: engine
  cx_mcpRegistry :: "server_entry list"
  cx_commandRegistry :: "capi_tool registry"
  cx_rateLimiter :: limiter
  cx_handler :: handler

text \<open>What the library runs on: as for the executable, with \<^verbatim>\<open>HttplibClient\<close> over \<^verbatim>\<open>httplib\<close>.\<close>

record capi_host =
  ca_json :: jlib
  ca_schema :: "json \<Rightarrow> json \<Rightarrow> bool"
  ca_env :: "string \<Rightarrow> string"
  ca_fs :: filesys
  ca_cwd :: path
  ca_http :: httplib
  ca_sort :: "server_entry list \<Rightarrow> server_entry list"

definition ca_read :: "capi_host \<Rightarrow> string \<Rightarrow> string option" where
  "ca_read H name = fs_read (ca_fs H) (abs_path (ca_cwd H) name)"

text \<open>\<^verbatim>\<open>src/skills/SkillCommand.cpp\<close>: the metadata of the skill tool.\<close>

definition skill_tool_metadata :: tool_metadata where
  "skill_tool_metadata = \<lparr>m_Name = ''skill'',
     m_Description = ''Execute a skill prompt template with variables (legacy meta-tool '' @ EMDASH @ '' prefer calling skill tools directly)'',
     m_InputSchema = JObj [(''type'', JStr ''object''),
       (''properties'', JObj [
         (''skill'', JObj [(''type'', JStr ''string''), (''description'', JStr ''Skill name to execute'')]),
         (''variables'', JObj [(''type'', JStr ''object''), (''description'', JStr ''Template variables to interpolate'')]),
         (''model'', JObj [(''type'', JStr ''string''), (''description'', JStr (''Override the skill'' @ [SQ] @ ''s default model''))]),
         (''parameters'', JObj [(''type'', JStr ''object''), (''description'', JStr (''Override the skill'' @ [SQ] @ ''s default parameters''))])]),
       (''required'', JArr [JStr ''skill''])],
     m_DefaultModel = [], m_DefaultParameters = JNull, m_Source = BuiltIn, m_Hidden = True\<rparr>"

fun capi_exec :: "capi_host \<Rightarrow> capi_context \<Rightarrow> capi_tool \<Rightarrow> json \<Rightarrow> json res" where
  "capi_exec H c CEcho q = EchoCommand q"
| "capi_exec H c CLlm q = LLMCommand (cx_provider c) q"
| "capi_exec H c CSkill q = SkillCommand (ca_json H) (cx_provider c) (cx_skillEngine c) q"
| "capi_exec H c CRemote q = CompositeCommand (ca_json H) (ca_sort H) (Post (ca_http H)) (cx_mcpRegistry c) q"

fun capi_meta :: "capi_tool \<Rightarrow> tool_metadata" where
  "capi_meta CEcho = echo_metadata False"
| "capi_meta CLlm = llm_metadata"
| "capi_meta CSkill = skill_tool_metadata"
| "capi_meta CRemote = remote_metadata"

definition capi_strategy :: "capi_host \<Rightarrow> capi_context \<Rightarrow> (capi_tool, unit) strategy" where
  "capi_strategy H c = \<lparr>ExecuteAsync = \<lambda>t q s. (capi_exec H c t q, s), GetMetadata = capi_meta, Shutdown = \<lambda>t w. w\<rparr>"

section \<open>Creation\<close>

definition capi_config :: "capi_host \<Rightarrow> string option \<Rightarrow> json res" where
  "capi_config H configPath =
     (case configPath of
        None \<Rightarrow> LoadFromEnv (ca_env H)
      | Some p \<Rightarrow>
          if p = [] then LoadFromEnv (ca_env H)
          else (case Config.LoadFromFile (ca_json H) (ca_read H p) p of Inr j \<Rightarrow> Inr j | Inl e \<Rightarrow> LoadFromEnv (ca_env H)))"

definition capi_servers :: "capi_host \<Rightarrow> json \<Rightarrow> server_entry list" where
  "capi_servers H cfg =
     (case bindE (GetMcpServersConfigPath cfg) (\<lambda>p. Discovery.LoadFromFile (ca_json H) (ca_read H p)) of
        Inl e \<Rightarrow> [] | Inr es \<Rightarrow> es)"

definition capi_context_of :: "capi_host \<Rightarrow> json \<Rightarrow> capi_context res" where
  "capi_context_of H cfg =
     bindE (GetLiteLlmBaseUrl cfg) (\<lambda>baseUrl.
     bindE (GetDefaultModel cfg) (\<lambda>model.
     bindE (GetSkillsDirectory cfg) (\<lambda>sd.
     bindE (add_all RegisterCommand [(''echo'', CEcho), (''llm'', CLlm), (''skill'', CSkill), (''remote'', CRemote)] empty_registry) (\<lambda>r.
     bindE (GetRateLimitRequestsPerMinute cfg) (\<lambda>rpm.
     bindE (GetAuthApiKey cfg) (\<lambda>key.
     bindE (IsAuthEnabled cfg) (\<lambda>enabled.
     bindE (GetMaxRequestBodySize cfg) (\<lambda>size.
       Inr \<lparr>cx_config = cfg,
            cx_provider = Complete (ca_json H) (Post (ca_http H)) baseUrl model,
            cx_skillEngine = LoadFromDirectory (ca_json H) (ca_fs H) (abs_path (ca_cwd H) sd) [],
            cx_mcpRegistry = capi_servers H cfg,
            cx_commandRegistry = r,
            cx_rateLimiter = RateLimiter (of_nat rpm),
            cx_handler = \<lparr>m_ApiKeyValidator = Some \<lparr>m_ExpectedKey = key, m_Enabled = enabled\<rparr>, m_MaxBodySize = size\<rparr>\<rparr>))))))))"

text \<open>The handle, or the exception that is no \<^verbatim>\<open>std::exception\<close>; and the error text.\<close>

definition mcp_server_create :: "capi_host \<Rightarrow> string option \<Rightarrow> string \<Rightarrow> capi_context option res \<times> string" where
  "mcp_server_create H configPath err =
     (case bindE (capi_config H configPath) (capi_context_of H) of
        Inr c \<Rightarrow> (Inr (Some c), err)
      | Inl e \<Rightarrow> if is_std_exception e then (Inr None, what e) else (Inl e, err))"

definition mcp_server_start :: "capi_context option \<Rightarrow> int \<Rightarrow> string \<Rightarrow> int \<times> string" where
  "mcp_server_start h port err = (- 1, ''Use mcp_handle_request for embedded mode; standalone server via mcp_server executable'')"

definition mcp_server_stop :: "capi_context option \<Rightarrow> capi_context option" where
  "mcp_server_stop h = h"

definition mcp_last_error :: "string \<Rightarrow> string" where
  "mcp_last_error err = c_str err"

section \<open>Calls\<close>

text \<open>The text of a value into a buffer, where what \<^verbatim>\<open>dump\<close> throws is not caught.\<close>

definition dump_to :: "capi_host \<Rightarrow> json \<Rightarrow> string option \<Rightarrow> int \<Rightarrow> string \<Rightarrow> c_result \<times> string" where
  "dump_to H j buffer bufferSize err =
     (case jdump (ca_json H) j of Inl e \<Rightarrow> (CThrow e, err) | Inr s \<Rightarrow> CopyToBuffer s buffer bufferSize err)"

definition mcp_command_list :: "capi_host \<Rightarrow> capi_context option \<Rightarrow> string option \<Rightarrow> int \<Rightarrow> string \<Rightarrow> c_result \<times> string" where
  "mcp_command_list H h buffer bufferSize err =
     (case h of None \<Rightarrow> (CReturn (- 1) buffer, ''Null handle'')
      | Some c \<Rightarrow> dump_to H (JArr (map JStr (ListCommands (cx_commandRegistry c)))) buffer bufferSize err)"

definition mcp_command_has :: "capi_context option \<Rightarrow> string option \<Rightarrow> string \<Rightarrow> int \<times> string" where
  "mcp_command_has h name err =
     (case (h, name) of
        (Some c, Some n) \<Rightarrow> (if HasCommand (cx_commandRegistry c) n then 1 else 0, err)
      | _ \<Rightarrow> (- 1, ''Null argument''))"

definition mcp_handle_request ::
    "capi_host \<Rightarrow> int \<Rightarrow> capi_context option \<Rightarrow> string option \<Rightarrow> string option \<Rightarrow> string option \<Rightarrow> int \<Rightarrow> string
     \<Rightarrow> (c_result \<times> string) \<times> capi_context option" where
  "mcp_handle_request H now h jsonBody clientIp buffer bufferSize err =
     (case (h, jsonBody) of
        (Some c, Some body) \<Rightarrow>
          (case HandleRequest (ca_json H) (ca_schema H) (capi_strategy H c) (cx_handler c) now body
                  (case clientIp of None \<Rightarrow> ''0.0.0.0'' | Some ip \<Rightarrow> ip) [] (Some (cx_rateLimiter c), cx_commandRegistry c, ()) of
             (reply, lo, r, u) \<Rightarrow>
               (case reply of Inl e \<Rightarrow> (CThrow e, err) | Inr text \<Rightarrow> CopyToBuffer text buffer bufferSize err,
                Some (c\<lparr>cx_rateLimiter := (case lo of None \<Rightarrow> cx_rateLimiter c | Some l \<Rightarrow> l), cx_commandRegistry := r\<rparr>)))
      | _ \<Rightarrow> ((CReturn (- 1) buffer, ''Null argument''), h))"

text \<open>\<^verbatim>\<open>mcp_llm_complete\<close> and \<^verbatim>\<open>mcp_skill_execute\<close> are one call of a tool by its name.\<close>

definition capi_catch :: "string option \<Rightarrow> string \<Rightarrow> exn \<Rightarrow> c_result \<times> string" where
  "capi_catch buffer err e = (if is_std_exception e then (CReturn (- 1) buffer, what e) else (CThrow e, err))"

definition capi_run ::
    "string \<Rightarrow> string \<Rightarrow> capi_host \<Rightarrow> capi_context option \<Rightarrow> string option \<Rightarrow> string option \<Rightarrow> int \<Rightarrow> string \<Rightarrow> c_result \<times> string" where
  "capi_run name missing H h requestJson buffer bufferSize err =
     (case (h, requestJson) of
        (Some c, Some text) \<Rightarrow>
          (case jparse (ca_json H) text of
             None \<Rightarrow> capi_catch buffer err JsonParseError
           | Some req \<Rightarrow>
               (case CommandRegistry.Resolve (cx_commandRegistry c) name of
                  None \<Rightarrow> (CReturn (- 1) buffer, missing)
                | Some t \<Rightarrow>
                    (case bindE (capi_exec H c t (JObj [(''command'', JStr name), (''payload'', req)])) (jdump (ca_json H)) of
                       Inl e \<Rightarrow> capi_catch buffer err e
                     | Inr s \<Rightarrow> CopyToBuffer s buffer bufferSize err)))
      | _ \<Rightarrow> (CReturn (- 1) buffer, ''Null argument''))"

definition mcp_llm_complete ::
    "capi_host \<Rightarrow> capi_context option \<Rightarrow> string option \<Rightarrow> string option \<Rightarrow> int \<Rightarrow> string \<Rightarrow> c_result \<times> string" where
  "mcp_llm_complete = capi_run ''llm'' ''LLM command not registered''"

definition mcp_skill_execute ::
    "capi_host \<Rightarrow> capi_context option \<Rightarrow> string option \<Rightarrow> string option \<Rightarrow> int \<Rightarrow> string \<Rightarrow> c_result \<times> string" where
  "mcp_skill_execute = capi_run ''skill'' ''Skill command not registered''"

definition mcp_skill_list :: "capi_host \<Rightarrow> capi_context option \<Rightarrow> string option \<Rightarrow> int \<Rightarrow> string \<Rightarrow> c_result \<times> string" where
  "mcp_skill_list H h buffer bufferSize err =
     (case h of None \<Rightarrow> (CReturn (- 1) buffer, ''Null handle'')
      | Some c \<Rightarrow> dump_to H (ListSkillsJson (cx_skillEngine c)) buffer bufferSize err)"

definition mcp_server_list_remote :: "capi_host \<Rightarrow> capi_context option \<Rightarrow> string option \<Rightarrow> int \<Rightarrow> string \<Rightarrow> c_result \<times> string" where
  "mcp_server_list_remote H h buffer bufferSize err =
     (case h of None \<Rightarrow> (CReturn (- 1) buffer, ''Null handle'')
      | Some c \<Rightarrow> dump_to H (ServersJson (cx_mcpRegistry c)) buffer bufferSize err)"

section \<open>Properties\<close>

lemma int_of_size_small:
  assumes "n < 2147483648"
  shows "int_of_size n = int n"
proof -
  have "(word_of_nat n :: 32 word) = word_of_int (int n)" by simp
  moreover have "sint (word_of_int (int n) :: 32 word) = signed_take_bit 31 (int n)"
    by (subst sint_sbintrunc') simp
  moreover have "signed_take_bit 31 (int n) = int n" using assms by (simp add: signed_take_bit_int_eq_self)
  ultimately show ?thesis unfolding int_of_size_def by simp
qed

lemma c_str_append_NUL: "c_str (s @ NUL # r) = c_str s"
  by (induction s) (auto simp: c_str_def NUL_def)

lemma overwrite_keeps: "length s \<le> length b \<Longrightarrow> length (overwrite s b) = length b" "length s \<le> k \<Longrightarrow> drop k (overwrite s b) = drop k b"
  by (simp_all add: overwrite_def)

lemma c_str_overwrite: "c_str (overwrite (s @ [NUL]) b) = c_str s"
  by (simp add: overwrite_def c_str_append_NUL)

text \<open>
  C37: For a text of less than two gigabytes and a buffer that is as long as the caller says, the C
  interface writes no byte past the given size, always leaves a C string in the buffer, the
  text up to its first zero byte cut to what fits, and returns the length of the text when all of
  it fits and -1 when it does not.
\<close>

theorem capi_buffer_bounds:
  assumes "length src < 2147483647" "0 < bufferSize" "bufferSize \<le> int (length b)"
  shows "\<exists>rc b' err'. CopyToBuffer src (Some b) bufferSize err = (CReturn rc (Some b'), err')
    \<and> length b' = length b \<and> drop (nat bufferSize) b' = drop (nat bufferSize) b
    \<and> c_str b' = c_str (take (nat bufferSize - 1) src)
    \<and> rc = (if int (length src) < bufferSize then int (length src) else - 1)"
proof (cases "int (length src) < bufferSize")
  case True
  have n: "int_of_size (length src) = int (length src)" using assms(1) by (simp add: int_of_size_small)
  have l: "nat (int (length src) + 1) = Suc (length src)" by simp
  have "take (nat bufferSize - 1) src = src" using True by simp
  then show ?thesis
    using True assms by (simp add: CopyToBuffer_def n int_max_def l overwrite_keeps c_str_overwrite)
next
  case False
  have n: "int_of_size (length src) = int (length src)" using assms(1) by (simp add: int_of_size_small)
  have "length (take (nat bufferSize - 1) src) = nat bufferSize - 1" using False assms(2) by simp
  then show ?thesis
    using False assms by (simp add: CopyToBuffer_def n int_max_def overwrite_keeps c_str_overwrite)
qed

theorem capi_buffer_bounds_witness:
  "\<exists>rc b' err'. CopyToBuffer ''hello'' (Some ''xxxxx'') 4 [] = (CReturn rc (Some b'), err') \<and> c_str b' = ''hel'' \<and> rc = - 1"
  using capi_buffer_bounds [of "''hello''" 4 "''xxxxx''" "[]"] by (auto simp: c_str_def)

lemma capi_created:
  assumes "mcp_server_create H configPath err = (Inr (Some c), err')"
  shows "ListCommands (cx_commandRegistry c) = [''echo'', ''llm'', ''skill'', ''remote'']
    \<and> m_ChainingEnabled (cx_commandRegistry c)
    \<and> (\<exists>key enabled. IsAuthEnabled (cx_config c) = Inr enabled
        \<and> m_ApiKeyValidator (cx_handler c) = Some \<lparr>m_ExpectedKey = key, m_Enabled = enabled\<rparr>)"
proof -
  obtain cfg where "capi_context_of H cfg = Inr c"
    using assms by (auto simp: mcp_server_create_def bindE_eq_Inr split: sum.split_asm if_split_asm)
  moreover have "add_all RegisterCommand [(''echo'', CEcho), (''llm'', CLlm), (''skill'', CSkill), (''remote'', CRemote)] empty_registry = Inr r
      \<Longrightarrow> ListCommands r = [''echo'', ''llm'', ''skill'', ''remote''] \<and> m_ChainingEnabled r" for r
    by (auto simp: RegisterCommand_def HasCommand_def CommandRegistry.Resolve_def empty_registry_def ListCommands_def)
  ultimately show ?thesis by (auto simp: capi_context_of_def bindE_eq_Inr)
qed


text \<open>A library with authentication on.\<close>

definition ex_capi :: capi_host where
  "ex_capi = \<lparr>ca_json = \<lparr>jparse = \<lambda>s. None, jdump = \<lambda>j. Inr ''reply''\<rparr>, ca_schema = \<lambda>s j. True,
     ca_env = (\<lambda>n. []), ca_fs = [], ca_cwd = [], ca_http = \<lambda>u p b t. None, ca_sort = id\<rparr>"

definition ex_capi_context :: capi_context where
  "ex_capi_context = \<lparr>cx_config = JNull, cx_provider = \<lambda>q. Inl UnknownException, cx_skillEngine = [], cx_mcpRegistry = [],
     cx_commandRegistry = empty_registry, cx_rateLimiter = RateLimiter 60,
     cx_handler = \<lparr>m_ApiKeyValidator = Some \<lparr>m_ExpectedKey = ''k'', m_Enabled = True\<rparr>, m_MaxBodySize = 10\<rparr>\<rparr>"


end
