(* ===== verification/LoaderThreads.thy ===== *)
theory LoaderThreads
  imports NativeLoader ScriptLoader
begin

text \<open>
  The watcher threads of \<^verbatim>\<open>src/plugins/NativePluginLoader.cpp\<close> and \<^verbatim>\<open>src/plugins/ScriptPluginLoader.cpp\<close>, which
  have the same \<^verbatim>\<open>StartWatcher\<close> and \<^verbatim>\<open>StopWatcher\<close>: the flag \<^verbatim>\<open>m_WatcherStop\<close>, the thread as the place it has
  reached in its loop, the mutex, and the callers of the two functions.  A step is what
  happens between two points where another thread can come in; the file system a round finds may be
  any.  The states of the two loaders and their rounds are in the theories of the loaders.
\<close>

section \<open>Threads and callers\<close>

datatype thread_pc = Seed | Test | Sleep | Again | Round | Finished
datatype call_pc = Outside | Starting | Stopping | Joining

record 'w watch_code =
  wc_seed :: "'w \<Rightarrow> 'w option \<Rightarrow> bool"
  wc_round :: "'w \<Rightarrow> 'w \<Rightarrow> bool"

record 'w loader_threads =
  lt_stop :: bool
  lt_thread :: "thread_pc option"
  lt_lock :: bool
  lt_callers :: "nat \<Rightarrow> call_pc"
  lt_world :: 'w

definition goto :: "nat \<Rightarrow> call_pc \<Rightarrow> 'w loader_threads \<Rightarrow> 'w loader_threads" where
  "goto i pc s = s\<lparr>lt_callers := (lt_callers s)(i := pc)\<rparr>"

text \<open>\<^verbatim>\<open>StartWatcher\<close> under its lock.\<close>

definition start_body :: "'w loader_threads \<Rightarrow> 'w loader_threads" where
  "start_body s = (if lt_thread s \<noteq> None then s else s\<lparr>lt_stop := False, lt_thread := Some Seed\<rparr>)"

inductive thread_step :: "'w watch_code \<Rightarrow> 'w loader_threads \<Rightarrow> 'w loader_threads \<Rightarrow> bool" for C where
  seed_fails: "lt_thread s = Some Seed \<Longrightarrow> wc_seed C (lt_world s) None \<Longrightarrow> thread_step C s (s\<lparr>lt_thread := Some Finished\<rparr>)"
| seeded: "lt_thread s = Some Seed \<Longrightarrow> wc_seed C (lt_world s) (Some w) \<Longrightarrow> thread_step C s (s\<lparr>lt_thread := Some Test, lt_world := w\<rparr>)"
| test: "lt_thread s = Some Test \<Longrightarrow> thread_step C s (s\<lparr>lt_thread := Some (if lt_stop s then Finished else Sleep)\<rparr>)"
| wake: "lt_thread s = Some Sleep \<Longrightarrow> thread_step C s (s\<lparr>lt_thread := Some Again\<rparr>)"
| again: "lt_thread s = Some Again \<Longrightarrow> thread_step C s (s\<lparr>lt_thread := Some (if lt_stop s then Finished else Round)\<rparr>)"
| round: "lt_thread s = Some Round \<Longrightarrow> wc_round C (lt_world s) w \<Longrightarrow> thread_step C s (s\<lparr>lt_thread := Some Test, lt_world := w\<rparr>)"

inductive loader_step :: "'w watch_code \<Rightarrow> nat set \<Rightarrow> 'w loader_threads \<Rightarrow> 'w loader_threads \<Rightarrow> bool" for C Is where
  call_start: "i \<in> Is \<Longrightarrow> lt_callers s i = Outside \<Longrightarrow> loader_step C Is s (goto i Starting s)"
| start: "i \<in> Is \<Longrightarrow> lt_callers s i = Starting \<Longrightarrow> \<not> lt_lock s \<Longrightarrow> loader_step C Is s (goto i Outside (start_body s))"
| call_stop: "i \<in> Is \<Longrightarrow> lt_callers s i = Outside \<Longrightarrow> loader_step C Is s (goto i Stopping (s\<lparr>lt_stop := True\<rparr>))"
| no_thread: "i \<in> Is \<Longrightarrow> lt_callers s i = Stopping \<Longrightarrow> \<not> lt_lock s \<Longrightarrow> lt_thread s = None \<Longrightarrow> loader_step C Is s (goto i Outside s)"
| wait: "i \<in> Is \<Longrightarrow> lt_callers s i = Stopping \<Longrightarrow> \<not> lt_lock s \<Longrightarrow> lt_thread s \<noteq> None \<Longrightarrow>
     loader_step C Is s (goto i Joining (s\<lparr>lt_lock := True\<rparr>))"
| join: "i \<in> Is \<Longrightarrow> lt_callers s i = Joining \<Longrightarrow> lt_thread s = Some Finished \<Longrightarrow>
     loader_step C Is s (goto i Outside (s\<lparr>lt_lock := False, lt_thread := None\<rparr>))"
| work: "thread_step C s s' \<Longrightarrow> loader_step C Is s s'"

definition threads_idle :: "'w \<Rightarrow> 'w loader_threads" where
  "threads_idle w = \<lparr>lt_stop = False, lt_thread = None, lt_lock = False, lt_callers = \<lambda>i. Outside, lt_world = w\<rparr>"

definition loader_reach :: "'w watch_code \<Rightarrow> nat set \<Rightarrow> 'w \<Rightarrow> 'w loader_threads \<Rightarrow> bool" where
  "loader_reach C Is w s \<longleftrightarrow> (loader_step C Is)\<^sup>*\<^sup>* (threads_idle w) s"

inductive_cases thread_stepE: "thread_step C s s'"
inductive_cases loader_stepE: "loader_step C Is s s'"

section \<open>What the rounds keep\<close>

locale watched_code =
  fixes C :: "'w watch_code" and I :: "'w \<Rightarrow> bool"
  assumes seed_keeps: "I w \<Longrightarrow> wc_seed C w (Some w') \<Longrightarrow> I w'"
    and round_keeps: "I w \<Longrightarrow> wc_round C w w' \<Longrightarrow> I w'"
begin

lemma work_keeps: "thread_step C s s' \<Longrightarrow> I (lt_world s) \<Longrightarrow> I (lt_world s')"
  by (induction rule: thread_step.induct) (auto intro: seed_keeps round_keeps)

lemma step_keeps: "loader_step C Is s s' \<Longrightarrow> I (lt_world s) \<Longrightarrow> I (lt_world s')"
  by (induction rule: loader_step.induct) (auto simp: goto_def start_body_def intro: work_keeps)

lemma reach_keeps:
  assumes "loader_reach C Is w s" "I w"
  shows "I (lt_world s)"
  using assms(1) unfolding loader_reach_def
proof (induction rule: rtranclp_induct)
  case base
  then show ?case using assms(2) by (simp add: threads_idle_def)
qed (rule step_keeps)

end

section \<open>The two loaders\<close>

text \<open>The native watcher's world: the canonical root, the set of loaded paths and the loader's state.\<close>

definition native_watch :: "'c native_env \<Rightarrow> native_loader \<Rightarrow> string \<Rightarrow> (path \<times> string set \<times> 'c load_state) watch_code" where
  "native_watch E L dir =
     \<lparr>wc_seed = \<lambda>(r, l, st) res. \<exists>fs. res = map_option (\<lambda>(r', l'). (r', l', st)) (native_watch_init E fs dir),
      wc_round = \<lambda>(r, l, st) w. \<exists>fs. w = (r, native_tick E L fs dir r (l, st))\<rparr>"

definition script_watch ::
    "('c, 'w) script_loader_env \<Rightarrow> ('c, 'v) strategy \<Rightarrow> native_loader \<Rightarrow> string \<Rightarrow> ('c, 'v, 't) reload_state watch_code" where
  "script_watch E S L dir =
     \<lparr>wc_seed = \<lambda>st res. \<exists>fs mt. res = Some (st\<lparr>rs_mtimes := script_watch_init E fs mt dir\<rparr>),
      wc_round = \<lambda>st st'. \<exists>fs mt. st' = script_tick E S L fs mt dir st\<rparr>"

lemma watch_bin_keeps: "has n (snd s) \<Longrightarrow> has n (snd (watch_bin E L r sp s))"
  using LoadOne_keeps [of n "snd s" E L]
  by (cases sp; cases s) (auto simp: watch_bin_def split: option.split prod.split sum.split bool.split, (metis snd_conv)+)

lemma native_tick_keeps: "has n st \<Longrightarrow> has n (snd (native_tick E L fs dir r (l, st)))"
proof -
  have "has n (snd s) \<Longrightarrow> has n (snd (fold (watch_bin E L r) sps s))" for sps s
    by (induction sps arbitrary: s) (simp_all add: watch_bin_keeps)
  then show "has n st \<Longrightarrow> has n (snd (native_tick E L fs dir r (l, st)))" by (simp add: native_tick_def Let_def)
qed

interpretation native_watched: watched_code "native_watch E L dir" "\<lambda>(r, l, st). has n st" for E L dir n
  by unfold_locales (auto simp: native_watch_def split_beta eq_commute [of "Some _"] dest: native_tick_keeps)

lemma replace_tools_keeps: "HasCommand (fst s) n \<Longrightarrow> HasCommand (fst (snd (replace_tools S mk ts s))) n"
proof (induction ts arbitrary: s)
  case (Cons t ts)
  show ?case
  proof (cases "ReplaceCommand S (si_Name t) (mk t) s")
    case (Inr s')
    then have "HasCommand (fst s') n"
      using Cons.prems by (cases s) (auto simp: ReplaceCommand_def HasCommand_def CommandRegistry.Resolve_def update_conv' Let_def split: option.split_asm if_split_asm)
    then show ?thesis using Cons.IH Inr by simp
  qed (use Cons in simp)
qed simp

lemma reload_plugin_keeps: "HasCommand (rs_reg st) n \<Longrightarrow> HasCommand (rs_reg (reload_plugin E S L fs d st)) n"
proof -
  assume h: "HasCommand (rs_reg st) n"
  have "HasCommand (fst (snd (replace_tools S mk ts (rs_reg st, rs_world st)))) n" for mk ts
    by (rule replace_tools_keeps) (use h in simp)
  then have k: "replace_tools S mk ts (rs_reg st, rs_world st) = (ok, r, w) \<Longrightarrow> HasCommand r n" for mk ts ok r w
    by (metis fst_conv snd_conv)
  show ?thesis
    using h k unfolding reload_plugin_def by (auto simp: Let_def split: sum.split option.split prod.split)
qed

lemma script_tick_keeps: "HasCommand (rs_reg st) n \<Longrightarrow> HasCommand (rs_reg (script_tick E S L fs mt dir st)) n"
proof -
  have v: "HasCommand (rs_reg st) n \<Longrightarrow> HasCommand (rs_reg (script_visit E S L fs mt dir d st)) n" for d st
    by (simp add: script_visit_def reload_plugin_keeps split: option.split)
  have "HasCommand (rs_reg st) n \<Longrightarrow> HasCommand (rs_reg (fold (script_visit E S L fs mt dir) ds st)) n" for ds st
    by (induction ds arbitrary: st) (simp_all add: v)
  then show "HasCommand (rs_reg st) n \<Longrightarrow> HasCommand (rs_reg (script_tick E S L fs mt dir st)) n"
    by (simp add: script_tick_def Let_def)
qed

interpretation script_watched: watched_code "script_watch E S L dir" "\<lambda>st. HasCommand (rs_reg st) n" for E S L dir n
  by unfold_locales (auto simp: script_watch_def script_tick_keeps)

section \<open>Stopping\<close>

text \<open>With one caller, the flag is up from the start of a stop to its end, and the lock is the joining caller's.\<close>

definition one_caller :: "'w loader_threads \<Rightarrow> bool" where
  "one_caller s \<longleftrightarrow> (lt_callers s 0 \<in> {Stopping, Joining} \<longrightarrow> lt_stop s) \<and> (lt_lock s \<longleftrightarrow> lt_callers s 0 = Joining)
     \<and> (lt_callers s 0 = Joining \<longrightarrow> lt_thread s \<noteq> None)"

lemma one_caller_work: "thread_step C s s' \<Longrightarrow> one_caller s \<Longrightarrow> one_caller s'"
  by (induction rule: thread_step.induct) (auto simp: one_caller_def)

lemma one_caller_step: "loader_step C {0} s s' \<Longrightarrow> one_caller s \<Longrightarrow> one_caller s'"
proof (induction rule: loader_step.induct)
  case (work s s')
  then show ?case by (blast intro: one_caller_work)
qed (auto simp: one_caller_def goto_def start_body_def)

lemma one_caller_reach:
  assumes "loader_reach C {0} w s"
  shows "one_caller s"
  using assms unfolding loader_reach_def
proof (induction rule: rtranclp_induct)
  case base
  then show ?case by (simp add: one_caller_def threads_idle_def)
qed (rule one_caller_step)

text \<open>How far a stop is from its end.\<close>

fun thread_rank :: "thread_pc option \<Rightarrow> nat" where
  "thread_rank None = 0"
| "thread_rank (Some Finished) = 0"
| "thread_rank (Some Test) = 1"
| "thread_rank (Some Again) = 1"
| "thread_rank (Some pc) = 2"

definition stop_rank :: "'w loader_threads \<Rightarrow> nat" where
  "stop_rank s = (case lt_callers s 0 of Stopping \<Rightarrow> 2 | Joining \<Rightarrow> 1 | _ \<Rightarrow> 0) + thread_rank (lt_thread s)"

definition total_code :: "'w watch_code \<Rightarrow> bool" where
  "total_code C \<longleftrightarrow> (\<forall>w. (\<exists>r. wc_seed C w r) \<and> (\<exists>w'. wc_round C w w'))"

lemma thread_moves: "total_code C \<Longrightarrow> lt_thread s = Some pc \<Longrightarrow> pc \<noteq> Finished \<Longrightarrow> \<exists>s'. thread_step C s s'"
proof -
  assume c: "total_code C" "lt_thread s = Some pc" "pc \<noteq> Finished"
  obtain r w' where "wc_seed C (lt_world s) r" "wc_round C (lt_world s) w'" using c(1) unfolding total_code_def by meson
  then show ?thesis
    using c(2,3) by (cases pc; cases r) (auto intro: thread_step.intros)
qed

lemma stop_moves:
  assumes "total_code C" "one_caller s" "lt_callers s 0 \<in> {Stopping, Joining}"
  shows "\<exists>s'. loader_step C {0} s s'"
proof (cases "lt_callers s 0 = Stopping")
  case True
  then have "\<not> lt_lock s" using assms(2) by (simp add: one_caller_def)
  then show ?thesis using True by (cases "lt_thread s") (auto intro: loader_step.intros)
next
  case False
  then have j: "lt_callers s 0 = Joining" using assms(3) by simp
  then obtain pc where "lt_thread s = Some pc" using assms(2) by (auto simp: one_caller_def)
  then show ?thesis
    using j thread_moves [OF assms(1)] by (cases "pc = Finished") (blast intro: loader_step.intros)+
qed

lemma work_ranks:
  assumes "thread_step C s s'" "lt_stop s"
  shows "thread_rank (lt_thread s') < thread_rank (lt_thread s)" "lt_callers s' = lt_callers s"
  using assms by (induction rule: thread_step.induct) auto


lemma native_watch_total: "total_code (native_watch E L dir)"
  unfolding total_code_def native_watch_def by (simp add: split_beta) (metis surj_pair)

lemma script_watch_total: "total_code (script_watch E S L dir)"
  by (auto simp: total_code_def script_watch_def)

text \<open>A watcher that is started and then stopped at once.\<close>

definition ex_stopping :: "'w \<Rightarrow> 'w loader_threads" where
  "ex_stopping w = goto 0 Stopping (start_body (threads_idle w)\<lparr>lt_stop := True\<rparr>)"

lemma ex_stopping_reach: "loader_reach C {0} w (ex_stopping w)"
proof -
  let ?s = "threads_idle w"
  have "loader_step C {0} ?s (goto 0 Starting ?s)" by (rule call_start) (simp_all add: threads_idle_def)
  moreover have "loader_step C {0} (goto 0 Starting ?s) (goto 0 Outside (start_body (goto 0 Starting ?s)))"
    by (rule start) (simp_all add: threads_idle_def goto_def)
  moreover have "loader_step C {0} (goto 0 Outside (start_body (goto 0 Starting ?s)))
      (goto 0 Stopping ((goto 0 Outside (start_body (goto 0 Starting ?s)))\<lparr>lt_stop := True\<rparr>))"
    by (rule call_stop) (simp_all add: goto_def)
  moreover have "goto 0 Stopping ((goto 0 Outside (start_body (goto 0 Starting ?s)))\<lparr>lt_stop := True\<rparr>) = ex_stopping w"
    by (simp add: ex_stopping_def goto_def start_body_def threads_idle_def)
  ultimately show ?thesis unfolding loader_reach_def by (metis (no_types, lifting) rtranclp.simps)
qed


text \<open>
  No tool that is registered when the native watcher is created is ever lost to it, whatever
  libraries appear in the plugins directory and however often the watcher is started, stopped and
  does its rounds.
\<close>

theorem watcher_keeps_tools:
  assumes "loader_reach (native_watch E L dir) Is (r, l, st) s" "HasCommand (ls_reg st) n"
  shows "case lt_world s of (r', l', st') \<Rightarrow> HasCommand (ls_reg st') n"
  using native_watched.reach_keeps [OF assms(1)] assms(2) by (simp add: has_def)

definition ex_ping :: "string load_state" where
  "ex_ping = ex_load\<lparr>ls_reg := empty_registry\<lparr>m_Commands := [(''ping'', ''x'')]\<rparr>\<rparr>"

theorem watcher_keeps_tools_witness:
  "case lt_world (ex_stopping ([] :: path, {} :: string set, ex_ping)) of (r', l', st') \<Rightarrow> HasCommand (ls_reg st') ''ping''"
proof -
  have "HasCommand (ls_reg ex_ping) ''ping''" by (simp add: ex_ping_def HasCommand_def CommandRegistry.Resolve_def)
  from watcher_keeps_tools [where E = ex_native and L = native_idle and dir = "''/p''" and Is = "{0}", OF ex_stopping_reach this] show ?thesis .
qed

text \<open>
  With a second caller a stop can wait for a thread that nobody has told to stop: the flag is
  raised before the lock is taken, and a start in between lowers it again.
\<close>

lemma stop_start_race:
  "\<exists>s. loader_reach C {0, 1} w s \<and> lt_callers s 0 = Joining \<and> lt_thread s = Some Seed \<and> \<not> lt_stop s"
proof -
  let ?s1 = "goto 0 Stopping ((threads_idle w)\<lparr>lt_stop := True\<rparr>)"
  let ?s2 = "goto 1 Starting ?s1"
  let ?s3 = "goto 1 Outside (start_body ?s2)"
  let ?s4 = "goto 0 Joining (?s3\<lparr>lt_lock := True\<rparr>)"
  have "loader_step C {0, 1} (threads_idle w) ?s1" by (rule call_stop) (simp_all add: threads_idle_def)
  moreover have "loader_step C {0, 1} ?s1 ?s2" by (rule call_start) (simp_all add: threads_idle_def goto_def)
  moreover have "loader_step C {0, 1} ?s2 ?s3" by (rule start) (simp_all add: threads_idle_def goto_def)
  moreover have "loader_step C {0, 1} ?s3 ?s4" by (rule wait) (simp_all add: threads_idle_def goto_def start_body_def)
  ultimately have "loader_reach C {0, 1} w ?s4" unfolding loader_reach_def by (metis (no_types, lifting) rtranclp.simps)
  then show ?thesis by (intro exI [where x = ?s4]) (simp add: goto_def start_body_def threads_idle_def)
qed

end
