(* ===== verification/HttpServer.thy ===== *)
theory HttpServer
  imports ServerEntry
begin

text \<open>
  \<^verbatim>\<open>src/server/HttplibServer.cpp\<close> and the routes that \<^verbatim>\<open>src/server_entry.cpp\<close> adds to it.  The
  \<^verbatim>\<open>httplib\<close> library is a third party's: it picks the first route with the method and the path of the
  request, and answers itself when there is none (\<open>None\<close>) or when the handler throws; what the
  handler has put into the response by then is part of the result.  \<open>'s\<close> is the state of the server.
\<close>

type_synonym 's route_handler = "string \<Rightarrow> string \<Rightarrow> string \<Rightarrow> 's \<Rightarrow> (nat \<times> string) res \<times> 's"

record 's route =
  rt_method :: string
  rt_path :: string
  rt_handler :: "'s route_handler"

record http_request =
  hq_method :: string
  hq_path :: string
  hq_headers :: "(string \<times> string) list"
  hq_body :: string
  hq_remote_addr :: string

record http_reply =
  hp_status :: "nat option"
  hp_headers :: "(string \<times> string) list"
  hp_body :: string

section \<open>The library's request and response\<close>

definition set_header :: "string \<Rightarrow> string \<Rightarrow> http_reply \<Rightarrow> http_reply" where
  "set_header k v res = res\<lparr>hp_headers := hp_headers res @ [(k, v)]\<rparr>"

definition same_key :: "string \<Rightarrow> string \<Rightarrow> bool" where
  "same_key a b \<longleftrightarrow> map tolower a = map tolower b"

text \<open>\<^verbatim>\<open>set_content\<close> replaces the type of the content.\<close>

definition set_content :: "string \<Rightarrow> string \<Rightarrow> http_reply \<Rightarrow> http_reply" where
  "set_content body ct res =
     set_header ''Content-Type'' ct (res\<lparr>hp_body := body, hp_headers := filter (\<lambda>(k, v). \<not> same_key k ''Content-Type'') (hp_headers res)\<rparr>)"

definition get_header_value :: "http_request \<Rightarrow> string \<Rightarrow> string" where
  "get_header_value req key = (case find (\<lambda>(k, v). same_key k key) (hq_headers req) of None \<Rightarrow> [] | Some (k, v) \<Rightarrow> v)"

section \<open>The server\<close>

definition AddRoute :: "string \<Rightarrow> string \<Rightarrow> 's route_handler \<Rightarrow> 's route list \<Rightarrow> 's route list" where
  "AddRoute m path handler rs = rs @ [\<lparr>rt_method = m, rt_path = path, rt_handler = handler\<rparr>]"

definition route_handler :: "'s route_handler \<Rightarrow> http_request \<Rightarrow> 's \<Rightarrow> (exn option \<times> http_reply) \<times> 's" where
  "route_handler handler req s =
     (let res = set_header ''Content-Type'' ''application/json''
                  (fold (\<lambda>(k, v). set_header k v) SecurityHeaders_GetDefaults \<lparr>hp_status = None, hp_headers = [], hp_body = []\<rparr>)
      in case handler (hq_body req) (hq_remote_addr req) (get_header_value req ''Authorization'') s of
           (Inl e, s') \<Rightarrow> ((Some e, res), s')
         | (Inr (status, response), s') \<Rightarrow> ((None, set_content response ''application/json'' (res\<lparr>hp_status := Some status\<rparr>)), s'))"

text \<open>\<^verbatim>\<open>Listen\<close>: a route whose method is neither is left out.\<close>

definition Listen :: "'s route list \<Rightarrow> 's route list" where
  "Listen rs = filter (\<lambda>r. rt_method r = ''POST'' \<or> rt_method r = ''GET'') rs"

definition serve_http :: "'s route list \<Rightarrow> http_request \<Rightarrow> 's \<Rightarrow> ((exn option \<times> http_reply) \<times> 's) option" where
  "serve_http rs req s =
     map_option (\<lambda>r. route_handler (rt_handler r) req s)
       (find (\<lambda>r. rt_method r = hq_method req \<and> rt_path r = hq_path req) (Listen rs))"

section \<open>The server on uWebSockets\<close>

text \<open>
  \<^verbatim>\<open>src/server/UwsServer.cpp\<close>, compiled in with \<^verbatim>\<open>USE_UWS\<close>.  The library hands the body of a POST over
  in chunks, of which the last is marked; a response without a status line is sent as 200.
\<close>

record uws_reply =
  ur_status :: "string option"
  ur_headers :: "(string \<times> string) list"
  ur_body :: string

definition uws_status :: "nat \<Rightarrow> string" where
  "uws_status status = nat_str status @ '' '' @
     (if status = 200 then ''OK'' else if status = 400 then ''Bad Request'' else if status = 401 then ''Unauthorized''
      else if status = 413 then ''Payload Too Large'' else if status = 429 then ''Too Many Requests'' else ''Error'')"

definition uws_headers :: "(string \<times> string) list" where
  "uws_headers = SecurityHeaders_GetDefaults @ [(''Content-Type'', ''application/json'')]"

text \<open>The callback for one chunk; an answer is \<open>Some\<close>.\<close>

definition uws_on_data :: "'s route_handler \<Rightarrow> string \<Rightarrow> string \<times> bool \<Rightarrow> 's \<Rightarrow> uws_reply res option \<times> 's" where
  "uws_on_data handler auth = (\<lambda>(data, is_last) s.
     if \<not> is_last then (None, s)
     else (case handler data ''0.0.0.0'' auth s of
         (Inl e, s') \<Rightarrow> (Some (Inl e), s')
       | (Inr (status, response), s') \<Rightarrow>
           (Some (Inr \<lparr>ur_status = Some (uws_status status), ur_headers = uws_headers, ur_body = response\<rparr>), s')))"

fun uws_post :: "'s route_handler \<Rightarrow> string \<Rightarrow> (string \<times> bool) list \<Rightarrow> 's \<Rightarrow> uws_reply res option \<times> 's" where
  "uws_post handler auth [] s = (None, s)"
| "uws_post handler auth (d # ds) s =
     (case uws_on_data handler auth d s of
        (Some r, s') \<Rightarrow> (Some r, s')
      | (None, s') \<Rightarrow> uws_post handler auth ds s')"

definition uws_get :: "'s route_handler \<Rightarrow> string \<Rightarrow> 's \<Rightarrow> uws_reply res \<times> 's" where
  "uws_get handler auth s =
     (case handler [] ''0.0.0.0'' auth s of
        (Inl e, s') \<Rightarrow> (Inl e, s')
      | (Inr (status, response), s') \<Rightarrow> (Inr \<lparr>ur_status = None, ur_headers = uws_headers, ur_body = response\<rparr>, s'))"

text \<open>
  The object.  \<^verbatim>\<open>Listen\<close> marks it running and enters the library's loop; without \<^verbatim>\<open>USE_UWS\<close> it only
  prints a message.  \<^verbatim>\<open>Stop\<close> clears the mark, which nothing reads.
\<close>

record 's uws_server =
  us_routes :: "'s route list"
  us_running :: bool

definition UwsServer :: "'s uws_server" where
  "UwsServer = \<lparr>us_routes = [], us_running = False\<rparr>"

definition UwsAddRoute :: "string \<Rightarrow> string \<Rightarrow> 's route_handler \<Rightarrow> 's uws_server \<Rightarrow> 's uws_server" where
  "UwsAddRoute m path handler u = u\<lparr>us_routes := us_routes u @ [\<lparr>rt_method = m, rt_path = path, rt_handler = handler\<rparr>]\<rparr>"

definition UwsListen :: "bool \<Rightarrow> 's uws_server \<Rightarrow> 's uws_server \<times> string option" where
  "UwsListen use_uws u =
     (if use_uws then (u\<lparr>us_running := True\<rparr>, None)
      else (u, Some (''UwsServer not available (compiled without USE_UWS)'' @ [NL])))"

definition UwsStop :: "'s uws_server \<Rightarrow> 's uws_server" where
  "UwsStop u = u\<lparr>us_running := False\<rparr>"

text \<open>A request to a server in that loop, its body in chunks.\<close>

definition serve_uws ::
    "'s uws_server \<Rightarrow> string \<Rightarrow> string \<Rightarrow> string \<Rightarrow> (string \<times> bool) list \<Rightarrow> 's \<Rightarrow> (uws_reply res option \<times> 's) option" where
  "serve_uws u m path auth chunks s =
     map_option (\<lambda>r. if m = ''POST'' then uws_post (rt_handler r) auth chunks s
                      else (case uws_get (rt_handler r) auth s of (reply, s') \<Rightarrow> (Some reply, s')))
       (find (\<lambda>r. rt_method r = m \<and> rt_path r = path \<and> m \<in> {''POST'', ''GET''}) (us_routes u))"

lemma uws_stopped_serves: "serve_uws (UwsStop u) m path auth chunks s = serve_uws u m path auth chunks s"
  by (simp add: serve_uws_def UwsStop_def)

text \<open>A body as the library delivers it.\<close>

definition in_chunks :: "string list \<Rightarrow> (string \<times> bool) list" where
  "in_chunks cs = map (\<lambda>c. (c, False)) (butlast cs) @ [(last cs, True)]"

lemma uws_post_last: "uws_post handler auth (in_chunks cs) s = uws_post handler auth [(last cs, True)] s"
proof -
  have "uws_post handler auth (map (\<lambda>c. (c, False)) xs @ ds) s = uws_post handler auth ds s" for xs ds
    by (induction xs) (simp_all add: uws_on_data_def)
  then show ?thesis by (simp add: in_chunks_def)
qed

section \<open>The routes\<close>

text \<open>A GET route looks at the table only.\<close>

definition table_route ::
    "jlib \<Rightarrow> ('c, 'v) strategy \<Rightarrow> server_entry list \<Rightarrow> string \<Rightarrow> ('c, 'v) server_state route_handler" where
  "table_route J S servers path body clientIp auth st =
     (case get_route J S servers (fst (snd st)) path of Some r \<Rightarrow> (r, st) | None \<Rightarrow> (Inl UnknownException, st))"

definition server_routes ::
    "jlib \<Rightarrow> (json \<Rightarrow> json \<Rightarrow> bool) \<Rightarrow> ('c, 'v) strategy \<Rightarrow> handler \<Rightarrow> server_entry list \<Rightarrow> int \<Rightarrow> ('c, 'v) server_state route list" where
  "server_routes J V S h servers now =
     AddRoute ''GET'' ''/commands'' (table_route J S servers ''/commands'')
     (AddRoute ''GET'' ''/servers'' (table_route J S servers ''/servers'')
     (AddRoute ''GET'' ''/skills'' (table_route J S servers ''/skills'')
     (AddRoute ''GET'' ''/health'' (table_route J S servers ''/health'')
     (AddRoute ''POST'' ''/mcp'' (mcp_route J V S h now) []))))"

section \<open>The end of main\<close>

text \<open>
  What \<^verbatim>\<open>main\<close> does once the tools are set up, in order, and the exception that ends it when a setting of the
  HTTP server cannot be read: the routes are set up before the watchers, the port is read after
  they have started.
\<close>

datatype main_action =
    SetNotifyCallbacks | StartNative | StartScripts | RunStdio | ListenOn string int | StopScripts | StopNative

definition watcher_starts :: "'w server \<Rightarrow> main_action list" where
  "watcher_starts sv = (if sv_all sv then [SetNotifyCallbacks, StartNative, StartScripts] else [])"

definition watcher_stops :: "'w server \<Rightarrow> main_action list" where
  "watcher_stops sv = (if sv_all sv then [StopScripts, StopNative] else [])"

definition main_actions :: "'w server \<Rightarrow> main_action list \<times> exn option" where
  "main_actions sv =
     (if sv_stdio sv then (watcher_starts sv @ [RunStdio] @ watcher_stops sv, None)
      else (case http_handler (sv_config sv) of
          Inl e \<Rightarrow> ([], Some e)
        | Inr (h, l) \<Rightarrow>
            (case GetServerPort (sv_config sv) of
               Inl e \<Rightarrow> (watcher_starts sv, Some e)
             | Inr port \<Rightarrow> (watcher_starts sv @ [ListenOn ''0.0.0.0'' port] @ watcher_stops sv, None))))"

text \<open>A server that ends in the ordinary way has stopped the watchers it started.\<close>

lemma watchers_stopped:
  assumes "main_actions sv = (as, None)"
  shows "count_list as StartNative = count_list as StopNative \<and> count_list as StartScripts = count_list as StopScripts"
  using assms by (auto simp: main_actions_def watcher_starts_def watcher_stops_def split: if_split_asm sum.split_asm prod.split_asm)

section \<open>Properties\<close>

lemma set_headers:
  "hp_headers (fold (\<lambda>(k, v). set_header k v) hs res) = hp_headers res @ hs"
  by (induction hs arbitrary: res) (auto simp: set_header_def)

lemma security_keys: "list_all (\<lambda>(k, v). \<not> same_key k ''Content-Type'') SecurityHeaders_GetDefaults"
  by (simp add: SecurityHeaders_GetDefaults_def same_key_def tolower_def isupper_def uchar_def)

lemma route_handler_headers:
  "hp_headers (snd (fst (route_handler handler req s))) = SecurityHeaders_GetDefaults @ [(''Content-Type'', ''application/json'')]"
proof -
  have "filter (\<lambda>(k, v). \<not> same_key k ''Content-Type'') SecurityHeaders_GetDefaults = SecurityHeaders_GetDefaults"
    using security_keys by (simp add: filter_id_conv list_all_iff)
  moreover have "same_key ''Content-Type'' ''Content-Type''" by (simp add: same_key_def)
  ultimately show ?thesis
    by (cases "handler (hq_body req) (hq_remote_addr req) (get_header_value req ''Authorization'') s")
       (auto simp: route_handler_def set_content_def set_header_def set_headers Let_def split: sum.split)
qed

text \<open>
  Every response of every route carries the six security headers and the JSON content type and nothing
  else, also when its handler throws; and a GET request never changes the server, whatever the path.
\<close>

theorem http_replies_hardened:
  assumes "serve_http (server_routes J V S h servers now) req st = Some ((e, reply), st')"
  shows "hp_headers reply = SecurityHeaders_GetDefaults @ [(''Content-Type'', ''application/json'')]
    \<and> (hq_method req = ''GET'' \<longrightarrow> st' = st)"
proof -
  obtain r where r: "find (\<lambda>r. rt_method r = hq_method req \<and> rt_path r = hq_path req) (Listen (server_routes J V S h servers now)) = Some r"
      and e: "route_handler (rt_handler r) req st = ((e, reply), st')"
    using assms by (auto simp: serve_http_def)
  have m: "rt_method r = hq_method req" and i: "r \<in> set (server_routes J V S h servers now)"
    using r by (auto simp: find_Some_iff Listen_def nth_mem dest!: nth_mem)
  have t: "table_route J S servers path body ip a st = (x, s') \<Longrightarrow> s' = st" for path body ip a x s'
    by (auto simp: table_route_def split: option.splits)
  have "st' = st" if g: "hq_method req = ''GET''"
  proof -
    obtain path where "rt_handler r = table_route J S servers path"
      using i m g by (auto simp: server_routes_def AddRoute_def)
    then show ?thesis using e t by (auto simp: route_handler_def Let_def split: prod.splits sum.splits)
  qed
  then show ?thesis using route_handler_headers [of "rt_handler r" req st] e by simp
qed

text \<open>The example server of the protocol handler, asked for its health and, with its key, for a run.\<close>

definition ex_http :: "string \<Rightarrow> string \<Rightarrow> http_request" where
  "ex_http m path = \<lparr>hq_method = m, hq_path = path, hq_headers = [(''authorization'', ''Bearer k'')], hq_body = ''run'', hq_remote_addr = ''ip''\<rparr>"

theorem http_replies_hardened_witness:
  "case serve_http (server_routes ex_lib ex_validator ex_strategy ex_handler [] 0) (ex_http ''GET'' ''/health'') (None, ex_registry, 0) of
     None \<Rightarrow> False | Some ((e, reply), st') \<Rightarrow> st' = (None, ex_registry, 0) \<and> (''X-Frame-Options'', ''DENY'') \<in> set (hp_headers reply)"
proof -
  obtain e reply st' where s: "serve_http (server_routes ex_lib ex_validator ex_strategy ex_handler [] 0) (ex_http ''GET'' ''/health'') (None, ex_registry, 0)
      = Some ((e, reply), st')"
    by (simp add: serve_http_def server_routes_def AddRoute_def Listen_def ex_http_def) (metis surj_pair)
  have "hq_method (ex_http ''GET'' ''/health'') = ''GET''" by (simp add: ex_http_def)
  with http_replies_hardened [OF s] show ?thesis
    unfolding s by (simp add: SecurityHeaders_GetDefaults_def)
qed

text \<open>
  Served by uWebSockets, a request is handled on the last chunk of its body alone, as if it came from the
  address 0.0.0.0: a body sent in several chunks is handled as the client meant it exactly when
  everything before the last chunk is empty.
\<close>

theorem uws_last_chunk_only:
  assumes "cs \<noteq> []"
  shows "uws_post handler auth (in_chunks cs) s =
      (case handler (last cs) ''0.0.0.0'' auth s of
         (Inl e, s') \<Rightarrow> (Some (Inl e), s')
       | (Inr (status, response), s') \<Rightarrow>
           (Some (Inr \<lparr>ur_status = Some (uws_status status), ur_headers = uws_headers, ur_body = response\<rparr>), s'))
    \<and> (last cs = concat cs \<longleftrightarrow> concat (butlast cs) = [])"
proof -
  have "concat cs = concat (butlast cs) @ last cs"
    using assms by (metis append_butlast_last_id concat.simps concat_append append_Nil2)
  then show ?thesis
    by (simp add: uws_post_last uws_on_data_def split: prod.split sum.split)
qed

theorem uws_last_chunk_only_witness:
  "fst (uws_post (\<lambda>body ip auth s. (Inr (200, body), s)) [] (in_chunks [''{large '', ''body}'']) ()) =
     Some (Inr \<lparr>ur_status = Some (uws_status 200), ur_headers = uws_headers, ur_body = ''body}''\<rparr>)"
  using uws_last_chunk_only [of "[''{large '', ''body}'']" "\<lambda>body ip auth s. (Inr (200, body), s)" "[]" "()"] by simp

end
