(* ===== verification/Logger.thy ===== *)
theory Logger
  imports Prelude
begin

text \<open>
  \<^verbatim>\<open>src/core/Logger.cpp\<close>: the logger all components share, and what \<^verbatim>\<open>src/server_entry.cpp\<close> and the
  constructor of \<^verbatim>\<open>StdioTransport\<close> do to it in stdio mode, where the standard output carries the
  protocol.  An observer gets each message with the state of what it writes to.
\<close>

record 'o logger =
  lg_SuppressStdout :: bool
  lg_Observer :: "(string \<Rightarrow> 'o \<Rightarrow> 'o) option"
  lg_stdout :: "string list"
  lg_observed :: 'o

definition Log :: "string \<Rightarrow> 'o logger \<Rightarrow> 'o logger" where
  "Log msg lg =
     (let lg1 = (if \<not> lg_SuppressStdout lg then lg\<lparr>lg_stdout := lg_stdout lg @ [''[LOG] '' @ msg]\<rparr> else lg)
      in case lg_Observer lg1 of None \<Rightarrow> lg1 | Some f \<Rightarrow> lg1\<lparr>lg_observed := f msg (lg_observed lg1)\<rparr>)"

definition SetSuppressStdout :: "bool \<Rightarrow> 'o logger \<Rightarrow> 'o logger" where
  "SetSuppressStdout suppress lg = lg\<lparr>lg_SuppressStdout := suppress\<rparr>"

definition SetObserver :: "(string \<Rightarrow> 'o \<Rightarrow> 'o) option \<Rightarrow> 'o logger \<Rightarrow> 'o logger" where
  "SetObserver obs lg = lg\<lparr>lg_Observer := obs\<rparr>"

text \<open>In stdio mode the log goes to the standard error, here the list of its lines.\<close>

definition stdio_logging :: "string list logger \<Rightarrow> string list logger" where
  "stdio_logging lg = SetObserver (Some (\<lambda>msg err. err @ [''[LOG] '' @ msg])) (SetSuppressStdout True lg)"

lemma stdio_log_lines:
  "fold Log msgs (stdio_logging lg) =
     (stdio_logging lg)\<lparr>lg_observed := lg_observed lg @ map (\<lambda>m. ''[LOG] '' @ m) msgs\<rparr>"
proof (induction msgs rule: rev_induct)
  case (snoc m ms)
  then show ?case by (simp add: Log_def stdio_logging_def SetObserver_def SetSuppressStdout_def)
qed (simp add: stdio_logging_def SetObserver_def SetSuppressStdout_def)

text \<open>No message of the log reaches the standard output, and none is lost.\<close>

lemma stdio_stdout_clean:
  "lg_stdout (fold Log msgs (stdio_logging lg)) = lg_stdout lg"
  "lg_observed (fold Log msgs (stdio_logging lg)) = lg_observed lg @ map (\<lambda>m. ''[LOG] '' @ m) msgs"
  by (simp_all only: stdio_log_lines) (simp_all add: stdio_logging_def SetObserver_def SetSuppressStdout_def)

end
