(* ===== verification/ScriptFiles.thy ===== *)
theory ScriptFiles
  imports PluginAdapters
begin

text \<open>
  The argument files of \<^verbatim>\<open>src/plugins/ScriptPluginAdapter.cpp\<close>: the file that a call of a script tool
  writes before it starts the script, and the guard that removes it.  A directory of files
  is a map from names to bytes and permission bits; what \<^verbatim>\<open>open\<close> and \<^verbatim>\<open>write\<close> answer is given by
  functions of the name, and of the number of the call and the bytes offered.
\<close>

type_synonym files = "string \<rightharpoonup> string \<times> nat"

text \<open>\<^verbatim>\<open>open(path, O_WRONLY | O_CREAT | O_TRUNC, 0600)\<close>: an existing file keeps its permissions.\<close>

definition owner_only :: nat where "owner_only = 384"

definition open_truncated :: "string \<Rightarrow> files \<Rightarrow> files" where
  "open_truncated path fs = fs(path \<mapsto> ([], case fs path of None \<Rightarrow> owner_only | Some (old, mode) \<Rightarrow> mode))"

definition append_bytes :: "string \<Rightarrow> string \<Rightarrow> files \<Rightarrow> files" where
  "append_bytes path bs fs = fs(path := map_option (\<lambda>(old, mode). (old @ bs, mode)) (fs path))"

text \<open>The loop around \<^verbatim>\<open>write\<close>; \<open>wr k n\<close> is what the \<open>k\<close>-th call returns when \<open>n\<close> bytes are
  left, and never more than \<open>n\<close>.\<close>

function write_loop :: "(nat \<Rightarrow> nat \<Rightarrow> int) \<Rightarrow> nat \<Rightarrow> string \<Rightarrow> string \<Rightarrow> files \<Rightarrow> bool \<times> files" where
  "write_loop wr k path remaining fs =
     (if remaining = [] then (True, fs)
      else (let n = min (wr k (length remaining)) (int (length remaining))
            in if n \<le> 0 then (False, fs)
               else write_loop wr (k + 1) path (drop (nat n) remaining) (append_bytes path (take (nat n) remaining) fs)))"
  by auto
termination by (relation "measure (\<lambda>(wr, k, p, r, fs). length r)") auto

declare write_loop.simps [simp del]

definition WriteSecureTempFile ::
    "(string \<Rightarrow> bool) \<Rightarrow> (nat \<Rightarrow> nat \<Rightarrow> int) \<Rightarrow> string \<Rightarrow> string \<Rightarrow> files \<Rightarrow> bool \<times> files" where
  "WriteSecureTempFile can_open wr path content fs =
     (if \<not> can_open path then (False, fs) else write_loop wr 0 path content (open_truncated path fs))"

text \<open>On Windows one \<^verbatim>\<open>WriteFile\<close>, whose count of bytes is a word of 32 bits; \<open>wrt\<close> gives how many it writes.\<close>

definition WriteSecureTempFileWin ::
    "(string \<Rightarrow> bool) \<Rightarrow> (32 word \<Rightarrow> bool \<times> 32 word) \<Rightarrow> string \<Rightarrow> string \<Rightarrow> files \<Rightarrow> bool \<times> files" where
  "WriteSecureTempFileWin can_open wrt path content fs =
     (if \<not> can_open path then (False, fs)
      else (let (ok, written) = wrt (word_of_nat (length content))
            in (ok \<and> written = word_of_nat (length content), fs(path \<mapsto> (take (unat written) content, owner_only)))))"

text \<open>The scope of the guard: the file is written, the rest of the call runs on what it sees, and the file is removed.\<close>

definition remove_file :: "string \<Rightarrow> files \<Rightarrow> files" where
  "remove_file path fs = fs(path := None)"

definition with_args_file ::
    "(string \<Rightarrow> bool) \<Rightarrow> (nat \<Rightarrow> nat \<Rightarrow> int) \<Rightarrow> string \<Rightarrow> string \<Rightarrow> (files \<Rightarrow> json res \<times> files) \<Rightarrow> files \<Rightarrow> json res \<times> files" where
  "with_args_file can_open wr tmpPath args rest fs =
     (case WriteSecureTempFile can_open wr tmpPath args fs of
        (False, fs1) \<Rightarrow> (Inr (tool_error (''Failed to create temp args file: '' @ tmpPath)), remove_file tmpPath fs1)
      | (True, fs1) \<Rightarrow> (case rest fs1 of (reply, fs2) \<Rightarrow> (reply, remove_file tmpPath fs2)))"

section \<open>The bytes that are written\<close>

lemma append_bytes_other: "q \<noteq> path \<Longrightarrow> append_bytes path bs fs q = fs q"
  by (simp add: append_bytes_def)

lemma write_loop_result:
  assumes "fs path = Some (old, mode)" "write_loop wr k path r fs = (ok, fs')"
  shows "(\<exists>j. fs' path = Some (old @ take j r, mode) \<and> (ok \<longrightarrow> length r \<le> j)) \<and> (\<forall>q. q \<noteq> path \<longrightarrow> fs' q = fs q)"
  using assms
proof (induction wr k path r fs arbitrary: old rule: write_loop.induct)
  case (1 wr k path r fs)
  show ?case
  proof (cases "r = [] \<or> min (wr k (length r)) (int (length r)) \<le> 0")
    case True
    then have "fs' = fs \<and> (ok \<longrightarrow> r = [])" using 1(3) by (subst (asm) write_loop.simps) (auto simp: Let_def split: if_split_asm)
    then show ?thesis using 1(2) by (intro conjI exI [where x = 0]) auto
  next
    case False
    let ?n = "nat (min (wr k (length r)) (int (length r)))"
    have w: "write_loop wr (k + 1) path (drop ?n r) (append_bytes path (take ?n r) fs) = (ok, fs')"
      using 1(3) False by (subst (asm) write_loop.simps) (simp add: Let_def)
    have f: "append_bytes path (take ?n r) fs path = Some (old @ take ?n r, mode)" using 1(2) by (simp add: append_bytes_def)
    obtain j where j: "fs' path = Some ((old @ take ?n r) @ take j (drop ?n r), mode)" "ok \<longrightarrow> length (drop ?n r) \<le> j"
        and o: "\<forall>q. q \<noteq> path \<longrightarrow> fs' q = append_bytes path (take ?n r) fs q"
      using 1(1) [OF _ refl _ f w] False by auto
    have "take ?n r @ take j (drop ?n r) = take (?n + j) r" by (simp add: take_add)
    then show ?thesis using j o by (intro conjI exI [where x = "?n + j"]) (auto simp: append_bytes_other)
  qed
qed



end
