(* ===== verification/StdioSession.thy ===== *)
theory StdioSession
  imports StdioReplies
begin

text \<open>
  A whole session of the transport of \<^verbatim>\<open>src/server/StdioTransport.cpp\<close>: what \<^verbatim>\<open>Run\<close> has answered
  when every line is read and every call has finished, over every interleaving of the read
  loop, the workers of the pool, the resource watcher and the watchers of the loaders.
\<close>

section \<open>What a client may expect\<close>

text \<open>The ids the line asks an answer for.\<close>

definition awaited :: "('c, 'w) stdio_env \<Rightarrow> string \<Rightarrow> json list" where
  "awaited E line =
     (if line = [] then []
      else (case jparse (c_json E) (strip_cr line) of
          None \<Rightarrow> [JNull]
        | Some msg \<Rightarrow>
            if \<not> valid_message msg then [j_at msg ''id'']
            else if j_contains msg ''id'' \<and> j_at msg ''method'' \<notin> JStr ` silent then [j_at msg ''id''] else []))"

text \<open>A line that throws nothing: its method is a string, and the arguments of its calls are no scalars or arrays.\<close>

definition params_of :: "json \<Rightarrow> json" where
  "params_of msg = (case j_lookup msg ''params'' of None \<Rightarrow> JObj [] | Some p \<Rightarrow> p)"

definition regular_message :: "json \<Rightarrow> bool" where
  "regular_message msg \<longleftrightarrow> valid_message msg \<longrightarrow>
     is_string (j_at msg ''method'')
     \<and> (j_at msg ''method'' = JStr ''tools/call'' \<longrightarrow> batch_args_ok (params_of msg))
     \<and> (j_at msg ''method'' = JStr ''tools/call_batch'' \<longrightarrow>
          (case j_lookup (params_of msg) ''calls'' of Some (JArr cs) \<Rightarrow> list_all batch_args_ok cs | _ \<Rightarrow> True))"

definition regular_line :: "('c, 'w) stdio_env \<Rightarrow> string \<Rightarrow> bool" where
  "regular_line E line \<longleftrightarrow>
     (case jparse (c_json E) (strip_cr line) of None \<Rightarrow> True | Some msg \<Rightarrow> regular_message msg)"

definition dumps_all :: "jlib \<Rightarrow> bool" where
  "dumps_all J \<longleftrightarrow> (\<forall>j. \<exists>s. jdump J j = Inr s)"

text \<open>The text of a message on the output, and the messages that are answers.\<close>

definition framed :: "jlib \<Rightarrow> json \<Rightarrow> string" where
  "framed J msg = (case jdump J msg of Inl e \<Rightarrow> [] | Inr s \<Rightarrow> s @ [NL])"

definition reply_ids :: "json list \<Rightarrow> json list" where
  "reply_ids msgs = map (\<lambda>m. j_at m ''id'') (filter (\<lambda>m. j_contains m ''id'') msgs)"

definition well_formed_reply :: "json \<Rightarrow> bool" where
  "well_formed_reply m \<longleftrightarrow> j_lookup m ''jsonrpc'' = Some (JStr ''2.0'')
     \<and> (if j_contains m ''id'' then j_contains m ''result'' \<noteq> j_contains m ''error'' else j_contains m ''method'')"

text \<open>What is left to do: reading, beginning and finishing.\<close>

definition session_work :: "('c, 'w) sys \<Rightarrow> nat" where
  "session_work y = 3 * length (y_lines y) + 2 * length (y_tasks y) + length (y_running y)"

section \<open>The output\<close>

text \<open>The transport with what it has written is its output as messages.\<close>

definition wrote :: "jlib \<Rightarrow> stdio \<Rightarrow> json list \<Rightarrow> bool" where
  "wrote J st msgs \<longleftrightarrow> m_Output st = concat (map (framed J) msgs) \<and> list_all well_formed_reply msgs"

lemma SendMessage_total:
  assumes "dumps_all J"
  shows "SendMessage J m st = Inr (st\<lparr>m_Output := m_Output st @ framed J m\<rparr>)"
proof -
  obtain s where "jdump J m = Inr s" using assms by (auto simp: dumps_all_def)
  then show ?thesis by (simp add: SendMessage_def framed_def)
qed

lemma dumps_std: "dumps_all J \<Longrightarrow> dump_throws_std J"
  by (auto simp: dumps_all_def dump_throws_std_def) (metis Inl_Inr_False)

lemma well_formed_answer:
  assumes "answer_for mid m"
  shows "well_formed_reply m \<and> reply_ids [m] = [mid]"
proof -
  note f = answer_fields [OF assms]
  then have "j_contains m ''id''" by (simp add: j_contains_def)
  then show ?thesis using f by (simp add: well_formed_reply_def reply_ids_def j_at_def)
qed

lemma reply_ids_append [simp]: "reply_ids (a @ b) = reply_ids a @ reply_ids b"
  by (simp add: reply_ids_def)

lemma wrote_answer:
  assumes "dumps_all J" "wrote J st msgs" "answer_for mid m"
  obtains st' where "SendMessage J m st = Inr st'" "wrote J st' (msgs @ [m])" "reply_ids (msgs @ [m]) = reply_ids msgs @ [mid]"
proof
  show "SendMessage J m st = Inr (st\<lparr>m_Output := m_Output st @ framed J m\<rparr>)" by (rule SendMessage_total [OF assms(1)])
qed (use assms(2) well_formed_answer [OF assms(3)] in \<open>simp_all add: wrote_def\<close>)

lemma wrote_same: "m_Output st' = m_Output st \<Longrightarrow> wrote J st' msgs = wrote J st msgs"
  by (simp add: wrote_def)

lemma send_or_lose_answer:
  assumes "dumps_all J" "wrote J st msgs" "answer_for mid m"
  shows "wrote J (send_or_lose J (Inr m) st) (msgs @ [m]) \<and> reply_ids (msgs @ [m]) = reply_ids msgs @ [mid]"
  using wrote_answer [OF assms] by (metis bindE_simps(2) send_or_lose_def sum.simps(6))

section \<open>The handlers leave the output alone\<close>

named_theorems quiet "what does not write"

lemma quiet_begin [quiet]: "call_begin E params mid (st, r) = Inr (x, st') \<Longrightarrow> m_Output st' = m_Output st"
  by (auto simp: call_begin_def bindE_eq_Inr split: option.splits)

lemma quiet_end [quiet]: "call_end E k (st, s) = (x, st', s') \<Longrightarrow> m_Output st' = m_Output st"
  by (auto simp: call_end_def Let_def split: prod.splits sum.splits if_splits)

lemma quiet_call [quiet]: "HandleToolsCall E params mid (st, s) = (x, st', s') \<Longrightarrow> m_Output st' = m_Output st"
  by (cases s) (auto simp: HandleToolsCall_def split: sum.splits prod.splits call_start.splits dest!: quiet)

lemma quiet_subscribe [quiet]: "HandleResourcesSubscribe E params mid w st = (x, st') \<Longrightarrow> m_Output st' = m_Output st"
  by (auto simp: HandleResourcesSubscribe_def StartResourceWatcher_def Let_def split: option.splits sum.splits if_splits)

lemma quiet_unsubscribe [quiet]: "HandleResourcesUnsubscribe params mid st = (x, st') \<Longrightarrow> m_Output st' = m_Output st"
  by (auto simp: HandleResourcesUnsubscribe_def StopResourceWatcher_def Let_def split: option.splits if_splits)

lemma quiet_cancel [quiet]: "HandleCancelNotification E params (st, s) = (x, st', s') \<Longrightarrow> m_Output st' = m_Output st"
  by (cases s) (auto simp: HandleCancelNotification_def split: option.splits sum.splits)

lemma quiet_initialized [quiet]:
  assumes "dispatch_initialized E meth mid params (st, s) = (x, st', s')"
  shows "m_Output st' = m_Output st"
  using assms by (cases s) (auto simp: dispatch_initialized_def split: if_split_asm prod.split_asm dest: quiet)

lemma quiet_dispatch [quiet]:
  assumes "Dispatch E msg (st, s) = (x, st', s')"
  shows "m_Output st' = m_Output st"
  using assms by (cases s)
    (auto simp: Dispatch_def Let_def HandleInitialize_def split: sum.split_asm if_split_asm prod.split_asm dest: quiet)

section \<open>Regular calls do not throw\<close>

lemma regular_arguments:
  assumes "string_param params ''name'' = Some n" "batch_args_ok params"
  obtains a where "value_json params ''arguments'' (JObj []) = Inr a" "is_object a \<or> a = JNull"
proof -
  obtain kvs where "params = JObj kvs" using assms(1) by (cases params) (auto simp: string_param_def)
  then show thesis using assms(2) that by (cases "map_of kvs ''arguments''") (auto simp: value_defs batch_args_ok_def)
qed

lemma begin_regular:
  assumes "dumps_all (c_json E)" "batch_args_ok params"
  obtains x st' where "call_begin E params mid (st, r) = Inr (x, st')"
proof (cases "string_param params ''name''")
  case None
  then show thesis using that by (simp add: call_begin_def)
next
  case (Some n)
  obtain a where a: "value_json params ''arguments'' (JObj []) = Inr a" "is_object a \<or> a = JNull"
    using regular_arguments [OF Some assms(2)] .
  show thesis
  proof (cases "CommandRegistry.Resolve r n")
    case None
    then show thesis using Some a that by (simp add: call_begin_def)
  next
    case (Some cmd)
    obtain b where b: "inject_defaults (GetMetadata (c_tools E) cmd) a = Inr b" "is_object b \<or> b = JNull"
      using inject_defaults_ok [OF a(2)] by blast
    obtain rid where rid: "id_text (c_json E) mid = Inr rid"
      using assms(1) by (cases mid) (auto simp: id_text_def dumps_all_def)
    obtain b' where "j_set b ''_requestId'' (JStr rid) = Inr b'" using b(2) j_set_ok by fastforce
    then show thesis using that a b rid Some \<open>string_param params ''name'' = Some n\<close> by (simp add: call_begin_def)
  qed
qed

lemma call_regular:
  assumes "dumps_all (c_json E)" "throws_std (c_tools E)" "batch_args_ok params"
  obtains resp ts' where "HandleToolsCall E params mid ts = (Inr resp, ts')"
proof -
  obtain st r w where ts: "ts = (st, r, w)" by (cases ts)
  obtain x st' where b: "call_begin E params mid (st, r) = Inr (x, st')" by (rule begin_regular [OF assms(1,3)])
  show thesis
  proof (cases x)
    case (Started k)
    obtain resp where "fst (call_end E k (st', r, w)) = Inr resp"
      using call_end_answers [OF dumps_std [OF assms(1)] assms(2)] by blast
    then show thesis using that b Started by (simp add: HandleToolsCall_def ts) (metis prod.collapse)
  qed (use that b in \<open>simp add: HandleToolsCall_def ts\<close>)
qed

lemma batch_regular:
  assumes "dumps_all (c_json E)" "throws_std (c_tools E)"
    and "case j_lookup params ''calls'' of Some (JArr cs) \<Rightarrow> list_all batch_args_ok cs | _ \<Rightarrow> True"
  obtains resp s' where "HandleToolsCallBatch E params mid s = (Inr resp, s')"
proof (cases "\<exists>cs. j_lookup params ''calls'' = Some (JArr cs)")
  case True
  then obtain cs where cs: "j_lookup params ''calls'' = Some (JArr cs)" by blast
  obtain ps s1 where ps: "batch_loop E cs s = (Inr ps, s1)" "list_all pending_std ps"
  proof -
    have "list_all batch_args_ok cs" using assms(3) cs by simp
    then show thesis using that batch_loop_ok [OF assms(2)] by blast
  qed
  obtain rs where "mapE (batch_item (c_json E)) ps = Inr rs"
    using batch_items_ok [OF dumps_std [OF assms(1)] ps(2)] by blast
  then show thesis using that cs ps(1) by (cases "cs = []") (simp_all add: HandleToolsCallBatch_def)
next
  case False
  then have "HandleToolsCallBatch E params mid s = (Inr (bad_params mid ''Missing required parameter: calls (array)''), s)"
    by (auto simp: HandleToolsCallBatch_def split: option.split json.split)
  then show thesis by (rule that)
qed

lemma dispatch_regular:
  assumes d: "dumps_all (c_json E)" and std: "throws_std (c_tools E)" and r: "regular_message msg" "valid_message msg"
  obtains resp st' s' where "Dispatch E msg (st, s) = (Inr resp, st', s')" "m_Output st' = m_Output st"
    "if j_at msg ''method'' \<in> JStr ` silent then resp = JNull else answer_for (j_at msg ''id'') resp"
proof -
  obtain meth where m: "j_at msg ''method'' = JStr meth" using r by (cases "j_at msg ''method''") (auto simp: regular_message_def)
  obtain rg w where s: "s = (rg, w)" by (cases s)
  let ?p = "params_of msg" and ?id = "j_at msg ''id''"
  have call: "batch_args_ok ?p" if "meth = ''tools/call''" using that r m by (simp add: regular_message_def)
  have batch: "case j_lookup ?p ''calls'' of Some (JArr cs) \<Rightarrow> list_all batch_args_ok cs | _ \<Rightarrow> True"
    if "meth = ''tools/call_batch''" using that r m by (simp add: regular_message_def)
  obtain resp ts' where i: "dispatch_initialized E meth ?id ?p (st, s) = (Inr resp, ts')"
  proof -
    consider "meth = ''tools/call''" | "meth = ''tools/call_batch''" | "meth \<notin> may_throw" by (auto simp: may_throw_def)
    then show thesis
    proof cases
      case 1
      obtain resp ts' where "HandleToolsCall E ?p ?id (st, rg, w) = (Inr resp, ts')"
        using call_regular [OF d std call [OF 1]] .
      then show thesis using that 1 by (simp add: dispatch_initialized_def s)
    next
      case 2
      obtain resp s' where "HandleToolsCallBatch E ?p ?id (rg, w) = (Inr resp, s')"
        using batch_regular [OF d std batch [OF 2]] .
      then show thesis using that 2 by (simp add: dispatch_initialized_def s)
    next
      case 3
      then show thesis using that initialized_total [OF dumps_std [OF d], of meth ?id ?p "(st, s)"] by blast
    qed
  qed
  obtain ts2 where c: "HandleCancelNotification E ?p (st, s) = (Inr (), ts2)"
  proof -
    have "\<exists>rid. id_text (c_json E) raw = Inr rid" for raw using d by (cases raw) (auto simp: id_text_def dumps_all_def)
    then obtain rid where "id_text (c_json E) raw = Inr (rid raw)" for raw by metis
    then have "\<exists>ts2. HandleCancelNotification E ?p (st, s) = (Inr (), ts2)"
      by (cases "j_lookup ?p ''requestId''") (auto simp: HandleCancelNotification_def s split: option.split)
    then show thesis using that by blast
  qed
  have "\<exists>resp ts'. Dispatch E msg (st, s) = (Inr resp, ts')
      \<and> (if JStr meth \<in> JStr ` silent then resp = JNull else answer_for ?id resp)"
    using i c answer_initialized [OF i]
    by (cases ts'; cases ts2) (auto simp: Dispatch_def s m Let_def HandleInitialize_def silent_def params_of_def)
  then show thesis using that quiet_dispatch m by (metis prod.collapse)
qed

section \<open>One step of a session\<close>

lemma line_regular:
  assumes d: "dumps_all (c_json E)" and std: "throws_std (c_tools E)" and r: "regular_line E l"
    and w: "wrote (c_json E) st msgs"
  shows "case run_line E l (st, s) of
      Continue ts \<Rightarrow> \<exists>ms. wrote (c_json E) (fst ts) ms \<and> reply_ids ms = reply_ids msgs @ awaited E l
    | Submit msg \<Rightarrow> awaited E l = [j_at msg ''id''] \<and> batch_args_ok (params_of msg)
    | Escape e ts \<Rightarrow> False"
proof -
  have send: "\<exists>ts. send_step E m (st', s') = Continue ts
      \<and> (\<exists>ms. wrote (c_json E) (fst ts) ms \<and> reply_ids ms = reply_ids msgs @ [mid])"
    if ans: "answer_for mid m" and out: "m_Output st' = m_Output st" for m mid st' s'
  proof -
    have w': "wrote (c_json E) st' msgs" using w out wrote_same by blast
    obtain st2 where "SendMessage (c_json E) m st' = Inr st2" "wrote (c_json E) st2 (msgs @ [m])"
        "reply_ids (msgs @ [m]) = reply_ids msgs @ [mid]"
      using wrote_answer [OF d w' ans] .
    then show ?thesis by (intro exI [of _ "(st2, s')"] conjI exI [of _ "msgs @ [m]"]) (simp_all add: send_step_def)
  qed
  show ?thesis
  proof (cases "l = [] \<or> jparse (c_json E) (strip_cr l) = None")
    case True
    obtain ts where "send_step E (MakeError JNull JSONRPC_PARSE_ERROR ''Parse error'' JNull) (st, s) = Continue ts"
        "\<exists>ms. wrote (c_json E) (fst ts) ms \<and> reply_ids ms = reply_ids msgs @ [JNull]"
      using send [OF answer_error refl] by blast
    then show ?thesis using True w by (auto simp: run_line_def awaited_def)
  next
    case False
    then obtain msg where msg: "l \<noteq> []" "jparse (c_json E) (strip_cr l) = Some msg" by auto
    show ?thesis
    proof (cases "valid_message msg")
      case False
      obtain ts where "send_step E (MakeError (j_at msg ''id'') JSONRPC_INVALID_REQUEST ''Invalid JSON-RPC 2.0 request'' JNull) (st, s) = Continue ts"
          "\<exists>ms. wrote (c_json E) (fst ts) ms \<and> reply_ids ms = reply_ids msgs @ [j_at msg ''id'']"
        using send [OF answer_error refl] by blast
      then show ?thesis using False msg by (simp add: run_line_def awaited_def)
    next
      case True
      have reg: "regular_message msg" using r msg by (simp add: regular_line_def)
      obtain meth where m: "j_lookup msg ''method'' = Some (JStr meth)" "value_str msg ''method'' [] = Inr meth"
        using reg True by (cases "j_at msg ''method''"; cases "j_lookup msg ''method''")
          (auto simp: regular_message_def valid_message_def value_defs j_at_def j_contains_def)
      show ?thesis
      proof (cases "meth = ''tools/call'' \<and> j_contains msg ''id''")
        case True
        then show ?thesis using msg m \<open>valid_message msg\<close> reg
          by (auto simp: run_line_def awaited_def regular_message_def j_at_def silent_def)
      next
        case False
        obtain resp st' s' where dp: "Dispatch E msg (st, s) = (Inr resp, st', s')" "m_Output st' = m_Output st"
            "if j_at msg ''method'' \<in> JStr ` silent then resp = JNull else answer_for (j_at msg ''id'') resp"
          using dispatch_regular [OF d std reg True] .
        have w': "wrote (c_json E) st' msgs" using w dp(2) wrote_same by blast
        have n: "resp \<noteq> JNull" if "answer_for (j_at msg ''id'') resp" using answer_fields [OF that] by simp
        have run: "run_line E l (st, s) = (if j_contains msg ''id'' \<and> resp \<noteq> JNull then send_step E resp (st', s') else Continue (st', s'))"
          using msg m True False dp(1) by (auto simp: run_line_def)
        show ?thesis
        proof (cases "j_contains msg ''id'' \<and> resp \<noteq> JNull")
          case True
          then have a: "answer_for (j_at msg ''id'') resp" "awaited E l = [j_at msg ''id'']"
            using dp(3) msg \<open>valid_message msg\<close> by (auto simp: awaited_def split: if_split_asm)
          then show ?thesis using send [OF a(1) dp(2), of s'] run True by auto
        next
          case False
          then have "awaited E l = []" using dp(3) n msg \<open>valid_message msg\<close> by (auto simp: awaited_def split: if_split_asm)
          then show ?thesis using run False w' by auto
        qed
      qed
    qed
  qed
qed

lemma task_regular:
  assumes "dumps_all (c_json E)" "batch_args_ok (params_of msg)"
  obtains (refused) resp where "task_begin E msg (st, r) = Inr (Refused resp, st)" "answer_for (j_at msg ''id'') resp"
  | (started) k st' where "task_begin E msg (st, r) = Inr (Started k, st')" "k_id k = j_at msg ''id''" "m_Output st' = m_Output st"
proof (cases "m_Initialized st")
  case True
  obtain x st' where b: "call_begin E (params_of msg) (j_at msg ''id'') (st, r) = Inr (x, st')" by (rule begin_regular [OF assms])
  show thesis
  proof (cases x)
    case (Refused resp)
    then show thesis using b True refused answer_call_begin [of E "params_of msg" "j_at msg ''id''" st r resp st']
      by (simp add: task_begin_def params_of_def)
  next
    case (Started k)
    then show thesis using b True started quiet_begin [OF b] call_begin_id [of E "params_of msg" "j_at msg ''id''" st r k st']
      by (simp add: task_begin_def params_of_def)
  qed
qed (use refused in \<open>simp add: task_begin_def\<close>)

text \<open>A notification is written too, and answers nothing.\<close>

lemma wrote_note:
  assumes "dumps_all J" "wrote J st msgs" "SendMessage J m st = Inr st'"
    and "well_formed_reply m" "\<not> j_contains m ''id''"
  shows "\<exists>ms. wrote J st' ms \<and> reply_ids ms = reply_ids msgs"
  using assms by (intro exI [of _ "msgs @ [m]"]) (auto simp: SendMessage_total wrote_def reply_ids_def)

lemma visit_notes:
  assumes "dumps_all (c_json E)" "wrote (c_json E) st msgs" "watch_uri E w u st = Inr st'"
  shows "\<exists>ms. wrote (c_json E) st' ms \<and> reply_ids ms = reply_ids msgs"
proof -
  have n: "well_formed_reply (updated_notification u) \<and> \<not> j_contains (updated_notification u) ''id''"
    by (simp add: well_formed_reply_def updated_notification_def j_contains_def)
  have "wrote (c_json E) (st\<lparr>m_SubscribedMtimes := x\<rparr>) msgs" for x using assms(2) by (simp add: wrote_def)
  then show ?thesis
    using assms(2,3) wrote_note [OF assms(1) _ _ conjunct1 [OF n] conjunct2 [OF n],
        of "st\<lparr>m_SubscribedMtimes := AList.update u mt (m_SubscribedMtimes st)\<rparr>" msgs st' for mt]
    by (auto simp: watch_uri_def Let_def split: if_split_asm option.split_asm)
qed

lemma push_notes:
  assumes "dumps_all J" "wrote J st msgs" "PushNotification J (list_changed p) st = Inr st'"
  shows "\<exists>ms. wrote J st' ms \<and> reply_ids ms = reply_ids msgs"
  using wrote_note [OF assms(1,2) assms(3) [unfolded PushNotification_def]]
  by (simp add: well_formed_reply_def list_changed_def j_contains_def)

section \<open>The books balance\<close>

text \<open>Every id asked for is answered, waits in a task, belongs to a running call, or is still to be read.\<close>

definition balanced :: "('c, 'w) stdio_env \<Rightarrow> string list \<Rightarrow> ('c, 'w) sys \<Rightarrow> bool" where
  "balanced E input y \<longleftrightarrow> y_escaped y = None \<and> list_all (regular_line E) (y_lines y)
     \<and> list_all (\<lambda>m. batch_args_ok (params_of m)) (y_tasks y)
     \<and> (\<exists>msgs. wrote (c_json E) (fst (y_state y)) msgs
          \<and> mset (reply_ids msgs) + mset (map (\<lambda>m. j_at m ''id'') (y_tasks y)) + mset (map k_id (y_running y))
            + mset (concat (map (awaited E) (y_lines y))) = mset (concat (map (awaited E) input)))"

lemma balanced_start: "list_all (regular_line E) input \<Longrightarrow> balanced E input (sys_start input s)"
  by (auto simp: balanced_def sys_start_def start_stdio_def wrote_def reply_ids_def intro!: exI [of _ "[]"])

lemma balanced_step:
  assumes d: "dumps_all (c_json E)" and std: "throws_std (c_tools E)" and b: "balanced E input y" and st: "sys_step E y y'"
  shows "balanced E input y'"
proof -
  obtain msgs where w: "wrote (c_json E) (fst (y_state y)) msgs"
      "mset (reply_ids msgs) + mset (map (\<lambda>m. j_at m ''id'') (y_tasks y)) + mset (map k_id (y_running y))
        + mset (concat (map (awaited E) (y_lines y))) = mset (concat (map (awaited E) input))"
      and e: "y_escaped y = None" and r: "list_all (regular_line E) (y_lines y)"
      and k: "list_all (\<lambda>m. batch_args_ok (params_of m)) (y_tasks y)"
    using b by (auto simp: balanced_def)
  from st show ?thesis
  proof cases
    case (read_continue l ls ts)
    then obtain ms where "wrote (c_json E) (fst ts) ms" "reply_ids ms = reply_ids msgs @ awaited E l"
      using line_regular [OF d std _ w(1), of l "snd (y_state y)"] r by auto
    then show ?thesis using read_continue w(2) e r k by (auto simp: balanced_def ac_simps intro!: exI [of _ ms])
  next
    case (read_submit l ls msg)
    then have "awaited E l = [j_at msg ''id'']" "batch_args_ok (params_of msg)"
      using line_regular [OF d std _ w(1), of l "snd (y_state y)"] r by auto
    then show ?thesis using read_submit w e r k by (auto simp: balanced_def ac_simps intro!: exI [of _ msgs])
  next
    case (read_escape l ls x ts)
    then show ?thesis using line_regular [OF d std _ w(1), of l "snd (y_state y)"] r by simp
  next
    case (task_lost q1 msg q2 s1 r1 w1 x)
    have "batch_args_ok (params_of msg)" using k task_lost by simp
    then show ?thesis using task_regular [OF d, of msg s1 r1] task_lost(4) by fastforce
  next
    case (task_refused q1 msg q2 s1 r1 w1 resp s2)
    have "batch_args_ok (params_of msg)" using k task_refused by simp
    then have a: "answer_for (j_at msg ''id'') resp" "s2 = s1"
      using task_regular [OF d, of msg s1 r1] task_refused(4) by fastforce+
    have "wrote (c_json E) s1 msgs" using w(1) task_refused by simp
    note s = send_or_lose_answer [OF d this a(1)]
    then show ?thesis using task_refused w(2) e r k a(2)
      by (auto simp: balanced_def ac_simps intro!: exI [of _ "msgs @ [resp]"])
  next
    case (task_started q1 msg q2 s1 r1 w1 c s2)
    have "batch_args_ok (params_of msg)" using k task_started by simp
    then have a: "k_id c = j_at msg ''id''" "m_Output s2 = m_Output s1"
      using task_regular [OF d, of msg s1 r1] task_started(4) by fastforce+
    have "wrote (c_json E) s2 msgs" using w(1) task_started wrote_same [OF a(2)] by simp
    then show ?thesis using task_started w(2) e r k a(1) by (auto simp: balanced_def ac_simps intro!: exI [of _ msgs])
  next
    case (call_finished ks1 c ks2 res s2 s')
    obtain resp where a: "res = Inr resp" "answer_for (k_id c) resp"
      using call_end_answers [OF dumps_std [OF d] std, of c "y_state y"] call_finished by auto
    have "m_Output s2 = m_Output (fst (y_state y))"
      by (rule quiet_end [of E c _ "snd (y_state y)" res s2 s']) (simp add: call_finished(3))
    then have "wrote (c_json E) s2 msgs" using w(1) by (simp add: wrote_def)
    note s = send_or_lose_answer [OF d this a(2)]
    then have "mset (reply_ids (msgs @ [resp])) + mset (map (\<lambda>m. j_at m ''id'') (y_tasks y)) + mset (map k_id (ks1 @ ks2))
        + mset (concat (map (awaited E) (y_lines y))) = mset (concat (map (awaited E) input))"
      using w(2) call_finished(2) by (simp add: ac_simps)
    then show ?thesis unfolding balanced_def
      using call_finished(1) a(1) s e r k by (intro conjI exI [of _ "msgs @ [resp]"]) simp_all
  next
    case (watcher_visit s1 r1 w1 u s2)
    then obtain ms where "wrote (c_json E) s2 ms" "reply_ids ms = reply_ids msgs"
      using visit_notes [OF d _ watcher_visit(5)] w(1) by auto
    then show ?thesis using watcher_visit w(2) e r k by (auto simp: balanced_def intro!: exI [of _ ms])
  next
    case (loader_push s1 r1 w1 p s2)
    then obtain ms where "wrote (c_json E) s2 ms" "reply_ids ms = reply_ids msgs"
      using push_notes [OF d _ loader_push(3)] w(1) by auto
    then show ?thesis using loader_push w(2) e r k by (auto simp: balanced_def intro!: exI [of _ ms])
  qed
qed

lemma balanced_reachable:
  assumes "dumps_all (c_json E)" "throws_std (c_tools E)" "list_all (regular_line E) input" "reachable E input s y"
  shows "balanced E input y"
  using assms(4) by (induction rule: reachable_induct) (use assms balanced_start balanced_step in \<open>blast+\<close>)

section \<open>The work goes down\<close>

lemma work_step: "sys_step E y y' \<Longrightarrow> session_work y' \<le> session_work y"
  by (induction rule: sys_step.induct) (auto simp: session_work_def)

lemma work_remains:
  assumes d: "dumps_all (c_json E)" and b: "balanced E input y" and p: "0 < session_work y"
  shows "\<exists>y'. sys_step E y y' \<and> session_work y' < session_work y"
proof -
  obtain st r w where s: "y_state y = (st, r, w)" by (cases "y_state y")
  consider "y_lines y \<noteq> []" | "y_tasks y \<noteq> []" | "y_running y \<noteq> []" using p by (auto simp: session_work_def)
  then show ?thesis
  proof cases
    case 1
    then obtain l ls where l: "y_lines y = l # ls" by (cases "y_lines y") auto
    have e: "y_escaped y = None" using b by (simp add: balanced_def)
    show ?thesis
    proof (cases "run_line E l (y_state y)")
      case (Continue ts)
      show ?thesis by (intro exI conjI, rule read_continue [OF e l Continue]) (simp add: session_work_def l)
    next
      case (Submit m)
      show ?thesis by (intro exI conjI, rule read_submit [OF e l Submit]) (simp add: session_work_def l)
    next
      case (Escape x ts)
      show ?thesis by (intro exI conjI, rule read_escape [OF e l Escape]) (simp add: session_work_def l)
    qed
  next
    case 2
    then obtain msg q where q: "y_tasks y = [] @ msg # q" by (cases "y_tasks y") auto
    have "batch_args_ok (params_of msg)" using b q by (simp add: balanced_def)
    then consider (refused) resp where "task_begin E msg (st, r) = Inr (Refused resp, st)"
      | (started) k st' where "task_begin E msg (st, r) = Inr (Started k, st')"
      using task_regular [OF d, of msg st r] by blast
    then show ?thesis
    proof cases
      case (refused resp)
      show ?thesis by (intro exI conjI, rule task_refused [OF q s refused]) (simp add: session_work_def q)
    next
      case (started k st')
      show ?thesis by (intro exI conjI, rule task_started [OF q s started]) (simp add: session_work_def q)
    qed
  next
    case 3
    then obtain k ks where k: "y_running y = [] @ k # ks" by (cases "y_running y") auto
    obtain res st' s' where c: "call_end E k (y_state y) = (res, st', s')" by (cases "call_end E k (y_state y)")
    show ?thesis by (intro exI conjI, rule call_finished [OF k c]) (simp add: session_work_def k)
  qed
qed

section \<open>Properties\<close>

text \<open>
  A session answers every request.  Whatever the order in which lines are read and calls begin
  and finish, and whatever the watchers send in between, the work left never grows, and while
  there is some, a step that reduces it is possible.  When none is left, which is when \<^verbatim>\<open>Run\<close> returns,
  the output is a sequence of messages that all are JSON-RPC 2.0 and hold a result or an error (or are
  notifications), and their ids are exactly those the lines asked for, each as often as asked:
  nothing is lost, answered twice or made up.  (For lines whose method is a string and whose calls
  have no scalar or array as arguments; the others throw.)
\<close>

theorem session_answers_all:
  assumes "dumps_all (c_json E)" "throws_std (c_tools E)" "list_all (regular_line E) input" "reachable E input s y"
  shows "(\<forall>y'. sys_step E y y' \<longrightarrow> session_work y' \<le> session_work y)
    \<and> (0 < session_work y \<longrightarrow> (\<exists>y'. sys_step E y y' \<and> session_work y' < session_work y))
    \<and> (session_work y = 0 \<longrightarrow> (\<exists>msgs. m_Output (fst (y_state y)) = concat (map (framed (c_json E)) msgs)
         \<and> list_all well_formed_reply msgs \<and> mset (reply_ids msgs) = mset (concat (map (awaited E) input))))"
proof -
  note b = balanced_reachable [OF assms]
  have "\<exists>msgs. m_Output (fst (y_state y)) = concat (map (framed (c_json E)) msgs)
      \<and> list_all well_formed_reply msgs \<and> mset (reply_ids msgs) = mset (concat (map (awaited E) input))"
    if "session_work y = 0"
    using b that by (auto simp: balanced_def session_work_def wrote_def)
  then show ?thesis using work_step work_remains [OF assms(1) b] by blast
qed

text \<open>A session of one call, refused because nothing was initialized.\<close>

theorem session_answers_all_witness:
  "\<exists>y msgs. reachable (ex_stdio ex_call) [''x''] (ex_tools, 0) y \<and> session_work y = 0
     \<and> m_Output (fst (y_state y)) = concat (map (framed (c_json (ex_stdio ex_call))) msgs) \<and> reply_ids msgs = [JInt 1]"
proof -
  let ?E = "ex_stdio ex_call" and ?y0 = "sys_start [''x''] (ex_tools, 0::nat)"
  let ?y1 = "?y0\<lparr>y_lines := [], y_tasks := [ex_call]\<rparr>"
  have "run_line ?E ''x'' (start_stdio, ex_tools, 0) = Submit ex_call"
    by (simp add: run_line_def ex_stdio_def ex_call_def valid_message_def j_contains_def value_defs)
  then have 1: "sys_step ?E ?y0 ?y1"
    using sys_step.read_submit [of ?y0 "''x''" "[]" ?E ex_call] by (simp add: sys_start_def)
  obtain resp where "task_begin ?E ex_call (start_stdio, ex_tools) = Inr (Refused resp, start_stdio)"
    by (simp add: task_begin_def start_stdio_def)
  then obtain y where 2: "sys_step ?E ?y1 y" "session_work y = 0"
    using sys_step.task_refused [of ?y1 "[]" ex_call "[]" start_stdio ex_tools 0 ?E resp start_stdio]
    by (auto simp: sys_start_def session_work_def)
  have r: "reachable ?E [''x''] (ex_tools, 0) y"
    unfolding reachable_def using 1 2(1) by (meson rtranclp.rtrancl_refl rtranclp.rtrancl_into_rtrancl)
  have l: "dumps_all (c_json ?E)" "list_all (regular_line ?E) [''x'']"
    by (simp_all add: dumps_all_def ex_stdio_def regular_line_def regular_message_def ex_call_def params_of_def
        batch_args_ok_def j_at_def)
  have "concat (map (awaited ?E) [''x'']) = [JInt 1]"
    by (simp add: awaited_def ex_stdio_def ex_call_def valid_message_def j_contains_def j_at_def silent_def image_iff)
  then show ?thesis
    using session_answers_all [OF l(1) ex_stdio_std l(2) r] r 2(2) by auto
qed

end
