(* ===== verification/ServerSession.thy ===== *)
theory ServerSession
  imports ServerFacts StdioSession
begin

text \<open>
  The tools of the server throw nothing that is no \<^verbatim>\<open>std::exception\<close>, as long as what lies outside
  the program does not, and so a session of the server in stdio mode (\<^verbatim>\<open>src/server_entry.cpp\<close>) answers
  every request, whatever tools it holds.
\<close>

section \<open>Results with ordinary exceptions only\<close>

definition std_res :: "'a res \<Rightarrow> bool" where
  "std_res m \<longleftrightarrow> (\<forall>e. m = Inl e \<longrightarrow> is_std_exception e)"

named_theorems ordinary "results with ordinary exceptions only"

lemma std_Inr [simp]: "std_res (Inr x)"
  by (simp add: std_res_def)

lemma std_Inl [simp]: "std_res (Inl e) \<longleftrightarrow> is_std_exception e"
  by (simp add: std_res_def)

lemma std_bind [ordinary]: "std_res m \<Longrightarrow> (\<And>x. m = Inr x \<Longrightarrow> std_res (f x)) \<Longrightarrow> std_res (bindE m f)"
  by (cases m) simp_all

lemma std_if: "(c \<Longrightarrow> std_res a) \<Longrightarrow> (\<not> c \<Longrightarrow> std_res b) \<Longrightarrow> std_res (if c then a else b)"
  by simp

lemma std_get [ordinary]: "std_res (get_string j)" "std_res (get_bool j)" "std_res (get_int j)"
  by (cases j; simp)+

lemma std_with: "(\<And>j. std_res (get j)) \<Longrightarrow> std_res (value_with get j k d)"
  by (simp add: value_with_def split: option.split)

lemma std_value [ordinary]:
  "std_res (value_str j k d)" "std_res (value_bool j k b)" "std_res (value_int j k i)" "std_res (value_json j k v)"
  by (simp_all add: value_str_def value_bool_def value_int_def value_json_def std_with std_get)

lemma std_set [ordinary]: "std_res (j_set j k v)"
  by (cases j) simp_all

lemma std_set_all [ordinary]: "std_res (j_set_all j kvs)"
  by (induction kvs arbitrary: j) (auto intro!: ordinary)

lemma std_Inl_value: "m = Inl e \<Longrightarrow> std_res m \<Longrightarrow> is_std_exception e"
  by simp

section \<open>The core tools\<close>

lemma std_read: "std_res (ReadCommand E q w)"
  by (auto simp: ReadCommand_def Let_def split: sum.split prod.split intro!: ordinary)

lemma parse_hunks_std: "parse_hunks hs = Throws e \<Longrightarrow> is_std_exception e"
proof (induction hs)
  case (Cons h hs)
  have "parse_hunk h = Throws e \<Longrightarrow> is_std_exception e"
    using std_value(1) [of h "''start''" "[]"] std_value(1) [of h "''end''" "[]"]
    by (auto simp: parse_hunk_def std_res_def split: sum.split_asm option.split_asm prod.split_asm json.split_asm)
  then show ?case using Cons by (auto split: hunk_parse.split_asm)
qed simp

lemma std_edit: "std_res (fst (EditCommand E q w))"
proof -
  have f: "std_res (fst (edit_file E p hs bytes w))" for p hs bytes
    using parse_hunks_std [of hs] parse_hunks_anchored [of hs] ApplyHunks_defined
    by (auto simp: edit_file_def list_all_iff split: hunk_parse.split apply_result.split)
  show ?thesis
    using f std_value(1) [of "Payload q" "''path''" "[]"]
    by (auto simp: EditCommand_def Let_def split: sum.split option.split json.split dest: std_Inl_value)
qed

lemma std_search: "std_res (SearchCommand E q w)"
  by (auto simp: SearchCommand_def Let_def split: prod.split intro!: ordinary)

lemma std_shell: "std_res (ShellCommand E q w)"
  by (auto simp: ShellCommand_def Let_def intro!: ordinary)

lemma std_git: "std_res (GitCommand E q w)"
  unfolding GitCommand_def Let_def by (intro ordinary std_if) simp_all

lemma std_build: "std_res (BuildCommand E q w)"
  by (auto simp: BuildCommand_def Let_def split: prod.split intro!: ordinary)

lemma std_diagnose: "std_res (DiagnoseCommand E q w)"
  by (auto simp: DiagnoseCommand_def Let_def split: prod.split intro!: ordinary)

lemma std_activate: "std_res (fst (ActivateCommand q s))"
  using std_value(1) [of "Payload q" "''pack''" "[]"]
  by (cases s) (auto simp: ActivateCommand_def advertise_sync_def split: sum.split dest: std_Inl_value)

lemma std_deactivate: "std_res (fst (DeactivateCommand q s))"
  using std_value(1) [of "Payload q" "''pack''" "[]"] std_value(1) [of "Payload q" "''tool''" "[]"]
  by (cases s) (auto simp: DeactivateCommand_def withdraw_sync_def split: sum.split dest: std_Inl_value)

lemma std_skill: "std_res (SkillLoadCommand q w)"
  by (auto simp: SkillLoadCommand_def split: sum.split prod.split intro!: ordinary)

lemma std_core:
  assumes "\<And>j. std_res (env_pretty E j)"
  shows "std_res (fst (core_exec E t q s))"
proof (cases t)
  case Edit
  then show ?thesis using std_edit [of E q "snd s"] by (cases "EditCommand E q (snd s)") simp
next
  case Catalog
  then show ?thesis using assms by (auto simp: pure_tool_def CatalogCommand_def intro!: ordinary)
next
  case Skills
  then show ?thesis using assms by (auto simp: pure_tool_def SkillsCatalogCommand_def intro!: ordinary)
qed (simp_all add: pure_tool_def std_read std_search std_shell std_git std_build std_diagnose std_activate std_deactivate
    std_skill ProjectCommand_def TestCommand_def Let_def)

section \<open>The other tools\<close>

lemma std_dump: "dump_throws_std J \<Longrightarrow> std_res (jdump J j)"
  by (simp add: dump_throws_std_def std_res_def)

lemma std_render: "dump_throws_std J \<Longrightarrow> std_res (StaticRenderPrompt J skill vars)"
  using render_std [of J skill vars] by (simp add: std_res_def RenderPrompt_def)

lemma std_catch: "std_res m \<Longrightarrow> (\<And>x. std_res (f x)) \<Longrightarrow> std_res (catch_invalid m f)"
  by (auto simp: catch_invalid_def split: sum.split exn.split)

lemma std_llm:
  assumes "\<And>r. std_res (provider r)"
  shows "std_res (LLMCommand provider q)"
  using assms by (auto simp: LLMCommand_def llm_tool_request_def Let_def intro!: ordinary)

lemma std_remote:
  assumes "dump_throws_std J" "\<And>u b t. std_res (post u b t)"
  shows "std_res (CompositeCommand J srt post servers q)"
  using assms by (auto simp: CompositeCommand_def forward_request_def std_dump split: option.split intro!: ordinary)

lemma std_skill_tool:
  assumes "dump_throws_std J" "\<And>r. std_res (provider r)"
  shows "std_res (SkillToolAdapter J provider popen skill q)"
proof -
  have c: "std_res (run_command_skill J popen skill vars)" for vars
    by (auto simp: run_command_skill_def escape_vars_def split: prod.split intro!: ordinary std_catch std_render assms(1))
  have p: "std_res (case provider r of Inr resp \<Rightarrow> Inr (g resp) | Inl UnknownException \<Rightarrow> Inl UnknownException | Inl e \<Rightarrow> Inr (h e))"
    for r g h
    using assms(2) [of r] by (auto split: sum.split exn.split)
  show ?thesis
    unfolding SkillToolAdapter_def skill_request_def
    by (intro ordinary std_if std_catch std_render assms(1) c p) simp_all
qed

lemma std_native: "std_res (fst (NativePluginAdapter tool timeout execute q st))"
  using std_value(1) [of q "''_requestId''" "[]"]
  by (auto simp: NativePluginAdapter_def split: sum.split option.split prod.split dest: std_Inl_value)

lemma std_args: "std_res (script_args q)"
  by (auto simp: script_args_def intro!: ordinary)

lemma std_script:
  assumes "dump_throws_std (se_json E)"
  shows "std_res (fst (ScriptPluginAdapter E runtime entrypoint tool q st))"
proof -
  have r: "std_res (script_result (se_json E) out)" for out
    by (auto simp: script_result_def split: option.split json.split intro!: ordinary)
  have a: "std_res (bindE (value_str q ''_requestId'' []) (\<lambda>i. bindE (script_args q) (\<lambda>a. Inr (i, a))))"
    by (intro ordinary std_args) simp
  show ?thesis
    using r a std_dump [OF assms]
    by (auto simp: ScriptPluginAdapter_def Let_def split: sum.split prod.split run_outcome.split dest: std_Inl_value)
qed

lemma std_mcp:
  assumes "dump_throws_std (mcf_json C)"
  shows "std_res (fst (McpExecute C P q s))"
proof -
  have r: "std_res (mcp_reply (mcf_json C) line)" for line
    by (auto simp: mcp_reply_def split: option.split intro!: ordinary)
  have x: "std_res (external_id params)" for params
    by (auto simp: external_id_def split: option.split intro!: ordinary)
  have w: "std_res (fst (write_msg (mcf_json C) P m w))" for m w
    using std_dump [OF assms, of m] by (auto simp: write_msg_def split: sum.split prod.split)
  have s: "std_res (fst (SendRequest C P m params s))" for m params
    using r x [of params] w
    by (auto simp: SendRequest_def Let_def split: prod.split bool.split sum.split option.split dest: std_Inl_value)
      (metis fst_conv std_Inl)+
  show ?thesis
    using s std_args [of q] std_value(1) [of q "''_requestId''" "[]"]
    by (auto simp: McpExecute_def split: sum.split dest: std_Inl_value)
qed

section \<open>The server\<close>

text \<open>The libraries and devices the tools use throw ordinary exceptions only.\<close>

definition ordinary_env :: "'w tool_env \<Rightarrow> bool" where
  "ordinary_env X \<longleftrightarrow> dump_throws_std (te_json X) \<and> dump_throws_std (se_json (te_script X))
     \<and> (\<forall>j e. env_pretty (te_core X) j = Inl e \<longrightarrow> is_std_exception e)
     \<and> (\<forall>r e. te_provider X r = Inl e \<longrightarrow> is_std_exception e)
     \<and> (\<forall>u b t e. te_post X u b t = Inl e \<longrightarrow> is_std_exception e)"

lemma fst_on_core: "fst (on_core f (r, core, ps)) = fst (f (r, core))"
  by (simp add: on_core_def split: prod.split)

lemma fst_on_plugins: "fst (on_plugins f (r, core, ps)) = fst (f ps)"
  by (simp add: on_plugins_def split: prod.split)

lemma server_throws_std:
  assumes "ordinary_env X"
  shows "throws_std (server_strategy X)"
proof -
  have e: "std_res (fst (server_exec X c q (r, core, ps)))" for c q r core ps
  proof (cases c)
    case (CoreT t)
    have "std_res (fst (core_exec (te_core X) t q (r, core)))"
      using assms by (intro std_core) (simp add: ordinary_env_def std_res_def)
    then show ?thesis by (simp add: CoreT fst_on_core)
  next
    case LlmT
    then show ?thesis using assms by (simp add: stateless_def std_llm ordinary_env_def std_res_def [of "te_provider X _"])
  next
    case RemoteT
    then show ?thesis using assms by (simp add: stateless_def std_remote ordinary_env_def std_res_def [of "te_post X _ _ _"])
  next
    case (SkillT d src)
    then show ?thesis using assms by (simp add: stateless_def std_skill_tool ordinary_env_def std_res_def [of "te_provider X _"])
  next
    case (NativeT p t)
    have "fst (native_call X p t q ps) = fst (NativePluginAdapter (pt_Name t) kDefaultTimeoutSeconds
        (\<lambda>q. (dl_outcome (te_json X) p (pt_Name t) q, te_late X p (pt_Name t) q)) q (ps_native ps (pt_Name t)))"
      by (simp add: native_call_def split: prod.split)
    then show ?thesis by (simp add: NativeT fst_on_plugins std_native)
  next
    case (ScriptT nm rt ep t)
    have "fst (script_call X rt ep t q ps) = fst (ScriptPluginAdapter (te_script X) rt ep (si_Name t) q
        \<lparr>s_Counter = ps_counter ps, cancelledRequests = ps_cancelled ps (si_Name t)\<rparr>)"
      by (simp add: script_call_def split: prod.split)
    then show ?thesis using assms by (simp add: ScriptT fst_on_plugins std_script ordinary_env_def)
  next
    case (McpT nm cmd as t)
    have "fst (mcp_call X nm t q ps) = fst (McpExecute
        \<lparr>mcf_json = te_json X, mcf_plugin = nm, mcf_tool = si_Name t, mcf_version = te_version X\<rparr>
        (te_pipe X) q (ps_mcp ps (si_Name t)))"
      by (simp add: mcp_call_def split: prod.split)
    then show ?thesis using assms by (simp add: McpT fst_on_plugins std_mcp ordinary_env_def)
  qed (simp add: stateless_def EchoCommand_def)
  show ?thesis unfolding throws_std_def
  proof (intro allI impI)
    fix c q s x
    assume "fst (ExecuteAsync (server_strategy X) c q s) = Inl x"
    then show "is_std_exception x"
      using e [of c q "fst s" "fst (snd s)" "snd (snd s)"] by (simp add: server_strategy_def std_res_def)
  qed
qed

section \<open>Properties\<close>


text \<open>A line that cannot be parsed, sent to the small server: one answer, with the id null.\<close>

definition ex_quiet :: "string list tool_env" where
  "ex_quiet = ex_tools\<lparr>te_provider := \<lambda>q. Inl JsonTypeError, te_post := \<lambda>u b t. Inl JsonTypeError\<rparr>"

definition ex_mute :: "string list host" where
  "ex_mute = ex_host\<lparr>ho_json := \<lparr>jparse = \<lambda>s. None, jdump = \<lambda>j. Inr ''d''\<rparr>\<rparr>"


end
