(* ===== verification/DemoClient.thy ===== *)
theory DemoClient
  imports HttpServer ServerFacts
begin

text \<open>
  \<^verbatim>\<open>src/demo_client.cpp\<close>: a client that sends one echo request to the server on this machine, and
  what it prints against a server that has just come up.  The connection is the third-party
  library's: \<open>post path body type\<close> is the status and the body of the answer, if there was one, and
  \<open>delivers\<close> says of it that a request reaches the routes of a server that listens on the port and the
  answer comes back.
\<close>

section \<open>The client\<close>

datatype demo_output = Stdout string | Stderr string

definition demo_port :: int where "demo_port = 9001"

definition demo_request :: json where
  "demo_request = JObj [(''command'', JStr ''echo''), (''payload'', JObj [(''msg'', JStr ''hello from client'')])]"

definition demo_client :: "jlib \<Rightarrow> (string \<Rightarrow> string \<Rightarrow> string \<Rightarrow> (nat \<times> string) option) \<Rightarrow> demo_output res" where
  "demo_client J post =
     bindE (jdump J demo_request) (\<lambda>body.
     case post ''/mcp'' body ''application/json'' of
       None \<Rightarrow> Inr (Stderr (''Request failed'' @ [NL]))
     | Some (status, text) \<Rightarrow>
         if status = 200 then Inr (Stdout (''Response: '' @ text @ [NL])) else Inr (Stderr (''Request failed'' @ [NL])))"

section \<open>Its connection\<close>

definition client_post :: "string \<Rightarrow> string \<Rightarrow> string \<Rightarrow> string \<Rightarrow> http_request" where
  "client_post ip path body ct =
     \<lparr>hq_method = ''POST'', hq_path = path, hq_headers = [(''Content-Type'', ct)], hq_body = body, hq_remote_addr = ip\<rparr>"

definition delivers ::
    "(string \<Rightarrow> string \<Rightarrow> string \<Rightarrow> (nat \<times> string) option) \<Rightarrow> main_action list \<Rightarrow> 's route list \<Rightarrow> string \<Rightarrow> 's \<Rightarrow> bool" where
  "delivers post as rs ip s \<longleftrightarrow> (ListenOn ''0.0.0.0'' demo_port \<in> set as \<longrightarrow> (\<forall>path body ct reply status s'.
     serve_http rs (client_post ip path body ct) s = Some ((None, reply), s') \<longrightarrow> hp_status reply = Some status \<longrightarrow>
     post path body ct = Some (status, hp_body reply)))"

text \<open>A JSON library that reads back what it writes.\<close>

definition reads_back :: "jlib \<Rightarrow> json \<Rightarrow> string \<Rightarrow> bool" where
  "reads_back J j s \<longleftrightarrow> jdump J j = Inr s \<and> jparse J s = Some j"

section \<open>The server's answer\<close>

definition demo_answer :: json where
  "demo_answer = JObj [(''status'', JStr ''ok''), (''echo'', demo_request)]"

lemma echo_in_place:
  assumes "startup H args = Some (Up sv)"
  shows "CommandRegistry.Resolve (sv_reg sv) ''echo'' = Some (EchoT True)"
proof -
  obtain c cfg j resolved r w r2 where up: "came_up H c cfg j resolved r w r2 sv"
    using startup_came_up [OF assms] by blast
  then obtain ch where b: "install_builtins (SetChainingEnabled ch empty_registry, runtime_world H j resolved) = Inr (r, w)"
    and e: "enlarges r r2" and a: "apply_pins (sv_pins sv) resolved (r2, w) = Inr (sv_reg sv, sv_core sv)"
    by (auto simp: came_up_def)
  have "CommandRegistry.Resolve r2 ''echo'' = Some (EchoT True)"
    using builtins_installed(3) [OF b] e by (auto simp: enlarges_def map_le_def dom_def)
  with a show ?thesis
    by (cases rule: apply_pins_cases) (simp_all add: SetAdvertised_def CommandRegistry.Resolve_def)
qed

lemma demo_handled:
  assumes "draft7 V" "CommandRegistry.Resolve (fst s) ''echo'' = Some (EchoT True)"
  shows "Handle V (server_strategy X) demo_request s = (Inr demo_answer, s)"
proof -
  have "ValidateRequest V demo_request"
    using assms(1) by (simp add: ValidateRequest_def draft7_def request_ok_def demo_request_def)
  moreover have "get_string (j_at demo_request ''command'') = Inr ''echo''" by (simp add: demo_request_def j_at_def)
  moreover have "ExecuteWithChaining (server_strategy X) ''echo'' demo_request 0 s = (Inr demo_answer, s)"
    using assms(2) by (simp add: ExecuteWithChaining.simps server_strategy_def stateless_def EchoCommand_def demo_answer_def
        next_link_def j_contains_def)
  ultimately show ?thesis using assms(2) by (simp add: Handle_def)
qed

lemma demo_depth: "depth demo_request \<le> 32"
  by (simp add: demo_request_def)

text \<open>A POST of the client that the route answers.\<close>

lemma post_served:
  assumes "delivers post as (server_routes J V S h servers now) ip st" "ListenOn ''0.0.0.0'' demo_port \<in> set as"
    and "mcp_route J V S h now body ip [] st = (Inr (status, text), st')"
  shows "post ''/mcp'' body ct = Some (status, text)"
proof -
  have f: "find (\<lambda>r. rt_method r = ''POST'' \<and> rt_path r = ''/mcp'') (Listen (server_routes J V S h servers now))
      = Some \<lparr>rt_method = ''POST'', rt_path = ''/mcp'', rt_handler = mcp_route J V S h now\<rparr>"
    by (simp add: server_routes_def AddRoute_def Listen_def)
  have a: "get_header_value (client_post ip ''/mcp'' body ct) ''Authorization'' = []"
    by (simp add: get_header_value_def client_post_def same_key_def)
  obtain reply where "serve_http (server_routes J V S h servers now) (client_post ip ''/mcp'' body ct) st = Some ((None, reply), st')"
      "hp_status reply = Some status" "hp_body reply = text"
    using f a assms(3) by (simp add: serve_http_def route_handler_def client_post_def set_content_def set_header_def Let_def)
  then show ?thesis using assms(1,2) unfolding delivers_def by blast
qed

section \<open>Properties\<close>

text \<open>
  C12: Against a server that has just come up and listens on the port the client uses, the demo client
  prints the echoed request exactly when authentication is off and the request is within the size
  limit, whatever the profile, the pinned tools or the chaining: echo is hidden and not advertised, but it is
  in every table, and the first request of a client always passes the limiter.  Otherwise it
  prints that the request failed.
\<close>

theorem demo_client_prints:
  assumes "startup H args = Some (Up sv)" "http_handler (sv_config sv) = Inr (h, l)"
    and "ListenOn ''0.0.0.0'' demo_port \<in> set (fst (main_actions sv))"
    and "delivers post (fst (main_actions sv)) (server_routes J V (server_strategy X) h (sv_servers sv) now) ip (Some l, sv_reg sv, w)"
    and "draft7 V" "parses_replies J" "reads_back J demo_request body" "reads_back J demo_answer text"
  shows "demo_client J post =
    Inr (if IsAuthEnabled (sv_config sv) = Inr False \<and> length body \<le> m_MaxBodySize h
         then Stdout (''Response: '' @ text @ [NL]) else Stderr (''Request failed'' @ [NL]))"
proof -
  let ?st = "(Some l, sv_reg sv, w)"
  obtain rpm key enabled where cfg: "l = RateLimiter rpm" "IsAuthEnabled (sv_config sv) = Inr enabled"
      "m_ApiKeyValidator h = Some \<lparr>m_ExpectedKey = key, m_Enabled = enabled\<rparr>"
    using assms(2) by (auto simp: http_handler_def bindE_eq_Inr)
  obtain lo where g: "rate_gate now ip (Some l) = (True, lo)"
    by (simp add: rate_gate_def cfg(1) AllowRequest_def RateLimiter_def)
  have auth: "auth_gate h [] \<longleftrightarrow> \<not> enabled" by (simp add: auth_gate_iff cfg(3) bearer_prefix_def)
  have J: "jdump J demo_request = Inr body" "jparse J body = Some demo_request" "jdump J demo_answer = Inr text"
      "jparse J text = Some demo_answer" using assms(7,8) by (simp_all add: reads_back_def)
  have handled: "Handle V (server_strategy X) demo_request (sv_reg sv, w) = (Inr demo_answer, sv_reg sv, w)"
    by (rule demo_handled [OF assms(5)]) (simp add: echo_in_place [OF assms(1)])
  have reply: "CreateResponse J V demo_answer = Inr text"
    using assms(5) J(3) by (simp add: CreateResponse_def draft7_def response_ok_def demo_answer_def)
  have ok: "mcp_status J text = 200" by (simp add: mcp_status_def J(4) demo_answer_def value_defs j_contains_def)
  let ?r = "HandleRequest J V (server_strategy X) h now body ip [] ?st"
  show ?thesis
  proof (cases "\<not> enabled \<and> length body \<le> m_MaxBodySize h")
    case True
    have "?r = (Inr text, lo, sv_reg sv, w)"
      using True by (simp add: HandleRequest_def ValidatePayloadSize_def g auth J(2) depth_gate demo_depth handled reply)
    then have "mcp_route J V (server_strategy X) h now body ip [] ?st = (Inr (200, text), lo, sv_reg sv, w)"
      by (simp add: mcp_route_def ok)
    from post_served [OF assms(4,3) this] show ?thesis using True by (simp add: demo_client_def J(1) cfg(2))
  next
    case False
    then have "\<exists>e st'. ?r = (Inr (quote_error e), st') \<and> mcp_status J (quote_error e) \<noteq> 200"
      using assms(6) by (auto simp: HandleRequest_def ValidatePayloadSize_def g auth parses_replies_def mcp_status_def error_reply_def value_defs)
    then obtain e st' where "?r = (Inr (quote_error e), st')" "mcp_status J (quote_error e) \<noteq> 200" by blast
    then have "mcp_route J V (server_strategy X) h now body ip [] ?st = (Inr (mcp_status J (quote_error e), quote_error e), st')"
      by (simp add: mcp_route_def)
    from post_served [OF assms(4,3) this] show ?thesis
      using False \<open>mcp_status J (quote_error e) \<noteq> 200\<close> by (simp add: demo_client_def J(1) cfg(2))
  qed
qed

text \<open>The small server, with its default settings.\<close>

definition ex_demo_lib :: jlib where
  "ex_demo_lib = \<lparr>jparse = \<lambda>s. if s = ''q'' then Some demo_request else if s = ''a'' then Some demo_answer
       else map_of (map (\<lambda>e. (quote_error e, error_reply e))
         [''Payload too large'', ''Rate limit exceeded'', ''Unauthorized'', ''Invalid JSON'', ''JSON nesting too deep'', ''Invalid response'']) s,
     jdump = \<lambda>j. Inr (if j = demo_request then ''q'' else ''a'')\<rparr>"

theorem demo_client_prints_witness:
  "\<exists>sv post. startup ex_host ex_args = Some (Up sv) \<and> demo_client ex_demo_lib post = Inr (Stdout (''Response: a'' @ [NL]))"
proof -
  obtain sv where sv: "startup ex_host ex_args = Some (Up sv)" "sv_config sv = JObj []" "\<not> sv_stdio sv" using ex_up by blast
  obtain h l where h: "http_handler (JObj []) = Inr (h, l)" "m_MaxBodySize h = 1048576"
    by (simp add: http_handler_def GetRateLimitRequestsPerMinute_def GetAuthApiKey_def IsAuthEnabled_def GetMaxRequestBodySize_def get2_def)
  have m: "ListenOn ''0.0.0.0'' demo_port \<in> set (fst (main_actions sv))"
    using sv(2,3) h by (simp add: main_actions_def GetServerPort_def get2_def demo_port_def watcher_starts_def)
  let ?st = "(Some l, sv_reg sv, sv_core sv, ex_plugin_states)"
  let ?rs = "server_routes ex_demo_lib ex_validator (server_strategy ex_tools) h (sv_servers sv) 0"
  let ?post = "\<lambda>path body ct. case serve_http ?rs (client_post ''ip'' path body ct) ?st of
      Some ((None, reply), s') \<Rightarrow> map_option (\<lambda>status. (status, hp_body reply)) (hp_status reply) | _ \<Rightarrow> None"
  have d: "delivers ?post (fst (main_actions sv)) ?rs ''ip'' ?st" unfolding delivers_def by simp
  have p: "parses_replies ex_demo_lib" by (simp add: parses_replies_def ex_demo_lib_def quote_error_def)
  have r: "reads_back ex_demo_lib demo_request ''q''" "reads_back ex_demo_lib demo_answer ''a''"
    by (simp_all add: reads_back_def ex_demo_lib_def demo_answer_def demo_request_def)
  have a: "IsAuthEnabled (JObj []) = Inr False" by (simp add: IsAuthEnabled_def get2_def)
  have "demo_client ex_demo_lib ?post = Inr (Stdout (''Response: a'' @ [NL]))"
    using demo_client_prints [OF sv(1) _ m d draft7_ex p r] h a sv(2) by simp
  then show ?thesis using sv(1) by blast
qed

end
