(* ===== verification/Spec2Isabelle.thy ===== *)
theory Spec2Isabelle
  imports ProtocolHandler CoreToolsFacts SkillTools PluginSkills StdioReplies StdioResources Watcher PluginFacts ScriptCommands
    ScriptLoader ServerFacts CoreReplies ThreadPool ExamplePlugin NotifyPlugin UnrealTools CApi LoaderThreads HttpServer Logger
    ScriptFiles ServerSession DemoClient
begin

text \<open>
  ToolSmith is a tool server for language models.  One process holds a table of tools and serves
  them over HTTP or, as an MCP server, over its standard input and output; the same parts can be
  used as a C library.  Paths below are relative to the repository; those that begin with \<^verbatim>\<open>src/\<close>
  or \<^verbatim>\<open>include/\<close> are the server's.

  \<^bold>\<open>The program and its theories\<close>

  \<^item> Vocabulary: \<open>Prelude\<close> (the C++ string library, numbers as text, exceptions as values), \<open>Json\<close> (values
    of \<^verbatim>\<open>nlohmann::json\<close>), \<open>Files\<close> (paths and a file system as the list of its nodes).
  \<^item> Requests (\<^verbatim>\<open>src/core/ProtocolHandler.cpp\<close>, \<^verbatim>\<open>src/security\<close>, \<^verbatim>\<open>src/validation\<close>): \<open>ProtocolHandler\<close>
    puts the gates of one request in order, over \<open>RateLimiter\<close>, \<open>ApiKeyValidator\<close> and \<open>InputSanitizer\<close>, and runs
    a tool of the table of \<open>CommandRegistry\<close> (\<^verbatim>\<open>src/commands/CommandRegistry.cpp\<close>), which also chains calls and
    keeps the advertised names.
  \<^item> Core tools (\<^verbatim>\<open>src/commands/CoreTools.cpp\<close>): \<open>CoreTools\<close> has the fourteen tools over a record of jail,
    profile, skills and files; \<open>WorkspaceJail\<close>, \<open>Hashline\<close>, \<open>ResultBudget\<close>, \<open>ToolProfile\<close>,
    \<open>YamlFrontmatter\<close> and \<open>AgentSkills\<close> are the parts it calls; \<open>CoreToolsFacts\<close> and \<open>CoreReplies\<close> hold what the
    tools guarantee.
  \<^item> Skills, models and remote servers (\<^verbatim>\<open>src/skills\<close>, \<^verbatim>\<open>src/llm\<close>, \<^verbatim>\<open>src/discovery\<close>, \<^verbatim>\<open>src/http\<close>): \<open>SkillEngine\<close>,
    \<open>SkillTools\<close>, \<open>PluginSkills\<close> and \<open>Discovery\<close>.
  \<^item> Plugins (\<^verbatim>\<open>src/plugins\<close>): \<open>PluginAdapters\<close> (native and script tools as the table sees them), \<open>ScriptCommands\<close> (their
    command lines), \<open>ScriptFiles\<close> (their argument files), \<open>Subprocess\<close> and \<open>McpAdapter\<close> (children that speak MCP),
    \<open>DlPlugin\<close> (shared libraries), \<open>NativeLoader\<close> and \<open>ScriptLoader\<close> (startup and one round of each watcher),
    \<open>LoaderThreads\<close> (the watcher threads); \<open>PluginFacts\<close> holds what the adapters guarantee.
  \<^item> The bundled native plugins (\<^verbatim>\<open>plugins/*/src\<close>): \<open>PluginJson\<close> (the JSON helpers they share), \<open>ExamplePlugin\<close>,
    \<open>NotifyPlugin\<close> and \<open>UnrealTools\<close>.
  \<^item> The MCP server (\<^verbatim>\<open>src/server/StdioTransport.cpp\<close>): \<open>StdioTransport\<close> has every handler over one record of
    transport state; \<open>StdioFacts\<close> runs the read loop, the thread pool and the watchers as one step relation; \<open>StdioReplies\<close>,
    \<open>StdioSession\<close>, \<open>StdioResources\<close> and \<open>Watcher\<close> state what it replies to one request and over a whole session,
    which files it serves, and the threads of its resource watcher; \<open>ThreadPool\<close> is \<^verbatim>\<open>src/core/ThreadPool.cpp\<close>.
  \<^item> The process (\<^verbatim>\<open>src/server_entry.cpp\<close>, \<^verbatim>\<open>src/core/Config.cpp\<close>): \<open>Config\<close>, \<open>ServerTools\<close> (all tools behind one
    table), \<open>ServerEntry\<close> (command line, set-up with its early exits, the two servers), \<open>HttpServer\<close> (the HTTP
    servers, the routes and the end of main), \<open>Logger\<close>, and \<open>ServerFacts\<close> and \<open>ServerSession\<close> (what holds of a
    server that has come up, and of its sessions).  \<open>DemoClient\<close> is \<^verbatim>\<open>src/demo_client.cpp\<close> against such a server.
  \<^item> The C library (\<^verbatim>\<open>capi/src/mcp_capi.cpp\<close>): \<open>CApi\<close>.

  Definitions keep the names of the code.  A class with state is a record with the members' names;
  an operation maps the state to a result and a state.  An exception is a value of the left summand of
  \<open>'a res\<close>, an optional or null value is an option, undefined behaviour is \<open>None\<close> or a constructor of
  its own.  A future that the code waits for at once is a call.  Threads are inductive step
  relations: read loop and pool in \<open>StdioFacts\<close>, workers in \<open>ThreadPool\<close>, the two kinds of
  watchers in \<open>Watcher\<close> and \<open>LoaderThreads\<close>, simultaneous native calls in \<open>PluginFacts\<close>.

  \<^bold>\<open>What is shown\<close>

  The properties are numbered C1 to C40 in the order of their importance, each in the theory of its component.
  \<^item> Confinement: no request and no session writes outside the workspace jail (C1), by one tool only
    and all or nothing; paths resolve inside the jail; the resource methods serve what lies under
    their root, and a sibling of it by a string comparison.
  \<^item> Gates and liveness: nothing runs before every check has passed (C2) or before initialize; a session of
    the whole server answers every request exactly once, by an account that every step of loop, pool and watchers
    keeps in balance; tool calls and batches are answered; chains end; the limiter's bound; pool and watchers end when told to, except
    for the deadlock that is proved of one of them.
  \<^item> Set-up: a server that comes up has its tools, its pins and its advertised names (C3), and the profile decides
    these names.
  \<^item> Editing: hunks are applied exactly when they are fresh, in range and apart, against an abstract splice of
    numbered lines; what an edit writes reads back; paging reads every line once.
  \<^item> Text that crosses a border: command words, prompts, AppleScript, XML and base64 mean what was
    intended; what the plugins read of a request is proved to be its escaped text.
  \<^item> Plugins: acceptance and registration, the circuit breaker and the counter of running calls, what never reaches
    a script or child, the lines of a child's output, argument files.
  \<^item> The C interface writes no byte too many, and refuses everything once authentication is on.

  Interfaces are locales, each interpreted on the definitions of its provider: \<open>tool_table\<close> (the registry),
  \<open>result_cap\<close> (the two truncations), \<open>write_jail\<close>, \<open>cancellable\<close> (both plugin adapters), \<open>watched_code\<close> (both
  loaders), \<open>notification_backend\<close> (all five back ends).

  \<^bold>\<open>Parameters and hypotheses\<close>

  Code that is not in the repository is an argument of the definitions that use it.  \<open>jlib\<close> is parsing and \<^verbatim>\<open>dump\<close> of the
  JSON library; properties that need more of it name it (\<open>parses_replies\<close>: it reads the literals the server writes;
  \<open>dump_throws_std\<close>, \<open>dumps_all\<close>, \<open>dump_rejects_bad_utf8\<close>, \<open>reads_back\<close>); \<open>ordinary_env\<close> says that what the tools
  call throws \<^verbatim>\<open>std::exception\<close>s only, \<open>delivers\<close> that a client's request reaches the routes and the answer the client.  The schema validator is a function, of which \<open>draft7\<close> says what it
  decides for the two schemas of the handler.  Canonicalisation of paths, symbolic links included, child processes,
  sockets, the clock, shared libraries and the shell are parameters.  The sort of the remote servers is only
  known to sort (\<open>sorts_by_priority\<close>).  Each such hypothesis has a concrete instance in a witness.

  \<^bold>\<open>Bounds, fuel and termination\<close>

  Functions are total unless said otherwise.  Chaining is measured by the depth left to \<^verbatim>\<open>kMaxChainDepth\<close>, which is 5;
  the skill scan counts the five levels the code allows; the deadline of \<^verbatim>\<open>ReadLine\<close> is the number of rounds of its
  loop, and with enough of them every line is delivered; paging is bounded by the lines of the file.  The expansion of
  the plugin directory may run forever and is a partial function, with the exact paths for which it
  returns.  After a shutdown the runs of the pool are bounded by a measure of queue and workers, a stop of a watcher
  by a rank of caller and thread, a session by the lines, tasks and calls that are left (\<open>session_work\<close>), which
  no step raises; a tool's call is one step, so a tool that never returns has no model there.  Machine integers whose overflow matters are words or carry their
  wrap-around: hashes, tokens, API versions, sizes cast to int; the digits a plugin reads stop at the first overflow.

  \<^bold>\<open>Not modelled\<close>

  Headers under \<^verbatim>\<open>dist/include\<close> are installed third-party libraries, and
  the sources under \<^verbatim>\<open>dist/share\<close> copies; tests, build files, the C\# binding and the scripts of
  the JavaScript and Python plugins are not part of the server's code.  Mutexes that only make an operation
  atomic, the text of log messages and of exceptions of the JSON library, sleeping times and the
  COM calls that show a toast are left out.  The HTTP libraries' connections and the parsing of HTTP
  are outside; the dispatch to a route is their documented behaviour.  Windows path rules are not
  modelled, except for the platform tests of the manifest and the loaders, the shell quoting of script
  calls and the notification back ends.  The registry is not locked by the program; concurrent changes to it while a
  watcher loads a tool are data races and have no model.
\<close>

end
